(* ===== verification/Native_Prelude.thy ===== *)
theory Native_Prelude
  imports Main "HOL-Library.Word" "HOL-Library.State_Monad" "HOL-Library.Multiset"
begin

text \<open>
  Shared vocabulary of the development: the machine integer types of the C sources, C strings
  and character arrays, the tracing state monad in which every call that leaves the sources
  (system calls, the Rockchip media library, LVGL, callbacks into Go) is recorded together with
  the answer the environment gave, and the generic lemmas the components share.
\<close>

section \<open>Machine integers\<close>

type_synonym u8 = "8 word"
type_synonym u16 = "16 word"
type_synonym u32 = "32 word"
type_synonym u64 = "64 word"

text \<open>Lemma collections: the equations that run monadic code, and facts on resource accounts.\<close>

named_theorems run_simps "equations that execute the monadic operations"
named_theorems account_simps "how a call changes the account of held resources"

section \<open>The tracing monad\<close>

text \<open>
  An environment answers a call given the history of all earlier calls and answers, so it can
  behave in any way whatsoever; a theorem that quantifies over the environment holds for every
  kernel, driver, library and scheduler behaviour.
\<close>

type_synonym ('c, 'a) env = "('c \<times> 'a) list \<Rightarrow> 'c \<Rightarrow> 'a"

record ('c, 'a) world =
  trace :: "('c \<times> 'a) list"

definition perform :: "('c, 'a) env \<Rightarrow> 'c \<Rightarrow> (('c, 'a, 'z) world_scheme, 'a) state" where
  "perform E c = State (\<lambda>s. (E (trace s) c, s\<lparr>trace := trace s @ [(c, E (trace s) c)]\<rparr>))"

definition reads :: "('s \<Rightarrow> 'a) \<Rightarrow> ('s, 'a) state" where
  "reads f = State (\<lambda>s. (f s, s))"

definition modify :: "('s \<Rightarrow> 's) \<Rightarrow> ('s, unit) state" where
  "modify f = State (\<lambda>s. ((), f s))"

definition skip :: "('s, unit) state" where
  "skip = State_Monad.return ()"

lemma run_perform [run_simps]:
  "run_state (perform E c) s = (E (trace s) c, s\<lparr>trace := trace s @ [(c, E (trace s) c)]\<rparr>)"
  by (simp add: perform_def)

lemma run_reads [run_simps]: "run_state (reads f) s = (f s, s)"
  by (simp add: reads_def)

lemma run_modify [run_simps]: "run_state (modify f) s = ((), f s)"
  by (simp add: modify_def)

lemma run_skip [run_simps]: "run_state skip s = ((), s)"
  by (simp add: skip_def)

declare run_state_bind [run_simps] run_state_return [run_simps]

section \<open>Inverting runs\<close>

lemma bindE:
  assumes "run_state (State_Monad.bind m f) s = (x, s')"
  obtains r t where "run_state m s = (r, t)" and "run_state (f r) t = (x, s')"
  using assms by (auto split: prod.splits)

text \<open>A computation that leaves an observation of the state alone.\<close>

definition keeps :: "('s \<Rightarrow> 'a) \<Rightarrow> ('s, 'b) state \<Rightarrow> bool" where
  "keeps A m \<longleftrightarrow> (\<forall>s r s'. run_state m s = (r, s') \<longrightarrow> A s' = A s)"

named_theorems keeps_intros "compositional rules for keeps"

lemma keepsD: "keeps A m \<Longrightarrow> run_state m s = (r, s') \<Longrightarrow> A s' = A s"
  by (simp add: keeps_def)

lemma keepsI: "(\<And>s r s'. run_state m s = (r, s') \<Longrightarrow> A s' = A s) \<Longrightarrow> keeps A m"
  by (simp add: keeps_def)

lemma keeps_bind [keeps_intros]:
  "keeps A m \<Longrightarrow> (\<And>x. keeps A (f x)) \<Longrightarrow> keeps A (State_Monad.bind m f)"
  unfolding keeps_def by (metis bindE)

lemma keeps_return [keeps_intros]: "keeps A (State_Monad.return x)"
  by (simp add: keeps_def)

lemma keeps_skip [keeps_intros]: "keeps A skip"
  by (simp add: keeps_def run_simps)

lemma keeps_if [keeps_intros]:
  "(b \<Longrightarrow> keeps A m) \<Longrightarrow> (\<not> b \<Longrightarrow> keeps A m') \<Longrightarrow> keeps A (if b then m else m')"
  by simp

lemma keeps_reads [keeps_intros]: "keeps A (reads f)"
  by (simp add: keeps_def run_simps)

section \<open>Accounts of held resources\<close>

text \<open>
  What a trace holds after its last call: \<open>acq\<close> names the resource a call with its answer
  acquired (a descriptor, a memory block), \<open>rel\<close> the one it gave back.
\<close>

definition book :: "('e \<Rightarrow> 'r option) \<Rightarrow> ('e \<Rightarrow> 'r option) \<Rightarrow> 'e \<Rightarrow> 'r multiset \<Rightarrow> 'r multiset" where
  "book acq rel e M =
     (case rel e of Some r \<Rightarrow> M - {#r#} | None \<Rightarrow> M) +
     (case acq e of Some r \<Rightarrow> {#r#} | None \<Rightarrow> {#})"

definition account :: "('e \<Rightarrow> 'r option) \<Rightarrow> ('e \<Rightarrow> 'r option) \<Rightarrow> 'e list \<Rightarrow> 'r multiset" where
  "account acq rel tr = fold (book acq rel) tr {#}"

lemma account_Nil [account_simps]: "account acq rel [] = {#}"
  by (simp add: account_def)

lemma account_append [account_simps]:
  "account acq rel (tr @ es) = fold (book acq rel) es (account acq rel tr)"
  by (simp add: account_def)

lemma book_neutral: "acq e = None \<Longrightarrow> rel e = None \<Longrightarrow> book acq rel e M = M"
  by (simp add: book_def)

text \<open>
  The contract of a component whose operations give back everything they acquire: the client's
  theorem is that no sequence of calls, whatever the environment answers, changes the account.
\<close>

primrec run_ops :: "('i \<Rightarrow> ('s, 'b) state) \<Rightarrow> 'i list \<Rightarrow> 's \<Rightarrow> 's" where
  "run_ops f [] s = s"
| "run_ops f (i # is) s = run_ops f is (snd (run_state (f i) s))"

locale leak_free =
  fixes held :: "'s \<Rightarrow> 'r multiset"
    and ops :: "'i \<Rightarrow> ('s, 'b) state"
  assumes op_balanced: "run_state (ops i) s = (r, s') \<Longrightarrow> held s' = held s"
begin

lemma session_balanced: "held (run_ops ops is s) = held s"
proof (induction "is" arbitrary: s)
  case (Cons i "is")
  have "held (snd (run_state (ops i) s)) = held s"
    using op_balanced [of i s] by (metis prod.collapse)
  then show ?case
    by (simp add: Cons.IH)
qed simp

end

text \<open>
  The contract of a component whose operations keep an invariant: it holds after every session.
\<close>

locale invariant_ops =
  fixes Inv :: "'s \<Rightarrow> bool"
    and ops :: "'i \<Rightarrow> ('s, 'b) state"
  assumes op_keeps: "run_state (ops i) s = (r, s') \<Longrightarrow> Inv s \<Longrightarrow> Inv s'"
begin

lemma session_keeps: "Inv s \<Longrightarrow> Inv (run_ops ops is s)"
proof (induction "is" arbitrary: s)
  case (Cons i "is")
  have "Inv (snd (run_state (ops i) s))"
    using op_keeps [of i s] Cons.prems by (metis prod.collapse)
  then show ?case
    by (simp add: Cons.IH)
qed simp

end

section \<open>C strings and character arrays\<close>

text \<open>
  A C string is the list of its characters before the terminating NUL; a character array is the
  list of all its cells.
\<close>

definition NUL :: char where
  "NUL = CHR 0x00"

definition cstr :: "char list \<Rightarrow> string" where
  "cstr buf = takeWhile (\<lambda>c. c \<noteq> NUL) buf"

definition is_cstring :: "string \<Rightarrow> bool" where
  "is_cstring s \<longleftrightarrow> NUL \<notin> set s"

definition strnlen :: "string \<Rightarrow> nat \<Rightarrow> nat" where
  "strnlen s n = min (length s) n"

text \<open>\<open>strncpy\<close> copies at most \<open>n\<close> characters and pads with NUL up to \<open>n\<close>.\<close>

definition strncpy :: "char list \<Rightarrow> string \<Rightarrow> nat \<Rightarrow> char list" where
  "strncpy dst src n = take n (src @ replicate n NUL) @ drop n dst"

lemma length_strncpy [simp]: "n \<le> length dst \<Longrightarrow> length (strncpy dst src n) = length dst"
  by (simp add: strncpy_def)

lemma cstr_is_cstring [simp]: "is_cstring (cstr buf)"
  by (auto simp: is_cstring_def cstr_def dest: set_takeWhileD)

lemma cstr_append_NUL [simp]: "is_cstring s \<Longrightarrow> cstr (s @ NUL # r) = s"
  by (induction s) (auto simp: cstr_def is_cstring_def)

lemma is_cstring_take: "is_cstring s \<Longrightarrow> is_cstring (take n s)"
  unfolding is_cstring_def by (meson in_set_takeD)

text \<open>
  The idiom of the variable setters: \<open>strncpy\<close> into the whole array, then NUL in its last cell.
\<close>

lemma cstr_strncpy_terminated:
  assumes "is_cstring src" and "length dst = Suc n"
  shows "cstr ((strncpy dst src (Suc n))[n := NUL]) = take n src"
proof -
  have "(strncpy dst src (Suc n))[n := NUL] = take n (src @ replicate n NUL) @ [NUL]"
    using assms(2) by (auto simp: strncpy_def list_eq_iff_nth_eq nth_list_update nth_append
        less_Suc_eq simp del: replicate_Suc)
  also have "take n (src @ replicate n NUL) = take n src @ replicate (n - length src) NUL"
    by simp
  finally have eq: "(strncpy dst src (Suc n))[n := NUL]
      = take n src @ replicate (n - length src) NUL @ [NUL]"
    by simp
  have "replicate (n - length src) NUL @ [NUL] = NUL # replicate (n - length src) NUL"
    by (simp add: replicate_append_same)
  with eq show ?thesis
    using assms(1) by (simp add: is_cstring_take)
qed

section \<open>Lists\<close>

text \<open>The first entry of a table whose key matches: the linear search loops of the sources.\<close>

fun table_find :: "('a \<Rightarrow> bool) \<Rightarrow> 'a list \<Rightarrow> 'a option" where
  "table_find P [] = None"
| "table_find P (x # xs) = (if P x then Some x else table_find P xs)"

lemma table_find_None_iff: "table_find P xs = None \<longleftrightarrow> (\<forall>x \<in> set xs. \<not> P x)"
  by (induction xs) auto

lemma table_find_SomeD: "table_find P xs = Some x \<Longrightarrow> x \<in> set xs \<and> P x"
  by (induction xs) (auto split: if_splits)

end
