(* ===== verification/Hex.thy ===== *)
theory Hex
  imports Native_Prelude
begin

text \<open>
  The hexadecimal codec of \<open>ctrl.c\<close> (\<open>hex_to_bytes\<close>, \<open>bytes_to_hex\<close>), with the part of
  the C library's \<open>strtol\<close> and \<open>snprintf\<close> it relies on: what the decoder accepts, that the
  encoder's output decodes to the bytes it came from, and that no write leaves the buffer.
\<close>

section \<open>The C library's strtol in base 16\<close>

definition is_space :: "char \<Rightarrow> bool" where
  "is_space c \<longleftrightarrow> c \<in> {CHR '' '', CHR 0x09, CHR 0x0A, CHR 0x0B, CHR 0x0C, CHR 0x0D}"

definition hex_val :: "char \<Rightarrow> nat option" where
  "hex_val c =
     (let n = of_char c :: nat in
      if 48 \<le> n \<and> n \<le> 57 then Some (n - 48)
      else if 65 \<le> n \<and> n \<le> 70 then Some (n - 55)
      else if 97 \<le> n \<and> n \<le> 102 then Some (n - 87)
      else None)"

fun scan_hex :: "string \<Rightarrow> nat \<Rightarrow> nat \<times> string" where
  "scan_hex [] acc = (acc, [])"
| "scan_hex (c # cs) acc =
     (case hex_val c of Some d \<Rightarrow> scan_hex cs (16 * acc + d) | None \<Rightarrow> (acc, c # cs))"

definition starts_hex :: "string \<Rightarrow> bool" where
  "starts_hex s \<longleftrightarrow> (case s of c # _ \<Rightarrow> hex_val c \<noteq> None | [] \<Rightarrow> False)"

fun drop_0x :: "string \<Rightarrow> string" where
  "drop_0x (z # x # cs) =
     (if z = CHR ''0'' \<and> (x = CHR ''x'' \<or> x = CHR ''X'') \<and> starts_hex cs then cs else z # x # cs)"
| "drop_0x cs = cs"

definition LONG_MAX :: int where "LONG_MAX = 2 ^ 31 - 1"
definition LONG_MIN :: int where "LONG_MIN = - (2 ^ 31)"

text \<open>
  \<open>strtol16 s\<close> is \<open>strtol(s, &end, 16)\<close>: the value and the string at \<open>end\<close>, which is \<open>s\<close>
  itself when no digit was found.
\<close>

definition strtol16 :: "string \<Rightarrow> int \<times> string" where
  "strtol16 s =
     (let t = dropWhile is_space s;
          neg = (case t of c # _ \<Rightarrow> c = CHR ''-'' | [] \<Rightarrow> False);
          u = (case t of c # cs \<Rightarrow> if c = CHR ''-'' \<or> c = CHR ''+'' then cs else t | [] \<Rightarrow> t);
          v = drop_0x u
      in if starts_hex v
         then (let (n, rest) = scan_hex v 0
               in (max LONG_MIN (min LONG_MAX (if neg then - int n else int n)), rest))
         else (0, s))"

section \<open>hex_to_bytes and bytes_to_hex\<close>

text \<open>
  The loop of \<open>hex_to_bytes\<close>: \<open>i\<close> is the index of the next byte; on a bad pair the bytes
  written so far stay in the caller's buffer.
\<close>

fun hex_loop :: "string \<Rightarrow> nat \<Rightarrow> u8 list \<Rightarrow> bool \<times> u8 list" where
  "hex_loop (c # d # cs) i bytes =
     (let (value, end_ptr) = strtol16 [c, d] in
      if end_ptr \<noteq> [] \<or> value < 0 \<or> value > 255 then (False, bytes)
      else hex_loop cs (Suc i) (bytes[i := word_of_int value]))"
| "hex_loop _ i bytes = (True, bytes)"

definition hex_to_bytes :: "string \<Rightarrow> u8 list \<Rightarrow> nat \<Rightarrow> int \<times> u8 list" where
  "hex_to_bytes hex_str bytes max_len =
     (let hex_len = strnlen hex_str 4096 in
      if hex_len mod 2 \<noteq> 0 \<or> hex_len div 2 > max_len then (-1, bytes)
      else (case hex_loop (take hex_len hex_str) 0 bytes of
              (True, bytes') \<Rightarrow> (int (hex_len div 2), bytes')
            | (False, bytes') \<Rightarrow> (-1, bytes')))"

definition hex_digit :: "nat \<Rightarrow> char" where
  "hex_digit n = (if n < 10 then char_of (48 + n) else char_of (87 + n))"

definition hex2 :: "u8 \<Rightarrow> string" where
  "hex2 b = [hex_digit (unat b div 16), hex_digit (unat b mod 16)]"

text \<open>\<open>malloc_ok\<close> is whether the allocation of the output string succeeds.\<close>

definition bytes_to_hex :: "bool \<Rightarrow> u8 list option \<Rightarrow> nat \<Rightarrow> string option" where
  "bytes_to_hex malloc_ok bytes len =
     (case bytes of
        None \<Rightarrow> None
      | Some bs \<Rightarrow>
          if len = 0 then None
          else if \<not> malloc_ok then None
          else Some (concat (map (\<lambda>i. hex2 (bs ! i)) [0..<len])))"

section \<open>What a pair of characters decodes to\<close>

definition pair_value :: "char \<Rightarrow> char \<Rightarrow> nat option" where
  "pair_value c d =
     (case (hex_val c, hex_val d) of
        (Some a, Some b) \<Rightarrow> Some (16 * a + b)
      | (None, Some b) \<Rightarrow>
          if is_space c \<or> c = CHR ''+'' then Some b
          else if c = CHR ''-'' \<and> b = 0 then Some 0
          else None
      | _ \<Rightarrow> None)"

lemma hex_val_bound: "hex_val c = Some n \<Longrightarrow> n < 16"
  by (auto simp: hex_val_def Let_def split: if_splits)

lemma hex_val_special [simp]:
  "hex_val (CHR ''+'') = None" "hex_val (CHR ''-'') = None"
  "hex_val (CHR ''x'') = None" "hex_val (CHR ''X'') = None"
  by (simp_all add: hex_val_def)

lemma hex_val_space: "is_space c \<Longrightarrow> hex_val c = None"
  by (auto simp: is_space_def hex_val_def)

lemma is_space_sign [simp]: "\<not> is_space (CHR ''+'')" "\<not> is_space (CHR ''-'')"
  by (simp_all add: is_space_def)

lemma pair_value_bound: "pair_value c d = Some n \<Longrightarrow> n < 256"
  by (auto simp: pair_value_def split: option.splits if_splits dest!: hex_val_bound)

text \<open>The guard of the loop holds exactly for the pairs \<open>pair_value\<close> accepts.\<close>

lemma strtol16_pair:
  "(case strtol16 [c, d] of (v, e) \<Rightarrow> if e \<noteq> [] \<or> v < 0 \<or> v > 255 then None else Some (nat v))
     = pair_value c d"
proof (cases "hex_val c")
  case None
  show ?thesis
  proof (cases "hex_val d")
    case None
    with \<open>hex_val c = None\<close> show ?thesis
      by (auto simp: strtol16_def pair_value_def starts_hex_def Let_def)
  next
    case (Some b)
    then have "b < 16" by (rule hex_val_bound)
    with Some \<open>hex_val c = None\<close> show ?thesis
      using hex_val_space [of d]
      by (auto simp: strtol16_def pair_value_def starts_hex_def Let_def LONG_MIN_def LONG_MAX_def)
  qed
next
  case (Some a)
  then have a: "a < 16" and nsp: "\<not> is_space c" and sgn: "c \<noteq> CHR ''-''" "c \<noteq> CHR ''+''"
    using hex_val_space [of c] by (auto dest: hex_val_bound)
  show ?thesis
  proof (cases "hex_val d")
    case None
    with Some nsp sgn show ?thesis
      by (auto simp: strtol16_def pair_value_def starts_hex_def Let_def)
  next
    case (Some b)
    then have "b < 16" by (rule hex_val_bound)
    with Some \<open>hex_val c = Some a\<close> a nsp sgn show ?thesis
      by (auto simp: strtol16_def pair_value_def starts_hex_def Let_def LONG_MIN_def LONG_MAX_def)
  qed
qed

fun decode_pairs :: "string \<Rightarrow> nat list option" where
  "decode_pairs (c # d # cs) =
     (case pair_value c d of None \<Rightarrow> None | Some n \<Rightarrow> map_option ((#) n) (decode_pairs cs))"
| "decode_pairs _ = Some []"

lemma hex_loop_step:
  "hex_loop (c # d # cs) i bytes =
     (case pair_value c d of
        None \<Rightarrow> (False, bytes)
      | Some n \<Rightarrow> hex_loop cs (Suc i) (bytes[i := of_nat n]))"
  by (subst strtol16_pair [symmetric]) (auto simp: Let_def split: prod.splits)

declare hex_loop.simps(1) [simp del]

lemma hex_loop_decode:
  "decode_pairs cs = Some ns \<Longrightarrow> i + length ns \<le> length bytes \<Longrightarrow>
   hex_loop cs i bytes = (True, take i bytes @ map of_nat ns @ drop (i + length ns) bytes)"
proof (induction cs arbitrary: i bytes ns rule: decode_pairs.induct)
  case (1 c d cs)
  then obtain n ms where n: "pair_value c d = Some n" and ms: "decode_pairs cs = Some ms"
    and ns: "ns = n # ms"
    by (auto split: option.splits)
  have len: "Suc i + length ms \<le> length (bytes[i := of_nat n])"
    using "1.prems"(2) ns by simp
  have "take (Suc i) (bytes[i := of_nat n]) = take i bytes @ [of_nat n]"
    using "1.prems"(2) ns by (simp add: take_Suc_conv_app_nth)
  with "1.IH" [OF n ms len] show ?case
    by (simp add: hex_loop_step n ns)
qed auto

lemma hex_loop_reject: "decode_pairs cs = None \<Longrightarrow> fst (hex_loop cs i bytes) = False"
  by (induction cs arbitrary: i bytes rule: decode_pairs.induct)
    (auto simp: hex_loop_step split: option.splits)

lemma hex_loop_length: "length (snd (hex_loop cs i bytes)) = length bytes"
  by (induction cs arbitrary: i bytes rule: decode_pairs.induct)
    (auto simp: hex_loop_step split: option.splits)

lemma decode_pairs_length: "decode_pairs cs = Some ns \<Longrightarrow> length ns = length cs div 2"
  by (induction cs arbitrary: ns rule: decode_pairs.induct) (auto split: option.splits)

lemma decode_pairs_bound: "decode_pairs cs = Some ns \<Longrightarrow> n \<in> set ns \<Longrightarrow> n < 256"
  by (induction cs arbitrary: ns rule: decode_pairs.induct)
    (auto split: option.splits dest: pair_value_bound)

section \<open>The encoder's output decodes\<close>

lemma hex_val_digit: "n < 16 \<Longrightarrow> hex_val (hex_digit n) = Some n"
  by (auto simp: hex_val_def hex_digit_def Let_def)

lemma length_hex2 [simp]: "length (hex2 b) = 2"
  by (simp add: hex2_def)

lemma decode_hex2: "decode_pairs (hex2 b @ cs) = map_option ((#) (unat b)) (decode_pairs cs)"
proof -
  have "unat b < 2 ^ 8"
    using unsigned_less [of b, where ?'a = nat] by simp
  then have "unat b div 16 < 16" and "unat b mod 16 < 16"
    by auto
  then show ?thesis
    by (simp add: hex2_def pair_value_def hex_val_digit)
qed

lemma decode_concat_hex2: "decode_pairs (concat (map hex2 bs)) = Some (map unat bs)"
  by (induction bs) (simp_all add: decode_hex2)

lemma length_concat_hex2 [simp]: "length (concat (map hex2 bs)) = 2 * length bs"
  by (induction bs) simp_all

lemma bytes_to_hex_Some:
  "0 < length bs \<Longrightarrow> bytes_to_hex True (Some bs) (length bs) = Some (concat (map hex2 bs))"
proof -
  have "map (\<lambda>i. hex2 (bs ! i)) [0..<length bs] = map hex2 (map ((!) bs) [0..<length bs])"
    by simp
  also have "\<dots> = map hex2 bs"
    by (simp only: map_nth)
  finally have "map (\<lambda>i. hex2 (bs ! i)) [0..<length bs] = map hex2 bs" .
  then show "0 < length bs \<Longrightarrow> ?thesis"
    by (simp add: bytes_to_hex_def)
qed

lemma hex_to_bytes_encoded:
  assumes "length bs \<le> 2048" and "length bs \<le> max_len" and "max_len \<le> length buf"
  shows "hex_to_bytes (concat (map hex2 bs)) buf max_len
           = (int (length bs), bs @ drop (length bs) buf)"
proof -
  have sl: "strnlen (concat (map hex2 bs)) 4096 = 2 * length bs"
    using assms(1) by (simp add: strnlen_def)
  have "map (of_nat \<circ> unat) bs = bs"
    by (simp add: comp_def)
  then have "hex_loop (concat (map hex2 bs)) 0 buf = (True, bs @ drop (length bs) buf)"
    using hex_loop_decode [OF decode_concat_hex2, of 0 bs buf] assms by simp
  with sl assms show ?thesis
    by (simp add: hex_to_bytes_def Let_def)
qed

section \<open>Properties\<close>

text \<open>
  C13. Every non-empty byte string of at most 2048 bytes that fits the buffer is encoded by
  \<open>bytes_to_hex\<close> to a string which \<open>hex_to_bytes\<close> decodes to exactly those bytes, leaving the
  rest of the buffer untouched.
\<close>

theorem hex_roundtrip:
  assumes "0 < length bs" and "length bs \<le> 2048"
    and "length bs \<le> max_len" and "max_len \<le> length buf"
  shows "\<exists>s. bytes_to_hex True (Some bs) (length bs) = Some s \<and>
             hex_to_bytes s buf max_len = (int (length bs), bs @ drop (length bs) buf)"
  using bytes_to_hex_Some [OF assms(1)] hex_to_bytes_encoded [OF assms(2-4)] by blast

theorem hex_roundtrip_witness:
  "\<exists>s. bytes_to_hex True (Some [222, 173 :: u8]) 2 = Some s \<and>
       hex_to_bytes s [0, 0, 7] 3 = (2, [222, 173, 7])"
  using hex_roundtrip [of "[222, 173]" 3 "[0, 0, 7]"] by (simp add: numeral_2_eq_2)

text \<open>
  C24. \<open>hex_to_bytes\<close> on any string: it reports the number of bytes exactly when the length (cut
  at 4096) is even, the bytes fit, and every pair is accepted, and then the buffer starts with the
  decoded bytes; in every other case it returns -1. The buffer never changes its length, so no
  write leaves it.
\<close>

theorem hex_to_bytes_correct:
  assumes "max_len \<le> length buf"
  shows "hex_to_bytes s buf max_len =
           (let n = min (length s) 4096 in
            if odd n \<or> max_len < n div 2 then (-1, buf)
            else case decode_pairs (take n s) of
                   Some ns \<Rightarrow> (int (n div 2), map of_nat ns @ drop (n div 2) buf)
                 | None \<Rightarrow> (-1, snd (hex_loop (take n s) 0 buf)))
         \<and> length (snd (hex_to_bytes s buf max_len)) = length buf"
proof -
  let ?n = "min (length s) 4096"
  have some: "hex_loop (take ?n s) 0 buf = (True, map of_nat ns @ drop (?n div 2) buf)"
    if "\<not> max_len < ?n div 2" and "decode_pairs (take ?n s) = Some ns" for ns
    using hex_loop_decode [OF that(2), of 0 buf] decode_pairs_length [OF that(2)] that(1) assms
    by simp
  have none: "hex_loop (take ?n s) 0 buf = (False, snd (hex_loop (take ?n s) 0 buf))"
    if "decode_pairs (take ?n s) = None"
    using hex_loop_reject [OF that, of 0 buf] by (metis prod.collapse)
  have len: "length (snd (hex_loop (take ?n s) 0 buf)) = length buf"
    by (rule hex_loop_length)
  show ?thesis
    using some none len
    by (cases "decode_pairs (take ?n s)")
      (auto simp: hex_to_bytes_def strnlen_def Let_def odd_iff_mod_2_eq_one
        simp del: take_map split: prod.splits bool.splits)
qed

theorem hex_to_bytes_correct_witness:
  "hex_to_bytes ''0aFF'' [1, 2, 3] 3 = (2, [10, 255, 3])"
  using hex_to_bytes_correct [of 3 "[1, 2, 3]" "''0aFF''"]
  by (simp add: pair_value_def hex_val_def Let_def)

text \<open>
  The decoder accepts more than pairs of hexadecimal digits: since \<open>strtol\<close> skips white space
  and takes a sign, a digit may be preceded by a blank or a plus sign, and \<open>-0\<close> is zero. Nothing
  else is accepted.
\<close>

lemma hex_to_bytes_pair:
  "hex_to_bytes [c, d] [b] 1 =
     (case pair_value c d of Some n \<Rightarrow> (1, [of_nat n]) | None \<Rightarrow> (-1, [b]))
   \<and> hex_to_bytes ''+f'' [b] 1 = (1, [15]) \<and> hex_to_bytes '' f'' [b] 1 = (1, [15])
   \<and> hex_to_bytes ''-1'' [b] 1 = (-1, [b])"
proof -
  have pair: "hex_to_bytes [c, d] [b] 1 =
     (case pair_value c d of Some n \<Rightarrow> (1, [of_nat n]) | None \<Rightarrow> (-1, [b]))" for c d
    by (simp add: hex_to_bytes_def strnlen_def Let_def hex_loop_step split: option.splits)
  have "pair_value (CHR ''+'') (CHR ''f'') = Some 15" "pair_value (CHR '' '') (CHR ''f'') = Some 15"
    "pair_value (CHR ''-'') (CHR ''1'') = None"
    by (simp_all add: pair_value_def hex_val_def is_space_def)
  then show ?thesis
    by (simp only: pair) simp
qed

end
