(* ===== verification/Edid.thy ===== *)
theory Edid
  imports Native_Prelude
begin

text \<open>
  \<open>edid.c\<close>: reading and writing the EDID of the HDMI receiver through its V4L2 sub-device,
  the repair of the block checksums before a write, and the extraction of the receiver's status
  from the kernel log. The calls to the kernel are recorded in the trace of the state.
\<close>

section \<open>Calls to the kernel and their answers\<close>

datatype edid_call =
    E_open string
  | E_close int
  | E_G_EDID int u32 u32
  | E_S_EDID int u32 u32 "u8 list"
  | E_LOG_STATUS int
  | E_klogctl nat
  | E_strdup string

text \<open>
  One answer type for every call: the return value (a pointer is its address, 0 for NULL), the
  value of \<open>errno\<close> after the call, the block count and bytes of an EDID read, the text of a log
  read.
\<close>

record edid_answer =
  a_ret :: int
  a_errno :: int
  a_blocks :: u32
  a_data :: "u8 list"
  a_text :: string

record edid_state = "(edid_call, edid_answer) world" +
  e_errno :: int

type_synonym edid_env = "(edid_call, edid_answer) env"
type_synonym 'a edid_m = "(edid_state, 'a) state"

definition edid_sys :: "edid_env \<Rightarrow> edid_call \<Rightarrow> edid_answer edid_m" where
  "edid_sys E c = do {
     r \<leftarrow> perform E c;
     modify (\<lambda>s. s\<lparr>e_errno := a_errno r\<rparr>);
     State_Monad.return r
   }"

definition EINVAL :: int where "EINVAL = 22"

definition V4L_SUBDEV :: string where "V4L_SUBDEV = ''/dev/v4l-subdev2''"

definition set_errno :: "int \<Rightarrow> unit edid_m" where
  "set_errno e = modify (\<lambda>s. s\<lparr>e_errno := e\<rparr>)"

text \<open>
  The driver writes \<open>bs\<close> at the start of the caller's buffer. A result longer than the buffer is
  a write past its end.
\<close>

definition write_out :: "u8 list \<Rightarrow> u8 list \<Rightarrow> u8 list" where
  "write_out buf bs = bs @ drop (length bs) buf"

section \<open>get_edid\<close>

definition get_edid :: "edid_env \<Rightarrow> u8 list option \<Rightarrow> nat \<Rightarrow> (int \<times> u8 list option) edid_m" where
  "get_edid E edid max_size =
     (case edid of
        None \<Rightarrow> do { set_errno EINVAL; State_Monad.return (-1, None) }
      | Some buf \<Rightarrow>
          if max_size \<noteq> 128 \<and> max_size \<noteq> 256
          then do { set_errno EINVAL; State_Monad.return (-1, Some buf) }
          else do {
            r \<leftarrow> edid_sys E (E_open V4L_SUBDEV);
            let fd = a_ret r;
            if fd < 0 then State_Monad.return (-1, Some buf)
            else do {
              g \<leftarrow> edid_sys E (E_G_EDID fd 0 2);
              let buf' = write_out buf (a_data g);
              _ \<leftarrow> edid_sys E (E_close fd);
              if a_ret g < 0 then State_Monad.return (-1, Some buf')
              else State_Monad.return (sint (a_blocks g * 128), Some buf')
            }
          })"

section \<open>fix_edid_checksum and set_edid\<close>

text \<open>The inner loop: the sum of the first 127 bytes of a block, modulo 256.\<close>

fun block_sum :: "u8 list \<Rightarrow> nat \<Rightarrow> nat \<Rightarrow> u8" where
  "block_sum edid block 0 = 0"
| "block_sum edid block (Suc i) = block_sum edid block i + edid ! (block * 128 + i)"

definition fix_block :: "nat \<Rightarrow> u8 list \<Rightarrow> u8 list" where
  "fix_block block edid = edid[block * 128 + 127 := 256 - block_sum edid block 127]"

definition fix_edid_checksum :: "u8 list \<Rightarrow> nat \<Rightarrow> u8 list" where
  "fix_edid_checksum edid sz = fold fix_block [0..<sz div 128] edid"

definition set_edid :: "edid_env \<Rightarrow> u8 list option \<Rightarrow> nat \<Rightarrow> (int \<times> u8 list option) edid_m" where
  "set_edid E edid sz =
     (case edid of
        None \<Rightarrow> do { set_errno EINVAL; State_Monad.return (-1, None) }
      | Some buf \<Rightarrow>
          if sz \<noteq> 0 \<and> sz \<noteq> 128 \<and> sz \<noteq> 256
          then do { set_errno EINVAL; State_Monad.return (-1, Some buf) }
          else do {
            r \<leftarrow> edid_sys E (E_open V4L_SUBDEV);
            let fd = a_ret r;
            if fd < 0 then State_Monad.return (-1, Some buf)
            else do {
              let buf' = (if sz > 0 then fix_edid_checksum buf sz else buf);
              w \<leftarrow> edid_sys E (E_S_EDID fd 0 (of_nat (sz div 128)) (take sz buf'));
              _ \<leftarrow> edid_sys E (E_close fd);
              if a_ret w < 0 then State_Monad.return (-1, Some buf')
              else State_Monad.return (0, Some buf')
            }
          })"

section \<open>videoc_log_status\<close>

text \<open>\<open>strstr\<close>: the offset of the first occurrence of \<open>needle\<close>.\<close>

fun strstr :: "string \<Rightarrow> string \<Rightarrow> nat option" where
  "strstr [] needle = (if needle = [] then Some 0 else None)"
| "strstr (c # cs) needle =
     (if take (length needle) (c # cs) = needle then Some 0
      else map_option Suc (strstr cs needle))"

lemma strstr_bound: "strstr hay needle = Some k \<Longrightarrow> k + length needle \<le> length hay"
proof (induction hay arbitrary: k)
  case (Cons c cs)
  show ?case
  proof (cases "take (length needle) (c # cs) = needle")
    case True
    then have "length needle \<le> length (c # cs)"
      by (metis length_take min.cobounded1)
    with True Cons.prems show ?thesis by auto
  next
    case False
    with Cons show ?thesis by auto
  qed
qed (auto split: if_splits)

definition START_STATUS :: string where "START_STATUS = ''START STATUS''"
definition PRIO6 :: string where "PRIO6 = ''<6>''"

text \<open>First loop: the position one past the start of the last \<open>START STATUS\<close>.\<close>

function find_status :: "string \<Rightarrow> nat \<Rightarrow> bool \<Rightarrow> bool \<times> nat" where
  "find_status s p found =
     (case strstr (drop p s) START_STATUS of
        None \<Rightarrow> (found, p)
      | Some k \<Rightarrow> find_status s (p + k + 1) True)"
  by pat_completeness auto
termination
  by (relation "measure (\<lambda>(s, p, found). length s - p)")
    (auto simp: START_STATUS_def dest!: strstr_bound)

declare find_status.simps [simp del]

text \<open>Second loop: back to the \<open><\<close> that starts the line, or to the start of the buffer.\<close>

fun back_to_lt :: "string \<Rightarrow> nat \<Rightarrow> nat" where
  "back_to_lt s 0 = 0"
| "back_to_lt s (Suc p) = (if s ! Suc p \<noteq> CHR ''<'' then back_to_lt s p else Suc p)"

text \<open>Third loop: every \<open><6>\<close> from \<open>q\<close> on is overwritten with three blanks.\<close>

definition blank3 :: "string \<Rightarrow> nat \<Rightarrow> string" where
  "blank3 s q = take q s @ ''   '' @ drop (q + 3) s"

lemma strstr_occurs:
  "strstr hay needle = Some k \<Longrightarrow> take (length needle) (drop k hay) = needle"
  by (induction hay arbitrary: k) (auto split: if_splits)

lemma split_at_PRIO6:
  assumes "strstr (drop q s) PRIO6 = Some k"
  shows "s = take (q + k) s @ PRIO6 @ drop (q + k + 3) s"
proof -
  have "take 3 (drop (q + k) s) = PRIO6"
    using strstr_occurs [OF assms] by (simp add: PRIO6_def add.commute numeral_3_eq_3)
  then show ?thesis
    by (metis append_take_drop_id drop_drop add.commute)
qed

function blank_prio :: "string \<Rightarrow> nat \<Rightarrow> string" where
  "blank_prio s q =
     (case strstr (drop q s) PRIO6 of
        None \<Rightarrow> s
      | Some k \<Rightarrow> blank_prio (blank3 s (q + k)) (q + k))"
  by pat_completeness auto
termination
proof (relation "measure (\<lambda>(s, q). count_list s (CHR ''<''))")
  fix s q k
  assume "strstr (drop q s) PRIO6 = Some k"
  then have s: "s = take (q + k) s @ PRIO6 @ drop (q + k + 3) s"
    by (rule split_at_PRIO6)
  show "((blank3 s (q + k), q + k), (s, q)) \<in> measure (\<lambda>(s, q). count_list s (CHR ''<''))"
    by (subst (2) s) (simp add: blank3_def PRIO6_def)
qed simp

declare blank_prio.simps [simp del]

text \<open>The text handed to \<open>strdup\<close>, from the NUL-terminated kernel log \<open>s\<close>.\<close>

definition status_text :: "string \<Rightarrow> string" where
  "status_text s =
     (case find_status s 0 False of
        (False, p) \<Rightarrow> drop p s
      | (True, p0) \<Rightarrow> (let p = back_to_lt s p0 in drop p (blank_prio s p)))"

definition videoc_log_status :: "edid_env \<Rightarrow> string option edid_m" where
  "videoc_log_status E = do {
     r \<leftarrow> edid_sys E (E_open V4L_SUBDEV);
     let fd = a_ret r;
     if fd < 0 then State_Monad.return None
     else do {
       l \<leftarrow> edid_sys E (E_LOG_STATUS fd);
       _ \<leftarrow> edid_sys E (E_close fd);
       if a_ret l = -1 then State_Monad.return None
       else do {
         k \<leftarrow> edid_sys E (E_klogctl 40959);
         if a_ret k \<ge> 0 then do {
           let buffer = status_text (cstr (take (nat (a_ret k)) (a_text k)));
           d \<leftarrow> edid_sys E (E_strdup buffer);
           if a_ret d = 0 then State_Monad.return None
           else State_Monad.return (Some buffer)
         }
         else State_Monad.return None
       }
     }
   }"

section \<open>Checksums\<close>

lemma block_sum_cong:
  "(\<And>i. i < n \<Longrightarrow> e ! (b * 128 + i) = e' ! (b * 128 + i)) \<Longrightarrow> block_sum e b n = block_sum e' b n"
  by (induction n) auto

lemma block_sum_list:
  "b * 128 + n \<le> length e \<Longrightarrow> block_sum e b n = sum_list (take n (drop (b * 128) e))"
  by (induction n) (simp_all add: take_Suc_conv_app_nth)

lemma length_fix_block [simp]: "length (fix_block b e) = length e"
  by (simp add: fix_block_def)

lemma nth_fix_block:
  "j < length e \<Longrightarrow>
   fix_block b e ! j = (if j = b * 128 + 127 then 256 - block_sum e b 127 else e ! j)"
  by (simp add: fix_block_def)

lemma length_fold_fix [simp]: "length (fold fix_block bs e) = length e"
  by (induction bs arbitrary: e) simp_all

lemma length_fix_edid_checksum [simp]: "length (fix_edid_checksum e sz) = length e"
  by (simp add: fix_edid_checksum_def)

text \<open>
  Closed form of the repair: byte 127 of every block in range is the negated sum of the original
  block, and no other byte changes.
\<close>

lemma fold_fix_nth:
  "j < length e \<Longrightarrow> fold fix_block [0..<n] e ! j =
     (if j mod 128 = 127 \<and> j div 128 < n then 256 - block_sum e (j div 128) 127 else e ! j)"
proof (induction n arbitrary: j)
  case (Suc n)
  let ?e = "fold fix_block [0..<n] e"
  have sum: "block_sum ?e n 127 = block_sum e n 127" if "n * 128 + 127 < length e"
  proof (rule block_sum_cong)
    fix i :: nat
    assume "i < 127"
    with that have "n * 128 + i < length e" and "(n * 128 + i) mod 128 \<noteq> 127"
      by auto
    then show "?e ! (n * 128 + i) = e ! (n * 128 + i)"
      by (simp add: Suc.IH)
  qed
  show ?case
  proof (cases "j = n * 128 + 127")
    case True
    then have "j mod 128 = 127" and "j div 128 = n"
      by auto
    with True Suc.prems sum show ?thesis
      by (simp add: nth_fix_block)
  next
    case False
    then have "\<not> (j mod 128 = 127 \<and> j div 128 = n)"
      by (metis div_mult_mod_eq)
    with False Suc show ?thesis
      by (auto simp: nth_fix_block less_Suc_eq)
  qed
qed simp

lemma fix_edid_checksum_nth:
  "j < length e \<Longrightarrow> fix_edid_checksum e sz ! j =
     (if j mod 128 = 127 \<and> j div 128 < sz div 128 then 256 - block_sum e (j div 128) 127 else e ! j)"
  by (simp add: fix_edid_checksum_def fold_fix_nth)

lemma block_sum_fix:
  assumes "b < sz div 128" and "sz \<le> length e"
  shows "block_sum (fix_edid_checksum e sz) b 127 = block_sum e b 127"
proof (rule block_sum_cong)
  fix i :: nat
  assume "i < 127"
  with assms have "b * 128 + i < length e" and "(b * 128 + i) mod 128 \<noteq> 127"
    by auto
  then show "fix_edid_checksum e sz ! (b * 128 + i) = e ! (b * 128 + i)"
    by (simp add: fix_edid_checksum_nth)
qed

definition block_valid :: "u8 list \<Rightarrow> nat \<Rightarrow> bool" where
  "block_valid e b \<longleftrightarrow> sum_list (take 128 (drop (b * 128) e)) = 0"

lemma fix_edid_checksum_valid:
  assumes "b < sz div 128" and "sz \<le> length e"
  shows "block_valid (fix_edid_checksum e sz) b"
proof -
  let ?f = "fix_edid_checksum e sz"
  have in_range: "b * 128 + 127 < length e" and "(b * 128 + 127) div 128 = b"
    and "(b * 128 + 127) mod 128 = 127"
    using assms by auto
  then have last: "?f ! (b * 128 + 127) = 256 - block_sum e b 127"
    using assms by (simp add: fix_edid_checksum_nth)
  have "sum_list (take (Suc 127) (drop (b * 128) ?f)) = block_sum ?f b (Suc 127)"
    using in_range by (subst block_sum_list) simp_all
  also have "\<dots> = block_sum ?f b 127 + ?f ! (b * 128 + 127)"
    by (simp only: block_sum.simps)
  also have "\<dots> = block_sum e b 127 + (256 - block_sum e b 127)"
    by (simp only: last block_sum_fix [OF assms])
  finally show ?thesis
    by (simp add: block_valid_def)
qed

lemma fix_edid_checksum_idem:
  assumes "sz \<le> length e"
  shows "fix_edid_checksum (fix_edid_checksum e sz) sz = fix_edid_checksum e sz"
proof (rule nth_equalityI)
  fix j
  assume "j < length (fix_edid_checksum (fix_edid_checksum e sz) sz)"
  then have j: "j < length e" by simp
  show "fix_edid_checksum (fix_edid_checksum e sz) sz ! j = fix_edid_checksum e sz ! j"
    using j assms block_sum_fix [of "j div 128" sz e] by (simp add: fix_edid_checksum_nth)
qed simp

section \<open>The operations on every answer of the kernel\<close>

lemma run_edid_sys [run_simps]:
  "run_state (edid_sys E c) s =
     (E (trace s) c,
      s\<lparr>trace := trace s @ [(c, E (trace s) c)], e_errno := a_errno (E (trace s) c)\<rparr>)"
  by (simp add: edid_sys_def run_simps)

lemma run_set_errno [run_simps]: "run_state (set_errno e) s = ((), s\<lparr>e_errno := e\<rparr>)"
  by (simp add: set_errno_def run_simps)

text \<open>Inversion: after a call the computation goes on with some answer, which the trace records.\<close>

lemma edid_sysE:
  assumes "run_state (State_Monad.bind (edid_sys E c) f) s = (x, s')"
  obtains r where "run_state (f r) (s\<lparr>trace := trace s @ [(c, r)], e_errno := a_errno r\<rparr>) = (x, s')"
  using assms by (simp add: run_simps)

text \<open>Descriptors: \<open>open\<close> acquires one when it succeeds, \<open>close\<close> gives one back.\<close>

fun edid_acq :: "edid_call \<times> edid_answer \<Rightarrow> int option" where
  "edid_acq (E_open p, a) = (if a_ret a < 0 then None else Some (a_ret a))"
| "edid_acq _ = None"

fun edid_rel :: "edid_call \<times> edid_answer \<Rightarrow> int option" where
  "edid_rel (E_close fd, a) = Some fd"
| "edid_rel _ = None"

definition edid_fds :: "edid_state \<Rightarrow> int multiset" where
  "edid_fds s = account edid_acq edid_rel (trace s)"

datatype edid_op = Op_get "u8 list option" nat | Op_set "u8 list option" nat | Op_log_status

fun edid_step :: "edid_env \<Rightarrow> edid_op \<Rightarrow> unit edid_m" where
  "edid_step E (Op_get edid n) = do { _ \<leftarrow> get_edid E edid n; skip }"
| "edid_step E (Op_set edid n) = do { _ \<leftarrow> set_edid E edid n; skip }"
| "edid_step E Op_log_status = do { _ \<leftarrow> videoc_log_status E; skip }"

lemmas edid_ops_defs = get_edid_def set_edid_def videoc_log_status_def

lemma edid_step_balanced:
  "run_state (edid_step E op) s = (r, s') \<Longrightarrow> edid_fds s' = edid_fds s"
  by (cases op) (auto simp: edid_ops_defs run_simps edid_fds_def account_simps book_def Let_def
      split: option.splits if_splits)

interpretation edid_session: leak_free edid_fds "edid_step E" for E
  by unfold_locales (rule edid_step_balanced)

section \<open>The status text\<close>

definition occurs_at :: "string \<Rightarrow> string \<Rightarrow> nat \<Rightarrow> bool" where
  "occurs_at needle hay j \<longleftrightarrow> take (length needle) (drop j hay) = needle"

lemma strstr_None_iff:
  "needle \<noteq> [] \<Longrightarrow> strstr hay needle = None \<longleftrightarrow> (\<forall>j. \<not> occurs_at needle hay j)"
proof (induction hay)
  case (Cons c cs)
  have "(\<forall>j. \<not> occurs_at needle (c # cs) j) \<longleftrightarrow>
      \<not> occurs_at needle (c # cs) 0 \<and> (\<forall>j. \<not> occurs_at needle cs j)"
    by (metis (no_types, lifting) occurs_at_def drop_Suc_Cons not0_implies_Suc)
  with Cons show ?case
    by (auto simp: occurs_at_def)
qed (auto simp: occurs_at_def)

lemma strstr_SomeD:
  "strstr hay needle = Some k \<Longrightarrow> occurs_at needle hay k \<and> (\<forall>j < k. \<not> occurs_at needle hay j)"
proof (induction hay arbitrary: k)
  case (Cons c cs)
  show ?case
  proof (cases "take (length needle) (c # cs) = needle")
    case True
    with Cons.prems show ?thesis by (simp add: occurs_at_def)
  next
    case False
    with Cons.prems obtain k' where k': "strstr cs needle = Some k'" "k = Suc k'"
      by auto
    have "\<not> occurs_at needle (c # cs) j" if "j < k" for j
      using that False Cons.IH [OF k'(1)] k'(2) by (cases j) (auto simp: occurs_at_def)
    with Cons.IH [OF k'(1)] k'(2) show ?thesis
      by (auto simp: occurs_at_def)
  qed
qed (auto simp: occurs_at_def split: if_splits)

lemma occurs_at_drop: "occurs_at needle (drop p hay) j \<longleftrightarrow> occurs_at needle hay (p + j)"
  by (simp add: occurs_at_def add.commute)

lemma occurs_at_PRIO6:
  "occurs_at PRIO6 s j \<longleftrightarrow>
     j + 2 < length s \<and> s ! j = CHR ''<'' \<and> s ! (j + 1) = CHR ''6'' \<and> s ! (j + 2) = CHR ''>''"
proof -
  have "occurs_at PRIO6 s j \<longleftrightarrow> (\<exists>r. drop j s = PRIO6 @ r)"
    unfolding occurs_at_def by (metis append_eq_conv_conj append_take_drop_id)
  also have "\<dots> \<longleftrightarrow> j + 2 < length s \<and> s ! j = CHR ''<'' \<and> s ! (j + 1) = CHR ''6'' \<and> s ! (j + 2) = CHR ''>''"
  proof
    assume "\<exists>r. drop j s = PRIO6 @ r"
    then obtain r where r: "drop j s = PRIO6 @ r" ..
    then have "length s - j = 3 + length r"
      by (metis PRIO6_def length_append length_drop list.size(3,4) numeral_3_eq_3 One_nat_def
          add_Suc_right add.right_neutral)
    moreover have "drop j s ! 0 = CHR ''<''" "drop j s ! 1 = CHR ''6''" "drop j s ! 2 = CHR ''>''"
      by (simp_all add: r PRIO6_def)
    ultimately show "j + 2 < length s \<and> s ! j = CHR ''<'' \<and> s ! (j + 1) = CHR ''6'' \<and> s ! (j + 2) = CHR ''>''"
      by auto
  next
    assume a: "j + 2 < length s \<and> s ! j = CHR ''<'' \<and> s ! (j + 1) = CHR ''6'' \<and> s ! (j + 2) = CHR ''>''"
    then have "drop j s = s ! j # s ! (j + 1) # s ! (j + 2) # drop (j + 3) s"
      by (metis Cons_nth_drop_Suc Suc_eq_plus1 add.assoc add_lessD1 numeral_3_eq_3 one_add_one
          plus_1_eq_Suc numeral_2_eq_2 add_Suc_right add_2_eq_Suc')
    with a show "\<exists>r. drop j s = PRIO6 @ r"
      by (simp add: PRIO6_def)
  qed
  finally show ?thesis .
qed

text \<open>The first loop stops one past the last occurrence.\<close>

lemma find_status_spec:
  "find_status s p found = (found', p') \<Longrightarrow>
     p \<le> p' \<and> (\<forall>j \<ge> p'. \<not> occurs_at START_STATUS s j) \<and>
     (if p' = p then found' = found else found' \<and> occurs_at START_STATUS s (p' - 1))"
proof (induction s p found rule: find_status.induct)
  case (1 s p found)
  show ?case
  proof (cases "strstr (drop p s) START_STATUS")
    case None
    then have "\<forall>j. \<not> occurs_at START_STATUS s (p + j)"
      by (simp add: strstr_None_iff START_STATUS_def occurs_at_drop [symmetric])
    then have "\<forall>j \<ge> p. \<not> occurs_at START_STATUS s j"
      by (metis le_add_diff_inverse)
    with None "1.prems" show ?thesis
      by (simp add: find_status.simps [of s p found])
  next
    case (Some k)
    then have occ: "occurs_at START_STATUS s (p + k)"
      using strstr_SomeD [OF Some] by (simp add: occurs_at_drop)
    have "find_status s (p + k + 1) True = (found', p')"
      using Some "1.prems" by (simp add: find_status.simps [of s p found])
    from "1.IH" [OF Some this] occ show ?thesis
      by (auto split: if_splits)
  qed
qed

lemma back_to_lt_spec:
  "back_to_lt s p \<le> p \<and> (back_to_lt s p = 0 \<or> s ! back_to_lt s p = CHR ''<'') \<and>
   (\<forall>j. back_to_lt s p < j \<and> j \<le> p \<longrightarrow> s ! j \<noteq> CHR ''<'')"
  by (induction p) (auto simp: le_Suc_eq)

lemma length_blank3: "q + 3 \<le> length s \<Longrightarrow> length (blank3 s q) = length s"
  by (simp add: blank3_def)

lemma nth_blank3:
  assumes "q + 3 \<le> length s" and "i < length s"
  shows "blank3 s q ! i = (if q \<le> i \<and> i < q + 3 then CHR '' '' else s ! i)"
proof -
  consider "i < q" | "i = q" | "i = q + 1" | "i = q + 2" | "q + 3 \<le> i"
    by linarith
  then show ?thesis
    using assms by cases (simp_all add: blank3_def nth_append)
qed

lemma blank_prio_nth:
  "length (blank_prio s q) = length s \<and>
   (\<forall>i < length s. blank_prio s q ! i = s ! i \<or> q \<le> i \<and> blank_prio s q ! i = CHR '' '')"
proof (induction s q rule: blank_prio.induct)
  case (1 s q)
  show ?case
  proof (cases "strstr (drop q s) PRIO6")
    case (Some k)
    have bound: "q + k + 3 \<le> length s"
      using strstr_bound [OF Some] by (auto simp: PRIO6_def)
    then have len: "length (blank3 s (q + k)) = length s"
      by (rule length_blank3)
    have nth: "blank3 s (q + k) ! i = s ! i \<or> q + k \<le> i \<and> blank3 s (q + k) ! i = CHR '' ''"
      if "i < length s" for i
      using that bound by (auto simp: nth_blank3)
    have "blank_prio s q = blank_prio (blank3 s (q + k)) (q + k)"
      by (simp add: blank_prio.simps [of s q] Some)
    with "1.IH" [OF Some] len nth show ?thesis
      by (metis le_add1 le_trans)
  qed (simp add: blank_prio.simps [of s q])
qed

text \<open>Exactly the characters of the markers from \<open>q\<close> on are blanked.\<close>

definition in_prio :: "string \<Rightarrow> nat \<Rightarrow> nat \<Rightarrow> bool" where
  "in_prio s q i \<longleftrightarrow> (\<exists>j. q \<le> j \<and> occurs_at PRIO6 s j \<and> j \<le> i \<and> i < j + 3)"

lemma occurs_at_blank3:
  assumes "occurs_at PRIO6 s p" and "p \<le> j"
  shows "occurs_at PRIO6 (blank3 s p) j \<longleftrightarrow> occurs_at PRIO6 s j \<and> j \<noteq> p"
    and "occurs_at PRIO6 s j \<Longrightarrow> j \<noteq> p \<Longrightarrow> p + 3 \<le> j"
proof -
  have p: "p + 3 \<le> length s" "s ! (p + 1) = CHR ''6''" "s ! (p + 2) = CHR ''>''"
    using assms(1) by (auto simp: occurs_at_PRIO6)
  consider "j = p" | "j = p + 1" | "j = p + 2" | "p + 3 \<le> j"
    using assms(2) by linarith
  then show "occurs_at PRIO6 (blank3 s p) j \<longleftrightarrow> occurs_at PRIO6 s j \<and> j \<noteq> p"
    using p by cases (auto simp: occurs_at_PRIO6 nth_blank3 length_blank3)
  assume "occurs_at PRIO6 s j" "j \<noteq> p"
  moreover from this(1) have "s ! j = CHR ''<''"
    by (simp add: occurs_at_PRIO6)
  ultimately show "p + 3 \<le> j"
    using p assms(2) by (cases "j = p + 1 \<or> j = p + 2") auto
qed

lemma blank_prio_exact:
  "i < length s \<Longrightarrow> blank_prio s q ! i = (if in_prio s q i then CHR '' '' else s ! i)"
proof (induction s q arbitrary: i rule: blank_prio.induct)
  case (1 s q)
  show ?case
  proof (cases "strstr (drop q s) PRIO6")
    case None
    then have "\<not> occurs_at PRIO6 s (q + k)" for k
      by (simp add: strstr_None_iff PRIO6_def occurs_at_drop [symmetric])
    then have "\<not> in_prio s q i"
      unfolding in_prio_def by (metis le_add_diff_inverse)
    with None show ?thesis
      by (simp add: blank_prio.simps [of s q])
  next
    case (Some k)
    let ?b = "blank3 s (q + k)"
    have bound: "q + k + 3 \<le> length s"
      using strstr_bound [OF Some] by (auto simp: PRIO6_def)
    have before: "\<not> occurs_at PRIO6 s (q + j)" if "j < k" for j
      using strstr_SomeD [OF Some] that by (simp add: occurs_at_drop)
    have first: "q + k \<le> j" if "q \<le> j" "occurs_at PRIO6 s j" for j
    proof (rule ccontr)
      assume "\<not> q + k \<le> j"
      with that(1) have "j - q < k" by arith
      then show False
        using before [of "j - q"] that by simp
    qed
    have here: "occurs_at PRIO6 s (q + k)"
      using strstr_SomeD [OF Some] by (simp add: occurs_at_drop)
    note later = occurs_at_blank3 [OF here]
    have "in_prio s q i \<longleftrightarrow> q + k \<le> i \<and> i < q + k + 3 \<or> in_prio ?b (q + k) i"
    proof
      assume "in_prio s q i"
      then obtain j where j: "q \<le> j" "occurs_at PRIO6 s j" "j \<le> i" "i < j + 3"
        unfolding in_prio_def by blast
      from first [OF j(1,2)] later(1) [of j] j
      show "q + k \<le> i \<and> i < q + k + 3 \<or> in_prio ?b (q + k) i"
        unfolding in_prio_def by (cases "j = q + k") auto
    next
      assume "q + k \<le> i \<and> i < q + k + 3 \<or> in_prio ?b (q + k) i"
      then show "in_prio s q i"
      proof
        assume "in_prio ?b (q + k) i"
        then obtain j where "q + k \<le> j" "occurs_at PRIO6 ?b j" "j \<le> i" "i < j + 3"
          unfolding in_prio_def by blast
        with later(1) [of j] show ?thesis
          unfolding in_prio_def by (intro exI [of _ j]) simp
      qed (use here in \<open>auto simp: in_prio_def intro!: exI [of _ "q + k"]\<close>)
    qed
    moreover have "blank_prio s q ! i = (if in_prio ?b (q + k) i then CHR '' '' else ?b ! i)"
      using "1.IH" [OF Some, of i] "1.prems" Some by (simp add: blank_prio.simps [of s q] length_blank3 [OF bound])
    ultimately show ?thesis
      using nth_blank3 [OF bound "1.prems"] by simp
  qed
qed

text \<open>No marker straddles the first blank: what precedes it is as before.\<close>

lemma blank_prio_before:
  assumes "q + k + 3 \<le> length s" and "j < q + k"
    and "occurs_at PRIO6 (blank_prio (blank3 s (q + k)) (q + k)) j"
  shows "occurs_at PRIO6 s j"
proof -
  let ?b = "blank3 s (q + k)"
  note keep = blank_prio_nth [of ?b "q + k", unfolded length_blank3 [OF assms(1)]]
  have low: "blank_prio ?b (q + k) ! i = s ! i" if "i < q + k" for i
    using that assms(1) keep by (metis add_leE le_add1 less_le_trans nth_blank3 not_le)
  have blank: "blank_prio ?b (q + k) ! (q + k + d) = CHR '' ''" if "d < 3" for d
  proof -
    have "q + k + d < length s" using that assms(1) by linarith
    with that keep nth_blank3 [OF assms(1) this] show ?thesis by auto
  qed
  have "j + 2 < q + k"
    using assms(2,3) blank [of 0] blank [of 1] unfolding occurs_at_PRIO6
    by (cases "j + 2 = q + k \<or> j + 1 = q + k") auto
  with assms low show ?thesis
    unfolding occurs_at_PRIO6 by auto
qed

lemma blank_prio_clean: "q \<le> j \<Longrightarrow> \<not> occurs_at PRIO6 (blank_prio s q) j"
proof (induction s q rule: blank_prio.induct)
  case (1 s q)
  show ?case
  proof (cases "strstr (drop q s) PRIO6")
    case None
    then have "\<not> occurs_at PRIO6 s (q + (j - q))"
      by (simp add: strstr_None_iff PRIO6_def occurs_at_drop [symmetric])
    with None "1.prems" show ?thesis
      by (simp add: blank_prio.simps [of s q])
  next
    case (Some k)
    have bound: "q + k + 3 \<le> length s"
      using strstr_bound [OF Some] by (auto simp: PRIO6_def)
    have eq: "blank_prio s q = blank_prio (blank3 s (q + k)) (q + k)"
      by (simp add: blank_prio.simps [of s q] Some)
    show ?thesis
    proof (cases "q + k \<le> j")
      case True
      with "1.IH" [OF Some] eq show ?thesis by simp
    next
      case False
      then have "\<not> occurs_at PRIO6 s (q + (j - q))"
        using strstr_SomeD [OF Some, THEN conjunct2, rule_format, of "j - q"] "1.prems"
        by (simp add: occurs_at_drop)
      with blank_prio_before [OF bound] False "1.prems" eq show ?thesis by auto
    qed
  qed
qed

lemma status_text_clean:
  assumes "\<exists>j. occurs_at START_STATUS s j"
  shows "\<not> occurs_at PRIO6 (status_text s) i"
proof -
  obtain found p0 where fs: "find_status s 0 False = (found, p0)"
    by (cases "find_status s 0 False")
  from find_status_spec [OF fs] assms have found
    by (auto split: if_splits)
  then have "status_text s = drop (back_to_lt s p0) (blank_prio s (back_to_lt s p0))"
    by (simp add: status_text_def fs Let_def)
  then show ?thesis
    by (simp add: occurs_at_drop blank_prio_clean)
qed

lemma status_text_start:
  assumes "occurs_at START_STATUS s q" and "\<forall>j > q. \<not> occurs_at START_STATUS s j"
  shows "status_text s = drop (back_to_lt s (Suc q)) (blank_prio s (back_to_lt s (Suc q)))"
proof -
  obtain found p0 where fs: "find_status s 0 False = (found, p0)"
    by (cases "find_status s 0 False")
  note spec = find_status_spec [OF fs]
  have "p0 \<noteq> 0"
    using spec assms(1) by auto
  with spec have found and occ: "occurs_at START_STATUS s (p0 - 1)"
    and after: "\<forall>j \<ge> p0. \<not> occurs_at START_STATUS s j"
    by auto
  have "q < p0"
    using after assms(1) by (meson not_le)
  moreover have "\<not> q < p0 - 1"
    using occ assms(2) by blast
  ultimately have "p0 = Suc q"
    by simp
  with fs \<open>found\<close> show ?thesis
    by (simp add: status_text_def Let_def)
qed

lemma status_text_cut:
  assumes "occurs_at START_STATUS s q" and "\<forall>j > q. \<not> occurs_at START_STATUS s j"
  shows "\<exists>p \<le> q. (p = 0 \<or> s ! p = CHR ''<'') \<and> (\<forall>j. p < j \<and> j \<le> q \<longrightarrow> s ! j \<noteq> CHR ''<'')
    \<and> length (status_text s) + p = length s
    \<and> (\<forall>i < length (status_text s). status_text s ! i = (if in_prio s p (p + i) then CHR '' '' else s ! (p + i)))
    \<and> (\<forall>i. \<not> occurs_at PRIO6 (status_text s) i)"
proof -
  let ?p = "back_to_lt s (Suc q)"
  have cut: "status_text s = drop ?p (blank_prio s ?p)"
    by (rule status_text_start [OF assms])
  have eq: "take 12 (drop q s) = START_STATUS"
    using assms(1) by (simp add: occurs_at_def START_STATUS_def numeral_eq_Suc)
  have "length (take 12 (drop q s)) = 12"
    unfolding eq by (simp add: START_STATUS_def)
  then have len: "q + 12 \<le> length s" by simp
  then have "s ! Suc q = take 12 (drop q s) ! 1" by simp
  then have "s ! Suc q \<noteq> CHR ''<''"
    unfolding eq by (simp add: START_STATUS_def)
  with back_to_lt_spec [of s "Suc q"] have p: "?p \<le> q" "?p = 0 \<or> s ! ?p = CHR ''<''"
      "\<forall>j. ?p < j \<and> j \<le> q \<longrightarrow> s ! j \<noteq> CHR ''<''"
    by (auto simp: le_Suc_eq)
  moreover have "length (status_text s) + ?p = length s"
    using cut p(1) len blank_prio_nth [of s ?p] by simp
  moreover from this have "status_text s ! i = (if in_prio s ?p (?p + i) then CHR '' '' else s ! (?p + i))"
    if "i < length (status_text s)" for i
    using that blank_prio_exact [of "?p + i" s ?p] blank_prio_nth [of s ?p] unfolding cut by simp
  moreover have "\<not> occurs_at PRIO6 (status_text s) i" for i
    using assms(1) by (intro status_text_clean) blast
  ultimately show ?thesis
    by blast
qed

lemma status_text_none:
  assumes "\<forall>j. \<not> occurs_at START_STATUS s j"
  shows "status_text s = s"
proof -
  have "strstr (drop 0 s) START_STATUS = None"
    using assms by (subst strstr_None_iff) (simp_all add: START_STATUS_def)
  then show ?thesis
    by (simp add: status_text_def find_status.simps [of s 0 False])
qed

section \<open>Properties\<close>

text \<open>
  C23. After \<open>fix_edid_checksum\<close> every block in range sums to zero modulo 256, no byte other than
  the checksum bytes of those blocks has changed, and repairing a second time changes nothing.
\<close>

theorem fix_edid_checksum_correct:
  assumes "sz \<le> length e"
  shows "(\<forall>b < sz div 128. block_valid (fix_edid_checksum e sz) b)
    \<and> (\<forall>j < length e. j mod 128 \<noteq> 127 \<or> sz div 128 \<le> j div 128 \<longrightarrow> fix_edid_checksum e sz ! j = e ! j)
    \<and> fix_edid_checksum (fix_edid_checksum e sz) sz = fix_edid_checksum e sz"
  using assms fix_edid_checksum_valid fix_edid_checksum_idem
  by (auto simp: fix_edid_checksum_nth)

theorem fix_edid_checksum_correct_witness:
  "block_valid (fix_edid_checksum (replicate 256 7) 256) 1
   \<and> fix_edid_checksum (replicate 256 7) 256 ! 128 = 7"
  using fix_edid_checksum_correct [of 256 "replicate 256 7"] by simp

text \<open>
  C9. A call of \<open>set_edid\<close> with a legal size either fails with -1, or it has opened the sub-device,
  handed the driver exactly the requested number of blocks with valid checksums, closed the device
  and returned 0.
\<close>

theorem set_edid_effect:
  assumes sz: "sz = 0 \<or> sz = 128 \<or> sz = 256" and len: "length buf = 256"
    and run: "run_state (set_edid E (Some buf) sz) s = ((ret, buf'), s')"
  shows "ret = -1 \<or>
     ret = 0 \<and> (\<exists>fd data r w c.
       trace s' = trace s @ [(E_open V4L_SUBDEV, r), (E_S_EDID fd 0 (of_nat (sz div 128)) data, w),
                             (E_close fd, c)]
       \<and> 0 \<le> fd \<and> a_ret r = fd \<and> 0 \<le> a_ret w \<and> length data = sz \<and> (\<forall>b < sz div 128. block_valid data b)
       \<and> data = take sz (fix_edid_checksum buf sz))"
proof -
  let ?data = "take sz (fix_edid_checksum buf sz)"
  have valid: "block_valid ?data b" if "b < sz div 128" for b
  proof -
    from that sz have "b * 128 + 128 \<le> sz" by auto
    then have "take 128 (drop (b * 128) ?data) = take 128 (drop (b * 128) (fix_edid_checksum buf sz))"
      by (simp add: take_drop min_def)
    with fix_edid_checksum_valid [OF that, of buf] sz len show ?thesis
      by (auto simp: block_valid_def)
  qed
  have zero: "(if 0 < sz then fix_edid_checksum buf sz else buf) = fix_edid_checksum buf sz"
    by (simp add: fix_edid_checksum_def)
  have "length ?data = sz"
    using sz len by auto
  with run sz valid show ?thesis
    by (auto simp: set_edid_def run_simps Let_def zero not_less split: if_splits)
qed

definition ok_env :: edid_env where
  "ok_env h c = \<lparr>a_ret = (case c of E_open _ \<Rightarrow> 3 | E_klogctl _ \<Rightarrow> 12 | E_strdup _ \<Rightarrow> 1 | _ \<Rightarrow> 0), a_errno = 0,
     a_blocks = 2, a_data = replicate 256 1, a_text = ''START STATUS''\<rparr>"

theorem set_edid_effect_witness:
  "\<exists>fd data r w c.
     trace (snd (run_state (set_edid ok_env (Some (replicate 256 9)) 128) \<lparr>trace = [], e_errno = 0\<rparr>))
       = [(E_open V4L_SUBDEV, r), (E_S_EDID fd 0 1 data, w), (E_close fd, c)]
     \<and> length data = 128 \<and> block_valid data 0"
proof -
  let ?s = "\<lparr>trace = [], e_errno = 0\<rparr> :: edid_state"
  obtain ret buf' s' where run: "run_state (set_edid ok_env (Some (replicate 256 9)) 128) ?s = ((ret, buf'), s')"
    by (metis surj_pair)
  then have "ret = 0"
    by (auto simp: set_edid_def run_simps Let_def ok_env_def)
  with set_edid_effect [of 128 "replicate 256 9", OF _ _ run] run show ?thesis
    by auto
qed

text \<open>
  Error paths of the EDID calls: a missing buffer or a size other than the legal ones makes
  both calls return -1 with \<open>errno\<close> set to EINVAL, without a single call to the kernel and
  without touching the buffer.
\<close>

lemma edid_invalid_arguments:
  assumes "edid = None \<or> (sz \<noteq> 128 \<and> sz \<noteq> 256)"
  shows "run_state (get_edid E edid sz) s = ((-1, edid), s\<lparr>e_errno := EINVAL\<rparr>)
    \<and> (edid = None \<or> sz \<noteq> 0 \<longrightarrow>
        run_state (set_edid E edid sz) s = ((-1, edid), s\<lparr>e_errno := EINVAL\<rparr>))"
  using assms by (cases edid) (auto simp: get_edid_def set_edid_def run_simps)

text \<open>
  C34. Descriptors: whatever the kernel answers, no sequence of EDID reads, writes and status
  queries leaks or double-closes a descriptor.
\<close>

theorem edid_sessions_leak_free:
  "edid_fds (run_ops (edid_step E) ops s) = edid_fds s"
  by (rule edid_session.session_balanced)

text \<open>A driver that delivers as many blocks as it is asked for.\<close>

definition two_blocks_env :: edid_env where
  "two_blocks_env h c = \<lparr>a_ret = 0, a_errno = 0, a_blocks = 2,
     a_data = (case c of E_G_EDID _ _ n \<Rightarrow> replicate (128 * unat n) 7 | _ \<Rightarrow> []), a_text = []\<rparr>"

lemma get_edid_128_overflows:
  "case run_state (get_edid two_blocks_env (Some (replicate 128 0)) 128) \<lparr>trace = [], e_errno = 0\<rparr> of
     ((ret, buf), s) \<Rightarrow> ret = 256 \<and> map_option length buf = Some 256"
  by (simp add: get_edid_def run_simps Let_def write_out_def two_blocks_env_def)

text \<open>
  C35. \<open>get_edid\<close> into the 256-byte buffer of its only caller stays inside it when the driver
  writes at most the two requested blocks, and returns -1 or 128 times the reported block count;
  it also accepts a buffer of 128 bytes, and a driver that delivers what it is asked for writes 128 bytes
  past the end of that one.
\<close>

theorem get_edid_in_bounds:
  assumes drv: "\<And>h fd. length (a_data (E h (E_G_EDID fd 0 2))) \<le> 256"
    and run: "run_state (get_edid E (Some buf) 256) s = ((ret, buf'), s')" and len: "length buf = 256"
  shows "(\<exists>b. buf' = Some b \<and> length b = 256) \<and>
    (ret = -1 \<or> (\<exists>g fd. (E_G_EDID fd 0 2, g) \<in> set (trace s') \<and> 0 \<le> a_ret g \<and> ret = sint (a_blocks g * 128)
                  \<and> buf' = Some (a_data g @ drop (length (a_data g)) buf))) \<and>
    (case run_state (get_edid two_blocks_env (Some (replicate 128 0)) 128) \<lparr>trace = [], e_errno = 0\<rparr> of
       ((ret, buf), s) \<Rightarrow> ret = 256 \<and> map_option length buf = Some 256)"
proof -
  define r where "r = E (trace s) (E_open V4L_SUBDEV)"
  define g where "g = E (trace s @ [(E_open V4L_SUBDEV, r)]) (E_G_EDID (a_ret r) 0 2)"
  have run': "buf' = Some buf \<and> ret = -1 \<or>
      (E_G_EDID (a_ret r) 0 2, g) \<in> set (trace s') \<and> buf' = Some (a_data g @ drop (length (a_data g)) buf)
      \<and> ret = (if a_ret g < 0 then -1 else sint (a_blocks g * 128))"
    using run by (auto simp: get_edid_def run_simps Let_def write_out_def r_def g_def split: if_splits)
  moreover have "length (a_data g) \<le> 256"
    unfolding g_def by (rule drv)
  ultimately show ?thesis
    using len get_edid_128_overflows by (cases "a_ret g < 0") (auto simp: not_less)
qed

theorem get_edid_in_bounds_witness:
  "\<exists>b. snd (fst (run_state (get_edid ok_env (Some (replicate 256 0)) 256) \<lparr>trace = [], e_errno = 0\<rparr>)) = Some b
     \<and> length b = 256"
proof -
  let ?s = "\<lparr>trace = [], e_errno = 0\<rparr> :: edid_state"
  obtain ret buf' s' where run: "run_state (get_edid ok_env (Some (replicate 256 0)) 256) ?s = ((ret, buf'), s')"
    by (metis surj_pair)
  have "\<And>h fd. length (a_data (ok_env h (E_G_EDID fd 0 2))) \<le> 256"
    by (simp add: ok_env_def)
  from get_edid_in_bounds [OF this run] run show ?thesis
    by simp
qed

text \<open>
  C36. The status text: when the kernel log contains START STATUS markers, the text is the rest of the log from the start of the line
  of the last marker, that is from the nearest \<open><\<close> before it, or from the start of the log when there is none; every
  character is that of the log, except that the priority prefixes \<open><6>\<close> of the text are replaced by three blanks, so
  that it contains none any more. When the log has no marker the text is the whole log.
\<close>

theorem log_status_text:
  assumes run: "run_state (videoc_log_status E) s = (Some t, s')"
  shows "\<exists>k log. (E_klogctl 40959, k) \<in> set (trace s') \<and> log = cstr (take (nat (a_ret k)) (a_text k))
    \<and> (\<forall>q. occurs_at ''START STATUS'' log q \<and> (\<forall>j > q. \<not> occurs_at ''START STATUS'' log j) \<longrightarrow>
          (\<exists>p \<le> q. (p = 0 \<or> log ! p = CHR ''<'') \<and> (\<forall>j. p < j \<and> j \<le> q \<longrightarrow> log ! j \<noteq> CHR ''<'')
            \<and> length t + p = length log
            \<and> (\<forall>i < length t. t ! i = (if \<exists>j \<ge> p. occurs_at ''<6>'' log j \<and> j \<le> p + i \<and> p + i < j + 3
                 then CHR '' '' else log ! (p + i)))
            \<and> (\<forall>i. \<not> occurs_at ''<6>'' t i)))
    \<and> ((\<forall>j. \<not> occurs_at ''START STATUS'' log j) \<longrightarrow> t = log)"
proof -
  from run obtain k where k: "(E_klogctl 40959, k) \<in> set (trace s')"
    and t: "t = status_text (cstr (take (nat (a_ret k)) (a_text k)))"
    by (fastforce simp: videoc_log_status_def Let_def simp del: run_state_bind
        elim!: edid_sysE split: if_splits)
  let ?log = "cstr (take (nat (a_ret k)) (a_text k))"
  have cut: "\<exists>p \<le> q. (p = 0 \<or> ?log ! p = CHR ''<'') \<and> (\<forall>j. p < j \<and> j \<le> q \<longrightarrow> ?log ! j \<noteq> CHR ''<'')
            \<and> length t + p = length ?log
            \<and> (\<forall>i < length t. t ! i = (if in_prio ?log p (p + i) then CHR '' '' else ?log ! (p + i)))
            \<and> (\<forall>i. \<not> occurs_at PRIO6 t i)"
    if "occurs_at START_STATUS ?log q" "\<forall>j > q. \<not> occurs_at START_STATUS ?log j" for q
    unfolding t by (rule status_text_cut [OF that])
  show ?thesis
    using k t cut status_text_none [of ?log] unfolding in_prio_def PRIO6_def START_STATUS_def
    by (intro exI [of _ k] exI [of _ ?log]) blast
qed

text \<open>A log with two lines, the second with the marker.\<close>

definition sample_log :: string where
  "sample_log = ''<6>a<6>START STATUS<6>b''"

definition log_env :: edid_env where
  "log_env h c = (ok_env h c)\<lparr>a_ret := (case c of E_klogctl n \<Rightarrow> 23 | _ \<Rightarrow> a_ret (ok_env h c)),
     a_text := sample_log\<rparr>"

lemma sample_log_marker:
  "occurs_at ''START STATUS'' sample_log 7 \<and> (\<forall>j > 7. \<not> occurs_at ''START STATUS'' sample_log j)"
proof -
  have "\<not> occurs_at ''START STATUS'' sample_log j" if "7 < j" for j
  proof (cases "j \<le> 11")
    case True
    with that have "j = 8 \<or> j = 9 \<or> j = 10 \<or> j = 11" by auto
    then show ?thesis
      by (auto simp: occurs_at_def sample_log_def)
  next
    case False
    then have "length (take 12 (drop j sample_log)) < 12"
      by (simp add: sample_log_def)
    then show ?thesis
      by (auto simp: occurs_at_def dest!: arg_cong [of _ _ length])
  qed
  then show ?thesis
    by (simp add: occurs_at_def sample_log_def)
qed

lemma sample_log_start:
  assumes "p \<le> 7" and "p = 0 \<or> sample_log ! p = CHR ''<''" and "\<forall>j. p < j \<and> j \<le> 7 \<longrightarrow> sample_log ! j \<noteq> CHR ''<''"
  shows "p = 4"
proof -
  have "p \<in> {0, 1, 2, 3, 4, 5, 6, 7}"
    using assms(1) by auto
  then show ?thesis
    using assms(2) assms(3) [rule_format, of 4] by (auto simp: sample_log_def)
qed

lemma sample_log_prio: "occurs_at ''<6>'' sample_log j \<longleftrightarrow> j = 0 \<or> j = 4 \<or> j = 19"
proof (cases "j < 23")
  case True
  then have "j \<in> set [0..<23]" by simp
  then show ?thesis
    by (auto simp: upt_rec numeral_eq_Suc occurs_at_def sample_log_def)
qed (simp add: occurs_at_def sample_log_def)

theorem log_status_text_witness:
  "\<exists>t. fst (run_state (videoc_log_status log_env) \<lparr>trace = [], e_errno = 0\<rparr>) = Some t \<and>
     length t = 19 \<and> t ! 0 = CHR '' '' \<and> t ! 3 = CHR ''S'' \<and> t ! 18 = CHR ''b''"
proof -
  let ?s = "\<lparr>trace = [], e_errno = 0\<rparr> :: edid_state"
  obtain t s' where run: "run_state (videoc_log_status log_env) ?s = (Some t, s')"
    by (auto simp: videoc_log_status_def run_simps Let_def ok_env_def log_env_def)
  have ans: "a_ret k = 23 \<and> a_text k = sample_log" if "(E_klogctl 40959, k) \<in> set (trace s')" for k
    using run that
    by (auto simp: videoc_log_status_def run_simps Let_def ok_env_def log_env_def)
  have log: "cstr (take 23 sample_log) = sample_log" "length sample_log = 23"
    by (simp_all add: sample_log_def cstr_def NUL_def)
  obtain k l where k: "(E_klogctl 40959, k) \<in> set (trace s')" and l: "l = cstr (take (nat (a_ret k)) (a_text k))"
    and cut: "\<forall>q. occurs_at ''START STATUS'' l q \<and> (\<forall>j > q. \<not> occurs_at ''START STATUS'' l j) \<longrightarrow>
          (\<exists>p \<le> q. (p = 0 \<or> l ! p = CHR ''<'') \<and> (\<forall>j. p < j \<and> j \<le> q \<longrightarrow> l ! j \<noteq> CHR ''<'')
            \<and> length t + p = length l
            \<and> (\<forall>i < length t. t ! i = (if \<exists>j \<ge> p. occurs_at ''<6>'' l j \<and> j \<le> p + i \<and> p + i < j + 3
                 then CHR '' '' else l ! (p + i)))
            \<and> (\<forall>i. \<not> occurs_at ''<6>'' t i))"
    using log_status_text [OF run] by (elim exE conjE) (rule that)
  have "l = sample_log"
    using ans [OF k] log by (simp add: l)
  with cut [rule_format, of 7] sample_log_marker have "\<exists>p \<le> 7. (p = 0 \<or> sample_log ! p = CHR ''<'')
      \<and> (\<forall>j. p < j \<and> j \<le> 7 \<longrightarrow> sample_log ! j \<noteq> CHR ''<'') \<and> length t + p = 23
      \<and> (\<forall>i < length t. t ! i = (if \<exists>j \<ge> p. occurs_at ''<6>'' sample_log j \<and> j \<le> p + i \<and> p + i < j + 3
                 then CHR '' '' else sample_log ! (p + i)))"
    unfolding log(2) [symmetric] by blast
  then obtain p where p: "p \<le> 7" "p = 0 \<or> sample_log ! p = CHR ''<''"
      "\<forall>j. p < j \<and> j \<le> 7 \<longrightarrow> sample_log ! j \<noteq> CHR ''<''" "length t + p = 23"
    and nth: "\<forall>i < length t. t ! i = (if \<exists>j \<ge> p. occurs_at ''<6>'' sample_log j \<and> j \<le> p + i \<and> p + i < j + 3
                 then CHR '' '' else sample_log ! (p + i))"
    by blast
  have "p = 4"
    using sample_log_start [OF p(1-3)] .
  with p(4) have "length t = 19" by simp
  moreover have "t ! 0 = CHR '' ''" "t ! 3 = CHR ''S''" "t ! 18 = CHR ''b''"
    using nth [rule_format, of 0] nth [rule_format, of 3] nth [rule_format, of 18] \<open>length t = 19\<close> \<open>p = 4\<close> sample_log_prio
    by (auto simp: sample_log_def)
  ultimately show ?thesis
    using run by simp
qed

end
