(* ===== verification/Float_Model.thy ===== *)
theory Float_Model
  imports Complex_Main
begin

text \<open>
  The floating-point arithmetic the C sources use, on finite values: a \<open>float\<close> or \<open>double\<close> is
  the rational it denotes, and every operation is the exact operation followed by rounding to the
  nearest value with 24 or 53 significant bits, ties to even. The conversions to integers truncate
  and are undefined (\<open>None\<close>) out of range. Infinities, NaN and subnormal results do not occur in the
  ranges the sources use and are not modelled.
\<close>

section \<open>Rounding to a number of significant bits\<close>

fun nbits :: "nat \<Rightarrow> nat" where
  "nbits n = (if n = 0 then 0 else Suc (nbits (n div 2)))"

declare nbits.simps [simp del]

definition round_half_even :: "rat \<Rightarrow> int" where
  "round_half_even x =
     (let f = \<lfloor>x\<rfloor>; d = x - of_int f in
      if d < 1 / 2 then f else if d > 1 / 2 then f + 1 else if even f then f else f + 1)"

text \<open>The binary exponent of a positive rational: the \<open>e\<close> with \<open>2 ^ e \<le> x < 2 ^ (e + 1)\<close>.\<close>

definition expo :: "rat \<Rightarrow> int" where
  "expo x =
     (case quotient_of x of (n, d) \<Rightarrow>
        (let e = int (nbits (nat n)) - int (nbits (nat d)) in
         if (2 :: rat) powi e \<le> x then e else e - 1))"

definition ulp :: "nat \<Rightarrow> rat \<Rightarrow> rat" where
  "ulp p x = 2 powi (expo x - int p + 1)"

definition round_pos :: "nat \<Rightarrow> rat \<Rightarrow> rat" where
  "round_pos p x = of_int (round_half_even (x / ulp p x)) * ulp p x"

definition round_to :: "nat \<Rightarrow> rat \<Rightarrow> rat" where
  "round_to p x = (if x = 0 then 0 else if x > 0 then round_pos p x else - round_pos p (- x))"

abbreviation rnd32 :: "rat \<Rightarrow> rat" where "rnd32 \<equiv> round_to 24"
abbreviation rnd64 :: "rat \<Rightarrow> rat" where "rnd64 \<equiv> round_to 53"

section \<open>Conversions to integers\<close>

definition trunc :: "rat \<Rightarrow> int" where
  "trunc x = (if x \<ge> 0 then \<lfloor>x\<rfloor> else \<lceil>x\<rceil>)"

definition to_int32 :: "rat \<Rightarrow> int option" where
  "to_int32 x = (let n = trunc x in if - (2 ^ 31) \<le> n \<and> n < 2 ^ 31 then Some n else None)"

definition to_uint32 :: "rat \<Rightarrow> int option" where
  "to_uint32 x = (let n = trunc x in if 0 \<le> n \<and> n < 2 ^ 32 then Some n else None)"

section \<open>Facts\<close>

lemma nbits_bounds: "0 < n \<Longrightarrow> 2 ^ (nbits n - 1) \<le> n \<and> n < 2 ^ nbits n \<and> 0 < nbits n"
proof (induction n rule: nbits.induct)
  case (1 n)
  show ?case
  proof (cases "n div 2 = 0")
    case True
    with "1.prems" have "n = 1" by auto
    then show ?thesis by (simp add: nbits.simps)
  next
    case False
    with "1.IH" "1.prems" have IH: "2 ^ (nbits (n div 2) - 1) \<le> n div 2" "n div 2 < 2 ^ nbits (n div 2)"
      "0 < nbits (n div 2)"
      by auto
    then obtain k where k: "nbits (n div 2) = Suc k"
      by (cases "nbits (n div 2)") auto
    have "nbits n = Suc (Suc k)"
      using "1.prems" k by (subst nbits.simps) simp
    with IH k show ?thesis by auto
  qed
qed

lemma round_half_even_near: "\<bar>of_int (round_half_even x) - x\<bar> \<le> 1 / 2"
  unfolding round_half_even_def Let_def by (auto simp: abs_if field_simps) linarith+

lemma round_half_even_int [simp]: "round_half_even (of_int n) = n"
  by (simp add: round_half_even_def)

lemma round_half_even_mono: "x \<le> y \<Longrightarrow> round_half_even x \<le> round_half_even y"
proof -
  assume xy: "x \<le> y"
  then have fl: "\<lfloor>x\<rfloor> \<le> \<lfloor>y\<rfloor>" by (rule floor_mono)
  show ?thesis
  proof (cases "\<lfloor>x\<rfloor> = \<lfloor>y\<rfloor>")
    case True
    with xy show ?thesis
      by (auto simp: round_half_even_def Let_def)
  next
    case False
    with fl have "\<lfloor>x\<rfloor> + 1 \<le> \<lfloor>y\<rfloor>" by simp
    moreover have "round_half_even x \<le> \<lfloor>x\<rfloor> + 1" "\<lfloor>y\<rfloor> \<le> round_half_even y"
      by (auto simp: round_half_even_def Let_def)
    ultimately show ?thesis by linarith
  qed
qed

text \<open>A positive integer between the powers of two given by its length.\<close>

lemma nbits_rat_bounds:
  assumes "0 < n"
  shows "(2::rat) ^ (nbits (nat n) - 1) \<le> of_int n" "(of_int n :: rat) < 2 ^ nbits (nat n)" "0 < nbits (nat n)"
proof -
  note bounds = nbits_bounds [of "nat n"]
  have "(of_nat (2 ^ (nbits (nat n) - 1)) :: rat) \<le> of_nat (nat n)" "(of_nat (nat n) :: rat) < of_nat (2 ^ nbits (nat n))"
    using bounds assms by (simp_all only: of_nat_le_iff of_nat_less_iff)
  with assms show "(2::rat) ^ (nbits (nat n) - 1) \<le> of_int n" "(of_int n :: rat) < 2 ^ nbits (nat n)" by simp_all
  show "0 < nbits (nat n)"
    using bounds assms by simp
qed

lemma expo_bounds:
  assumes "0 < x"
  shows "2 powi expo x \<le> x \<and> x < 2 powi (expo x + 1)"
proof -
  obtain n d where nd: "quotient_of x = (n, d)" by (cases "quotient_of x")
  have d: "0 < d" using quotient_of_denom_pos [OF nd] .
  have x: "x = of_int n / of_int d" using quotient_of_div [OF nd] .
  with assms d have n: "0 < n"
    by (simp add: zero_less_divide_iff)
  define a where "a = nbits (nat n)"
  define b where "b = nbits (nat d)"
  note a' = nbits_rat_bounds [OF n, folded a_def]
  note b' = nbits_rat_bounds [OF d, folded b_def]
  let ?e = "int a - int b"
  have up: "x < 2 powi (?e + 1)"
  proof -
    have "x \<le> of_int n / 2 ^ (b - 1)"
      using b' n d by (simp add: x frac_le)
    also have "\<dots> < 2 ^ a / 2 ^ (b - 1)"
      using a' by (simp add: divide_strict_right_mono)
    also have "\<dots> = 2 powi (int a - int (b - 1))"
      by (simp add: power_int_diff)
    also have "int a - int (b - 1) = ?e + 1"
      using b'(3) by simp
    finally show ?thesis .
  qed
  have lo: "2 powi (?e - 1) \<le> x"
  proof -
    have "(2::rat) powi (?e - 1) = 2 powi (int (a - 1) - int b)"
      using a'(3) by (simp add: algebra_simps)
    also have "\<dots> = 2 ^ (a - 1) / 2 ^ b"
      by (simp add: power_int_diff)
    also have "\<dots> \<le> of_int n / 2 ^ b"
      using a' by (simp add: divide_right_mono)
    also have "\<dots> \<le> x"
      using b' n d by (simp add: x frac_le)
    finally show ?thesis .
  qed
  show ?thesis
    using up lo by (auto simp: expo_def nd Let_def a_def [symmetric] b_def [symmetric])
qed

lemma expo_mono: "0 < x \<Longrightarrow> x \<le> y \<Longrightarrow> expo x \<le> expo y"
proof (rule ccontr)
  assume x: "0 < x" and xy: "x \<le> y" and "\<not> expo x \<le> expo y"
  then have "(2::rat) powi (expo y + 1) \<le> 2 powi expo x"
    by (intro power_int_increasing) auto
  with expo_bounds [OF x] expo_bounds [of y] x xy show False
    by linarith
qed

lemma ulp_pos [simp]: "0 < ulp p x"
  by (simp add: ulp_def)

lemma powi_ulp: "2 powi (expo x + int k) = 2 powi (int k + int p - 1) * ulp p x"
  by (simp add: ulp_def power_int_add [symmetric] algebra_simps)

lemma round_pos_bounds:
  assumes "0 < x" and "0 < p"
  shows "2 powi expo x \<le> round_pos p x \<and> round_pos p x \<le> 2 powi (expo x + 1)"
proof -
  obtain q where q: "p = Suc q" using \<open>0 < p\<close> by (cases p) auto
  have lo: "(2::rat) powi expo x = of_int (2 ^ q) * ulp p x"
    using powi_ulp [of x 0 p] by (simp add: q)
  have hi: "(2::rat) powi (expo x + 1) = of_int (2 ^ Suc q) * ulp p x"
    using powi_ulp [of x 1 p] by (simp add: q power_int_add)
  have "of_int (2 ^ q) \<le> x / ulp p x" "x / ulp p x \<le> of_int (2 ^ Suc q)"
    using expo_bounds [OF assms(1)] unfolding lo hi by (simp_all add: pos_le_divide_eq pos_divide_le_eq)
  then have "2 ^ q \<le> round_half_even (x / ulp p x)" "round_half_even (x / ulp p x) \<le> 2 ^ Suc q"
    using round_half_even_mono round_half_even_int by metis+
  then have "(of_int (2 ^ q) :: rat) \<le> of_int (round_half_even (x / ulp p x))"
    "(of_int (round_half_even (x / ulp p x)) :: rat) \<le> of_int (2 ^ Suc q)"
    by (simp_all only: of_int_le_iff)
  then show ?thesis
    unfolding lo hi round_pos_def by (intro conjI mult_right_mono) (simp_all add: less_imp_le)
qed

lemma round_pos_mono:
  assumes "0 < x" and "x \<le> y" and "0 < p"
  shows "round_pos p x \<le> round_pos p y"
proof (cases "expo x = expo y")
  case True
  then have u: "ulp p x = ulp p y" by (simp add: ulp_def)
  have "x / ulp p y \<le> y / ulp p y"
    using assms(2) by (simp add: divide_right_mono less_imp_le)
  then have "round_half_even (x / ulp p y) \<le> round_half_even (y / ulp p y)"
    by (rule round_half_even_mono)
  then show ?thesis
    unfolding round_pos_def u by (simp add: mult_right_mono less_imp_le)
next
  case False
  with expo_mono [OF assms(1,2)] have "(2::rat) powi (expo x + 1) \<le> 2 powi expo y"
    by (intro power_int_increasing) auto
  with round_pos_bounds [OF assms(1,3)] round_pos_bounds [of y p] assms show ?thesis
    by linarith
qed

lemma round_pos_nonneg: "0 < x \<Longrightarrow> 0 < p \<Longrightarrow> 0 < round_pos p x"
  using round_pos_bounds [of x p] by (meson less_le_trans zero_less_numeral zero_less_power_int)

lemma round_pos_int:
  assumes "0 < n" and "n \<le> 2 ^ p" and "0 < p"
  shows "round_pos p (of_int n) = of_int n"
proof -
  let ?x = "of_int n :: rat"
  have x: "0 < ?x" using assms by simp
  have xp: "?x \<le> 2 powi int p"
    using assms(2) by (metis of_int_le_iff of_int_numeral of_int_power power_int_of_nat)
  have "\<exists>m. ?x / ulp p ?x = of_int m"
  proof (cases "expo ?x < int p")
    case True
    then obtain k where k: "int p - 1 - expo ?x = int k"
      by (metis diff_ge_0_iff_ge zle_diff1_eq zero_le_imp_eq_int diff_right_commute)
    have "1 / ulp p ?x = 2 powi (int p - 1 - expo ?x)"
      by (simp add: ulp_def power_int_minus [symmetric] divide_inverse algebra_simps)
    then have "?x / ulp p ?x = of_int (n * 2 ^ k)"
      by (simp add: k divide_inverse)
    then show ?thesis by blast
  next
    case False
    then have "(2::rat) powi int p \<le> 2 powi expo ?x"
      by (intro power_int_increasing) auto
    with expo_bounds [OF x] xp have eq: "?x = 2 powi expo ?x" by linarith
    have "2 powi expo ?x = 2 powi (int p - 1) * ulp p ?x"
      using powi_ulp [of ?x 0 p] by simp
    then have "2 powi expo ?x / ulp p ?x = 2 powi (int p - 1)"
      by (simp add: ulp_def)
    with eq have "?x / ulp p ?x = 2 powi (int p - 1)"
      by simp
    also have "\<dots> = of_int (2 ^ (p - 1))"
      using assms(3) by (simp add: of_nat_diff [symmetric] del: of_nat_diff) (metis One_nat_def Suc_leI of_nat_1 of_nat_diff power_int_of_nat)
    finally show ?thesis by blast
  qed
  then obtain m where m: "?x / ulp p ?x = of_int m" ..
  then show ?thesis
    by (simp add: round_pos_def) (metis ulp_pos less_irrefl nonzero_divide_eq_eq)
qed

section \<open>The interface of a rounding mode\<close>

text \<open>
  What the clients use of rounding: it is monotone and leaves the integers of up to \<open>prec\<close> bits
  alone, so a value between two such integers stays between them.
\<close>

locale rounding =
  fixes rnd :: "rat \<Rightarrow> rat" and prec :: nat
  assumes rnd_mono: "x \<le> y \<Longrightarrow> rnd x \<le> rnd y"
    and rnd_int: "\<bar>n\<bar> \<le> 2 ^ prec \<Longrightarrow> rnd (of_int n) = of_int n"
begin

lemma rnd_ge: "of_int n \<le> x \<Longrightarrow> \<bar>n\<bar> \<le> 2 ^ prec \<Longrightarrow> of_int n \<le> rnd x"
  using rnd_mono rnd_int by metis

lemma rnd_le: "x \<le> of_int n \<Longrightarrow> \<bar>n\<bar> \<le> 2 ^ prec \<Longrightarrow> rnd x \<le> of_int n"
  using rnd_mono rnd_int by metis

lemma rnd_nonneg: "0 \<le> x \<Longrightarrow> 0 \<le> rnd x"
  using rnd_ge [of 0 x] by simp

end

lemma round_to_mono: "0 < p \<Longrightarrow> x \<le> y \<Longrightarrow> round_to p x \<le> round_to p y"
  using round_pos_mono [of x y p] round_pos_mono [of "- y" "- x" p] round_pos_nonneg [of y p]
    round_pos_nonneg [of "- x" p]
  by (auto simp: round_to_def)

lemma round_to_int: "0 < p \<Longrightarrow> \<bar>n\<bar> \<le> 2 ^ p \<Longrightarrow> round_to p (of_int n) = of_int n"
  using round_pos_int [of n p] round_pos_int [of "- n" p] by (auto simp: round_to_def)

interpretation f32: rounding rnd32 24
  by unfold_locales (simp_all add: round_to_mono round_to_int)

interpretation f64: rounding rnd64 53
  by unfold_locales (simp_all add: round_to_mono round_to_int)

lemma trunc_mono: "x \<le> y \<Longrightarrow> trunc x \<le> trunc y"
  by (auto simp: trunc_def intro: floor_mono ceiling_mono)
    (metis ceiling_le_zero floor_less_zero less_imp_le not_le order_trans zero_le_floor)

lemma trunc_of_int [simp]: "trunc (of_int n) = n"
  by (simp add: trunc_def)

lemma trunc_bounds: "of_int a \<le> x \<Longrightarrow> x \<le> of_int b \<Longrightarrow> a \<le> trunc x \<and> trunc x \<le> b"
  using trunc_mono [of "of_int a" x] trunc_mono [of x "of_int b"] by simp

lemma to_int32_Some:
  "of_int a \<le> x \<Longrightarrow> x \<le> of_int b \<Longrightarrow> - (2 ^ 31) \<le> a \<Longrightarrow> b < 2 ^ 31 \<Longrightarrow>
   to_int32 x = Some (trunc x) \<and> a \<le> trunc x \<and> trunc x \<le> b"
  using trunc_bounds [of a x b] by (simp add: to_int32_def Let_def)

section \<open>Halves and quarters\<close>

text \<open>Rounding commutes with halving, so quarters of small integers are exact as well.\<close>

lemma expo_unique:
  assumes "0 < x" and "2 powi e \<le> x" and "x < 2 powi (e + 1)"
  shows "expo x = e"
proof -
  have lt: "(2::rat) powi a < 2 powi b \<Longrightarrow> a < b" for a b :: int
    by (metis not_le one_le_numeral power_int_increasing)
  have "(2::rat) powi expo x < 2 powi (e + 1)" and "(2::rat) powi e < 2 powi (expo x + 1)"
    using expo_bounds [OF assms(1)] assms(2,3) by linarith+
  from lt [OF this(1)] lt [OF this(2)] show ?thesis by linarith
qed

lemma expo_half: "0 < x \<Longrightarrow> expo (x / 2) = expo x - 1"
proof (rule expo_unique)
  assume x: "0 < x"
  have "(2::rat) powi (expo x - 1) * 2 = 2 powi expo x"
    by (simp add: power_int_diff)
  moreover have "(2::rat) powi (expo x + 1) = 2 powi expo x * 2"
    by (simp add: power_int_add)
  ultimately show "2 powi (expo x - 1) \<le> x / 2" and "x / 2 < 2 powi (expo x - 1 + 1)"
    using expo_bounds [OF x] by simp_all
qed simp

lemma round_to_half: "round_to p (x / 2) = round_to p x / 2"
proof -
  have "round_pos p (y / 2) = round_pos p y / 2" if "0 < y" for y
  proof -
    have half: "ulp p (y / 2) = ulp p y / 2"
      unfolding ulp_def expo_half [OF that]
      by (simp add: power_int_add power_int_diff)
    show ?thesis
      unfolding round_pos_def half by simp
  qed
  from this [of x] this [of "- x"] show ?thesis
    by (simp add: round_to_def)
qed

lemma rnd64_quarter: "\<bar>n\<bar> \<le> 2 ^ 53 \<Longrightarrow> rnd64 (of_int n / 4) = of_int n / 4"
  using round_to_half [of 53 "of_int n"] round_to_half [of 53 "of_int n / 2"] f64.rnd_int [of n]
  by simp

lemma rnd64_between_quarters:
  assumes "of_int a / 4 \<le> x" and "x \<le> of_int b / 4" and "\<bar>a\<bar> \<le> 2 ^ 53" and "\<bar>b\<bar> \<le> 2 ^ 53"
  shows "of_int a / 4 \<le> rnd64 x" and "rnd64 x \<le> of_int b / 4"
  using f64.rnd_mono [OF assms(1)] f64.rnd_mono [OF assms(2)] assms(3,4) by (simp_all add: rnd64_quarter)

end
