(* ===== verification/Venc_Config.thy ===== *)
theory Venc_Config
  imports Native_Prelude Float_Model
begin

text \<open>
  The pure part of \<open>video.c\<close>: alignment, the bitrate of a stream, and the format, colour and
  encoder attributes derived from the detected resolution. 32-bit values are words, so every
  wrap-around of the C arithmetic is a wrap-around of the model.
\<close>

unbundle bit_operations_syntax

section \<open>Alignment\<close>

definition RK_ALIGN :: "u32 \<Rightarrow> u32 \<Rightarrow> u32" where
  "RK_ALIGN x a = (x + a - 1) AND NOT (a - 1)"

definition RK_ALIGN_2 :: "u32 \<Rightarrow> u32" where "RK_ALIGN_2 x = RK_ALIGN x 2"
definition RK_ALIGN_16 :: "u32 \<Rightarrow> u32" where "RK_ALIGN_16 x = RK_ALIGN x 16"
definition RK_ALIGN_32 :: "u32 \<Rightarrow> u32" where "RK_ALIGN_32 x = RK_ALIGN x 32"

section \<open>Bitrate\<close>

text \<open>\<open>None\<close> is undefined behaviour of the C code: a conversion or an addition out of range.\<close>

definition add_int32 :: "int \<Rightarrow> int \<Rightarrow> int option" where
  "add_int32 a b = (if - (2 ^ 31) \<le> a + b \<and> a + b < 2 ^ 31 then Some (a + b) else None)"

definition calculate_bitrate :: "rat \<Rightarrow> int \<Rightarrow> int \<Rightarrow> int option" where
  "calculate_bitrate bitrate_factor width height = do {
     let base_bitrate_high = 4000;
     let base_bitrate_low = 512;
     let pixels = rnd64 (of_int width * of_int height);
     let ref_pixels = rnd64 (1920 * 1080);
     let scale_factor = rnd64 (pixels / ref_pixels);
     extra \<leftarrow> to_int32 (rnd32 (of_int (base_bitrate_high - base_bitrate_low) * bitrate_factor));
     base_bitrate \<leftarrow> add_int32 base_bitrate_low extra;
     bitrate \<leftarrow> to_int32 (rnd64 (of_int base_bitrate * scale_factor));
     let min_bitrate = 200;
     Some (if bitrate < min_bitrate then min_bitrate else bitrate)
   }"

section \<open>Colour\<close>

definition is_hd_video :: "u32 \<Rightarrow> bool" where
  "is_hd_video height \<longleftrightarrow> height > 576"

datatype color_gamut = COLOR_GAMUT_BT601 | COLOR_GAMUT_BT709

definition color_gamut_for_height :: "u32 \<Rightarrow> color_gamut" where
  "color_gamut_for_height height = (if is_hd_video height then COLOR_GAMUT_BT709 else COLOR_GAMUT_BT601)"

datatype colorspace = V4L2_COLORSPACE_DEFAULT | V4L2_COLORSPACE_SMPTE170M | V4L2_COLORSPACE_REC709
datatype ycbcr_encoding = V4L2_YCBCR_ENC_DEFAULT | V4L2_YCBCR_ENC_601 | V4L2_YCBCR_ENC_709
datatype quantization = V4L2_QUANTIZATION_DEFAULT | V4L2_QUANTIZATION_LIM_RANGE
datatype xfer_func = V4L2_XFER_FUNC_DEFAULT | V4L2_XFER_FUNC_709
datatype v4l2_field = V4L2_FIELD_ANY
datatype pixelformat = V4L2_PIX_FMT_NONE | V4L2_PIX_FMT_YUYV

record pix_format =
  pf_width :: u32
  pf_height :: u32
  pf_pixelformat :: pixelformat
  pf_field :: v4l2_field
  pf_colorspace :: colorspace
  pf_ycbcr_enc :: ycbcr_encoding
  pf_quantization :: quantization
  pf_xfer_func :: xfer_func

definition zero_pix_format :: pix_format where
  "zero_pix_format = \<lparr>pf_width = 0, pf_height = 0, pf_pixelformat = V4L2_PIX_FMT_NONE,
     pf_field = V4L2_FIELD_ANY, pf_colorspace = V4L2_COLORSPACE_DEFAULT, pf_ycbcr_enc = V4L2_YCBCR_ENC_DEFAULT,
     pf_quantization = V4L2_QUANTIZATION_DEFAULT, pf_xfer_func = V4L2_XFER_FUNC_DEFAULT\<rparr>"

definition set_v4l2_yuv_colorimetry :: "pix_format \<Rightarrow> u32 \<Rightarrow> pix_format" where
  "set_v4l2_yuv_colorimetry pix height =
     (let pix' = (if is_hd_video height
                  then pix\<lparr>pf_colorspace := V4L2_COLORSPACE_REC709, pf_ycbcr_enc := V4L2_YCBCR_ENC_709\<rparr>
                  else pix\<lparr>pf_colorspace := V4L2_COLORSPACE_SMPTE170M, pf_ycbcr_enc := V4L2_YCBCR_ENC_601\<rparr>)
      in pix'\<lparr>pf_quantization := V4L2_QUANTIZATION_LIM_RANGE, pf_xfer_func := V4L2_XFER_FUNC_709\<rparr>)"

record vui_video_signal =
  video_signal_type_present_flag :: u8
  video_format :: u8
  video_full_range_flag :: u8
  colour_description_present_flag :: u8
  colour_primaries :: u8
  transfer_characteristics :: u8
  matrix_coefficients :: u8

text \<open>The signal is cleared first, so the result does not depend on what the library returned.\<close>

definition zero_vui :: vui_video_signal where
  "zero_vui = \<lparr>video_signal_type_present_flag = 0, video_format = 0, video_full_range_flag = 0,
     colour_description_present_flag = 0, colour_primaries = 0, transfer_characteristics = 0,
     matrix_coefficients = 0\<rparr>"

definition configure_vui_video_signal :: "vui_video_signal \<Rightarrow> u32 \<Rightarrow> vui_video_signal" where
  "configure_vui_video_signal video_signal height =
     (let v = zero_vui\<lparr>video_signal_type_present_flag := 1, video_format := 5, video_full_range_flag := 0,
                       colour_description_present_flag := 1\<rparr>
      in if is_hd_video height
         then v\<lparr>colour_primaries := 1, transfer_characteristics := 1, matrix_coefficients := 1\<rparr>
         else v\<lparr>colour_primaries := 6, transfer_characteristics := 6, matrix_coefficients := 6\<rparr>)"

section \<open>Encoder attributes\<close>

record vbr_attr =
  u32BitRate :: u32
  u32MaxBitRate :: u32
  u32MinBitRate :: u32
  u32Gop :: u32
  u32StatTime :: u32
  u32SrcFrameRateNum :: u32
  u32SrcFrameRateDen :: u32
  fr32DstFrameRateNum :: u32
  fr32DstFrameRateDen :: u32

datatype rc_attr = H264Vbr vbr_attr | H265Vbr vbr_attr
datatype venc_type = RK_VIDEO_ID_AVC | RK_VIDEO_ID_HEVC
datatype rk_pixel_format = RK_FMT_YUV422_YUYV
datatype rk_mirror = MIRROR_NONE
datatype venc_profile = H264E_PROFILE_HIGH | H265E_PROFILE_MAIN

record venc_attr =
  stRcAttr :: rc_attr
  enType :: venc_type
  u32Profile :: venc_profile
  enPixelFormat :: rk_pixel_format
  u32PicWidth :: u32
  u32PicHeight :: u32
  u32VirWidth :: u32
  u32VirHeight :: u32
  u32StreamBufCnt :: u32
  u32BufSize :: u32
  enMirror :: rk_mirror

definition populate_venc_attr :: "int \<Rightarrow> u32 \<Rightarrow> u32 \<Rightarrow> u32 \<Rightarrow> u32 \<Rightarrow> u32 \<Rightarrow> venc_attr" where
  "populate_venc_attr codec_type bitrate max_bitrate width height fps =
     (let min_bitrate = bitrate div 2;
          min_bitrate = (if min_bitrate < 2 then 2 else min_bitrate);
          gop = (if fps > 0 then fps div 2 else 30);
          gop = (if gop < 1 then 1 else gop);
          vbr = \<lparr>u32BitRate = bitrate, u32MaxBitRate = max_bitrate, u32MinBitRate = min_bitrate,
                 u32Gop = gop, u32StatTime = 2, u32SrcFrameRateNum = fps, u32SrcFrameRateDen = 1,
                 fr32DstFrameRateNum = fps, fr32DstFrameRateDen = 1\<rparr>
      in \<lparr>stRcAttr = (if codec_type = 1 then H265Vbr vbr else H264Vbr vbr),
          enType = (if codec_type = 1 then RK_VIDEO_ID_HEVC else RK_VIDEO_ID_AVC),
          u32Profile = (if codec_type = 1 then H265E_PROFILE_MAIN else H264E_PROFILE_HIGH),
          enPixelFormat = RK_FMT_YUV422_YUYV, u32PicWidth = width, u32PicHeight = height,
          u32VirWidth = RK_ALIGN_16 width, u32VirHeight = RK_ALIGN_16 height,
          u32StreamBufCnt = 3, u32BufSize = width * height * 3 div 2, enMirror = MIRROR_NONE\<rparr>)"

fun vbr_of :: "rc_attr \<Rightarrow> vbr_attr" where
  "vbr_of (H264Vbr v) = v"
| "vbr_of (H265Vbr v) = v"

text \<open>
  The encoder is started with the bitrate of the resolution and one and a half times that as the
  maximum; \<open>bitrate * 3 / 2\<close> is evaluated in 32 bits and undefined when it overflows.
\<close>

definition max_bitrate_of :: "int \<Rightarrow> int option" where
  "max_bitrate_of bitrate = (if bitrate * 3 < 2 ^ 31 then Some (bitrate * 3 div 2) else None)"

section \<open>Facts about alignment\<close>

lemma RK_ALIGN_pow2:
  assumes "n < 32" and "unat x + 2 ^ n - 1 < 2 ^ 32"
  shows "unat (RK_ALIGN x (2 ^ n)) = (unat x + 2 ^ n - 1) div 2 ^ n * 2 ^ n"
proof -
  have mask: "(2 :: u32) ^ n - 1 = mask n"
    by (simp add: mask_eq_exp_minus_1)
  let ?y = "x + (2 ^ n - 1)"
  have eq: "?y AND NOT (mask n) = push_bit n (drop_bit n ?y)"
    by (auto simp: bit_eq_iff bit_simps not_less)
  have "unat ((2 :: u32) ^ n - 1) = 2 ^ n - 1"
  proof -
    have "(2 :: nat) ^ n < 2 ^ 32"
      using assms(1) by (intro power_strict_increasing) auto
    moreover have "(2 :: u32) ^ n - 1 = of_nat (2 ^ n - 1)"
      by (simp add: of_nat_diff)
    ultimately show ?thesis
      by (simp only: unat_of_nat) simp
  qed
  then have y: "unat ?y = unat x + 2 ^ n - 1"
    using assms(2) by (simp add: unat_word_ariths)
  have "unat (push_bit n (drop_bit n ?y)) = unat ?y div 2 ^ n * 2 ^ n"
  proof -
    have "unat ?y div 2 ^ n * 2 ^ n \<le> unat ?y"
      by (metis div_times_less_eq_dividend)
    also have "\<dots> < 2 ^ 32"
      using assms(2) y by simp
    finally have small: "unat ?y div 2 ^ n * 2 ^ n < 2 ^ 32" .
    have "unat (push_bit n (drop_bit n ?y))
        = take_bit LENGTH(32) (push_bit n (drop_bit n (take_bit LENGTH(32) (unat ?y))))"
      by (simp only: unsigned_push_bit_eq unsigned_drop_bit_eq)
    also have "\<dots> = (unat ?y mod 2 ^ 32) div 2 ^ n * 2 ^ n mod 2 ^ 32"
      by (simp add: take_bit_eq_mod push_bit_eq_mult drop_bit_eq_div)
    also have "\<dots> = unat ?y div 2 ^ n * 2 ^ n"
      using small y assms(2) by simp
    finally show ?thesis .
  qed
  moreover have "RK_ALIGN x (2 ^ n) = push_bit n (drop_bit n ?y)"
    unfolding RK_ALIGN_def add_diff_eq [symmetric] using eq by (simp only: mask)
  ultimately show ?thesis
    by (simp only: y)
qed

lemma RK_ALIGN_16_spec:
  assumes "unat x \<le> 2 ^ 32 - 16"
  shows "16 dvd unat (RK_ALIGN_16 x) \<and> unat x \<le> unat (RK_ALIGN_16 x) \<and> unat (RK_ALIGN_16 x) < unat x + 16"
proof -
  have "unat (RK_ALIGN_16 x) = (unat x + 15) div 16 * 16"
    using RK_ALIGN_pow2 [of 4 x] assms by (simp add: RK_ALIGN_16_def)
  then show ?thesis by simp presburger
qed

section \<open>Facts about the bitrate\<close>

lemma ref_pixels_exact [simp]: "rnd64 2073600 = 2073600"
  using f64.rnd_int [of 2073600] by simp

lemma extra_bounds:
  assumes "0 \<le> f" and "f \<le> 1"
  shows "to_int32 (rnd32 (3488 * f)) = Some (trunc (rnd32 (3488 * f)))
    \<and> 0 \<le> trunc (rnd32 (3488 * f)) \<and> trunc (rnd32 (3488 * f)) \<le> 3488"
proof -
  have "of_int 0 \<le> rnd32 (3488 * f)" and "rnd32 (3488 * f) \<le> of_int 3488"
    using assms f32.rnd_ge [of 0 "3488 * f"] f32.rnd_le [of "3488 * f" 3488] by simp_all
  then show ?thesis
    by (rule to_int32_Some) simp_all
qed

text \<open>The scale factor of a resolution with at most \<open>k\<close> times the pixels of 1080p.\<close>

definition scale_of :: "int \<Rightarrow> int \<Rightarrow> rat" where
  "scale_of width height = rnd64 (rnd64 (of_int width * of_int height) / 2073600)"

lemma scale_bounds:
  assumes "0 \<le> w" and "0 \<le> h" and "w * h \<le> 2073600 * k" and "0 \<le> k" and "k \<le> 2 ^ 20"
  shows "0 \<le> scale_of w h \<and> scale_of w h \<le> of_int k"
proof -
  have px: "of_int w * of_int h = (of_int (w * h) :: rat)"
    by simp
  have nn: "0 \<le> w * h"
    using assms by simp
  have "\<bar>2073600 * k\<bar> \<le> 2 ^ 53"
    using assms by simp
  then have "rnd64 (of_int (w * h)) \<le> of_int (2073600 * k)"
    using assms by (intro f64.rnd_le) (simp_all only: of_int_le_iff)
  then have le: "rnd64 (of_int (w * h)) / 2073600 \<le> of_int k"
    by simp
  have "0 \<le> rnd64 (of_int (w * h)) / 2073600"
    using f64.rnd_nonneg [of "of_int (w * h)"] nn by (simp del: of_int_mult)
  with le assms show ?thesis
    unfolding scale_of_def px by (auto intro: f64.rnd_nonneg f64.rnd_le)
qed

lemma scale_mono:
  "0 \<le> w \<Longrightarrow> w \<le> w' \<Longrightarrow> 0 \<le> h \<Longrightarrow> h \<le> h' \<Longrightarrow> scale_of w h \<le> scale_of w' h'"
  unfolding scale_of_def
  by (intro f64.rnd_mono divide_right_mono mult_mono) simp_all

lemma calculate_bitrate_alt:
  "calculate_bitrate f w h =
     (case to_int32 (rnd32 (3488 * f)) of None \<Rightarrow> None | Some extra \<Rightarrow>
      case add_int32 512 extra of None \<Rightarrow> None | Some base \<Rightarrow>
      case to_int32 (rnd64 (of_int base * scale_of w h)) of None \<Rightarrow> None | Some b \<Rightarrow> Some (max 200 b))"
proof -
  have bind: "Option.bind m g = (case m of None \<Rightarrow> None | Some x \<Rightarrow> g x)"
    for m :: "int option" and g :: "int \<Rightarrow> int option"
    by (cases m) simp_all
  have max: "(if b < 200 then 200 else b) = max 200 b" for b :: int
    by simp
  show ?thesis
    unfolding scale_of_def by (simp add: calculate_bitrate_def Let_def bind max)
qed

lemma calculate_bitrate_defined:
  assumes "0 \<le> f" and "f \<le> 1" and "0 \<le> w" and "0 \<le> h" and "w * h \<le> 2073600 * k"
    and "1 \<le> k" and "k \<le> 2 ^ 10"
  shows "calculate_bitrate f w h
           = Some (max 200 (trunc (rnd64 (of_int (512 + trunc (rnd32 (3488 * f))) * scale_of w h))))
    \<and> trunc (rnd64 (of_int (512 + trunc (rnd32 (3488 * f))) * scale_of w h)) \<le> 4000 * k"
proof -
  define e where "e = trunc (rnd32 (3488 * f))"
  have e: "to_int32 (rnd32 (3488 * f)) = Some e" "0 \<le> e" "e \<le> 3488"
    using extra_bounds [OF assms(1,2)] by (auto simp: e_def)
  have s: "0 \<le> scale_of w h" "scale_of w h \<le> of_int k"
    using scale_bounds [of w h k] assms by auto
  have add: "add_int32 512 e = Some (512 + e)"
    using e by (simp add: add_int32_def)
  have lo: "0 \<le> of_int (512 + e) * scale_of w h"
    using s e by simp
  have "of_int (512 + e) * scale_of w h \<le> of_int 4000 * (of_int k :: rat)"
    using s e by (intro mult_mono) simp_all
  then have hi: "of_int (512 + e) * scale_of w h \<le> of_int (4000 * k)"
    by simp
  have "of_int 0 \<le> rnd64 (of_int (512 + e) * scale_of w h)"
    using f64.rnd_nonneg [OF lo] by simp
  moreover have "rnd64 (of_int (512 + e) * scale_of w h) \<le> of_int (4000 * k)"
    using assms(7) assms(6) by (intro f64.rnd_le [OF hi]) simp
  ultimately have "to_int32 (rnd64 (of_int (512 + e) * scale_of w h))
      = Some (trunc (rnd64 (of_int (512 + e) * scale_of w h)))
      \<and> 0 \<le> trunc (rnd64 (of_int (512 + e) * scale_of w h))
      \<and> trunc (rnd64 (of_int (512 + e) * scale_of w h)) \<le> 4000 * k"
    using assms(7) by (intro to_int32_Some) simp_all
  then show ?thesis
    by (simp add: calculate_bitrate_alt e(1) add e_def [symmetric])
qed

lemma scale_1080p: "scale_of 1920 1080 = 1"
  using f64.rnd_int [of 1] by (simp add: scale_of_def)

section \<open>Properties\<close>

text \<open>
  The bitrate grows with quality and resolution: a higher factor, width or height never gives
  a lower bitrate, and at 1080p it is 512 kbit/s plus the truncated share of 3488 kbit/s, 4000 at
  full quality.
\<close>

lemma calculate_bitrate_monotone:
  assumes f: "0 \<le> f" "f \<le> f'" "f' \<le> 1" and w: "0 \<le> w" "w \<le> w'" and h: "0 \<le> h" "h \<le> h'"
    and k: "w' * h' \<le> 2073600 * 2 ^ 10"
  shows "the (calculate_bitrate f w h) \<le> the (calculate_bitrate f' w' h')
    \<and> calculate_bitrate f 1920 1080 = Some (512 + trunc (rnd32 (3488 * f)))
    \<and> calculate_bitrate 1 1920 1080 = Some 4000"
proof -
  let ?b = "\<lambda>f w h. rnd64 (of_int (512 + trunc (rnd32 (3488 * f))) * scale_of w h)"
  have wh: "w * h \<le> w' * h'"
    using w h by (intro mult_mono) auto
  have e: "trunc (rnd32 (3488 * f)) \<le> trunc (rnd32 (3488 * f'))"
    using f by (intro trunc_mono f32.rnd_mono) simp
  have e0: "0 \<le> trunc (rnd32 (3488 * f))" "trunc (rnd32 (3488 * f)) \<le> 3488"
    using extra_bounds [of f] f by auto
  have "?b f w h \<le> ?b f' w' h'"
    using e e0 scale_mono [OF w h] scale_bounds [of w h "2 ^ 10"] w h wh k
    by (intro f64.rnd_mono mult_mono) simp_all
  then have "trunc (?b f w h) \<le> trunc (?b f' w' h')"
    by (rule trunc_mono)
  moreover have "calculate_bitrate f w h = Some (max 200 (trunc (?b f w h)))"
    using calculate_bitrate_defined [of f w h "2 ^ 10"] f w h wh k by simp
  moreover have "calculate_bitrate f' w' h' = Some (max 200 (trunc (?b f' w' h')))"
    using calculate_bitrate_defined [of f' w' h' "2 ^ 10"] f w h k by simp
  ultimately have mono: "the (calculate_bitrate f w h) \<le> the (calculate_bitrate f' w' h')"
    by simp
  have hd: "calculate_bitrate g 1920 1080 = Some (512 + trunc (rnd32 (3488 * g)))"
    if "0 \<le> g" "g \<le> 1" for g
    using calculate_bitrate_defined [of g 1920 1080 1] extra_bounds [of g] that
      f64.rnd_int [of "512 + trunc (rnd32 (3488 * g))"] trunc_of_int [of "512 + trunc (rnd32 (3488 * g))"]
    by (simp add: scale_1080p)
  have "rnd32 3488 = 3488"
    using f32.rnd_int [of 3488] by simp
  then have "calculate_bitrate 1 1920 1080 = Some 4000"
    using hd [of 1] trunc_of_int [of 3488] by simp
  with mono hd [of f] f show ?thesis
    by simp
qed

text \<open>
  C20. For every quality factor between 0 and 1 and every resolution of at most \<open>k\<close> times the
  pixels of 1080p (up to a factor of 1024) the bitrate computation is free of undefined
  conversions and overflow, yields between 200 and \<open>4000 * k\<close> kbit/s, and the maximum handed to
  the encoder, \<open>bitrate * 3 / 2\<close>, does not overflow either; a lower factor, width or height never
  gives a higher bitrate, and full quality at 1080p gives 4000 kbit/s.
\<close>

theorem calculate_bitrate_bounds:
  assumes "0 \<le> f" and "f \<le> 1" and "0 \<le> w" and "0 \<le> h" and "w * h \<le> 2073600 * k"
    and "1 \<le> k" and "k \<le> 2 ^ 10"
  shows "(\<exists>b. calculate_bitrate f w h = Some b \<and> 200 \<le> b \<and> b \<le> 4000 * k
      \<and> max_bitrate_of b = Some (b * 3 div 2)) \<and>
    (0 \<le> g \<and> g \<le> f \<and> 0 \<le> v \<and> v \<le> w \<and> 0 \<le> u \<and> u \<le> h \<longrightarrow>
       the (calculate_bitrate g v u) \<le> the (calculate_bitrate f w h)) \<and>
    calculate_bitrate 1 1920 1080 = Some 4000"
proof -
  have "2073600 * k \<le> 2073600 * 2 ^ 10"
    using assms(7) by simp
  then have "w * h \<le> 2073600 * 2 ^ 10"
    using assms(5) by linarith
  then show ?thesis
    using calculate_bitrate_defined [OF assms] assms calculate_bitrate_monotone [of g f v w u h]
      calculate_bitrate_monotone [of 1 1 0 0 0 0] by (auto simp: max_bitrate_of_def)
qed

theorem calculate_bitrate_bounds_witness:
  "\<exists>b. calculate_bitrate (3 / 4) 3840 2160 = Some b \<and> 200 \<le> b \<and> b \<le> 16000
    \<and> max_bitrate_of b = Some (b * 3 div 2)"
  using calculate_bitrate_bounds [of "3 / 4" 3840 2160 4 0 0 0] by simp

text \<open>
  C19. Encoder attributes: whenever the requested bitrate is at least 2 and at most the maximum, and
  the picture has fewer than \<open>2 ^ 32 / 3\<close> pixels, the rate limits are ordered, the GOP is at
  least one frame and half the frame rate from 2 fps on, the aligned sizes are the next multiples
  of 16, the buffer size is exact (no wrap-around), and mode, type and profile all follow the codec
  setting.
\<close>

theorem populate_venc_attr_correct:
  fixes codec :: int and fps :: u32
  assumes "2 \<le> bitrate" and "bitrate \<le> maxb" and "unat width * unat height * 3 < 2 ^ 32"
    and "unat width \<le> 2 ^ 32 - 16" and "unat height \<le> 2 ^ 32 - 16"
  defines "a \<equiv> populate_venc_attr codec bitrate maxb width height fps"
  defines "v \<equiv> vbr_of (stRcAttr a)"
  shows "u32MinBitRate v \<le> u32BitRate v \<and> u32BitRate v \<le> u32MaxBitRate v \<and> 1 \<le> u32Gop v
    \<and> (2 \<le> fps \<longrightarrow> u32Gop v = fps div 2)
    \<and> 16 dvd unat (u32VirWidth a) \<and> unat width \<le> unat (u32VirWidth a) \<and> unat (u32VirWidth a) < unat width + 16
    \<and> 16 dvd unat (u32VirHeight a) \<and> unat height \<le> unat (u32VirHeight a) \<and> unat (u32VirHeight a) < unat height + 16
    \<and> unat (u32BufSize a) = unat width * unat height * 3 div 2
    \<and> (if codec = 1 then enType a = RK_VIDEO_ID_HEVC \<and> u32Profile a = H265E_PROFILE_MAIN \<and> stRcAttr a = H265Vbr v
       else enType a = RK_VIDEO_ID_AVC \<and> u32Profile a = H264E_PROFILE_HIGH \<and> stRcAttr a = H264Vbr v)"
proof -
  have v: "u32BitRate v = bitrate" "u32MaxBitRate v = maxb"
    "u32MinBitRate v = (if bitrate div 2 < 2 then 2 else bitrate div 2)"
    "u32Gop v = (let g = (if fps > 0 then fps div 2 else 30) in if g < 1 then 1 else g)"
    by (simp_all add: v_def a_def populate_venc_attr_def Let_def)
  have a: "u32VirWidth a = RK_ALIGN_16 width" "u32VirHeight a = RK_ALIGN_16 height"
    "u32BufSize a = width * height * 3 div 2"
    by (simp_all add: a_def populate_venc_attr_def Let_def)
  have "bitrate div 2 \<le> bitrate"
    by (simp add: word_le_nat_alt unat_div)
  with assms(1) have "u32MinBitRate v \<le> u32BitRate v"
    unfolding v by simp
  moreover have "1 \<le> u32Gop v"
    unfolding v Let_def by (simp add: not_less word_le_nat_alt word_less_nat_alt)
  moreover have "u32Gop v = fps div 2" if "2 \<le> fps"
  proof -
    have "2 \<le> unat fps" using that by (simp add: word_le_nat_alt)
    then have "0 < fps" and "1 \<le> fps div 2"
      by (auto simp: word_less_nat_alt word_le_nat_alt unat_div)
    then show ?thesis unfolding v Let_def by (simp add: word_le_nat_alt word_less_nat_alt)
  qed
  moreover have "unat (u32BufSize a) = unat width * unat height * 3 div 2"
    using assms(3) unfolding a by (simp add: unat_div unat_word_ariths)
  moreover have "(if codec = 1 then enType a = RK_VIDEO_ID_HEVC \<and> u32Profile a = H265E_PROFILE_MAIN \<and> stRcAttr a = H265Vbr v
       else enType a = RK_VIDEO_ID_AVC \<and> u32Profile a = H264E_PROFILE_HIGH \<and> stRcAttr a = H264Vbr v)"
    by (simp add: v_def a_def populate_venc_attr_def Let_def)
  ultimately show ?thesis
    using assms(2) RK_ALIGN_16_spec [OF assms(4)] RK_ALIGN_16_spec [OF assms(5)] unfolding v(1,2) a(1,2)
    by blast
qed

theorem populate_venc_attr_correct_witness:
  "unat (u32BufSize (populate_venc_attr 0 4000 6000 1920 1080 60)) = 3110400
   \<and> u32Gop (vbr_of (stRcAttr (populate_venc_attr 0 4000 6000 1920 1080 60))) = 30"
  using populate_venc_attr_correct [of 4000 6000 1920 1080 0 60] by simp

text \<open>
  C37. Colour: for every height the capture format, the encoder's colour description and the
  frame's gamut agree. Above 576 lines they are BT.709 (REC709 with the 709 encoding, primaries, transfer and matrix 1, gamut
  BT.709), otherwise BT.601 (SMPTE 170M with the 601 encoding, primaries, transfer and matrix 6, gamut BT.601); both
  capture with the 709 transfer function, which is also that of BT.601, and with limited range, and the encoder signals limited range and a colour
  description. The description does not depend on what the library returned before, and the size is left alone.
\<close>

theorem colour_settings_agree:
  "let p = set_v4l2_yuv_colorimetry pix height; u = configure_vui_video_signal v height in
   (if 576 < height
    then pf_colorspace p = V4L2_COLORSPACE_REC709 \<and> pf_ycbcr_enc p = V4L2_YCBCR_ENC_709
      \<and> color_gamut_for_height height = COLOR_GAMUT_BT709
      \<and> colour_primaries u = 1 \<and> transfer_characteristics u = 1 \<and> matrix_coefficients u = 1
    else pf_colorspace p = V4L2_COLORSPACE_SMPTE170M \<and> pf_ycbcr_enc p = V4L2_YCBCR_ENC_601
      \<and> color_gamut_for_height height = COLOR_GAMUT_BT601
      \<and> colour_primaries u = 6 \<and> transfer_characteristics u = 6 \<and> matrix_coefficients u = 6)
   \<and> pf_xfer_func p = V4L2_XFER_FUNC_709 \<and> pf_quantization p = V4L2_QUANTIZATION_LIM_RANGE
   \<and> video_signal_type_present_flag u = 1 \<and> video_full_range_flag u = 0 \<and> colour_description_present_flag u = 1
   \<and> u = configure_vui_video_signal v' height
   \<and> pf_width p = pf_width pix \<and> pf_height p = pf_height pix"
  by (simp add: set_v4l2_yuv_colorimetry_def configure_vui_video_signal_def color_gamut_for_height_def
      Let_def is_hd_video_def zero_vui_def)

end
