(* ===== verification/Video_Platform.thy ===== *)
theory Video_Platform
  imports Venc_Config
begin

text \<open>
  The state of \<open>video.c\<close> and \<open>ctrl.c\<close> (their global variables), the calls the video code makes to
  the kernel, the C library, the Rockchip media library and the callbacks registered by Go, and the
  interference of other threads. The globals are shared between the API caller, the format
  detection thread, the capture thread and the encoder reader thread: every read of a global is
  preceded by a \<open>V_yield\<close>, at which the environment may replace the globals by whatever the other
  threads have made of them. An environment without interference answers a yield with the globals
  it was given.
\<close>

section \<open>Data\<close>

record plane =
  p_index :: nat
  p_length :: u32
  p_mem_offset :: u32
  p_fd :: int
  p_bytesused :: u32

record dv_timings =
  bt_width :: u32
  bt_height :: u32
  bt_pixelclock :: u64
  bt_hfrontporch :: u32
  bt_hsync :: u32
  bt_hbackporch :: u32
  bt_vfrontporch :: u32
  bt_vsync :: u32
  bt_vbackporch :: u32

datatype frame_field = VIDEO_FIELD_FRAME
datatype frame_format = VIDEO_FORMAT_LINEAR
datatype compress_mode = COMPRESS_MODE_NONE
datatype dynamic_range = DYNAMIC_RANGE_SDR8

record video_frame =
  fr_width :: u32
  fr_height :: u32
  fr_vir_width :: u32
  fr_vir_height :: u32
  fr_field :: frame_field
  fr_pixel_format :: rk_pixel_format
  fr_video_format :: frame_format
  fr_compress_mode :: compress_mode
  fr_dynamic_range :: dynamic_range
  fr_gamut :: color_gamut
  fr_blk :: int
  fr_time_ref :: u32
  fr_pts :: u64

text \<open>The report of \<open>ctrl.c\<close>: \<open>error\<close> is \<open>None\<close> for a NULL pointer.\<close>

record video_report =
  vs_ready :: bool
  vs_streaming :: u8
  vs_error :: "string option"
  vs_width :: u16
  vs_height :: u16
  vs_fps :: rat

text \<open>The global variables; a thread or memory handle is its address, 0 for NULL.\<close>

record globals =
  sub_dev_fd :: int
  memPool :: int
  sleep_mode_available :: bool
  should_exit :: bool
  quality_factor :: rat
  codec_type :: int
  venc_read_thread :: int
  venc_running :: bool
  format_thread :: int
  detected_width :: u32
  detected_height :: u32
  detected_fps :: u32
  detected_signal :: bool
  streaming_flag :: bool
  streaming_stopped :: bool
  streaming_thread :: int
  vstate :: video_report
  video_state_handler :: bool
  video_handler :: bool

text \<open>Values of the vendor headers that are not part of the sources.\<close>

record rk_consts =
  RK_ERR_VENC_BUF_EMPTY :: int
  MB_INVALID_POOLID :: int

definition RK_SUCCESS :: int where "RK_SUCCESS = 0"
definition RK_FAILURE :: int where "RK_FAILURE = -1"
definition EINTR :: int where "EINTR = 4"
definition ERANGE :: int where "ERANGE = 34"
definition ENOLCK :: int where "ENOLCK = 37"
definition ENOLINK :: int where "ENOLINK = 67"

definition zero_report :: video_report where
  "zero_report = \<lparr>vs_ready = False, vs_streaming = 0, vs_error = None, vs_width = 0, vs_height = 0, vs_fps = 0\<rparr>"

definition init_globals :: "rk_consts \<Rightarrow> globals" where
  "init_globals K = \<lparr>sub_dev_fd = -1, memPool = MB_INVALID_POOLID K, sleep_mode_available = False,
     should_exit = False, quality_factor = 1, codec_type = 0, venc_read_thread = 0, venc_running = False,
     format_thread = 0, detected_width = 0, detected_height = 0, detected_fps = 60, detected_signal = False,
     streaming_flag = False, streaming_stopped = True, streaming_thread = 0, vstate = zero_report,
     video_state_handler = False, video_handler = False\<rparr>"

section \<open>Calls and answers\<close>

datatype thread_fn = T_venc_read_stream | T_run_video_stream | T_run_detect_format

datatype video_call =
    V_yield globals
  | V_access string | V_open string | V_close int | V_lseek int | V_read int | V_write int string
  | V_usleep nat | V_sleep nat | V_clock_gettime | V_select int
  | V_malloc_thread | V_malloc_pack | V_free int | V_pthread_create thread_fn | V_pthread_join int
  | V_shutdown int | V_mutex_destroy
  | V_unlink string | V_socket | V_F_GETFL int | V_F_SETFL int u32 | V_bind int string | V_listen int
  | V_accept int | V_select_set "int list" int
  | V_S_FMT int pix_format | V_REQBUFS int nat | V_QUERYBUF int nat | V_QBUF int nat int
  | V_STREAMON int | V_STREAMOFF int | V_DQBUF int
  | V_SUBSCRIBE_EVENT int | V_QUERY_DV_TIMINGS int | V_DQEVENT int
  | RK_SYS_Init | RK_MB_CreatePool nat nat | RK_MB_DestroyPool int | RK_MB_GetMB int u32
  | RK_MB_Handle2Fd int | RK_MB_ReleaseMB int | RK_MB_Handle2VirAddr int | RK_MMZ_Fd2Handle int
  | RK_VENC_CreateChn venc_attr | RK_VENC_GetH264Vui | RK_VENC_SetH264Vui vui_video_signal
  | RK_VENC_GetH265Vui | RK_VENC_SetH265Vui vui_video_signal
  | RK_VENC_StartRecvFrame int | RK_VENC_StopRecvFrame | RK_VENC_DestroyChn
  | RK_VENC_GetStream | RK_VENC_ReleaseStream | RK_VENC_SendFrame video_frame
  | CB_video_state video_report | CB_video_frame int int

record video_answer =
  v_ret :: int
  v_errno :: int
  v_char :: char
  v_sec :: u64
  v_nsec :: u64
  v_plane :: plane
  v_timings :: dv_timings
  v_event :: u32
  v_vui :: vui_video_signal
  v_blk :: int
  v_len :: u32
  v_globals :: globals
  v_ready :: "int list"

record video_world = "(video_call, video_answer) world" +
  errno :: int
  glob :: globals

type_synonym video_env = "(video_call, video_answer) env"
type_synonym 'a video_m = "(video_world, 'a) state"

definition vsys :: "video_env \<Rightarrow> video_call \<Rightarrow> video_answer video_m" where
  "vsys E c = do {
     r \<leftarrow> perform E c;
     modify (\<lambda>s. s\<lparr>errno := v_errno r\<rparr>);
     State_Monad.return r
   }"

text \<open>Reading and writing a global: other threads may run before a read.\<close>

definition yield :: "video_env \<Rightarrow> unit video_m" where
  "yield E = do {
     gl \<leftarrow> reads glob;
     r \<leftarrow> perform E (V_yield gl);
     modify (\<lambda>s. s\<lparr>glob := v_globals r\<rparr>)
   }"

definition rd :: "video_env \<Rightarrow> (globals \<Rightarrow> 'a) \<Rightarrow> 'a video_m" where
  "rd E f = do { yield E; reads (\<lambda>s. f (glob s)) }"

definition wr :: "(globals \<Rightarrow> globals) \<Rightarrow> unit video_m" where
  "wr f = modify (\<lambda>s. s\<lparr>glob := f (glob s)\<rparr>)"

definition no_interference :: "video_env \<Rightarrow> bool" where
  "no_interference E \<longleftrightarrow> (\<forall>h gl. v_globals (E h (V_yield gl)) = gl)"

section \<open>Running and inverting\<close>

lemma run_vsys [run_simps]:
  "run_state (vsys E c) s = (E (trace s) c,
     s\<lparr>trace := trace s @ [(c, E (trace s) c)], errno := v_errno (E (trace s) c)\<rparr>)"
  by (simp add: vsys_def run_simps)

lemma run_rd [run_simps]:
  "run_state (rd E f) s =
     (let r = E (trace s) (V_yield (glob s)) in
      (f (v_globals r), s\<lparr>trace := trace s @ [(V_yield (glob s), r)], glob := v_globals r\<rparr>))"
  by (simp add: rd_def yield_def run_simps Let_def)

lemma run_wr [run_simps]: "run_state (wr f) s = ((), s\<lparr>glob := f (glob s)\<rparr>)"
  by (simp add: wr_def run_simps)

lemma vsysE:
  assumes "run_state (State_Monad.bind (vsys E c) f) s = (x, s')"
  obtains r where "run_state (f r) (s\<lparr>trace := trace s @ [(c, r)], errno := v_errno r\<rparr>) = (x, s')"
  using assms by (simp add: run_simps)

lemma rdE:
  assumes "run_state (State_Monad.bind (rd E f) k) s = (x, s')"
  obtains r where "run_state (k (f (v_globals r)))
      (s\<lparr>trace := trace s @ [(V_yield (glob s), r)], glob := v_globals r\<rparr>) = (x, s')"
  using assms by (simp add: run_simps Let_def)

section \<open>Accounts\<close>

text \<open>Open descriptors and memory blocks taken from the pool.\<close>

fun fd_acq :: "video_call \<times> video_answer \<Rightarrow> int option" where
  "fd_acq (V_open p, a) = (if v_ret a < 0 then None else Some (v_ret a))"
| "fd_acq (V_socket, a) = (if v_ret a < 0 then None else Some (v_ret a))"
| "fd_acq (V_accept fd, a) = (if v_ret a < 0 then None else Some (v_ret a))"
| "fd_acq _ = None"

fun fd_rel :: "video_call \<times> video_answer \<Rightarrow> int option" where
  "fd_rel (V_close fd, a) = Some fd"
| "fd_rel _ = None"

fun mb_acq :: "video_call \<times> video_answer \<Rightarrow> int option" where
  "mb_acq (RK_MB_GetMB pool len, a) = (if v_ret a = 0 then None else Some (v_ret a))"
| "mb_acq _ = None"

fun mb_rel :: "video_call \<times> video_answer \<Rightarrow> int option" where
  "mb_rel (RK_MB_ReleaseMB blk, a) = Some blk"
| "mb_rel _ = None"

definition fds :: "video_world \<Rightarrow> int multiset" where
  "fds s = account fd_acq fd_rel (trace s)"

definition blocks :: "video_world \<Rightarrow> int multiset" where
  "blocks s = account mb_acq mb_rel (trace s)"

fun is_open :: "video_call \<Rightarrow> bool" where
  "is_open (V_open p) = True" | "is_open (V_close fd) = True" | "is_open V_socket = True"
| "is_open (V_accept fd) = True" | "is_open _ = False"

fun is_mb :: "video_call \<Rightarrow> bool" where
  "is_mb (RK_MB_GetMB pool len) = True" | "is_mb (RK_MB_ReleaseMB blk) = True" | "is_mb _ = False"

lemma fd_neutral: "\<not> is_open c \<Longrightarrow> fd_acq (c, a) = None \<and> fd_rel (c, a) = None"
  by (cases c) auto

lemma mb_neutral: "\<not> is_mb c \<Longrightarrow> mb_acq (c, a) = None \<and> mb_rel (c, a) = None"
  by (cases c) auto

lemma keeps_fds_vsys [keeps_intros]: "\<not> is_open c \<Longrightarrow> keeps fds (vsys E c)"
  by (auto simp: keeps_def run_simps fds_def account_simps book_def fd_neutral)

lemma keeps_blocks_vsys [keeps_intros]: "\<not> is_mb c \<Longrightarrow> keeps blocks (vsys E c)"
  by (auto simp: keeps_def run_simps blocks_def account_simps book_def mb_neutral)

lemma keeps_fds_rd [keeps_intros]: "keeps fds (rd E f)"
  by (auto simp: keeps_def run_simps fds_def account_simps book_def Let_def)

lemma keeps_blocks_rd [keeps_intros]: "keeps blocks (rd E f)"
  by (auto simp: keeps_def run_simps blocks_def account_simps book_def Let_def)

lemma keeps_fds_wr [keeps_intros]: "keeps fds (wr f)"
  by (auto simp: keeps_def run_simps fds_def)

lemma keeps_blocks_wr [keeps_intros]: "keeps blocks (wr f)"
  by (auto simp: keeps_def run_simps blocks_def)

section \<open>The calls of a computation\<close>

text \<open>A computation that makes only calls of a kind: it extends the trace by such calls.\<close>

definition calls :: "(video_call \<Rightarrow> bool) \<Rightarrow> 'a video_m \<Rightarrow> bool" where
  "calls P m \<longleftrightarrow> (\<forall>s r s'. run_state m s = (r, s') \<longrightarrow>
     (\<exists>es. trace s' = trace s @ es \<and> (\<forall>e \<in> set es. P (fst e))))"

named_theorems calls_intros "compositional rules for calls"

lemma callsI:
  "(\<And>s r s'. run_state m s = (r, s') \<Longrightarrow> \<exists>es. trace s' = trace s @ es \<and> (\<forall>e \<in> set es. P (fst e))) \<Longrightarrow> calls P m"
  by (simp add: calls_def)

lemma callsE:
  assumes "calls P m" and "run_state m s = (r, s')"
  obtains es where "trace s' = trace s @ es" and "\<And>e. e \<in> set es \<Longrightarrow> P (fst e)"
  using assms unfolding calls_def by blast

lemma calls_mono: "calls P m \<Longrightarrow> (\<And>c. P c \<Longrightarrow> Q c) \<Longrightarrow> calls Q m"
  unfolding calls_def by meson

lemma calls_bind [calls_intros]:
  assumes "calls P m" and "\<And>x. calls P (f x)"
  shows "calls P (State_Monad.bind m f)"
proof (rule callsI)
  fix s r s'
  assume "run_state (State_Monad.bind m f) s = (r, s')"
  then obtain x t where "run_state m s = (x, t)" and "run_state (f x) t = (r, s')"
    by (rule bindE)
  with assms obtain es es' where "trace t = trace s @ es" "trace s' = trace t @ es'"
      and "\<And>e. e \<in> set es \<Longrightarrow> P (fst e)" "\<And>e. e \<in> set es' \<Longrightarrow> P (fst e)"
    by (metis callsE)
  then show "\<exists>es. trace s' = trace s @ es \<and> (\<forall>e \<in> set es. P (fst e))"
    by (intro exI [of _ "es @ es'"]) auto
qed

lemma calls_simple [calls_intros]:
  "calls P (State_Monad.return x)" "calls P skip" "calls P (reads f)" "calls P (wr g)"
  by (auto simp: calls_def run_simps)

lemma calls_if [calls_intros]:
  "(b \<Longrightarrow> calls P m) \<Longrightarrow> (\<not> b \<Longrightarrow> calls P m') \<Longrightarrow> calls P (if b then m else m')"
  by simp

lemma calls_vsys [calls_intros]: "P c \<Longrightarrow> calls P (vsys E c)"
  by (simp add: calls_def run_simps)

lemma calls_rd [calls_intros]: "(\<And>gl. P (V_yield gl)) \<Longrightarrow> calls P (rd E f)"
  by (simp add: calls_def run_simps Let_def)

lemma calls_grows: "calls P m \<Longrightarrow> run_state m s = (r, s') \<Longrightarrow> length (trace s) \<le> length (trace s')"
  by (auto elim!: callsE)

lemma account_neutral:
  assumes "\<And>e. e \<in> set es \<Longrightarrow> acq e = None \<and> rel e = None"
  shows "fold (book acq rel) es M = M"
  using assms by (induction es) (auto simp: book_neutral)

lemma calls_account:
  assumes "calls P m" and "run_state m s = (r, s')"
    and "\<And>c a. P c \<Longrightarrow> acq (c, a) = None \<and> rel (c, a) = None"
  shows "account acq rel (trace s') = account acq rel (trace s)"
proof -
  obtain es where "trace s' = trace s @ es" and "\<And>e. e \<in> set es \<Longrightarrow> P (fst e)"
    using assms(1,2) by (rule callsE) blast
  moreover from this(2) have "fold (book acq rel) es (account acq rel (trace s)) = account acq rel (trace s)"
    by (intro account_neutral) (metis assms(3) prod.collapse)
  ultimately show ?thesis
    by (simp add: account_append)
qed

section \<open>Sample data\<close>

text \<open>An answer, the vendor constants and an initial world for concrete runs.\<close>

definition sample_answer :: video_answer where
  "sample_answer = \<lparr>v_ret = 0, v_errno = 0, v_char = CHR ''0'', v_sec = 1, v_nsec = 5000,
     v_plane = \<lparr>p_index = 0, p_length = 64, p_mem_offset = 0, p_fd = 9, p_bytesused = 64\<rparr>,
     v_timings = \<lparr>bt_width = 1920, bt_height = 1080, bt_pixelclock = 148500000, bt_hfrontporch = 88,
        bt_hsync = 44, bt_hbackporch = 148, bt_vfrontporch = 4, bt_vsync = 5, bt_vbackporch = 36\<rparr>,
     v_event = 5, v_vui = zero_vui, v_blk = 3, v_len = 100,
     v_globals = init_globals \<lparr>RK_ERR_VENC_BUF_EMPTY = -2, MB_INVALID_POOLID = -1\<rparr>, v_ready = []\<rparr>"

definition sample_consts :: rk_consts where
  "sample_consts = \<lparr>RK_ERR_VENC_BUF_EMPTY = -2, MB_INVALID_POOLID = -1\<rparr>"

definition sample_world :: video_world where
  "sample_world = \<lparr>trace = [], errno = 0, glob = init_globals sample_consts\<rparr>"

end
