(* ===== verification/Video_Report.thy ===== *)
theory Video_Report
  imports Video_Platform
begin

text \<open>
  The streaming flags of \<open>video.c\<close> with their mutex-protected accessors, the status derived from
  them, and the state report of \<open>ctrl.c\<close> that every change of a flag sends to the handler.
\<close>

section \<open>Status and report\<close>

definition get_streaming_flag :: "video_env \<Rightarrow> bool video_m" where
  "get_streaming_flag E = rd E streaming_flag"

definition get_streaming_stopped :: "video_env \<Rightarrow> bool video_m" where
  "get_streaming_stopped E = rd E streaming_stopped"

definition video_get_streaming_status :: "video_env \<Rightarrow> u8 video_m" where
  "video_get_streaming_status E = do {
     flag \<leftarrow> get_streaming_flag E;
     if flag then State_Monad.return 1
     else do {
       stopped \<leftarrow> get_streaming_stopped E;
       if \<not> stopped then State_Monad.return 2 else State_Monad.return 0
     }
   }"

definition call_video_state_handler :: "video_env \<Rightarrow> unit video_m" where
  "call_video_state_handler E = do {
     h \<leftarrow> rd E video_state_handler;
     if h then do {
       st \<leftarrow> rd E vstate;
       _ \<leftarrow> vsys E (CB_video_state st);
       skip
     } else skip
   }"

definition video_report_format :: "video_env \<Rightarrow> bool \<Rightarrow> string option \<Rightarrow> u16 \<Rightarrow> u16 \<Rightarrow> rat \<Rightarrow> unit video_m" where
  "video_report_format E ready error width height frame_per_second = do {
     st \<leftarrow> video_get_streaming_status E;
     wr (\<lambda>gl. gl\<lparr>vstate := (vstate gl)\<lparr>vs_streaming := st, vs_ready := ready, vs_error := error,
           vs_width := width, vs_height := height, vs_fps := frame_per_second\<rparr>\<rparr>);
     call_video_state_handler E
   }"

definition video_send_format_report :: "video_env \<Rightarrow> unit video_m" where
  "video_send_format_report E = do {
     st \<leftarrow> video_get_streaming_status E;
     wr (\<lambda>gl. gl\<lparr>vstate := (vstate gl)\<lparr>vs_streaming := st\<rparr>\<rparr>);
     call_video_state_handler E
   }"

definition set_streaming_flag :: "video_env \<Rightarrow> bool \<Rightarrow> unit video_m" where
  "set_streaming_flag E flag = do {
     wr (\<lambda>gl. gl\<lparr>streaming_flag := flag\<rparr>);
     video_send_format_report E
   }"

definition set_streaming_stopped :: "video_env \<Rightarrow> bool \<Rightarrow> unit video_m" where
  "set_streaming_stopped E stopped = do {
     wr (\<lambda>gl. gl\<lparr>streaming_stopped := stopped\<rparr>);
     video_send_format_report E
   }"

definition video_send_frame :: "video_env \<Rightarrow> int \<Rightarrow> int \<Rightarrow> int video_m" where
  "video_send_frame E frame len = do {
     h \<leftarrow> rd E video_handler;
     (if h then do { _ \<leftarrow> vsys E (CB_video_frame frame len); skip } else skip);
     State_Monad.return 0
   }"

section \<open>Facts\<close>

lemmas report_defs = get_streaming_flag_def get_streaming_stopped_def video_get_streaming_status_def
  call_video_state_handler_def video_report_format_def video_send_format_report_def
  set_streaming_flag_def set_streaming_stopped_def video_send_frame_def

lemma keeps_fds_report [keeps_intros]:
  "keeps fds (video_get_streaming_status E)" "keeps fds (video_send_format_report E)"
  "keeps fds (set_streaming_flag E b)" "keeps fds (set_streaming_stopped E b)"
  "keeps fds (get_streaming_flag E)" "keeps fds (get_streaming_stopped E)"
  "keeps fds (video_send_frame E p n)" "keeps fds (video_report_format E r e w h f)"
  unfolding report_defs by (intro keeps_intros; simp)+

lemma keeps_blocks_report [keeps_intros]:
  "keeps blocks (video_get_streaming_status E)" "keeps blocks (video_send_format_report E)"
  "keeps blocks (set_streaming_flag E b)" "keeps blocks (set_streaming_stopped E b)"
  "keeps blocks (get_streaming_flag E)" "keeps blocks (get_streaming_stopped E)"
  "keeps blocks (video_send_frame E p n)" "keeps blocks (video_report_format E r e w h f)"
  unfolding report_defs by (intro keeps_intros; simp)+

text \<open>The status as a function of the two flags, and the report without interference.\<close>

definition status_of :: "bool \<Rightarrow> bool \<Rightarrow> u8" where
  "status_of flag stopped = (if flag then 1 else if \<not> stopped then 2 else 0)"

lemma no_interferenceD [simp]: "no_interference E \<Longrightarrow> v_globals (E h (V_yield gl)) = gl"
  by (simp add: no_interference_def)

lemma status_quiet:
  "no_interference E \<Longrightarrow> run_state (video_get_streaming_status E) s = (r, s') \<Longrightarrow>
   r = status_of (streaming_flag (glob s)) (streaming_stopped (glob s)) \<and> glob s' = glob s"
  by (auto simp: report_defs run_simps Let_def status_of_def split: if_splits)

lemma handler_quiet:
  "no_interference E \<Longrightarrow> run_state (call_video_state_handler E) s = (r, s') \<Longrightarrow> glob s' = glob s"
  by (auto simp: report_defs run_simps Let_def split: if_splits)

lemma send_format_report_quiet:
  assumes "no_interference E" and "run_state (video_send_format_report E) s = (r, s')"
  shows "glob s' = (glob s)\<lparr>vstate := (vstate (glob s))\<lparr>vs_streaming :=
           status_of (streaming_flag (glob s)) (streaming_stopped (glob s))\<rparr>\<rparr>"
proof -
  obtain st t where t: "run_state (video_get_streaming_status E) s = (st, t)"
    by (cases "run_state (video_get_streaming_status E) s")
  with assms(2) have "run_state (call_video_state_handler E)
      (t\<lparr>glob := (glob t)\<lparr>vstate := (vstate (glob t))\<lparr>vs_streaming := st\<rparr>\<rparr>\<rparr>) = (r, s')"
    by (simp add: video_send_format_report_def run_wr)
  from handler_quiet [OF assms(1) this] status_quiet [OF assms(1) t] show ?thesis
    by simp
qed

lemma set_flag_quiet:
  "no_interference E \<Longrightarrow> run_state (set_streaming_flag E b) s = (r, s') \<Longrightarrow>
   glob s' = (glob s)\<lparr>streaming_flag := b, vstate := (vstate (glob s))\<lparr>vs_streaming :=
     status_of b (streaming_stopped (glob s))\<rparr>\<rparr>"
  by (auto simp: set_streaming_flag_def run_wr dest!: send_format_report_quiet)

lemma set_stopped_quiet:
  "no_interference E \<Longrightarrow> run_state (set_streaming_stopped E b) s = (r, s') \<Longrightarrow>
   glob s' = (glob s)\<lparr>streaming_stopped := b, vstate := (vstate (glob s))\<lparr>vs_streaming :=
     status_of (streaming_flag (glob s)) b\<rparr>\<rparr>"
  by (auto simp: set_streaming_stopped_def run_wr dest!: send_format_report_quiet)

lemma report_format_quiet:
  assumes "no_interference E" and "run_state (video_report_format E ready err w h f) s = (r, s')"
  shows "glob s' = (glob s)\<lparr>vstate := \<lparr>vs_ready = ready, vs_streaming =
           status_of (streaming_flag (glob s)) (streaming_stopped (glob s)), vs_error = err,
           vs_width = w, vs_height = h, vs_fps = f\<rparr>\<rparr>"
proof -
  obtain st t where t: "run_state (video_get_streaming_status E) s = (st, t)"
    by (cases "run_state (video_get_streaming_status E) s")
  with assms(2) have "run_state (call_video_state_handler E)
      (t\<lparr>glob := (glob t)\<lparr>vstate := (vstate (glob t))\<lparr>vs_streaming := st, vs_ready := ready,
         vs_error := err, vs_width := w, vs_height := h, vs_fps := f\<rparr>\<rparr>\<rparr>) = (r, s')"
    by (simp add: video_report_format_def run_wr)
  from handler_quiet [OF assms(1) this] status_quiet [OF assms(1) t] show ?thesis
    by simp
qed

text \<open>The calls the reports make.\<close>

fun report_call :: "video_call \<Rightarrow> bool" where
  "report_call (V_yield gl) = True"
| "report_call (CB_video_state st) = True"
| "report_call (CB_video_frame p n) = True"
| "report_call _ = False"

lemma calls_report:
  "calls report_call (video_get_streaming_status E)" "calls report_call (video_send_format_report E)"
  "calls report_call (set_streaming_flag E b)" "calls report_call (set_streaming_stopped E b)"
  "calls report_call (get_streaming_flag E)" "calls report_call (get_streaming_stopped E)"
  "calls report_call (video_send_frame E p n)" "calls report_call (video_report_format E r e w h f)"
  unfolding report_defs by (intro calls_intros; simp)+

end
