(* ===== verification/Venc.thy ===== *)
theory Venc
  imports Video_Report
begin

text \<open>
  The HDMI sleep mode, the encoder channel and its reader thread, and the memory pool of
  \<open>video.c\<close>. Loops that wait for the hardware take a fuel argument; running out of it is the
  outcome \<open>Out_of_fuel\<close>, and the theorems state when enough fuel returns.
\<close>

section \<open>Time and sleep mode\<close>

definition VIDEO_DEV :: string where "VIDEO_DEV = ''/dev/video0''"
definition SUB_DEV :: string where "SUB_DEV = ''/dev/v4l-subdev2''"
definition SLEEP_MODE_FILE :: string where
  "SLEEP_MODE_FILE = ''/sys/devices/platform/ff470000.i2c/i2c-4/4-000f/sleep_mode''"

definition get_us :: "video_env \<Rightarrow> u64 video_m" where
  "get_us E = do {
     r \<leftarrow> vsys E V_clock_gettime;
     State_Monad.return (v_sec r * 1000000 + v_nsec r div 1000)
   }"

definition ensure_sleep_mode_disabled :: "video_env \<Rightarrow> unit video_m" where
  "ensure_sleep_mode_disabled E = do {
     available \<leftarrow> rd E sleep_mode_available;
     if \<not> available then skip
     else do {
       r \<leftarrow> vsys E (V_open SLEEP_MODE_FILE);
       if v_ret r < 0 then skip
       else do {
         let fd = v_ret r;
         _ \<leftarrow> vsys E (V_lseek fd);
         b \<leftarrow> vsys E (V_read fd);
         if v_char b = CHR ''0'' then do { _ \<leftarrow> vsys E (V_close fd); skip }
         else do {
           _ \<leftarrow> vsys E (V_lseek fd);
           _ \<leftarrow> vsys E (V_write fd ''0'');
           _ \<leftarrow> vsys E (V_close fd);
           _ \<leftarrow> vsys E (V_usleep 1000);
           skip
         }
       }
     }
   }"

definition detect_sleep_mode :: "video_env \<Rightarrow> unit video_m" where
  "detect_sleep_mode E = do {
     r \<leftarrow> vsys E (V_access SLEEP_MODE_FILE);
     if v_ret r \<noteq> 0 then wr (\<lambda>gl. gl\<lparr>sleep_mode_available := False\<rparr>)
     else do {
       wr (\<lambda>gl. gl\<lparr>sleep_mode_available := True\<rparr>);
       ensure_sleep_mode_disabled E
     }
   }"

section \<open>The encoder channel\<close>

definition venc_configure_limited_range_vui :: "video_env \<Rightarrow> u32 \<Rightarrow> unit video_m" where
  "venc_configure_limited_range_vui E height = do {
     codec \<leftarrow> rd E codec_type;
     if codec = 1 then do {
       g \<leftarrow> vsys E RK_VENC_GetH265Vui;
       if v_ret g \<noteq> RK_SUCCESS then skip
       else do { _ \<leftarrow> vsys E (RK_VENC_SetH265Vui (configure_vui_video_signal (v_vui g) height)); skip }
     }
     else do {
       g \<leftarrow> vsys E RK_VENC_GetH264Vui;
       if v_ret g \<noteq> RK_SUCCESS then skip
       else do { _ \<leftarrow> vsys E (RK_VENC_SetH264Vui (configure_vui_video_signal (v_vui g) height)); skip }
     }
   }"

definition venc_start :: "video_env \<Rightarrow> int \<Rightarrow> int \<Rightarrow> u32 \<Rightarrow> u32 \<Rightarrow> u32 \<Rightarrow> int video_m" where
  "venc_start E bitrate max_bitrate width height fps = do {
     codec \<leftarrow> rd E codec_type;
     let stAttr = populate_venc_attr codec (of_int bitrate) (of_int max_bitrate) width height fps;
     r \<leftarrow> vsys E (RK_VENC_CreateChn stAttr);
     if v_ret r < 0 then State_Monad.return (v_ret r)
     else do {
       venc_configure_limited_range_vui E height;
       r \<leftarrow> vsys E (RK_VENC_StartRecvFrame (-1));
       if v_ret r < 0 then State_Monad.return (v_ret r)
       else do {
         wr (\<lambda>gl. gl\<lparr>venc_running := True\<rparr>);
         m \<leftarrow> vsys E V_malloc_thread;
         wr (\<lambda>gl. gl\<lparr>venc_read_thread := v_ret m\<rparr>);
         p \<leftarrow> vsys E (V_pthread_create T_venc_read_stream);
         if v_ret p \<noteq> 0 then State_Monad.return RK_FAILURE
         else State_Monad.return RK_SUCCESS
       }
     }
   }"

definition venc_stop :: "video_env \<Rightarrow> int video_m" where
  "venc_stop E = do {
     wr (\<lambda>gl. gl\<lparr>venc_running := False\<rparr>);
     r \<leftarrow> vsys E RK_VENC_StopRecvFrame;
     if v_ret r \<noteq> RK_SUCCESS then State_Monad.return (v_ret r)
     else do {
       th \<leftarrow> rd E venc_read_thread;
       (if th \<noteq> 0 then do {
          _ \<leftarrow> vsys E (V_pthread_join th);
          _ \<leftarrow> vsys E (V_free th);
          wr (\<lambda>gl. gl\<lparr>venc_read_thread := 0\<rparr>)
        } else skip);
       r \<leftarrow> vsys E RK_VENC_DestroyChn;
       if v_ret r \<noteq> RK_SUCCESS then State_Monad.return (v_ret r)
       else State_Monad.return RK_SUCCESS
     }
   }"

section \<open>The reader thread\<close>

datatype loop_exit = Exit | Out_of_fuel

text \<open>
  One pass waits up to 200 ms for encoded data; a frame is handed to the handler and then released,
  an empty buffer is retried, any other error ends the thread.
\<close>

fun venc_read_loop :: "nat \<Rightarrow> rk_consts \<Rightarrow> video_env \<Rightarrow> loop_exit video_m" where
  "venc_read_loop 0 K E = State_Monad.return Out_of_fuel"
| "venc_read_loop (Suc fuel) K E = do {
     running \<leftarrow> rd E venc_running;
     if \<not> running then State_Monad.return Exit
     else do {
       g \<leftarrow> vsys E RK_VENC_GetStream;
       if v_ret g = RK_SUCCESS then do {
         _ \<leftarrow> get_us E;
         a \<leftarrow> vsys E (RK_MB_Handle2VirAddr (v_blk g));
         _ \<leftarrow> video_send_frame E (v_ret a) (uint (v_len g));
         _ \<leftarrow> vsys E RK_VENC_ReleaseStream;
         venc_read_loop fuel K E
       }
       else if v_ret g = RK_ERR_VENC_BUF_EMPTY K then venc_read_loop fuel K E
       else State_Monad.return Exit
     }
   }"

definition venc_read_stream :: "nat \<Rightarrow> rk_consts \<Rightarrow> video_env \<Rightarrow> loop_exit video_m" where
  "venc_read_stream fuel K E = do {
     p \<leftarrow> vsys E V_malloc_pack;
     x \<leftarrow> venc_read_loop fuel K E;
     if x = Out_of_fuel then State_Monad.return x
     else do {
       _ \<leftarrow> vsys E (V_free (v_ret p));
       State_Monad.return x
     }
   }"

section \<open>The memory pool\<close>

definition input_buffer_count :: nat where "input_buffer_count = 3"

definition buf_init :: "rk_consts \<Rightarrow> video_env \<Rightarrow> int video_m" where
  "buf_init K E = do {
     r \<leftarrow> vsys E (RK_MB_CreatePool (1920 * 1080 * 3) input_buffer_count);
     wr (\<lambda>gl. gl\<lparr>memPool := v_ret r\<rparr>);
     pool \<leftarrow> rd E memPool;
     if pool = MB_INVALID_POOLID K then State_Monad.return (-1)
     else State_Monad.return RK_SUCCESS
   }"

section \<open>Facts\<close>

lemmas venc_defs = get_us_def venc_configure_limited_range_vui_def
  venc_start_def venc_stop_def buf_init_def

lemma keeps_fds_venc [keeps_intros]:
  "keeps fds (get_us E)" "keeps fds (venc_configure_limited_range_vui E h)"
  "keeps fds (venc_start E b m w h f)" "keeps fds (venc_stop E)" "keeps fds (buf_init K E)"
  unfolding venc_defs Let_def by (intro keeps_intros; simp)+

lemma keeps_blocks_venc [keeps_intros]:
  "keeps blocks (get_us E)" "keeps blocks (venc_configure_limited_range_vui E h)"
  "keeps blocks (venc_start E b m w h f)" "keeps blocks (venc_stop E)" "keeps blocks (buf_init K E)"
  "keeps blocks (ensure_sleep_mode_disabled E)"
  unfolding venc_defs Let_def ensure_sleep_mode_disabled_def by (intro keeps_intros; simp)+

text \<open>The sleep-mode file is closed on every path.\<close>

lemma keeps_fds_sleep [keeps_intros]: "keeps fds (ensure_sleep_mode_disabled E)"
proof (rule keepsI)
  fix s r s'
  assume "run_state (ensure_sleep_mode_disabled E) s = (r, s')"
  then show "fds s' = fds s"
    unfolding ensure_sleep_mode_disabled_def Let_def
    by (auto simp: fds_def account_simps book_def run_skip simp del: run_state_bind
        elim!: rdE vsysE split: if_splits)
qed

lemma keeps_fds_detect_sleep [keeps_intros]: "keeps fds (detect_sleep_mode E)"
  unfolding detect_sleep_mode_def by (intro keeps_intros; simp)

lemma keeps_venc_read_loop [keeps_intros]:
  "keeps fds (venc_read_loop fuel K E)" "keeps blocks (venc_read_loop fuel K E)"
  by (induction fuel) (simp_all, (intro keeps_intros; simp)+)

section \<open>The reader thread returns and releases\<close>

text \<open>Encoded streams the reader holds: taken by a successful GetStream, given back by ReleaseStream.\<close>

fun stream_acq :: "video_call \<times> video_answer \<Rightarrow> unit option" where
  "stream_acq (RK_VENC_GetStream, a) = (if v_ret a = RK_SUCCESS then Some () else None)"
| "stream_acq _ = None"

fun stream_rel :: "video_call \<times> video_answer \<Rightarrow> unit option" where
  "stream_rel (RK_VENC_ReleaseStream, a) = Some ()"
| "stream_rel _ = None"

definition streams_held :: "video_world \<Rightarrow> unit multiset" where
  "streams_held s = account stream_acq stream_rel (trace s)"

lemma report_call_stream_neutral:
  "report_call c \<Longrightarrow> stream_acq (c, a) = None \<and> stream_rel (c, a) = None"
  by (cases c) auto

lemma streams_held_report:
  "run_state (video_send_frame E p n) s = (r, s') \<Longrightarrow> streams_held s' = streams_held s"
  unfolding streams_held_def
  by (erule calls_account [OF calls_report(7)]) (rule report_call_stream_neutral)

lemma send_frame_grows: "run_state (video_send_frame E p n) s = (r, s') \<Longrightarrow> length (trace s) \<le> length (trace s')"
  by (rule calls_grows [OF calls_report(7)])

lemma deliver_frame:
  assumes "run_state (do {
      _ \<leftarrow> get_us E;
      a \<leftarrow> vsys E (RK_MB_Handle2VirAddr b);
      _ \<leftarrow> video_send_frame E (v_ret a) n;
      _ \<leftarrow> vsys E RK_VENC_ReleaseStream;
      k}) s = (x, s')"
  obtains t where "run_state k t = (x, s')" and "streams_held t = streams_held s - {#()#}"
    and "length (trace s) < length (trace t)"
proof -
  let ?c = "E (trace s) V_clock_gettime"
  let ?s1 = "s\<lparr>trace := trace s @ [(V_clock_gettime, ?c)], errno := v_errno ?c\<rparr>"
  let ?a = "E (trace ?s1) (RK_MB_Handle2VirAddr b)"
  let ?s2 = "?s1\<lparr>trace := trace ?s1 @ [(RK_MB_Handle2VirAddr b, ?a)], errno := v_errno ?a\<rparr>"
  obtain r u where u: "run_state (video_send_frame E (v_ret ?a) n) ?s2 = (r, u)"
    by (cases "run_state (video_send_frame E (v_ret ?a) n) ?s2")
  let ?r = "E (trace u) RK_VENC_ReleaseStream"
  let ?t = "u\<lparr>trace := trace u @ [(RK_VENC_ReleaseStream, ?r)], errno := v_errno ?r\<rparr>"
  from assms u have "run_state k ?t = (x, s')"
    by (simp add: get_us_def run_vsys)
  moreover have "streams_held u = streams_held s"
    using streams_held_report [OF u] by (simp add: streams_held_def account_simps book_def)
  moreover have "length (trace s) < length (trace u)"
    using send_frame_grows [OF u] by simp
  ultimately show thesis
    by (intro that [of ?t]) (simp_all add: streams_held_def account_simps book_def)
qed

text \<open>What one pass of the loop leaves for the next.\<close>

lemma venc_read_loopE:
  assumes "run_state (venc_read_loop (Suc fuel) K E) s = (x, s')"
  obtains (stopped) "x = Exit" "streams_held s' = streams_held s"
    | (again) t where "run_state (venc_read_loop fuel K E) t = (x, s')"
        "streams_held t = streams_held s" "length (trace s) < length (trace t)"
        "venc_running (v_globals (E (trace s) (V_yield (glob s))))"
proof -
  let ?y = "E (trace s) (V_yield (glob s))"
  let ?s1 = "s\<lparr>trace := trace s @ [(V_yield (glob s), ?y)], glob := v_globals ?y\<rparr>"
  let ?g = "E (trace ?s1) RK_VENC_GetStream"
  let ?s2 = "?s1\<lparr>trace := trace ?s1 @ [(RK_VENC_GetStream, ?g)], errno := v_errno ?g\<rparr>"
  show thesis
  proof (cases "venc_running (v_globals ?y)")
    case False
    with assms stopped show ?thesis
      by (auto simp: run_simps Let_def streams_held_def account_simps book_def)
  next
    case running: True
    consider (frame) "v_ret ?g = RK_SUCCESS" | (empty) "v_ret ?g \<noteq> RK_SUCCESS" "v_ret ?g = RK_ERR_VENC_BUF_EMPTY K"
      | (fail) "v_ret ?g \<noteq> RK_SUCCESS" "v_ret ?g \<noteq> RK_ERR_VENC_BUF_EMPTY K"
      by blast
    then show ?thesis
    proof cases
      case frame
      with assms running have "run_state (do {
          _ \<leftarrow> get_us E;
          a \<leftarrow> vsys E (RK_MB_Handle2VirAddr (v_blk ?g));
          _ \<leftarrow> video_send_frame E (v_ret a) (uint (v_len ?g));
          _ \<leftarrow> vsys E RK_VENC_ReleaseStream;
          venc_read_loop fuel K E}) ?s2 = (x, s')"
        by (simp add: run_rd run_vsys Let_def)
      from deliver_frame [OF this] obtain t where "run_state (venc_read_loop fuel K E) t = (x, s')"
          and "streams_held t = streams_held ?s2 - {#()#}" and "length (trace ?s2) < length (trace t)"
        by blast
      moreover from frame have "streams_held ?s2 = streams_held s + {#()#}"
        by (simp add: streams_held_def account_simps book_def)
      ultimately show ?thesis
        using running by (intro again [of t]) auto
    next
      case empty
      with assms running show ?thesis
        by (intro again [of ?s2]) (simp_all add: run_rd run_vsys Let_def streams_held_def account_simps book_def)
    next
      case fail
      with assms running show ?thesis
        by (intro stopped) (auto simp: run_rd run_vsys Let_def streams_held_def account_simps book_def)
    qed
  qed
qed

lemma venc_read_loop_releases:
  "run_state (venc_read_loop fuel K E) s = (x, s') \<Longrightarrow> streams_held s' = streams_held s"
proof (induction fuel arbitrary: s)
  case (Suc fuel)
  from Suc.prems show ?case
    by (rule venc_read_loopE) (use Suc.IH in metis)+
qed simp

lemma venc_read_loop_returns:
  assumes "\<And>h gl. N \<le> length h \<Longrightarrow> \<not> venc_running (v_globals (E h (V_yield gl)))"
  shows "0 < fuel \<Longrightarrow> N < fuel + length (trace s) \<Longrightarrow>
    run_state (venc_read_loop fuel K E) s = (x, s') \<Longrightarrow> x = Exit"
proof (induction fuel arbitrary: s)
  case (Suc fuel)
  from Suc.prems(3) show ?case
  proof (cases rule: venc_read_loopE)
    case (again t)
    then have "length (trace s) < N"
      using assms by (meson not_le)
    with again(3) Suc.prems(2) have "0 < fuel" and "N < fuel + length (trace t)"
      by linarith+
    from Suc.IH [OF this again(1)] show ?thesis .
  qed simp
qed simp

text \<open>
  C28. The reader thread gives back every encoded stream it takes from the encoder, on every exit
  path and for every behaviour of the encoder and of the frame handler; and when
  \<open>venc_running\<close> is false from some moment of the history on, it returns (it does not run out of
  fuel as soon as the fuel exceeds that moment).
\<close>

theorem venc_reader_returns_and_releases:
  assumes "\<And>h gl. N \<le> length h \<Longrightarrow> \<not> venc_running (v_globals (E h (V_yield gl)))"
    and "N < fuel"
    and "run_state (venc_read_stream fuel K E) s = (x, s')"
  shows "x = Exit \<and> streams_held s' = streams_held s"
proof -
  let ?p = "E (trace s) V_malloc_pack"
  let ?s1 = "s\<lparr>trace := trace s @ [(V_malloc_pack, ?p)], errno := v_errno ?p\<rparr>"
  obtain y t where loop: "run_state (venc_read_loop fuel K E) ?s1 = (y, t)"
    by (cases "run_state (venc_read_loop fuel K E) ?s1")
  have "y = Exit"
    using venc_read_loop_returns [where N = N, OF assms(1) _ _ loop] assms(2) by simp
  with loop assms(3) venc_read_loop_releases [OF loop] show ?thesis
    by (auto simp: venc_read_stream_def run_vsys streams_held_def account_simps book_def)
qed

text \<open>An encoder that delivers two frames while the flag is set, with the flag cleared afterwards.\<close>

definition running_until :: "nat \<Rightarrow> video_env" where
  "running_until n h c = (case c of
     V_yield gl \<Rightarrow> sample_answer\<lparr>v_globals := gl\<lparr>venc_running := length h < n, video_handler := True\<rparr>\<rparr>
   | _ \<Rightarrow> sample_answer)"

theorem venc_reader_returns_and_releases_witness:
  "fst (run_state (venc_read_stream 9 sample_consts (running_until 8)) sample_world) = Exit \<and>
   streams_held (snd (run_state (venc_read_stream 9 sample_consts (running_until 8)) sample_world)) = {#}"
proof -
  obtain x t where run: "run_state (venc_read_stream 9 sample_consts (running_until 8)) sample_world = (x, t)"
    by (cases "run_state (venc_read_stream 9 sample_consts (running_until 8)) sample_world")
  have "x = Exit \<and> streams_held t = streams_held sample_world"
    by (rule venc_reader_returns_and_releases [OF _ _ run, of 8])
      (simp_all add: running_until_def sample_answer_def)
  then show ?thesis
    using run by (simp add: sample_world_def streams_held_def account_simps)
qed

section \<open>Starting and stopping the channel\<close>

text \<open>
  C29. \<open>venc_stop\<close> makes exactly these calls: it stops the encoder; only when that succeeds, and only
  after the reader thread (if there is one) has been joined and its handle freed, it destroys the
  channel. It returns the first failure, and leaves \<open>venc_running\<close> false and, when it got past
  the stop, no reader thread.
\<close>

theorem venc_stop_order:
  assumes "no_interference E" and "run_state (venc_stop E) s = (r, s')"
  shows "case drop (length (trace s)) (trace s') of [] \<Rightarrow> False | (c, a) # es \<Rightarrow>
    c = RK_VENC_StopRecvFrame \<and>
    (if v_ret a \<noteq> RK_SUCCESS
     then es = [] \<and> r = v_ret a \<and> venc_read_thread (glob s') = venc_read_thread (glob s)
     else map fst es = V_yield ((glob s)\<lparr>venc_running := False\<rparr>)
            # (if venc_read_thread (glob s) = 0 then []
               else [V_pthread_join (venc_read_thread (glob s)), V_free (venc_read_thread (glob s))])
            @ [RK_VENC_DestroyChn] \<and>
          r = v_ret (snd (last es)) \<and> venc_read_thread (glob s') = 0) \<and>
    \<not> venc_running (glob s')"
  using assms(2) no_interferenceD [OF assms(1)]
  by (auto simp: venc_stop_def run_simps Let_def RK_SUCCESS_def split: if_splits)

definition all_succeed :: video_env where
  "all_succeed h c = (case c of
     V_yield gl \<Rightarrow> sample_answer\<lparr>v_globals := gl\<rparr>
   | _ \<Rightarrow> sample_answer)"

theorem venc_stop_order_witness:
  "map fst (trace (snd (run_state (venc_stop all_succeed)
       (sample_world\<lparr>glob := (glob sample_world)\<lparr>venc_running := True, venc_read_thread := 7\<rparr>\<rparr>)))) =
     [RK_VENC_StopRecvFrame, V_yield ((init_globals sample_consts)\<lparr>venc_read_thread := 7\<rparr>),
      V_pthread_join 7, V_free 7, RK_VENC_DestroyChn]"
proof -
  let ?s = "sample_world\<lparr>glob := (glob sample_world)\<lparr>venc_running := True, venc_read_thread := 7\<rparr>\<rparr>"
  obtain r t where run: "run_state (venc_stop all_succeed) ?s = (r, t)"
    by (cases "run_state (venc_stop all_succeed) ?s")
  have quiet: "no_interference all_succeed"
    by (simp add: no_interference_def all_succeed_def)
  have eq: "trace t = [(RK_VENC_StopRecvFrame, sample_answer)] @ drop 1 (trace t)"
    using run by (auto simp: venc_stop_def run_simps Let_def RK_SUCCESS_def sample_world_def
        all_succeed_def sample_answer_def split: if_splits)
  from venc_stop_order [OF quiet run] show ?thesis
    using run eq by (cases "trace t") (simp_all add: RK_SUCCESS_def sample_world_def init_globals_def sample_answer_def)
qed

text \<open>
  When the reader thread cannot be created, \<open>venc_start\<close> reports the failure but keeps the
  handle it allocated, so that the clean-up's \<open>venc_stop\<close> joins a thread that was never created.
\<close>

lemma venc_start_failure_is_joined:
  assumes "no_interference E" and "run_state (venc_start E b m w h f) s = (r, s')"
    and "trace s' = tr @ [(V_malloc_thread, ma), (V_pthread_create T_venc_read_stream, p)]"
    and "v_ret p \<noteq> 0" and "v_ret ma \<noteq> 0"
    and "v_ret (E (trace s') RK_VENC_StopRecvFrame) = RK_SUCCESS"
    and "run_state (venc_stop E) s' = (r2, s2)"
  shows "r = RK_FAILURE \<and> V_pthread_join (v_ret ma) \<in> fst ` set (drop (length (trace s')) (trace s2))"
proof -
  have "r = RK_FAILURE \<and> venc_read_thread (glob s') = v_ret ma"
    using assms(2-4) unfolding venc_start_def Let_def
    by (auto simp: run_wr simp del: run_state_bind
        elim!: rdE vsysE bindE [of "wr g" for g] bindE [of "venc_configure_limited_range_vui E h"]
        split: if_splits)
  moreover have "V_pthread_join (venc_read_thread (glob s')) \<in> fst ` set (drop (length (trace s')) (trace s2))"
    if "venc_read_thread (glob s') \<noteq> 0"
    using assms(6,7) that no_interferenceD [OF assms(1)]
    by (auto simp: venc_stop_def run_simps Let_def RK_SUCCESS_def split: if_splits)
  ultimately show ?thesis
    using assms(5) by metis
qed

end
