(* ===== verification/Video_Stream.thy ===== *)
theory Video_Stream
  imports Venc
begin

text \<open>
  The capture thread of \<open>video.c\<close>: \<open>run_video_stream\<close> opens the capture device, sets the format,
  allocates and queues the buffers, starts the encoder, feeds it frames until streaming is switched
  off or the device fails, and cleans up. One pass of the outer loop is \<open>stream_pass\<close>; the early
  returns of the source are \<open>Leave\<close> outcomes.
\<close>

datatype thread_result = Ret_null | Ret_errno int | Aborted | No_fuel
datatype pass_exit = Again | Leave thread_result

section \<open>Setting up\<close>

definition capture_format :: "u32 \<Rightarrow> u32 \<Rightarrow> pix_format" where
  "capture_format width height =
     set_v4l2_yuv_colorimetry
       (zero_pix_format\<lparr>pf_width := width, pf_height := height, pf_pixelformat := V4L2_PIX_FMT_YUYV,
          pf_field := V4L2_FIELD_ANY\<rparr>) height"

text \<open>
  The first buffer loop, from index \<open>i\<close> for \<open>n\<close> buffers: query the buffer, take a memory block of its
  length and turn it into a descriptor. \<open>Inl\<close> is the early return with \<open>errno\<close>, the device closed;
  \<open>Inr\<close> the block and the descriptor of each buffer. Blocks taken before a failure are not
  released.
\<close>

fun alloc_buffers :: "video_env \<Rightarrow> int \<Rightarrow> nat \<Rightarrow> nat \<Rightarrow> (int + (int \<times> int) list) video_m" where
  "alloc_buffers E fd i 0 = State_Monad.return (Inr [])"
| "alloc_buffers E fd i (Suc n) = do {
     q \<leftarrow> vsys E (V_QUERYBUF fd i);
     if v_ret q = -1 then do {
       c \<leftarrow> vsys E (V_close fd);
       State_Monad.return (Inl (v_errno c))
     }
     else do {
       pool \<leftarrow> rd E memPool;
       m \<leftarrow> vsys E (RK_MB_GetMB pool (p_length (v_plane q)));
       let blk = v_ret m;
       if blk = 0 then do {
         c \<leftarrow> vsys E (V_close fd);
         State_Monad.return (Inl (v_errno c))
       }
       else do {
         f \<leftarrow> vsys E (RK_MB_Handle2Fd blk);
         if v_ret f < 0 then do {
           c \<leftarrow> vsys E (V_close fd);
           State_Monad.return (Inl (v_errno c))
         }
         else do {
           rest \<leftarrow> alloc_buffers E fd (Suc i) n;
           State_Monad.return (map_sum id ((#) (blk, v_ret f)) rest)
         }
       }
     }
   }"

text \<open>The second buffer loop: queue every buffer. \<open>Some\<close> is the early return.\<close>

fun queue_buffers :: "video_env \<Rightarrow> int \<Rightarrow> nat \<Rightarrow> (int \<times> int) list \<Rightarrow> int option video_m" where
  "queue_buffers E fd i [] = State_Monad.return None"
| "queue_buffers E fd i (b # bs) = do {
     q \<leftarrow> vsys E (V_QBUF fd i (snd b));
     if v_ret q < 0 then do {
       c \<leftarrow> vsys E (V_close fd);
       State_Monad.return (Some (v_errno c))
     }
     else queue_buffers E fd (Suc i) bs
   }"

section \<open>Feeding the encoder\<close>

definition initial_frame :: "u32 \<Rightarrow> u32 \<Rightarrow> video_frame" where
  "initial_frame width height = \<lparr>fr_width = width, fr_height = height, fr_vir_width = RK_ALIGN_16 width,
     fr_vir_height = RK_ALIGN_16 height, fr_field = VIDEO_FIELD_FRAME, fr_pixel_format = RK_FMT_YUV422_YUYV,
     fr_video_format = VIDEO_FORMAT_LINEAR, fr_compress_mode = COMPRESS_MODE_NONE,
     fr_dynamic_range = DYNAMIC_RANGE_SDR8, fr_gamut = color_gamut_for_height height,
     fr_blk = 0, fr_time_ref = 0, fr_pts = 0\<rparr>"

text \<open>\<open>retry_send_frame\<close>: at most one retry, after a millisecond.\<close>

definition send_frame :: "video_env \<Rightarrow> video_frame \<Rightarrow> unit video_m" where
  "send_frame E fr = do {
     r \<leftarrow> vsys E (RK_VENC_SendFrame fr);
     if v_ret r \<noteq> RK_SUCCESS then do {
       _ \<leftarrow> vsys E (V_usleep 1000);
       _ \<leftarrow> vsys E (RK_VENC_SendFrame fr);
       skip
     }
     else skip
   }"

datatype frame_exit = Frames_done | Frames_abort | Frames_no_fuel

fun frame_loop :: "nat \<Rightarrow> video_env \<Rightarrow> int \<Rightarrow> video_frame \<Rightarrow> u32 \<Rightarrow> frame_exit video_m" where
  "frame_loop 0 E fd fr num = State_Monad.return Frames_no_fuel"
| "frame_loop (Suc fuel) E fd fr num = do {
     flag \<leftarrow> rd E streaming_flag;
     if \<not> flag then State_Monad.return Frames_done
     else do {
       sel \<leftarrow> vsys E (V_select fd);
       if v_ret sel = 0 then do {
         ensure_sleep_mode_disabled E;
         State_Monad.return Frames_done
       }
       else if v_ret sel = -1 then
         (if v_errno sel = EINTR then frame_loop fuel E fd fr num
          else State_Monad.return Frames_done)
       else do {
         d \<leftarrow> vsys E (V_DQBUF fd);
         if v_ret d < 0 then State_Monad.return Frames_done
         else do {
           b \<leftarrow> vsys E (RK_MMZ_Fd2Handle (p_fd (v_plane d)));
           if v_ret b = 0 then State_Monad.return Frames_abort
           else do {
             now \<leftarrow> get_us E;
             let fr' = fr\<lparr>fr_blk := v_ret b, fr_time_ref := num, fr_pts := now\<rparr>;
             send_frame E fr';
             _ \<leftarrow> vsys E (V_QBUF fd (p_index (v_plane d)) (p_fd (v_plane d)));
             frame_loop fuel E fd fr' (num + 1)
           }
         }
       }
     }
   }"

section \<open>Cleaning up\<close>

fun release_blocks :: "video_env \<Rightarrow> (int \<times> int) list \<Rightarrow> unit video_m" where
  "release_blocks E [] = skip"
| "release_blocks E (b # bs) = do {
     (if fst b \<noteq> 0 then do { _ \<leftarrow> vsys E (RK_MB_ReleaseMB (fst b)); skip } else skip);
     release_blocks E bs
   }"

definition cleanup :: "video_env \<Rightarrow> int \<Rightarrow> (int \<times> int) list \<Rightarrow> unit video_m" where
  "cleanup E fd bufs = do {
     _ \<leftarrow> vsys E (V_STREAMOFF fd);
     _ \<leftarrow> vsys E (V_REQBUFS fd 0);
     _ \<leftarrow> venc_stop E;
     release_blocks E bufs;
     _ \<leftarrow> vsys E (V_close fd);
     skip
   }"

section \<open>One pass and the thread\<close>

text \<open>
  The pass after the device is opened and the format is set. The bitrate computation is undefined
  (\<open>Aborted\<close>) outside the ranges of \<open>calculate_bitrate\<close>.
\<close>

definition stream_frames :: "nat \<Rightarrow> video_env \<Rightarrow> int \<Rightarrow> u32 \<Rightarrow> u32 \<Rightarrow> u32 \<Rightarrow> (int \<times> int) list \<Rightarrow> pass_exit video_m" where
  "stream_frames fuel E fd width height fps bufs = do {
     q \<leftarrow> rd E quality_factor;
     case Option.bind (calculate_bitrate q (sint width) (sint height))
            (\<lambda>b. map_option (Pair b) (max_bitrate_of b)) of
       None \<Rightarrow> State_Monad.return (Leave Aborted)
     | Some (bitrate, max_bitrate) \<Rightarrow> do {
         ret \<leftarrow> venc_start E bitrate max_bitrate width height fps;
         if ret \<noteq> RK_SUCCESS then do { cleanup E fd bufs; State_Monad.return Again }
         else do {
           x \<leftarrow> frame_loop fuel E fd (initial_frame width height) 0;
           case x of
             Frames_done \<Rightarrow> do { cleanup E fd bufs; State_Monad.return Again }
           | Frames_abort \<Rightarrow> State_Monad.return (Leave Aborted)
           | Frames_no_fuel \<Rightarrow> State_Monad.return (Leave No_fuel)
         }
       }
   }"

definition stream_buffers :: "nat \<Rightarrow> video_env \<Rightarrow> int \<Rightarrow> u32 \<Rightarrow> u32 \<Rightarrow> u32 \<Rightarrow> pass_exit video_m" where
  "stream_buffers fuel E fd width height fps = do {
     a \<leftarrow> alloc_buffers E fd 0 input_buffer_count;
     case a of
       Inl e \<Rightarrow> State_Monad.return (Leave (Ret_errno e))
     | Inr bufs \<Rightarrow> do {
         q \<leftarrow> queue_buffers E fd 0 bufs;
         case q of
           Some e \<Rightarrow> State_Monad.return (Leave (Ret_errno e))
         | None \<Rightarrow> do {
             on \<leftarrow> vsys E (V_STREAMON fd);
             if v_ret on < 0 then do {
               c \<leftarrow> vsys E (V_close fd);
               State_Monad.return (Leave (Ret_errno (v_errno c)))
             }
             else stream_frames fuel E fd width height fps bufs
           }
       }
   }"

definition stream_pass :: "nat \<Rightarrow> video_env \<Rightarrow> pass_exit video_m" where
  "stream_pass fuel E = do {
     signal \<leftarrow> rd E detected_signal;
     if \<not> signal then do { _ \<leftarrow> vsys E (V_usleep 10000); State_Monad.return Again }
     else do {
       opn \<leftarrow> vsys E (V_open VIDEO_DEV);
       if v_ret opn < 0 then do { _ \<leftarrow> vsys E (V_usleep 1000000); State_Monad.return Again }
       else do {
         let fd = v_ret opn;
         width \<leftarrow> rd E detected_width;
         height \<leftarrow> rd E detected_height;
         fps \<leftarrow> rd E detected_fps;
         f \<leftarrow> vsys E (V_S_FMT fd (capture_format width height));
         if v_ret f < 0 then do {
           _ \<leftarrow> vsys E (V_usleep 100000);
           _ \<leftarrow> vsys E (V_close fd);
           State_Monad.return Again
         }
         else do {
           r \<leftarrow> vsys E (V_REQBUFS fd input_buffer_count);
           if v_ret r < 0 then do {
             c \<leftarrow> vsys E (V_close fd);
             State_Monad.return (Leave (Ret_errno (v_errno c)))
           }
           else stream_buffers fuel E fd width height fps
         }
       }
     }
   }"

fun stream_loop :: "nat \<Rightarrow> nat \<Rightarrow> video_env \<Rightarrow> thread_result video_m" where
  "stream_loop 0 frames E = State_Monad.return No_fuel"
| "stream_loop (Suc passes) frames E = do {
     flag \<leftarrow> rd E streaming_flag;
     if \<not> flag then do { set_streaming_stopped E True; State_Monad.return Ret_null }
     else do {
       x \<leftarrow> stream_pass frames E;
       case x of
         Again \<Rightarrow> stream_loop passes frames E
       | Leave r \<Rightarrow> State_Monad.return r
     }
   }"

definition run_video_stream :: "nat \<Rightarrow> nat \<Rightarrow> video_env \<Rightarrow> thread_result video_m" where
  "run_video_stream passes frames E = do {
     set_streaming_stopped E False;
     stream_loop passes frames E
   }"

section \<open>Descriptors and memory blocks of a pass\<close>

lemmas acct = fds_def blocks_def account_simps book_def

lemma map_sum_id_Inl [simp]: "map_sum id g x = Inl e \<longleftrightarrow> x = Inl e"
  by (cases x) auto

lemma map_sum_id_Inr [simp]: "map_sum id g x = Inr y \<longleftrightarrow> (\<exists>z. x = Inr z \<and> y = g z)"
  by (cases x) auto

lemma add_mset_subseteqD: "add_mset x A \<subseteq># B \<Longrightarrow> A \<subseteq># B"
  by (metis mset_subset_eq_insertD subset_mset.less_imp_le)

lemma alloc_buffers_Inl:
  "run_state (alloc_buffers E fd i n) s = (Inl e, s') \<Longrightarrow>
   fds s' = fds s - {#fd#} \<and> blocks s \<subseteq># blocks s' \<and> size (blocks s') \<le> size (blocks s) + n"
proof (induction n arbitrary: i s)
  case (Suc n)
  from Suc.prems show ?case
    by (auto simp: Let_def acct simp del: run_state_bind
        elim!: rdE vsysE bindE [of "alloc_buffers E fd (Suc i) n"] split: if_splits
        dest!: Suc.IH) (erule add_mset_subseteqD)
qed simp

lemma alloc_buffers_Inr:
  "run_state (alloc_buffers E fd i n) s = (Inr bufs, s') \<Longrightarrow>
   fds s' = fds s \<and> blocks s' = blocks s + mset (map fst bufs) \<and> (\<forall>b \<in> set bufs. fst b \<noteq> 0) \<and> length bufs = n"
proof (induction n arbitrary: i s bufs)
  case (Suc n)
  from Suc.prems show ?case
    by (auto simp: Let_def acct simp del: run_state_bind
        elim!: rdE vsysE bindE [of "alloc_buffers E fd (Suc i) n"] split: if_splits
        dest!: Suc.IH) force
qed simp

lemma queue_buffers_effect:
  "run_state (queue_buffers E fd i bs) s = (x, s') \<Longrightarrow>
   fds s' = (if x = None then fds s else fds s - {#fd#}) \<and> blocks s' = blocks s"
proof (induction bs arbitrary: i s x)
  case (Cons b bs)
  from Cons.prems show ?case
    by (auto simp: acct simp del: run_state_bind elim!: vsysE split: if_splits dest!: Cons.IH)
qed simp

lemma keeps_send_frame [keeps_intros]: "keeps fds (send_frame E fr)" "keeps blocks (send_frame E fr)"
  unfolding send_frame_def by (intro keeps_intros; simp)+

lemma keeps_frame_loop [keeps_intros]:
  "keeps fds (frame_loop fuel E fd fr num)" "keeps blocks (frame_loop fuel E fd fr num)"
proof (induction fuel arbitrary: fr num)
  case (Suc fuel)
  {
    case 1
    show ?case
      unfolding frame_loop.simps Let_def by (intro keeps_intros Suc.IH; simp)
  next
    case 2
    show ?case
      unfolding frame_loop.simps Let_def by (intro keeps_intros Suc.IH; simp)
  }
qed (simp_all add: keeps_return)

lemma release_blocks_effect:
  "run_state (release_blocks E bs) s = (x, s') \<Longrightarrow> (\<forall>b \<in> set bs. fst b \<noteq> 0) \<Longrightarrow>
   fds s' = fds s \<and> blocks s' = blocks s - mset (map fst bs)"
proof (induction bs arbitrary: s)
  case (Cons b bs)
  from Cons.prems(2) have "fst b \<noteq> 0" and z: "\<forall>b \<in> set bs. fst b \<noteq> 0"
    by auto
  with Cons.prems(1) obtain a where "run_state (release_blocks E bs)
      (s\<lparr>trace := trace s @ [(RK_MB_ReleaseMB (fst b), a)], errno := v_errno a\<rparr>) = (x, s')"
    by (auto simp: run_vsys run_skip)
  from Cons.IH [OF this z] show ?case
    by (simp add: acct)
qed (simp add: run_skip)

lemma cleanup_effect:
  assumes "run_state (cleanup E fd bs) s = (x, s')" and "\<forall>b \<in> set bs. fst b \<noteq> 0"
  shows "fds s' = fds s - {#fd#} \<and> blocks s' = blocks s - mset (map fst bs)"
proof -
  from assms(1) obtain a b r t u x' where
      stop: "run_state (venc_stop E) (s\<lparr>trace := trace s @ [(V_STREAMOFF fd, a), (V_REQBUFS fd 0, b)],
         errno := v_errno b\<rparr>) = (r, t)"
      and rel: "run_state (release_blocks E bs) t = (x', u)"
      and close: "run_state (State_Monad.bind (vsys E (V_close fd)) (\<lambda>_. skip)) u = (x, s')"
    unfolding cleanup_def
    by (auto simp del: run_state_bind elim!: vsysE [of E "V_STREAMOFF fd"] vsysE [of E "V_REQBUFS fd 0"]
        bindE [of "venc_stop E"] bindE [of "release_blocks E bs"])
  have "fds t = fds s" and "blocks t = blocks s"
    using stop keepsD [OF keeps_fds_venc(4) stop] keepsD [OF keeps_blocks_venc(4) stop]
    by (simp_all add: acct)
  with release_blocks_effect [OF rel assms(2)] close show ?thesis
    by (auto simp: acct run_vsys run_skip)
qed

definition pass_post :: "int \<Rightarrow> video_world \<Rightarrow> pass_exit \<Rightarrow> video_world \<Rightarrow> bool" where
  "pass_post fd s x s' = (case x of
     Again \<Rightarrow> fds s' = fds s - {#fd#} \<and> blocks s' = blocks s
   | Leave (Ret_errno e) \<Rightarrow> fds s' = fds s - {#fd#} \<and> blocks s \<subseteq># blocks s' \<and>
       size (blocks s') \<le> size (blocks s) + input_buffer_count
   | Leave Ret_null \<Rightarrow> False
   | Leave _ \<Rightarrow> True)"

lemma cleanup_again:
  assumes "run_state (do { cleanup E fd bufs; State_Monad.return Again }) s = (x, s')"
    and "blocks s = M + mset (map fst bufs)" and "\<forall>b \<in> set bufs. fst b \<noteq> 0"
  shows "x = Again \<and> fds s' = fds s - {#fd#} \<and> blocks s' = M"
  using assms by (auto simp del: run_state_bind elim!: bindE dest!: cleanup_effect)

text \<open>After the encoder was started, or not.\<close>

lemma encoder_post:
  assumes "run_state (if ret \<noteq> RK_SUCCESS then do { cleanup E fd bufs; State_Monad.return Again }
         else do {
           x \<leftarrow> frame_loop fuel E fd fr 0;
           case x of
             Frames_done \<Rightarrow> do { cleanup E fd bufs; State_Monad.return Again }
           | Frames_abort \<Rightarrow> State_Monad.return (Leave Aborted)
           | Frames_no_fuel \<Rightarrow> State_Monad.return (Leave No_fuel)
         }) s = (x, s')"
    and "blocks s = M + mset (map fst bufs)" and "\<forall>b \<in> set bufs. fst b \<noteq> 0"
  shows "x = Again \<and> fds s' = fds s - {#fd#} \<and> blocks s' = M \<or> x = Leave Aborted \<or> x = Leave No_fuel"
proof (cases "ret = RK_SUCCESS")
  case False
  with assms(1) have "run_state (do { cleanup E fd bufs; State_Monad.return Again }) s = (x, s')"
    by simp
  from cleanup_again [OF this assms(2,3)] show ?thesis by simp
next
  case True
  with assms(1) obtain y v where v: "run_state (frame_loop fuel E fd fr 0) s = (y, v)"
    and last: "run_state (case y of Frames_done \<Rightarrow> do { cleanup E fd bufs; State_Monad.return Again }
       | Frames_abort \<Rightarrow> State_Monad.return (Leave Aborted)
       | Frames_no_fuel \<Rightarrow> State_Monad.return (Leave No_fuel)) v = (x, s')"
    by (simp del: run_state_bind) (erule bindE)
  have "fds v = fds s" "blocks v = M + mset (map fst bufs)"
    using keepsD [OF keeps_frame_loop(1) v] keepsD [OF keeps_frame_loop(2) v] assms(2) by simp_all
  with last assms(3) cleanup_again [of E fd bufs v x s' M] show ?thesis
    by (cases y) (simp_all del: run_state_bind)
qed

lemma stream_frames_post:
  assumes "run_state (stream_frames fuel E fd w h fps bufs) s = (x, s')"
    and "blocks s = M + mset (map fst bufs)" and "\<forall>b \<in> set bufs. fst b \<noteq> 0"
  shows "x = Again \<and> fds s' = fds s - {#fd#} \<and> blocks s' = M \<or> x = Leave Aborted \<or> x = Leave No_fuel"
proof -
  let ?body = "\<lambda>b m. do {
         ret \<leftarrow> venc_start E b m w h fps;
         if ret \<noteq> RK_SUCCESS then do { cleanup E fd bufs; State_Monad.return Again }
         else do {
           x \<leftarrow> frame_loop fuel E fd (initial_frame w h) 0;
           case x of
             Frames_done \<Rightarrow> do { cleanup E fd bufs; State_Monad.return Again }
           | Frames_abort \<Rightarrow> State_Monad.return (Leave Aborted)
           | Frames_no_fuel \<Rightarrow> State_Monad.return (Leave No_fuel)
         } }"
  from assms(1) obtain q t where q: "run_state (rd E quality_factor) s = (q, t)"
    and rest: "run_state (case Option.bind (calculate_bitrate q (sint w) (sint h))
            (\<lambda>b. map_option (Pair b) (max_bitrate_of b)) of
       None \<Rightarrow> State_Monad.return (Leave Aborted) | Some (b, m) \<Rightarrow> ?body b m) t = (x, s')"
    unfolding stream_frames_def by (rule bindE)
  have t: "fds t = fds s" "blocks t = M + mset (map fst bufs)"
    using keepsD [OF keeps_fds_rd q] keepsD [OF keeps_blocks_rd q] assms(2) by simp_all
  from rest consider "x = Leave Aborted" | b m where "run_state (?body b m) t = (x, s')"
    by (auto simp del: run_state_bind split: option.splits)
  then show ?thesis
  proof cases
    case (2 b m)
    then obtain ret u where u: "run_state (venc_start E b m w h fps) t = (ret, u)"
      and last: "run_state (if ret \<noteq> RK_SUCCESS then do { cleanup E fd bufs; State_Monad.return Again }
         else do {
           x \<leftarrow> frame_loop fuel E fd (initial_frame w h) 0;
           case x of
             Frames_done \<Rightarrow> do { cleanup E fd bufs; State_Monad.return Again }
           | Frames_abort \<Rightarrow> State_Monad.return (Leave Aborted)
           | Frames_no_fuel \<Rightarrow> State_Monad.return (Leave No_fuel)
         }) u = (x, s')"
      by (rule bindE)
    have "fds u = fds s" "blocks u = M + mset (map fst bufs)"
      using keepsD [OF keeps_fds_venc(3) u] keepsD [OF keeps_blocks_venc(3) u] t by simp_all
    with encoder_post [OF last _ assms(3)] show ?thesis by simp
  qed simp
qed

text \<open>The buffers are allocated: queue them and switch the device on.\<close>

lemma queued_post:
  assumes "run_state (do {
         q \<leftarrow> queue_buffers E fd 0 bufs;
         case q of
           Some e \<Rightarrow> State_Monad.return (Leave (Ret_errno e))
         | None \<Rightarrow> do {
             on \<leftarrow> vsys E (V_STREAMON fd);
             if v_ret on < 0 then do {
               c \<leftarrow> vsys E (V_close fd);
               State_Monad.return (Leave (Ret_errno (v_errno c)))
             }
             else stream_frames fuel E fd w h fps bufs
           } }) t = (x, s')"
    and t: "fds t = fds s" "blocks t = blocks s + mset (map fst bufs)" "\<forall>b \<in> set bufs. fst b \<noteq> 0"
      "length bufs = input_buffer_count"
  shows "pass_post fd s x s'"
proof -
  from assms(1) obtain q u where q: "run_state (queue_buffers E fd 0 bufs) t = (q, u)"
    and rest: "run_state (case q of
           Some e \<Rightarrow> State_Monad.return (Leave (Ret_errno e))
         | None \<Rightarrow> do {
             on \<leftarrow> vsys E (V_STREAMON fd);
             if v_ret on < 0 then do {
               c \<leftarrow> vsys E (V_close fd);
               State_Monad.return (Leave (Ret_errno (v_errno c)))
             }
             else stream_frames fuel E fd w h fps bufs
           }) u = (x, s')"
    by (rule bindE)
  let ?on = "E (trace u) (V_STREAMON fd)"
  let ?v = "u\<lparr>trace := trace u @ [(V_STREAMON fd, ?on)], errno := v_errno ?on\<rparr>"
  note u = queue_buffers_effect [OF q]
  consider (unqueued) e where "q = Some e" | (off) "q = None" "v_ret ?on < 0" | (on) "q = None" "\<not> v_ret ?on < 0"
    by (cases q) auto
  then show ?thesis
  proof cases
    case unqueued
    with rest u t show ?thesis by (auto simp: pass_post_def)
  next
    case off
    with rest u t show ?thesis by (auto simp: pass_post_def run_vsys acct)
  next
    case on
    with u t have v: "fds ?v = fds s" "blocks ?v = blocks s + mset (map fst bufs)"
      by (auto simp: acct)
    from rest on have "run_state (stream_frames fuel E fd w h fps bufs) ?v = (x, s')"
      by (simp add: run_vsys)
    from stream_frames_post [OF this v(2) t(3)] v(1) show ?thesis
      by (auto simp: pass_post_def)
  qed
qed

lemma stream_buffers_post:
  assumes "run_state (stream_buffers fuel E fd w h fps) s = (x, s')"
  shows "pass_post fd s x s'"
proof -
  let ?rest = "\<lambda>bufs. do {
         q \<leftarrow> queue_buffers E fd 0 bufs;
         case q of
           Some e \<Rightarrow> State_Monad.return (Leave (Ret_errno e))
         | None \<Rightarrow> do {
             on \<leftarrow> vsys E (V_STREAMON fd);
             if v_ret on < 0 then do {
               c \<leftarrow> vsys E (V_close fd);
               State_Monad.return (Leave (Ret_errno (v_errno c)))
             }
             else stream_frames fuel E fd w h fps bufs
           } }"
  from assms obtain a t where a: "run_state (alloc_buffers E fd 0 input_buffer_count) s = (a, t)"
    and rest: "run_state (case a of Inl e \<Rightarrow> State_Monad.return (Leave (Ret_errno e)) | Inr bufs \<Rightarrow> ?rest bufs) t = (x, s')"
    unfolding stream_buffers_def by (rule bindE)
  show ?thesis
  proof (cases a)
    case (Inl e)
    with rest alloc_buffers_Inl a show ?thesis
      by (fastforce simp: pass_post_def)
  next
    case (Inr bufs)
    with rest have run: "run_state (?rest bufs) t = (x, s')" by simp
    from a Inr have "run_state (alloc_buffers E fd 0 input_buffer_count) s = (Inr bufs, t)" by simp
    from alloc_buffers_Inr [OF this] show ?thesis
      by (intro queued_post [OF run]) simp_all
  qed
qed

definition balanced_exit :: "video_world \<Rightarrow> thread_result \<Rightarrow> video_world \<Rightarrow> bool" where
  "balanced_exit s r s' = (case r of
     Ret_null \<Rightarrow> fds s' = fds s \<and> blocks s' = blocks s
   | Ret_errno e \<Rightarrow> fds s' = fds s \<and> blocks s \<subseteq># blocks s' \<and>
       size (blocks s') \<le> size (blocks s) + input_buffer_count
   | _ \<Rightarrow> True)"

lemma stream_pass_post:
  assumes "run_state (stream_pass fuel E) s = (x, s')"
  shows "case x of Again \<Rightarrow> fds s' = fds s \<and> blocks s' = blocks s
    | Leave r \<Rightarrow> r \<noteq> Ret_null \<and> balanced_exit s r s'"
  using assms unfolding stream_pass_def Let_def
  by (auto simp: acct pass_post_def balanced_exit_def simp del: run_state_bind
      elim!: rdE vsysE split: if_splits pass_exit.splits thread_result.splits dest!: stream_buffers_post)

lemma stream_loop_post:
  "run_state (stream_loop passes frames E) s = (r, s') \<Longrightarrow> balanced_exit s r s'"
proof (induction passes arbitrary: s)
  case 0
  then show ?case by (simp add: balanced_exit_def)
next
  case (Suc passes)
  let ?y = "E (trace s) (V_yield (glob s))"
  let ?t = "s\<lparr>trace := trace s @ [(V_yield (glob s), ?y)], glob := v_globals ?y\<rparr>"
  have t: "fds ?t = fds s" "blocks ?t = blocks s"
    by (simp_all add: acct)
  show ?case
  proof (cases "streaming_flag (v_globals ?y)")
    case False
    with Suc.prems obtain x where "run_state (set_streaming_stopped E True) ?t = (x, s')" and "r = Ret_null"
      by (auto simp: run_rd Let_def split: prod.splits)
    with t show ?thesis
      using keepsD [OF keeps_fds_report(4)] keepsD [OF keeps_blocks_report(4)]
      by (fastforce simp: balanced_exit_def)
  next
    case True
    obtain x u where pass: "run_state (stream_pass frames E) ?t = (x, u)"
      by (cases "run_state (stream_pass frames E) ?t")
    from True Suc.prems pass have
      rest: "run_state (case x of Again \<Rightarrow> stream_loop passes frames E | Leave r \<Rightarrow> State_Monad.return r) u = (r, s')"
      by (simp add: run_rd Let_def)
    from stream_pass_post [OF pass] t rest show ?thesis
      by (cases x) (auto simp: balanced_exit_def split: thread_result.splits dest!: Suc.IH)
  qed
qed

lemma run_video_stream_post:
  assumes "run_state (run_video_stream passes frames E) s = (r, s')"
  shows "case r of
     Ret_null \<Rightarrow> fds s' = fds s \<and> blocks s' = blocks s
   | Ret_errno e \<Rightarrow> fds s' = fds s \<and> blocks s \<subseteq># blocks s' \<and> size (blocks s') \<le> size (blocks s) + 3
   | Aborted \<Rightarrow> True
   | No_fuel \<Rightarrow> True"
proof -
  from assms obtain x t where t: "run_state (set_streaming_stopped E False) s = (x, t)"
    and "run_state (stream_loop passes frames E) t = (r, s')"
    unfolding run_video_stream_def by (rule bindE)
  from stream_loop_post [OF this(2)] keepsD [OF keeps_fds_report(4) t] keepsD [OF keeps_blocks_report(4) t]
  show ?thesis
    by (auto simp: balanced_exit_def input_buffer_count_def split: thread_result.splits)
qed

section \<open>The stopped flag\<close>

text \<open>
  Only the capture thread writes \<open>streaming_stopped\<close>, so the other threads leave it alone.
\<close>

definition stopped_stable :: "video_env \<Rightarrow> bool" where
  "stopped_stable E \<longleftrightarrow>
     (\<forall>h gl. streaming_stopped (v_globals (E h (V_yield gl))) = streaming_stopped gl)"

definition stopped :: "video_world \<Rightarrow> bool" where
  "stopped s = streaming_stopped (glob s)"

lemma keeps_stopped_basic:
  "keeps stopped (vsys E c)"
  "stopped_stable E \<Longrightarrow> keeps stopped (rd E f)"
  "(\<And>gl. streaming_stopped (g gl) = streaming_stopped gl) \<Longrightarrow> keeps stopped (wr g)"
  by (auto simp: keeps_def run_simps stopped_def stopped_stable_def Let_def)

lemma keeps_stopped_parts:
  assumes "stopped_stable E"
  shows "keeps stopped (video_send_format_report E)" "keeps stopped (get_us E)"
    "keeps stopped (ensure_sleep_mode_disabled E)" "keeps stopped (venc_start E b m w h f)"
    "keeps stopped (venc_stop E)" "keeps stopped (send_frame E fr)"
  unfolding report_defs get_us_def ensure_sleep_mode_disabled_def venc_start_def venc_stop_def
    venc_configure_limited_range_vui_def send_frame_def Let_def
  by (intro keeps_intros keeps_stopped_basic assms; simp)+

lemma keeps_case_sum [keeps_intros]:
  "(\<And>e. x = Inl e \<Longrightarrow> keeps A (f e)) \<Longrightarrow> (\<And>y. x = Inr y \<Longrightarrow> keeps A (g y)) \<Longrightarrow>
   keeps A (case x of Inl e \<Rightarrow> f e | Inr y \<Rightarrow> g y)"
  by (cases x) auto

lemma keeps_case_option [keeps_intros]:
  "(x = None \<Longrightarrow> keeps A m) \<Longrightarrow> (\<And>y. x = Some y \<Longrightarrow> keeps A (g y)) \<Longrightarrow>
   keeps A (case x of None \<Rightarrow> m | Some y \<Rightarrow> g y)"
  by (cases x) auto

lemma keeps_case_prod [keeps_intros]:
  "(\<And>a b. p = (a, b) \<Longrightarrow> keeps A (f a b)) \<Longrightarrow> keeps A (case p of (a, b) \<Rightarrow> f a b)"
  by (cases p) auto

lemma keeps_case_frame_exit [keeps_intros]:
  "keeps A a \<Longrightarrow> keeps A b \<Longrightarrow> keeps A c \<Longrightarrow>
   keeps A (case x of Frames_done \<Rightarrow> a | Frames_abort \<Rightarrow> b | Frames_no_fuel \<Rightarrow> c)"
  by (cases x) auto

lemma keeps_stopped_loops:
  assumes "stopped_stable E"
  shows "keeps stopped (alloc_buffers E fd i n)" "keeps stopped (queue_buffers E fd i bs)"
    "keeps stopped (release_blocks E bs)" "keeps stopped (frame_loop fuel E fd fr num)"
proof -
  show "keeps stopped (alloc_buffers E fd i n)"
    by (induction n arbitrary: i)
      (unfold alloc_buffers.simps Let_def, (intro keeps_intros keeps_stopped_basic assms; simp)+)
  show "keeps stopped (queue_buffers E fd i bs)"
    by (induction bs arbitrary: i)
      (unfold queue_buffers.simps, (intro keeps_intros keeps_stopped_basic assms; simp)+)
  show "keeps stopped (release_blocks E bs)"
    by (induction bs) (unfold release_blocks.simps, (intro keeps_intros keeps_stopped_basic assms; simp)+)
  show "keeps stopped (frame_loop fuel E fd fr num)"
    by (induction fuel arbitrary: fr num)
      (unfold frame_loop.simps Let_def,
        (intro keeps_intros keeps_stopped_basic keeps_stopped_parts assms; simp)+)
qed

lemma keeps_stopped_pass:
  assumes "stopped_stable E"
  shows "keeps stopped (stream_pass fuel E)"
  unfolding stream_pass_def stream_buffers_def stream_frames_def cleanup_def Let_def
  by (intro keeps_intros keeps_stopped_basic keeps_stopped_parts keeps_stopped_loops assms)

lemma set_stopped_sets:
  assumes "stopped_stable E" and "run_state (set_streaming_stopped E b) s = (x, s')"
  shows "stopped s' = b"
  using assms(2) keepsD [OF keeps_stopped_parts(1) [OF assms(1)]]
  by (fastforce simp: set_streaming_stopped_def run_wr stopped_def)

lemma stream_loop_stopped:
  assumes "stopped_stable E"
  shows "run_state (stream_loop passes frames E) s = (r, s') \<Longrightarrow> \<not> stopped s \<Longrightarrow>
    stopped s' = (r = Ret_null)"
proof (induction passes arbitrary: s)
  case (Suc passes)
  from Suc.prems(1) obtain flag t where flag: "run_state (rd E streaming_flag) s = (flag, t)"
    and rest: "run_state (if \<not> flag then do { set_streaming_stopped E True; State_Monad.return Ret_null }
     else do {
       x \<leftarrow> stream_pass frames E;
       case x of Again \<Rightarrow> stream_loop passes frames E | Leave r \<Rightarrow> State_Monad.return r
     }) t = (r, s')"
    unfolding stream_loop.simps by (rule bindE)
  have t: "\<not> stopped t"
    using keepsD [OF keeps_stopped_basic(2) [OF assms] flag] Suc.prems(2) by simp
  show ?case
  proof (cases flag)
    case False
    with rest set_stopped_sets [OF assms] show ?thesis
      by (auto simp del: run_state_bind elim!: bindE)
  next
    case True
    with rest obtain x u where pass: "run_state (stream_pass frames E) t = (x, u)"
      and last: "run_state (case x of Again \<Rightarrow> stream_loop passes frames E | Leave r \<Rightarrow> State_Monad.return r) u = (r, s')"
      by (simp del: run_state_bind) (erule bindE)
    have "\<not> stopped u"
      using keepsD [OF keeps_stopped_pass [OF assms] pass] t by simp
    with last stream_pass_post [OF pass] Suc.IH [of u] show ?thesis
      by (cases x) auto
  qed
qed simp

text \<open>
  The capture thread leaves \<open>streaming_stopped\<close> set exactly when it returned because streaming
  was switched off: an early return with an error code leaves it clear, and the status
  then never becomes ``stopped'' again for this thread.
\<close>

lemma stream_thread_stopped_flag:
  assumes "\<forall>h gl. streaming_stopped (v_globals (E h (V_yield gl))) = streaming_stopped gl"
    and "run_state (run_video_stream passes frames E) s = (r, s')"
  shows "streaming_stopped (glob s') \<longleftrightarrow> r = Ret_null"
proof -
  have stable: "stopped_stable E"
    using assms(1) by (simp add: stopped_stable_def)
  from assms(2) obtain x t where "run_state (set_streaming_stopped E False) s = (x, t)"
    and "run_state (stream_loop passes frames E) t = (r, s')"
    unfolding run_video_stream_def by (rule bindE)
  then show ?thesis
    using stream_loop_stopped [OF stable] set_stopped_sets [OF stable] by (metis stopped_def)
qed

section \<open>The thread returns once streaming is switched off\<close>

definition any_call :: "video_call \<Rightarrow> bool" where
  "any_call c = True"

lemma any_call [simp]: "any_call c"
  by (simp add: any_call_def)

lemma calls_any_report: "calls any_call (video_send_format_report E)" "calls any_call (set_streaming_stopped E b)"
  by (rule calls_mono [OF calls_report(2)], simp) (rule calls_mono [OF calls_report(4)], simp)

lemma calls_any_parts:
  "calls any_call (get_us E)" "calls any_call (ensure_sleep_mode_disabled E)"
  "calls any_call (venc_start E b m w h f)" "calls any_call (venc_stop E)" "calls any_call (send_frame E fr)"
  unfolding get_us_def ensure_sleep_mode_disabled_def venc_start_def venc_stop_def
    venc_configure_limited_range_vui_def send_frame_def Let_def
  by (intro calls_intros any_call)+

text \<open>Capture buffers taken from the driver and not yet queued again.\<close>

fun buf_acq :: "video_call \<times> video_answer \<Rightarrow> nat option" where
  "buf_acq (V_DQBUF fd, a) = (if v_ret a < 0 then None else Some (p_index (v_plane a)))"
| "buf_acq _ = None"

fun buf_rel :: "video_call \<times> video_answer \<Rightarrow> nat option" where
  "buf_rel (V_QBUF fd i m, a) = Some i"
| "buf_rel _ = None"

definition dequeued :: "video_world \<Rightarrow> nat multiset" where
  "dequeued s = account buf_acq buf_rel (trace s)"

fun not_buf :: "video_call \<Rightarrow> bool" where
  "not_buf (V_DQBUF fd) = False" | "not_buf (V_QBUF fd i m) = False" | "not_buf _ = True"

lemma not_buf_neutral: "not_buf c \<Longrightarrow> buf_acq (c, a) = None \<and> buf_rel (c, a) = None"
  by (cases c) auto

lemma calls_not_buf:
  "calls not_buf (ensure_sleep_mode_disabled E)" "calls not_buf (send_frame E fr)" "calls not_buf (get_us E)"
  unfolding ensure_sleep_mode_disabled_def send_frame_def get_us_def Let_def
  by (intro calls_intros; simp)+

lemma not_buf_effect:
  assumes "calls not_buf m" and "run_state m s = (r, s')"
  shows "dequeued s' = dequeued s \<and> length (trace s) \<le> length (trace s')"
  using calls_account [where acq = buf_acq and rel = buf_rel, OF assms] not_buf_neutral calls_grows [OF assms]
  by (simp add: dequeued_def)

lemma feed_frame:
  assumes "run_state (do {
      now \<leftarrow> get_us E;
      send_frame E (fr now);
      _ \<leftarrow> vsys E (V_QBUF fd i d);
      k now}) s = (x, s')"
  obtains now t where "run_state (k now) t = (x, s')" and "dequeued t = dequeued s - {#i#}"
    and "length (trace s) \<le> length (trace t)"
proof -
  from assms obtain now u where u: "run_state (get_us E) s = (now, u)"
    and rest: "run_state (do { send_frame E (fr now); _ \<leftarrow> vsys E (V_QBUF fd i d); k now}) u = (x, s')"
    by (rule bindE)
  from rest obtain y v where v: "run_state (send_frame E (fr now)) u = (y, v)"
    and rest': "run_state (do {_ \<leftarrow> vsys E (V_QBUF fd i d); k now}) v = (x, s')"
    by (rule bindE)
  from rest' obtain a where "run_state (k now) (v\<lparr>trace := trace v @ [(V_QBUF fd i d, a)], errno := v_errno a\<rparr>) = (x, s')"
    by (rule vsysE)
  then show thesis
    by (rule that) (use not_buf_effect [OF calls_not_buf(3) u] not_buf_effect [OF calls_not_buf(2) v] in
      \<open>simp_all add: dequeued_def account_simps book_def\<close>)
qed

text \<open>What one pass of the loop leaves for the next, from where the device is ready.\<close>

lemma ready_frameE:
  assumes "run_state (do {
         d \<leftarrow> vsys E (V_DQBUF fd);
         if v_ret d < 0 then State_Monad.return Frames_done
         else do {
           b \<leftarrow> vsys E (RK_MMZ_Fd2Handle (p_fd (v_plane d)));
           if v_ret b = 0 then State_Monad.return Frames_abort
           else do {
             now \<leftarrow> get_us E;
             let fr' = fr\<lparr>fr_blk := v_ret b, fr_time_ref := num, fr_pts := now\<rparr>;
             send_frame E fr';
             _ \<leftarrow> vsys E (V_QBUF fd (p_index (v_plane d)) (p_fd (v_plane d)));
             frame_loop fuel E fd fr' (num + 1)
           }
         }
       }) s = (x, s')"
  obtains (finished) "x = Frames_done" "dequeued s' = dequeued s"
    | (abort) "x = Frames_abort"
    | (again) t fr' num' where "run_state (frame_loop fuel E fd fr' num') t = (x, s')"
        "dequeued t = dequeued s" "length (trace s) < length (trace t)"
proof -
  let ?d = "E (trace s) (V_DQBUF fd)"
  let ?s1 = "s\<lparr>trace := trace s @ [(V_DQBUF fd, ?d)], errno := v_errno ?d\<rparr>"
  let ?b = "E (trace ?s1) (RK_MMZ_Fd2Handle (p_fd (v_plane ?d)))"
  let ?s2 = "?s1\<lparr>trace := trace ?s1 @ [(RK_MMZ_Fd2Handle (p_fd (v_plane ?d)), ?b)], errno := v_errno ?b\<rparr>"
  consider (fail) "v_ret ?d < 0" | (noblk) "\<not> v_ret ?d < 0" "v_ret ?b = 0" | (frame) "\<not> v_ret ?d < 0" "v_ret ?b \<noteq> 0"
    by blast
  then show thesis
  proof cases
    case fail
    with assms show thesis
      by (intro finished) (auto simp: run_vsys Let_def dequeued_def account_simps book_def)
  next
    case noblk
    with assms show thesis
      by (intro abort) (auto simp: run_vsys Let_def)
  next
    case frame
    let ?f = "\<lambda>now. fr\<lparr>fr_blk := v_ret ?b, fr_time_ref := num, fr_pts := now\<rparr>"
    have taken: "dequeued ?s2 = dequeued s + {#p_index (v_plane ?d)#}"
      using frame by (simp add: dequeued_def account_simps book_def)
    from frame assms have "run_state (do {
        now \<leftarrow> get_us E;
        send_frame E (?f now);
        _ \<leftarrow> vsys E (V_QBUF fd (p_index (v_plane ?d)) (p_fd (v_plane ?d)));
        frame_loop fuel E fd (?f now) (num + 1)}) ?s2 = (x, s')"
      by (simp add: run_vsys Let_def)
    then show thesis
      by (rule feed_frame) (use taken in \<open>auto intro!: again\<close>)
  qed
qed

lemma frame_loopE:
  assumes "run_state (frame_loop (Suc fuel) E fd fr num) s = (x, s')"
  obtains (finished) "x = Frames_done" "dequeued s' = dequeued s"
    | (abort) "x = Frames_abort"
    | (again) t fr' num' where "run_state (frame_loop fuel E fd fr' num') t = (x, s')"
        "dequeued t = dequeued s" "length (trace s) < length (trace t)"
        "streaming_flag (v_globals (E (trace s) (V_yield (glob s))))"
proof (cases "streaming_flag (v_globals (E (trace s) (V_yield (glob s))))")
  case False
  with assms finished show ?thesis
    by (auto simp: run_rd Let_def dequeued_def account_simps book_def)
next
  case flag: True
  let ?y = "E (trace s) (V_yield (glob s))"
  let ?s1 = "s\<lparr>trace := trace s @ [(V_yield (glob s), ?y)], glob := v_globals ?y\<rparr>"
  let ?l = "E (trace ?s1) (V_select fd)"
  let ?s2 = "?s1\<lparr>trace := trace ?s1 @ [(V_select fd, ?l)], errno := v_errno ?l\<rparr>"
  have same: "dequeued ?s2 = dequeued s"
    by (simp add: dequeued_def account_simps book_def)
  consider (timeout) "v_ret ?l = 0" | (intr) "v_ret ?l = -1" "v_errno ?l = EINTR"
    | (error) "v_ret ?l = -1" "v_errno ?l \<noteq> EINTR" | (ready) "v_ret ?l \<noteq> 0" "v_ret ?l \<noteq> -1"
    by blast
  then show ?thesis
  proof cases
    case timeout
    with assms flag have "run_state (do { ensure_sleep_mode_disabled E; State_Monad.return Frames_done }) ?s2 = (x, s')"
      by (simp add: run_rd run_vsys Let_def)
    then show ?thesis
      by (rule bindE) (use not_buf_effect [OF calls_not_buf(1)] same finished in fastforce)
  next
    case intr
    with assms flag same show ?thesis
      by (intro again [of fr num ?s2]) (simp_all add: run_rd run_vsys Let_def)
  next
    case error
    with assms flag same show ?thesis
      by (intro finished) (auto simp: run_rd run_vsys Let_def)
  next
    case ready
    show ?thesis
    proof (rule ready_frameE [where s = ?s2])
      from assms flag ready show "run_state (do {
         d \<leftarrow> vsys E (V_DQBUF fd);
         if v_ret d < 0 then State_Monad.return Frames_done
         else do {
           b \<leftarrow> vsys E (RK_MMZ_Fd2Handle (p_fd (v_plane d)));
           if v_ret b = 0 then State_Monad.return Frames_abort
           else do {
             now \<leftarrow> get_us E;
             let fr' = fr\<lparr>fr_blk := v_ret b, fr_time_ref := num, fr_pts := now\<rparr>;
             send_frame E fr';
             _ \<leftarrow> vsys E (V_QBUF fd (p_index (v_plane d)) (p_fd (v_plane d)));
             frame_loop fuel E fd fr' (num + 1)
           }
         }
       }) ?s2 = (x, s')"
        by (simp add: run_rd run_vsys Let_def)
    qed (use same flag in \<open>auto intro: finished abort again\<close>)
  qed
qed

lemma frame_loop_returns:
  assumes "\<And>h gl. N \<le> length h \<Longrightarrow> \<not> streaming_flag (v_globals (E h (V_yield gl)))"
  shows "0 < fuel \<Longrightarrow> N < fuel + length (trace s) \<Longrightarrow>
    run_state (frame_loop fuel E fd fr num) s = (x, s') \<Longrightarrow> x \<noteq> Frames_no_fuel"
proof (induction fuel arbitrary: s fr num)
  case (Suc fuel)
  from Suc.prems(3) show ?case
  proof (cases rule: frame_loopE)
    case (again t fr' num')
    then have "length (trace s) < N"
      using assms by (meson not_le)
    with again(3) Suc.prems(2) have "0 < fuel" and "N < fuel + length (trace t)"
      by linarith+
    from Suc.IH [OF this again(1)] show ?thesis .
  qed simp_all
qed simp

text \<open>
  C30. Every capture buffer the frame loop takes from the driver is queued again before the
  next one is taken, on every exit of the loop except the failed assertion on the
  memory block.
\<close>

theorem frame_loop_requeues:
  "run_state (frame_loop fuel E fd fr num) s = (x, s') \<Longrightarrow> x \<noteq> Frames_abort \<Longrightarrow>
   dequeued s' = dequeued s"
proof (induction fuel arbitrary: s fr num)
  case (Suc fuel)
  from Suc.prems(1) show ?case
    by (rule frame_loopE) (use Suc.IH Suc.prems(2) in \<open>auto\<close>)
qed simp

lemma stream_frames_returns:
  assumes "\<And>h gl. N \<le> length h \<Longrightarrow> \<not> streaming_flag (v_globals (E h (V_yield gl)))" and "N < fuel"
    and "run_state (stream_frames fuel E fd w h fps bufs) s = (x, s')"
  shows "x \<noteq> Leave No_fuel"
  using assms(3) frame_loop_returns [where N = N and E = E, OF assms(1), of fuel] assms(2) unfolding stream_frames_def
  by (auto simp del: run_state_bind elim!: bindE split: option.splits if_splits frame_exit.splits) blast

lemma stream_pass_returns:
  assumes "\<And>h gl. N \<le> length h \<Longrightarrow> \<not> streaming_flag (v_globals (E h (V_yield gl)))" and "N < fuel"
    and "run_state (stream_pass fuel E) s = (x, s')"
  shows "x \<noteq> Leave No_fuel"
  using assms(3) stream_frames_returns [where N = N and E = E, OF assms(1,2)]
  unfolding stream_pass_def stream_buffers_def Let_def
  by (auto simp del: run_state_bind elim!: bindE split: if_splits sum.splits option.splits) blast

lemma calls_case_sum [calls_intros]:
  "(\<And>e. x = Inl e \<Longrightarrow> calls P (f e)) \<Longrightarrow> (\<And>y. x = Inr y \<Longrightarrow> calls P (g y)) \<Longrightarrow>
   calls P (case x of Inl e \<Rightarrow> f e | Inr y \<Rightarrow> g y)"
  by (cases x) auto

lemma calls_case_option [calls_intros]:
  "(x = None \<Longrightarrow> calls P m) \<Longrightarrow> (\<And>y. x = Some y \<Longrightarrow> calls P (g y)) \<Longrightarrow>
   calls P (case x of None \<Rightarrow> m | Some y \<Rightarrow> g y)"
  by (cases x) auto

lemma calls_case_prod [calls_intros]:
  "(\<And>a b. p = (a, b) \<Longrightarrow> calls P (f a b)) \<Longrightarrow> calls P (case p of (a, b) \<Rightarrow> f a b)"
  by (cases p) auto

lemma calls_case_frame_exit [calls_intros]:
  "calls P a \<Longrightarrow> calls P b \<Longrightarrow> calls P c \<Longrightarrow>
   calls P (case x of Frames_done \<Rightarrow> a | Frames_abort \<Rightarrow> b | Frames_no_fuel \<Rightarrow> c)"
  by (cases x) auto

lemma calls_any_loops:
  "calls any_call (alloc_buffers E fd i n)" "calls any_call (queue_buffers E fd i bs)"
  "calls any_call (release_blocks E bs)" "calls any_call (frame_loop fuel E fd fr num)"
proof -
  show "calls any_call (alloc_buffers E fd i n)"
    by (induction n arbitrary: i) (unfold alloc_buffers.simps Let_def, (intro calls_intros any_call; simp)+)
  show "calls any_call (queue_buffers E fd i bs)"
    by (induction bs arbitrary: i) (unfold queue_buffers.simps, (intro calls_intros any_call; simp)+)
  show "calls any_call (release_blocks E bs)"
    by (induction bs) (unfold release_blocks.simps, (intro calls_intros any_call; simp)+)
  show "calls any_call (frame_loop fuel E fd fr num)"
    by (induction fuel arbitrary: fr num)
      (unfold frame_loop.simps Let_def, (intro calls_intros calls_any_parts any_call; simp)+)
qed

lemma calls_any_pass: "calls any_call (stream_pass fuel E)"
  unfolding stream_pass_def stream_buffers_def stream_frames_def cleanup_def Let_def
  by (intro calls_intros calls_any_parts calls_any_loops any_call)

lemma stream_loop_returns:
  assumes off: "\<And>h gl. N \<le> length h \<Longrightarrow> \<not> streaming_flag (v_globals (E h (V_yield gl)))"
    and "N < frames"
  shows "0 < passes \<Longrightarrow> N < passes + length (trace s) \<Longrightarrow>
    run_state (stream_loop passes frames E) s = (r, s') \<Longrightarrow> r \<noteq> No_fuel"
proof (induction passes arbitrary: s)
  case (Suc passes)
  let ?y = "E (trace s) (V_yield (glob s))"
  let ?t = "s\<lparr>trace := trace s @ [(V_yield (glob s), ?y)], glob := v_globals ?y\<rparr>"
  show ?case
  proof (cases "streaming_flag (v_globals ?y)")
    case False
    with Suc.prems(3) show ?thesis
      by (auto simp: run_rd Let_def split: prod.splits)
  next
    case True
    obtain x u where pass: "run_state (stream_pass frames E) ?t = (x, u)"
      by (cases "run_state (stream_pass frames E) ?t")
    from True Suc.prems(3) pass have
      rest: "run_state (case x of Again \<Rightarrow> stream_loop passes frames E | Leave r \<Rightarrow> State_Monad.return r) u = (r, s')"
      by (simp add: run_rd Let_def)
    have "length (trace s) < length (trace u)"
      using calls_grows [OF calls_any_pass pass] by simp
    moreover have "length (trace s) < N"
      using off [of "trace s"] True by (meson not_le)
    ultimately have "0 < passes" and "N < passes + length (trace u)"
      using Suc.prems(2) by linarith+
    moreover have "x \<noteq> Leave No_fuel"
      by (rule stream_pass_returns [where N = N and E = E, OF off assms(2) pass])
    ultimately show ?thesis
      using rest Suc.IH [of u] by (cases x) auto
  qed
qed simp

text \<open>
  C12. The capture thread terminates: if \<open>streaming_flag\<close> is false from some moment of the history on,
  the thread returns (normally, with an error code, or through the assertion), whatever the device
  and the encoder answer; a fuel above that moment is enough.
\<close>

theorem stream_thread_returns:
  assumes "\<And>h gl. N \<le> length h \<Longrightarrow> \<not> streaming_flag (v_globals (E h (V_yield gl)))"
    and "N < frames" and "N < passes"
    and "run_state (run_video_stream passes frames E) s = (r, s')"
  shows "r \<noteq> No_fuel"
proof -
  from assms(4) obtain x t where "run_state (stream_loop passes frames E) t = (r, s')"
    unfolding run_video_stream_def by (rule bindE)
  from stream_loop_returns [where N = N and E = E, OF assms(1,2) _ _ this] assms(3) show ?thesis
    by simp
qed

section \<open>Concrete runs\<close>

text \<open>
  A device that delivers frames while the flag is up (for the first \<open>n\<close> calls), and the same
  device with a media library that cannot turn a block into a descriptor.
\<close>

definition capture_env :: "nat \<Rightarrow> video_env" where
  "capture_env n h c = (case c of
     V_yield gl \<Rightarrow> sample_answer\<lparr>v_globals := gl\<lparr>streaming_flag := length h < n, detected_signal := True,
        detected_width := 1920, detected_height := 1080\<rparr>\<rparr>
   | V_open p \<Rightarrow> sample_answer\<lparr>v_ret := 5\<rparr>
   | RK_MB_GetMB p l \<Rightarrow> sample_answer\<lparr>v_ret := 40 + int (length h)\<rparr>
   | RK_MMZ_Fd2Handle f \<Rightarrow> sample_answer\<lparr>v_ret := 8\<rparr>
   | V_select f \<Rightarrow> sample_answer\<lparr>v_ret := 1\<rparr>
   | _ \<Rightarrow> sample_answer)"

definition handle_env :: video_env where
  "handle_env h c = (case c of
     RK_MB_Handle2Fd b \<Rightarrow> sample_answer\<lparr>v_ret := -1\<rparr>
   | _ \<Rightarrow> capture_env 1000 h c)"

lemma sample_answer_sel: "v_ret sample_answer = 0" "v_errno sample_answer = 0"
    "v_sec sample_answer = 1" "v_nsec sample_answer = 5000"
    "p_index (v_plane sample_answer) = 0" "p_fd (v_plane sample_answer) = 9"
  by (simp_all add: sample_answer_def)

lemma handle_env_run:
  assumes "run_state (run_video_stream 2 2 handle_env) sample_world = (r, s)"
  shows "r = Ret_errno 0" and "blocks s = {#52#}"
proof -
  have "r = Ret_errno 0 \<and> blocks s = {#52#}"
    using assms
    by (auto simp: run_video_stream_def report_defs run_simps Let_def sample_world_def handle_env_def
        capture_env_def init_globals_def sample_answer_sel numeral_2_eq_2 numeral_3_eq_3 stream_pass_def
        stream_buffers_def input_buffer_count_def blocks_def account_def book_def)
  then show "r = Ret_errno 0" and "blocks s = {#52#}"
    by simp_all
qed

text \<open>A media library that fails to turn the first block into a descriptor.\<close>

lemma stream_error_loses_block:
  "case run_state (run_video_stream 2 2 handle_env) sample_world of (r, s) \<Rightarrow>
     r = Ret_errno 0 \<and> blocks s = {#52#} \<and> \<not> streaming_stopped (glob s)"
proof -
  obtain r s where run: "run_state (run_video_stream 2 2 handle_env) sample_world = (r, s)"
    by (cases "run_state (run_video_stream 2 2 handle_env) sample_world")
  have stable: "stopped_stable handle_env"
    by (simp add: stopped_stable_def handle_env_def capture_env_def)
  from run obtain x t where "run_state (set_streaming_stopped handle_env False) sample_world = (x, t)"
    and "run_state (stream_loop 2 2 handle_env) t = (r, s)"
    unfolding run_video_stream_def by (rule bindE)
  then have "stopped s = (r = Ret_null)"
    using stream_loop_stopped [OF stable] set_stopped_sets [OF stable] by metis
  with handle_env_run [OF run] run show ?thesis
    by (simp add: stopped_def)
qed

text \<open>
  C1. Whatever the kernel, the media library and the other threads do, the capture thread returns
  with every descriptor it opened closed again. When it returns because streaming was switched off
  it has also released every memory block; when it returns early with an error code the pool has lost
  at most the blocks of one pass, and does lose one when the media library fails to turn the first block into a
  descriptor.
\<close>

theorem stream_thread_balanced:
  assumes "run_state (run_video_stream passes frames E) s = (r, s')"
  shows "(case r of
     Ret_null \<Rightarrow> fds s' = fds s \<and> blocks s' = blocks s
   | Ret_errno e \<Rightarrow> fds s' = fds s \<and> blocks s \<subseteq># blocks s' \<and> size (blocks s') \<le> size (blocks s) + 3
   | Aborted \<Rightarrow> True
   | No_fuel \<Rightarrow> True) \<and>
   (case run_state (run_video_stream 2 2 handle_env) sample_world of (r, s) \<Rightarrow>
     r = Ret_errno 0 \<and> blocks s = {#52#} \<and> \<not> streaming_stopped (glob s))"
  using run_video_stream_post [OF assms] stream_error_loses_block by simp

theorem stream_thread_balanced_witness:
  "case run_state (run_video_stream 2 2 handle_env) sample_world of (r, s) \<Rightarrow>
     r = Ret_errno 0 \<and> fds s = {#} \<and> size (blocks s) \<le> 3"
proof -
  obtain r s where run: "run_state (run_video_stream 2 2 handle_env) sample_world = (r, s)"
    by (cases "run_state (run_video_stream 2 2 handle_env) sample_world")
  from stream_thread_balanced [OF run] handle_env_run [OF run] run show ?thesis
    by (simp add: sample_world_def fds_def account_simps)
qed

theorem frame_loop_requeues_witness:
  "case run_state (frame_loop 2 (capture_env 60) 5 (initial_frame 1920 1080) 0) sample_world of
     (x, s) \<Rightarrow> dequeued s = {#}"
proof -
  obtain x s where run: "run_state (frame_loop 2 (capture_env 60) 5 (initial_frame 1920 1080) 0) sample_world = (x, s)"
    by (cases "run_state (frame_loop 2 (capture_env 60) 5 (initial_frame 1920 1080) 0) sample_world")
  then have "x \<noteq> Frames_abort"
    by (auto simp: numeral_2_eq_2 run_simps Let_def capture_env_def sample_answer_sel sample_world_def
        get_us_def send_frame_def RK_SUCCESS_def)
  from frame_loop_requeues [OF run this] run show ?thesis
    by (simp add: sample_world_def dequeued_def account_simps)
qed

theorem stream_thread_returns_witness:
  "fst (run_state (run_video_stream 61 61 (capture_env 60)) sample_world) \<noteq> No_fuel"
proof -
  obtain r s where run: "run_state (run_video_stream 61 61 (capture_env 60)) sample_world = (r, s)"
    by (cases "run_state (run_video_stream 61 61 (capture_env 60)) sample_world")
  have "r \<noteq> No_fuel"
    by (rule stream_thread_returns [OF _ _ _ run, of 60]) (simp_all add: capture_env_def)
  with run show ?thesis
    by simp
qed

end
