(* ===== verification/Video_Control.thy ===== *)
theory Video_Control
  imports Video_Stream
begin

text \<open>
  The control interface of \<open>video.c\<close>: initialisation and shutdown, starting, stopping and restarting
  the capture thread, and the quality and codec settings.
\<close>

section \<open>Operations\<close>

text \<open>
  A second start while a thread handle exists does nothing; the assertion on that path is
  on the condition of the surrounding branch and cannot fail.
\<close>

definition video_start_streaming :: "video_env \<Rightarrow> unit video_m" where
  "video_start_streaming E = do {
     th \<leftarrow> rd E streaming_thread;
     if th \<noteq> 0 then do {
       _ \<leftarrow> get_streaming_stopped E;
       skip
     }
     else do {
       m \<leftarrow> vsys E V_malloc_thread;
       let new_thread = v_ret m;
       if new_thread = 0 then skip
       else do {
         set_streaming_flag E True;
         p \<leftarrow> vsys E (V_pthread_create T_run_video_stream);
         if v_ret p \<noteq> 0 then do {
           set_streaming_flag E False;
           _ \<leftarrow> vsys E (V_free new_thread);
           skip
         }
         else wr (\<lambda>gl. gl\<lparr>streaming_thread := new_thread\<rparr>)
       }
     }
   }"

text \<open>The polling loop with \<open>n\<close> attempts left.\<close>

fun wait_attempts :: "video_env \<Rightarrow> nat \<Rightarrow> bool video_m" where
  "wait_attempts E 0 = State_Monad.return False"
| "wait_attempts E (Suc n) = do {
     stopped \<leftarrow> get_streaming_stopped E;
     if stopped then State_Monad.return True
     else do {
       _ \<leftarrow> vsys E (V_usleep 100000);
       wait_attempts E n
     }
   }"

definition wait_for_streaming_stopped :: "video_env \<Rightarrow> bool video_m" where
  "wait_for_streaming_stopped E = wait_attempts E 30"

definition video_stop_streaming :: "video_env \<Rightarrow> unit video_m" where
  "video_stop_streaming E = do {
     th \<leftarrow> rd E streaming_thread;
     if th = 0 then skip
     else do {
       set_streaming_flag E False;
       _ \<leftarrow> wait_for_streaming_stopped E;
       th \<leftarrow> rd E streaming_thread;
       _ \<leftarrow> vsys E (V_pthread_join th);
       th \<leftarrow> rd E streaming_thread;
       _ \<leftarrow> vsys E (V_free th);
       wr (\<lambda>gl. gl\<lparr>streaming_thread := 0\<rparr>)
     }
   }"

definition video_restart_streaming :: "video_env \<Rightarrow> unit video_m" where
  "video_restart_streaming E = do {
     streaming_status \<leftarrow> video_get_streaming_status E;
     if streaming_status = 0 then skip
     else do {
       (if streaming_status = 1 \<or> streaming_status = 2 then video_stop_streaming E else skip);
       ok \<leftarrow> wait_for_streaming_stopped E;
       if \<not> ok then skip else video_start_streaming E
     }
   }"

text \<open>The tail of the initialisation: the control device, the pool and the format thread.\<close>

definition init_tail :: "rk_consts \<Rightarrow> video_env \<Rightarrow> int video_m" where
  "init_tail K E = do {
     ret \<leftarrow> buf_init K E;
     if ret \<noteq> RK_SUCCESS then State_Monad.return ret
     else do {
       m \<leftarrow> vsys E V_malloc_thread;
       wr (\<lambda>gl. gl\<lparr>format_thread := v_ret m\<rparr>);
       _ \<leftarrow> vsys E (V_pthread_create T_run_detect_format);
       State_Monad.return RK_SUCCESS
     }
   }"

definition init_device :: "rk_consts \<Rightarrow> video_env \<Rightarrow> int video_m" where
  "init_device K E = do {
     fd \<leftarrow> rd E sub_dev_fd;
     opened \<leftarrow> (if fd < 0 then do {
         r \<leftarrow> vsys E (V_open SUB_DEV);
         wr (\<lambda>gl. gl\<lparr>sub_dev_fd := v_ret r\<rparr>);
         fd \<leftarrow> rd E sub_dev_fd;
         State_Monad.return (if fd < 0 then Inl (v_errno r) else Inr ())
       } else State_Monad.return (Inr ()));
     case opened of
       Inl e \<Rightarrow> State_Monad.return e
     | Inr _ \<Rightarrow> init_tail K E
   }"

text \<open>\<open>factor\<close> is a finite float.\<close>

definition video_init :: "rk_consts \<Rightarrow> video_env \<Rightarrow> rat \<Rightarrow> int video_m" where
  "video_init K E factor = do {
     detect_sleep_mode E;
     let factor = (if factor \<le> 0 then 1 else factor);
     wr (\<lambda>gl. gl\<lparr>quality_factor := factor\<rparr>);
     r \<leftarrow> vsys E RK_SYS_Init;
     if v_ret r \<noteq> RK_SUCCESS then State_Monad.return RK_FAILURE
     else init_device K E
   }"

definition video_shutdown :: "rk_consts \<Rightarrow> video_env \<Rightarrow> unit video_m" where
  "video_shutdown K E = do {
     exiting \<leftarrow> rd E should_exit;
     if exiting then skip
     else do {
       video_stop_streaming E;
       wr (\<lambda>gl. gl\<lparr>should_exit := True\<rparr>);
       fd \<leftarrow> rd E sub_dev_fd;
       (if fd > 0 then do { _ \<leftarrow> vsys E (V_shutdown fd); skip } else skip);
       pool \<leftarrow> rd E memPool;
       (if pool \<noteq> MB_INVALID_POOLID K then do { _ \<leftarrow> vsys E (RK_MB_DestroyPool pool); skip } else skip);
       _ \<leftarrow> vsys E V_mutex_destroy;
       skip
     }
   }"

definition video_set_quality_factor :: "video_env \<Rightarrow> rat \<Rightarrow> unit video_m" where
  "video_set_quality_factor E factor = do {
     wr (\<lambda>gl. gl\<lparr>quality_factor := factor\<rparr>);
     video_restart_streaming E
   }"

definition video_get_quality_factor :: "video_env \<Rightarrow> rat video_m" where
  "video_get_quality_factor E = rd E quality_factor"

definition video_set_codec_type :: "int \<Rightarrow> unit video_m" where
  "video_set_codec_type type = wr (\<lambda>gl. gl\<lparr>codec_type := type\<rparr>)"

definition video_get_codec_type :: "video_env \<Rightarrow> int video_m" where
  "video_get_codec_type E = rd E codec_type"

section \<open>One capture thread at a time\<close>

text \<open>Capture threads created and not yet joined, and thread handles allocated and not yet freed.\<close>

fun cap_acq :: "video_call \<times> video_answer \<Rightarrow> unit option" where
  "cap_acq (V_pthread_create T_run_video_stream, a) = (if v_ret a = 0 then Some () else None)"
| "cap_acq _ = None"

fun cap_rel :: "video_call \<times> video_answer \<Rightarrow> unit option" where
  "cap_rel (V_pthread_join th, a) = Some ()"
| "cap_rel _ = None"

fun handle_acq :: "video_call \<times> video_answer \<Rightarrow> int option" where
  "handle_acq (V_malloc_thread, a) = (if v_ret a = 0 then None else Some (v_ret a))"
| "handle_acq _ = None"

fun handle_rel :: "video_call \<times> video_answer \<Rightarrow> int option" where
  "handle_rel (V_free p, a) = Some p"
| "handle_rel _ = None"

definition capture_threads :: "video_world \<Rightarrow> unit multiset" where
  "capture_threads s = account cap_acq cap_rel (trace s)"

definition handles :: "video_world \<Rightarrow> int multiset" where
  "handles s = account handle_acq handle_rel (trace s)"

definition thread_view :: "video_world \<Rightarrow> int \<times> unit multiset \<times> int multiset" where
  "thread_view s = (streaming_thread (glob s), capture_threads s, handles s)"

definition thread_inv :: "video_world \<Rightarrow> bool" where
  "thread_inv s \<longleftrightarrow>
     capture_threads s = (if streaming_thread (glob s) = 0 then {#} else {#()#}) \<and>
     handles s = (if streaming_thread (glob s) = 0 then {#} else {#streaming_thread (glob s)#})"

text \<open>The assumption on the other threads: they leave the handle of the capture thread alone.\<close>

definition thread_stable :: "video_env \<Rightarrow> bool" where
  "thread_stable E \<longleftrightarrow>
     (\<forall>h gl. streaming_thread (v_globals (E h (V_yield gl))) = streaming_thread gl)"

fun thread_call :: "video_call \<Rightarrow> bool" where
  "thread_call V_malloc_thread = True"
| "thread_call (V_free p) = True"
| "thread_call (V_pthread_create f) = True"
| "thread_call (V_pthread_join th) = True"
| "thread_call _ = False"

lemmas thread_acct = thread_view_def capture_threads_def handles_def account_simps book_def

lemma keeps_thread_vsys: "\<not> thread_call c \<Longrightarrow> keeps thread_view (vsys E c)"
  by (cases c) (auto simp: keeps_def run_simps thread_acct)

lemma keeps_thread_rd: "thread_stable E \<Longrightarrow> keeps thread_view (rd E f)"
  by (auto simp: keeps_def run_simps thread_acct Let_def thread_stable_def)

lemma keeps_thread_wr:
  "(\<And>gl. streaming_thread (g gl) = streaming_thread gl) \<Longrightarrow> keeps thread_view (wr g)"
  by (auto simp: keeps_def run_simps thread_acct)

lemmas keeps_thread_basic = keeps_intros keeps_thread_vsys keeps_thread_rd keeps_thread_wr

lemma keeps_thread_wait: "thread_stable E \<Longrightarrow> keeps thread_view (wait_attempts E n)"
  by (induction n) (unfold wait_attempts.simps get_streaming_stopped_def, (intro keeps_thread_basic; simp)+)

lemma keeps_thread_parts:
  assumes "thread_stable E"
  shows "keeps thread_view (set_streaming_flag E b)" "keeps thread_view (video_get_streaming_status E)"
    "keeps thread_view (get_streaming_stopped E)" "keeps thread_view (wait_for_streaming_stopped E)"
  unfolding report_defs wait_for_streaming_stopped_def
  by (intro keeps_thread_basic keeps_thread_wait assms; simp)+

lemma thread_view_inv: "thread_view s' = thread_view s \<Longrightarrow> thread_inv s' = thread_inv s"
  by (simp add: thread_view_def thread_inv_def)

lemma start_effect:
  assumes "thread_stable E" and "run_state (video_start_streaming E) s = (r, s')"
  shows "thread_view s' = thread_view s \<or> streaming_thread (glob s) = 0 \<and>
    (\<exists>h. h \<noteq> 0 \<and> thread_view s' = (h, add_mset () (capture_threads s), add_mset h (handles s)))"
proof -
  from assms(2) obtain th t where th: "run_state (rd E streaming_thread) s = (th, t)"
    and rest: "run_state (if th \<noteq> 0 then do { _ \<leftarrow> get_streaming_stopped E; skip } else do {
       m \<leftarrow> vsys E V_malloc_thread;
       if v_ret m = 0 then skip
       else do {
         set_streaming_flag E True;
         p \<leftarrow> vsys E (V_pthread_create T_run_video_stream);
         if v_ret p \<noteq> 0 then do {
           set_streaming_flag E False;
           _ \<leftarrow> vsys E (V_free (v_ret m));
           skip
         }
         else wr (\<lambda>gl. gl\<lparr>streaming_thread := v_ret m\<rparr>)
       }
     }) t = (r, s')"
    unfolding video_start_streaming_def Let_def by (rule bindE)
  have t: "thread_view t = thread_view s" "th = streaming_thread (glob t)"
    using keepsD [OF keeps_thread_rd [OF assms(1)] th] th by (auto simp: run_rd Let_def)
  note flag = keepsD [OF keeps_thread_parts(1) [OF assms(1)]]
  show ?thesis
  proof (cases "th = 0")
    case False
    with rest have "thread_view s' = thread_view t"
      using keepsD [OF keeps_thread_parts(3) [OF assms(1)]]
      by (auto simp: run_skip simp del: run_state_bind elim!: bindE)
    with t(1) show ?thesis by simp
  next
    case True
    with rest have "thread_view s' = thread_view t \<or>
        (\<exists>h. h \<noteq> 0 \<and> thread_view s' = (h, add_mset () (capture_threads t), add_mset h (handles t)))"
      by (auto simp: run_wr run_skip thread_acct simp del: run_state_bind
          elim!: vsysE bindE [of "set_streaming_flag E b" for b] split: if_splits dest!: flag)
    with t True show ?thesis
      by (auto simp: thread_view_def)
  qed
qed

lemma start_keeps_inv:
  assumes "thread_stable E" and "run_state (video_start_streaming E) s = (r, s')" and "thread_inv s"
  shows "thread_inv s'"
  using start_effect [OF assms(1,2)] assms(3)
  by (auto simp: thread_view_def thread_inv_def)

lemma stop_effect:
  assumes "thread_stable E" and "run_state (video_stop_streaming E) s = (r, s')"
  shows "thread_view s' = (if streaming_thread (glob s) = 0 then thread_view s
     else (0, capture_threads s - {#()#}, handles s - {#streaming_thread (glob s)#}))"
proof -
  note part = keepsD [OF keeps_thread_parts(1) [OF assms(1)]] keepsD [OF keeps_thread_parts(4) [OF assms(1)]]
  show ?thesis
    using assms(2) assms(1) unfolding video_stop_streaming_def thread_stable_def
    by (auto simp: run_wr run_skip thread_acct run_rd Let_def run_vsys simp del: run_state_bind
        elim!: bindE split: if_splits dest!: part)
qed

lemma stop_keeps_inv:
  assumes "thread_stable E" and "run_state (video_stop_streaming E) s = (r, s')" and "thread_inv s"
  shows "thread_inv s'"
  using stop_effect [OF assms(1,2)] assms(3)
  by (auto simp: thread_view_def thread_inv_def split: if_splits)

lemma restart_keeps_inv:
  assumes "thread_stable E" and "run_state (video_restart_streaming E) s = (r, s')" and "thread_inv s"
  shows "thread_inv s'"
proof -
  from assms(2) obtain st t where st: "run_state (video_get_streaming_status E) s = (st, t)"
    and rest: "run_state (if st = 0 then skip
     else do {
       (if st = 1 \<or> st = 2 then video_stop_streaming E else skip);
       ok \<leftarrow> wait_for_streaming_stopped E;
       if \<not> ok then skip else video_start_streaming E
     }) t = (r, s')"
    unfolding video_restart_streaming_def by (rule bindE)
  have t: "thread_inv t"
    using keepsD [OF keeps_thread_parts(2) [OF assms(1)] st] assms(3) by (metis thread_view_inv)
  show ?thesis
  proof (cases "st = 0")
    case True
    with rest t show ?thesis by (simp add: run_skip)
  next
    case False
    with rest obtain x u where u: "run_state (if st = 1 \<or> st = 2 then video_stop_streaming E else skip) t = (x, u)"
      and rest': "run_state (do { ok \<leftarrow> wait_for_streaming_stopped E;
          if \<not> ok then skip else video_start_streaming E }) u = (r, s')"
      by (simp del: run_state_bind) (erule bindE, simp)
    from rest' obtain ok v where v: "run_state (wait_for_streaming_stopped E) u = (ok, v)"
      and last: "run_state (if \<not> ok then skip else video_start_streaming E) v = (r, s')"
      by (rule bindE)
    have "thread_inv u"
      using u t stop_keeps_inv [OF assms(1)] by (auto simp: run_skip split: if_splits)
    then have "thread_inv v"
      using keepsD [OF keeps_thread_parts(4) [OF assms(1)] v] by (metis thread_view_inv)
    then show ?thesis
      using last start_keeps_inv [OF assms(1)] by (auto simp: run_skip split: if_splits)
  qed
qed

text \<open>The calls a client makes, in any order.\<close>

datatype video_api = Start | Stop | Restart | Set_quality rat | Set_codec int | Get_status | Shutdown

fun video_api_op :: "rk_consts \<Rightarrow> video_env \<Rightarrow> video_api \<Rightarrow> unit video_m" where
  "video_api_op K E Start = video_start_streaming E"
| "video_api_op K E Stop = video_stop_streaming E"
| "video_api_op K E Restart = video_restart_streaming E"
| "video_api_op K E (Set_quality f) = video_set_quality_factor E f"
| "video_api_op K E (Set_codec c) = video_set_codec_type c"
| "video_api_op K E Get_status = do { _ \<leftarrow> video_get_streaming_status E; skip }"
| "video_api_op K E Shutdown = video_shutdown K E"

lemma keeps_inv_of_view: "keeps thread_view m \<Longrightarrow> run_state m s = (r, s') \<Longrightarrow> thread_inv s \<Longrightarrow> thread_inv s'"
  using keepsD thread_view_inv by metis

lemma shutdown_keeps_inv:
  assumes "thread_stable E" and "run_state (video_shutdown K E) s = (r, s')" and "thread_inv s"
  shows "thread_inv s'"
proof -
  let ?tail = "\<lambda>x::unit. do {
       wr (\<lambda>gl. gl\<lparr>should_exit := True\<rparr>);
       fd \<leftarrow> rd E sub_dev_fd;
       (if fd > 0 then do { _ \<leftarrow> vsys E (V_shutdown fd); skip } else skip);
       pool \<leftarrow> rd E memPool;
       (if pool \<noteq> MB_INVALID_POOLID K then do { _ \<leftarrow> vsys E (RK_MB_DestroyPool pool); skip } else skip);
       _ \<leftarrow> vsys E V_mutex_destroy;
       skip
     }"
  have tail: "keeps thread_view (?tail x)" for x
    by (intro keeps_thread_basic assms(1); simp)
  from assms(2) obtain ex t where ex: "run_state (rd E should_exit) s = (ex, t)"
    and rest: "run_state (if ex then skip else State_Monad.bind (video_stop_streaming E) ?tail) t = (r, s')"
    unfolding video_shutdown_def by (rule bindE)
  have t: "thread_inv t"
    using keeps_inv_of_view [OF keeps_thread_rd [OF assms(1)] ex assms(3)] .
  show ?thesis
  proof (cases ex)
    case True
    with rest t show ?thesis by (simp add: run_skip)
  next
    case False
    with rest obtain y u where "run_state (video_stop_streaming E) t = (y, u)" and "run_state (?tail y) u = (r, s')"
      by (simp del: run_state_bind) (erule bindE, simp)
    then show ?thesis
      using stop_keeps_inv [OF assms(1) _ t] keeps_inv_of_view [OF tail] by blast
  qed
qed

lemma api_keeps_inv:
  assumes "thread_stable E" and "run_state (video_api_op K E i) s = (r, s')" and "thread_inv s"
  shows "thread_inv s'"
proof (cases i)
  case (Set_quality f)
  with assms(2) have "run_state (video_restart_streaming E) (s\<lparr>glob := (glob s)\<lparr>quality_factor := f\<rparr>\<rparr>) = (r, s')"
    by (simp add: video_set_quality_factor_def run_wr)
  from restart_keeps_inv [OF assms(1) this] assms(3) show ?thesis
    by (simp add: thread_inv_def capture_threads_def handles_def)
next
  case Get_status
  then have "keeps thread_view (video_api_op K E i)"
    by (simp add: keeps_intros keeps_thread_parts [OF assms(1)])
  from keeps_inv_of_view [OF this assms(2,3)] show ?thesis .
qed (use assms start_keeps_inv stop_keeps_inv restart_keeps_inv shutdown_keeps_inv in
    \<open>auto simp: video_set_codec_type_def run_wr thread_inv_def capture_threads_def handles_def\<close>)

interpretation api_session: invariant_ops "\<lambda>s. thread_stable E \<longrightarrow> thread_inv s" "video_api_op K E" for K E
  by unfold_locales (use api_keeps_inv in blast)

text \<open>
  C2. One capture thread at a time: as long as only this client starts and stops streaming, after any
  session of start, stop, restart, setting, status and shutdown calls (whatever the kernel, the
  capture thread and the report handler do, failed allocations and failed thread creation
  included) there is exactly one unjoined capture thread when the handle is set and none
  when it is NULL, and exactly that handle is still allocated.
\<close>

theorem one_capture_thread:
  assumes "\<forall>h gl. streaming_thread (v_globals (E h (V_yield gl))) = streaming_thread gl"
    and "s = \<lparr>trace = [], errno = 0, glob = init_globals K\<rparr>"
    and "s' = run_ops (video_api_op K E) is s"
  shows "capture_threads s' = (if streaming_thread (glob s') = 0 then {#} else {#()#}) \<and>
     handles s' = (if streaming_thread (glob s') = 0 then {#} else {#streaming_thread (glob s')#})"
proof -
  have "thread_stable E"
    using assms(1) by (simp add: thread_stable_def)
  moreover have "thread_inv s"
    by (simp add: assms(2) thread_inv_def init_globals_def capture_threads_def handles_def account_simps)
  ultimately have "thread_inv s'"
    using api_session.session_keeps [of E s K "is"] assms(3) by simp
  then show ?thesis
    by (simp add: thread_inv_def)
qed

text \<open>A kernel that cannot create threads.\<close>

definition thread_fails :: video_env where
  "thread_fails h c = (case c of
     V_yield gl \<Rightarrow> sample_answer\<lparr>v_globals := gl\<rparr>
   | V_malloc_thread \<Rightarrow> sample_answer\<lparr>v_ret := 7\<rparr>
   | V_pthread_create f \<Rightarrow> sample_answer\<lparr>v_ret := 11\<rparr>
   | _ \<Rightarrow> sample_answer)"

theorem one_capture_thread_witness:
  "let s = run_ops (video_api_op sample_consts thread_fails) [Start, Set_quality (1 / 2), Stop, Start]
       \<lparr>trace = [], errno = 0, glob = init_globals sample_consts\<rparr>
   in size (capture_threads s) \<le> 1"
  using one_capture_thread [of thread_fails "\<lparr>trace = [], errno = 0, glob = init_globals sample_consts\<rparr>"
      sample_consts _ "[Start, Set_quality (1 / 2), Stop, Start]"]
  by (simp add: thread_fails_def Let_def)


section \<open>Waiting\<close>

definition sleeps :: "(video_call \<times> video_answer) list \<Rightarrow> nat" where
  "sleeps tr = length (filter (\<lambda>e. fst e = V_usleep 100000) tr)"

lemma sleeps_simps [simp]:
  "sleeps [] = 0" "sleeps (e # tr) = (if fst e = V_usleep 100000 then 1 else 0) + sleeps tr"
  "sleeps (tr @ tr') = sleeps tr + sleeps tr'"
  by (simp_all add: sleeps_def)

lemma wait_attemptsE:
  assumes "run_state (wait_attempts E (Suc n)) s = (r, s')"
  obtains (seen) "r" "streaming_stopped (v_globals (E (trace s) (V_yield (glob s))))"
      "trace s' = trace s @ [(V_yield (glob s), E (trace s) (V_yield (glob s)))]"
      "glob s' = v_globals (E (trace s) (V_yield (glob s)))"
    | (slept) t where "run_state (wait_attempts E n) t = (r, s')"
      "\<not> streaming_stopped (v_globals (E (trace s) (V_yield (glob s))))"
      "sleeps (trace t) = Suc (sleeps (trace s))"
      "glob t = v_globals (E (trace s) (V_yield (glob s)))"
proof (cases "streaming_stopped (v_globals (E (trace s) (V_yield (glob s))))")
  case True
  with assms seen show ?thesis
    by (auto simp: get_streaming_stopped_def run_rd Let_def)
next
  case False
  with assms have "run_state (wait_attempts E n) (snd (run_state (vsys E (V_usleep 100000))
      (snd (run_state (rd E streaming_stopped) s)))) = (r, s')"
    by (simp add: get_streaming_stopped_def run_rd run_vsys Let_def)
  then show ?thesis
    by (rule slept) (use False in \<open>simp_all add: run_rd run_vsys Let_def\<close>)
qed

lemma wait_attempts_sleeps:
  "run_state (wait_attempts E n) s = (r, s') \<Longrightarrow>
   sleeps (trace s') \<le> sleeps (trace s) + n \<and> (\<not> r \<longrightarrow> sleeps (trace s') = sleeps (trace s) + n) \<and>
   (r \<longrightarrow> streaming_stopped (glob s'))"
proof (induction n arbitrary: s)
  case (Suc n)
  from Suc.prems show ?case
    by (cases rule: wait_attemptsE) (use Suc.IH in fastforce)+
qed auto

text \<open>
  Waiting for the capture thread sleeps at most thirty times 100 ms; it reports failure only after
  all thirty, and success only when it has seen the stopped flag.
\<close>

lemma wait_bounded:
  assumes "run_state (wait_for_streaming_stopped E) s = (r, s')"
  shows "sleeps (trace s') \<le> sleeps (trace s) + 30 \<and>
    (\<not> r \<longrightarrow> sleeps (trace s') = sleeps (trace s) + 30) \<and> (r \<longrightarrow> streaming_stopped (glob s'))"
  using wait_attempts_sleeps [of E 30 s r s'] assms by (simp add: wait_for_streaming_stopped_def)

section \<open>Restarting after a failed stream\<close>

lemma wait_quiet:
  "no_interference E \<Longrightarrow> run_state (wait_attempts E n) s = (r, s') \<Longrightarrow>
   glob s' = glob s \<and> (\<not> streaming_stopped (glob s) \<longrightarrow> \<not> r) \<and> (streaming_stopped (glob s) \<and> 0 < n \<longrightarrow> r)"
proof (induction n arbitrary: s)
  case (Suc n)
  from Suc.prems(2) show ?case
    by (cases rule: wait_attemptsE) (use Suc.IH [OF Suc.prems(1)] Suc.prems(1) in \<open>fastforce+\<close>)
qed auto

lemma stop_quiet:
  assumes "no_interference E" and "run_state (video_stop_streaming E) s = (r, s')"
    and "streaming_thread (glob s) \<noteq> 0"
  shows "streaming_thread (glob s') = 0" and "\<not> streaming_flag (glob s')"
    and "streaming_stopped (glob s') = streaming_stopped (glob s)"
proof -
  let ?t = "s\<lparr>trace := trace s @ [(V_yield (glob s), E (trace s) (V_yield (glob s)))]\<rparr>"
  obtain x u where flag: "run_state (set_streaming_flag E False) ?t = (x, u)"
    by (cases "run_state (set_streaming_flag E False) ?t")
  obtain y v where wait: "run_state (wait_for_streaming_stopped E) u = (y, v)"
    by (cases "run_state (wait_for_streaming_stopped E) u")
  have "glob v = glob u"
    using wait_quiet [OF assms(1)] wait by (metis wait_for_streaming_stopped_def)
  with assms flag wait set_flag_quiet [OF assms(1) flag]
  show "streaming_thread (glob s') = 0" "\<not> streaming_flag (glob s')"
    "streaming_stopped (glob s') = streaming_stopped (glob s)"
    by (auto simp: video_stop_streaming_def run_rd run_vsys run_wr Let_def)
qed

definition no_create :: "video_call \<Rightarrow> bool" where
  "no_create c \<longleftrightarrow> c \<noteq> V_pthread_create T_run_video_stream"

lemma calls_no_create:
  "calls no_create (video_get_streaming_status E)" "calls no_create (wait_for_streaming_stopped E)"
  "calls no_create (video_stop_streaming E)"
proof -
  have report: "report_call c \<Longrightarrow> no_create c" for c
    by (cases c) (auto simp: no_create_def)
  note rep = calls_report [THEN calls_mono, OF report]
  have "calls no_create (wait_attempts E n)" for n
    by (induction n) (unfold wait_attempts.simps, (intro calls_intros rep; simp add: no_create_def)+)
  then show wait: "calls no_create (wait_for_streaming_stopped E)"
    by (simp add: wait_for_streaming_stopped_def)
  show "calls no_create (video_get_streaming_status E)"
    by (rule rep)
  show "calls no_create (video_stop_streaming E)"
    unfolding video_stop_streaming_def by (intro calls_intros rep wait; simp add: no_create_def)
qed

text \<open>With \<open>streaming_stopped\<close> left clear, a restart joins the thread and then gives up.\<close>

lemma restart_gives_up:
  assumes "no_interference E" and "streaming_thread (glob s) \<noteq> 0" and "streaming_flag (glob s)"
    and "\<not> streaming_stopped (glob s)" and "run_state (video_restart_streaming E) s = (r, s')"
  shows "streaming_thread (glob s') = 0 \<and> status_of (streaming_flag (glob s')) (streaming_stopped (glob s')) = 2 \<and>
    V_pthread_create T_run_video_stream \<notin> fst ` set (drop (length (trace s)) (trace s'))"
proof -
  obtain st t where st: "run_state (video_get_streaming_status E) s = (st, t)"
    by (cases "run_state (video_get_streaming_status E) s")
  have t: "st = 1" "glob t = glob s"
    using status_quiet [OF assms(1) st] assms(3) by (simp_all add: status_of_def)
  obtain x u where stop: "run_state (video_stop_streaming E) t = (x, u)"
    by (cases "run_state (video_stop_streaming E) t")
  obtain ok v where wait: "run_state (wait_for_streaming_stopped E) u = (ok, v)"
    by (cases "run_state (wait_for_streaming_stopped E) u")
  have thread: "streaming_thread (glob t) \<noteq> 0"
    using t assms(2) by simp
  have u: "streaming_thread (glob u) = 0" "\<not> streaming_flag (glob u)" "\<not> streaming_stopped (glob u)"
    using stop_quiet [OF assms(1) stop thread] t assms(4) by simp_all
  have v: "glob v = glob u" "\<not> ok"
    using wait_quiet [OF assms(1)] wait u(3) by (metis wait_for_streaming_stopped_def)+
  have s': "s' = v"
    using assms(5) st t stop wait v(2) by (simp add: video_restart_streaming_def run_skip)
  obtain es1 where 1: "trace t = trace s @ es1" "\<And>e. e \<in> set es1 \<Longrightarrow> no_create (fst e)"
    by (rule callsE [OF calls_no_create(1) st]) blast
  obtain es2 where 2: "trace u = trace t @ es2" "\<And>e. e \<in> set es2 \<Longrightarrow> no_create (fst e)"
    by (rule callsE [OF calls_no_create(3) stop]) blast
  obtain es3 where 3: "trace v = trace u @ es3" "\<And>e. e \<in> set es3 \<Longrightarrow> no_create (fst e)"
    by (rule callsE [OF calls_no_create(2) wait]) blast
  have "drop (length (trace s)) (trace s') = es1 @ es2 @ es3"
    and "\<forall>e \<in> set (es1 @ es2 @ es3). no_create (fst e)"
    using 1 2 3 by (auto simp: s')
  then show ?thesis
    using u v(1) by (auto simp: s' status_of_def no_create_def) force+
qed

definition failed_world :: video_world where
  "failed_world = sample_world\<lparr>glob := (glob sample_world)\<lparr>streaming_thread := 7, streaming_flag := True,
     streaming_stopped := False\<rparr>\<rparr>"

text \<open>
  C38. A stream that has failed is not resumed: the capture thread leaves \<open>streaming_stopped\<close> set exactly when it returned
  because streaming was switched off, so an early return with an error code leaves it clear; a restart after that (for a
  format or quality change) joins the thread and then gives up, creates no new thread, and
  leaves the status at 2, ``stopping''.
\<close>

theorem restart_abandons_failed_stream:
  assumes "\<forall>h gl. streaming_stopped (v_globals (E h (V_yield gl))) = streaming_stopped gl"
    and "run_state (run_video_stream passes frames E) s = (r, s')"
  shows "(streaming_stopped (glob s') \<longleftrightarrow> r = Ret_null) \<and>
    (\<forall>F x s''. no_interference F \<and> r \<noteq> Ret_null \<and> streaming_thread (glob s') \<noteq> 0 \<and> streaming_flag (glob s') \<and>
      run_state (video_restart_streaming F) s' = (x, s'') \<longrightarrow>
      streaming_thread (glob s'') = 0 \<and> status_of (streaming_flag (glob s'')) (streaming_stopped (glob s'')) = 2 \<and>
      V_pthread_create T_run_video_stream \<notin> fst ` set (drop (length (trace s')) (trace s'')))"
  using stream_thread_stopped_flag [OF assms] restart_gives_up by blast

theorem restart_abandons_failed_stream_witness:
  "case run_state (run_video_stream 2 2 handle_env) failed_world of (r, s) \<Rightarrow>
     r = Ret_errno 0 \<and> streaming_thread (glob (snd (run_state (video_restart_streaming all_succeed) s))) = 0"
proof -
  obtain r s where run: "run_state (run_video_stream 2 2 handle_env) failed_world = (r, s)"
    by (cases "run_state (run_video_stream 2 2 handle_env) failed_world")
  then have s: "r = Ret_errno 0" "streaming_thread (glob s) = 7" "streaming_flag (glob s)"
    by (auto simp: run_video_stream_def report_defs run_simps Let_def failed_world_def sample_world_def handle_env_def
        capture_env_def init_globals_def sample_answer_sel numeral_2_eq_2 numeral_3_eq_3 stream_pass_def
        stream_buffers_def input_buffer_count_def)
  obtain x t where restart: "run_state (video_restart_streaming all_succeed) s = (x, t)"
    by (cases "run_state (video_restart_streaming all_succeed) s")
  have "\<forall>h gl. streaming_stopped (v_globals (handle_env h (V_yield gl))) = streaming_stopped gl"
    by (simp add: handle_env_def capture_env_def)
  moreover have "no_interference all_succeed"
    by (simp add: no_interference_def all_succeed_def)
  ultimately show ?thesis
    using restart_abandons_failed_stream [OF _ run] s restart run by auto
qed

section \<open>Initialisation\<close>

lemma detect_sleep_quiet:
  assumes "no_interference E" and "run_state (detect_sleep_mode E) s = (r, s')"
  shows "sub_dev_fd (glob s') = sub_dev_fd (glob s)"
proof -
  let ?A = "\<lambda>s. sub_dev_fd (glob s)"
  have sys: "keeps ?A (vsys E c)" for c
    by (simp add: keeps_def run_simps)
  have rd: "keeps ?A (rd E sleep_mode_available)"
    using no_interferenceD [OF assms(1)] by (simp add: keeps_def run_simps Let_def)
  have wr: "(\<And>gl. sub_dev_fd (g gl) = sub_dev_fd gl) \<Longrightarrow> keeps ?A (wr g)" for g
    by (simp add: keeps_def run_simps)
  have "keeps ?A (detect_sleep_mode E)"
    unfolding detect_sleep_mode_def ensure_sleep_mode_disabled_def Let_def
    by (intro keeps_bind keeps_return keeps_skip keeps_if sys rd wr) simp_all
  from keepsD [OF this assms(2)] show ?thesis .
qed

lemma init_tail_effect:
  assumes "no_interference E" and "run_state (init_tail K E) s = (r, s')"
  shows "quality_factor (glob s') = quality_factor (glob s)" "fds s' = fds s"
    "sub_dev_fd (glob s') = sub_dev_fd (glob s)"
    "r = RK_SUCCESS \<Longrightarrow> memPool (glob s') \<noteq> MB_INVALID_POOLID K \<and>
       fst (last (trace s')) = V_pthread_create T_run_detect_format"
  using assms(2) no_interferenceD [OF assms(1)]
  by (auto simp: init_tail_def buf_init_def run_simps Let_def RK_SUCCESS_def fds_def account_simps
      book_def split: if_splits)

lemma init_device_effect:
  assumes "no_interference E"
    and "\<And>h. v_ret (E h (V_open SUB_DEV)) < 0 \<Longrightarrow> v_errno (E h (V_open SUB_DEV)) \<noteq> 0"
    and "run_state (init_device K E) s = (r, s')"
  shows "quality_factor (glob s') = quality_factor (glob s) \<and>
    fds s' = fds s + (if 0 \<le> sub_dev_fd (glob s) \<or> sub_dev_fd (glob s') < 0
                      then {#} else {#sub_dev_fd (glob s')#}) \<and>
    (r = RK_SUCCESS \<longrightarrow> 0 \<le> sub_dev_fd (glob s') \<and> memPool (glob s') \<noteq> MB_INVALID_POOLID K \<and>
      fst (last (trace s')) = V_pthread_create T_run_detect_format)"
proof -
  note quiet = no_interferenceD [OF assms(1)]
  let ?open = "\<lambda>fd. if fd < 0 then do {
         r \<leftarrow> vsys E (V_open SUB_DEV);
         wr (\<lambda>gl. gl\<lparr>sub_dev_fd := v_ret r\<rparr>);
         fd \<leftarrow> rd E sub_dev_fd;
         State_Monad.return (if fd < 0 then Inl (v_errno r) else Inr ())
       } else State_Monad.return (Inr ())"
  from assms(3) obtain fd t where t: "run_state (rd E sub_dev_fd) s = (fd, t)"
    and rest0: "run_state (State_Monad.bind (?open fd) (\<lambda>opened. case opened of
       Inl e \<Rightarrow> State_Monad.return e | Inr _ \<Rightarrow> init_tail K E)) t = (r, s')"
    unfolding init_device_def by (rule bindE)
  from rest0 obtain opened u where u: "run_state (?open fd) t = (opened, u)"
    and rest: "run_state (case opened of Inl e \<Rightarrow> State_Monad.return e | Inr _ \<Rightarrow> init_tail K E) u = (r, s')"
    by (rule bindE)
  have t': "fds t = fds s" "glob t = glob s" "fd = sub_dev_fd (glob s)"
    using t quiet by (auto simp: run_rd Let_def fds_def account_simps book_def)
  have u': "quality_factor (glob u) = quality_factor (glob s)"
    "fds u = fds s + (if 0 \<le> fd \<or> sub_dev_fd (glob u) < 0 then {#} else {#sub_dev_fd (glob u)#})"
    "case opened of Inl e \<Rightarrow> e \<noteq> 0 | Inr _ \<Rightarrow> 0 \<le> sub_dev_fd (glob u)"
    using u t' quiet assms(2)
    by (auto simp: run_rd run_vsys run_wr Let_def fds_def account_simps book_def split: if_splits)
  show ?thesis
  proof (cases opened)
    case (Inl e)
    with rest u' t' show ?thesis
      by (auto simp: RK_SUCCESS_def)
  next
    case (Inr x)
    with rest have "run_state (init_tail K E) u = (r, s')"
      by simp
    from init_tail_effect [OF assms(1) this] u' t' Inr show ?thesis
      by auto
  qed
qed

text \<open>
  C33. A successful initialisation leaves the control device open, a valid memory pool, the
  requested quality factor (1 for a factor that is not positive), and a format thread
  requested, provided a failing \<open>open\<close> sets \<open>errno\<close>; on every path the only descriptor it leaves open is the
  control device, which is opened only when it was not open already.
\<close>

theorem video_init_effect:
  assumes "no_interference E"
    and "\<And>h. v_ret (E h (V_open SUB_DEV)) < 0 \<Longrightarrow> v_errno (E h (V_open SUB_DEV)) \<noteq> 0"
    and "run_state (video_init K E factor) s = (r, s')"
  shows "quality_factor (glob s') = (if factor \<le> 0 then 1 else factor) \<and>
    fds s' = fds s + (if 0 \<le> sub_dev_fd (glob s) \<or> sub_dev_fd (glob s') < 0
                      then {#} else {#sub_dev_fd (glob s')#}) \<and>
    (r = RK_SUCCESS \<longrightarrow> 0 \<le> sub_dev_fd (glob s') \<and> memPool (glob s') \<noteq> MB_INVALID_POOLID K \<and>
      fst (last (trace s')) = V_pthread_create T_run_detect_format)"
proof -
  let ?f = "if factor \<le> 0 then 1 else factor"
  obtain x t where sleep: "run_state (detect_sleep_mode E) s = (x, t)"
    by (cases "run_state (detect_sleep_mode E) s")
  have t: "fds t = fds s" "sub_dev_fd (glob t) = sub_dev_fd (glob s)"
    using keepsD [OF keeps_fds_detect_sleep sleep] detect_sleep_quiet [OF assms(1) sleep] by simp_all
  let ?r = "E (trace t) RK_SYS_Init"
  let ?u = "t\<lparr>glob := (glob t)\<lparr>quality_factor := ?f\<rparr>, trace := trace t @ [(RK_SYS_Init, ?r)], errno := v_errno ?r\<rparr>"
  let ?rest = "init_device K E"
  from assms(3) sleep have run: "run_state (if v_ret ?r \<noteq> RK_SUCCESS then State_Monad.return RK_FAILURE else ?rest) ?u = (r, s')"
    by (simp add: video_init_def init_device_def run_wr run_vsys Let_def)
  have u: "fds ?u = fds s" "sub_dev_fd (glob ?u) = sub_dev_fd (glob s)" "quality_factor (glob ?u) = ?f"
    using t by (simp_all add: fds_def account_simps book_def)
  show ?thesis
  proof (cases "v_ret ?r = RK_SUCCESS")
    case True
    with run have "run_state ?rest ?u = (r, s')" by simp
    from init_device_effect [OF assms(1,2) this] u show ?thesis
      by (simp split: if_splits)
  next
    case False
    with run u show ?thesis
      by (auto simp: RK_FAILURE_def RK_SUCCESS_def)
  qed
qed

theorem video_init_effect_witness:
  "quality_factor (glob (snd (run_state (video_init sample_consts all_succeed (-3)) sample_world))) = 1"
proof -
  obtain r t where run: "run_state (video_init sample_consts all_succeed (-3)) sample_world = (r, t)"
    by (cases "run_state (video_init sample_consts all_succeed (-3)) sample_world")
  have "no_interference all_succeed"
    by (simp add: no_interference_def all_succeed_def)
  from video_init_effect [OF this _ run] run show ?thesis
    by (simp add: all_succeed_def sample_answer_def)
qed

end
