(* ===== verification/Pipeline.thy ===== *)
theory Pipeline
  imports Video_Stream
begin

text \<open>
  The capture pipeline seen from outside: what the capture device and the encoder have been told, as a
  monitor that reads the trace of calls and objects to a call that does not fit. The capture thread never
  makes one, whatever the kernel, the media library and the other threads do.
\<close>

section \<open>The monitor\<close>

text \<open>
  The size set on the capture device, whether it streams, the size of the encoder channel, whether the channel
  receives frames, and whether every call so far was in order.
\<close>

record pipeline =
  format :: "(u32 \<times> u32) option"
  capturing :: bool
  channel :: "(u32 \<times> u32) option"
  receiving :: bool
  in_order :: bool

definition idle :: pipeline where
  "idle = \<lparr>format = None, capturing = False, channel = None, receiving = False, in_order = True\<rparr>"

text \<open>
  Streaming is switched on after a format was set; a channel is created for the size of the streaming
  capture device; a frame is sent to a receiving channel of its size while the device streams in this size,
  with the aligned size and the colours that belong to it.
\<close>

definition frame_fits :: "video_frame \<Rightarrow> pipeline \<Rightarrow> bool" where
  "frame_fits fr p \<longleftrightarrow> format p = Some (fr_width fr, fr_height fr) \<and> capturing p \<and> channel p = format p \<and> receiving p \<and>
     fr_vir_width fr = RK_ALIGN_16 (fr_width fr) \<and> fr_vir_height fr = RK_ALIGN_16 (fr_height fr) \<and>
     fr_gamut fr = color_gamut_for_height (fr_height fr)"

fun in_place :: "video_call \<Rightarrow> pipeline \<Rightarrow> bool" where
  "in_place (V_STREAMON fd) p = (format p \<noteq> None)"
| "in_place (RK_VENC_CreateChn a) p = (format p = Some (u32PicWidth a, u32PicHeight a) \<and> capturing p)"
| "in_place (RK_VENC_SendFrame fr) p = frame_fits fr p"
| "in_place c p = True"

fun effect :: "video_call \<times> video_answer \<Rightarrow> pipeline \<Rightarrow> pipeline" where
  "effect (V_S_FMT fd pf, a) p = p\<lparr>format := if v_ret a < 0 then None else Some (pf_width pf, pf_height pf)\<rparr>"
| "effect (V_STREAMON fd, a) p = p\<lparr>capturing := 0 \<le> v_ret a\<rparr>"
| "effect (V_STREAMOFF fd, a) p = p\<lparr>capturing := capturing p \<and> v_ret a < 0\<rparr>"
| "effect (RK_VENC_CreateChn attr, a) p =
     (if v_ret a < 0 then p else p\<lparr>channel := Some (u32PicWidth attr, u32PicHeight attr), receiving := False\<rparr>)"
| "effect (RK_VENC_StartRecvFrame n, a) p = p\<lparr>receiving := 0 \<le> v_ret a\<rparr>"
| "effect (RK_VENC_StopRecvFrame, a) p = p\<lparr>receiving := receiving p \<and> v_ret a \<noteq> RK_SUCCESS\<rparr>"
| "effect (RK_VENC_DestroyChn, a) p = (if v_ret a = RK_SUCCESS then p\<lparr>channel := None\<rparr> else p)"
| "effect (c, a) p = p"

definition observe :: "video_call \<times> video_answer \<Rightarrow> pipeline \<Rightarrow> pipeline" where
  "observe e p = (effect e p)\<lparr>in_order := in_order p \<and> in_place (fst e) p\<rparr>"

text \<open>
  The size the device streams in is the one requested by the last \<open>V_S_FMT\<close> that succeeded: the code does not look at the format the
  driver hands back, which may differ.
\<close>

definition pipeline_of :: "(video_call \<times> video_answer) list \<Rightarrow> pipeline" where
  "pipeline_of tr = fold observe tr idle"

definition pipe :: "video_world \<Rightarrow> pipeline" where
  "pipe s = pipeline_of (trace s)"

section \<open>Calls that do not concern the pipeline\<close>

fun pipe_call :: "video_call \<Rightarrow> bool" where
  "pipe_call (V_S_FMT fd pf) = True" | "pipe_call (V_STREAMON fd) = True" | "pipe_call (V_STREAMOFF fd) = True"
| "pipe_call (RK_VENC_CreateChn a) = True" | "pipe_call (RK_VENC_StartRecvFrame n) = True"
| "pipe_call RK_VENC_StopRecvFrame = True" | "pipe_call RK_VENC_DestroyChn = True"
| "pipe_call (RK_VENC_SendFrame fr) = True" | "pipe_call c = False"

lemma pipe_snoc: "pipeline_of (tr @ es) = fold observe es (pipeline_of tr)"
  by (simp add: pipeline_of_def)

lemma observe_other: "\<not> pipe_call c \<Longrightarrow> observe (c, a) p = p"
  by (cases c) (simp_all add: observe_def)

lemma keeps_pipe_vsys [keeps_intros]: "\<not> pipe_call c \<Longrightarrow> keeps pipe (vsys E c)"
  by (simp add: keeps_def run_simps pipe_def pipe_snoc observe_other)

lemma keeps_pipe_rd [keeps_intros]: "keeps pipe (rd E f)"
  by (auto simp: keeps_def run_simps pipe_def pipe_snoc observe_other Let_def)

lemma keeps_pipe_wr [keeps_intros]: "keeps pipe (wr f)"
  by (simp add: keeps_def run_simps pipe_def)

lemma keeps_pipe_parts [keeps_intros]:
  "keeps pipe (ensure_sleep_mode_disabled E)" "keeps pipe (get_us E)"
  "keeps pipe (venc_configure_limited_range_vui E h)" "keeps pipe (set_streaming_stopped E b)"
  unfolding ensure_sleep_mode_disabled_def get_us_def venc_configure_limited_range_vui_def report_defs Let_def
  by (intro keeps_intros; simp)+

lemma keeps_pipe_loops [keeps_intros]:
  "keeps pipe (alloc_buffers E fd i n)" "keeps pipe (queue_buffers E fd i bs)" "keeps pipe (release_blocks E bl)"
proof -
  show "keeps pipe (alloc_buffers E fd i n)"
    by (induction n arbitrary: i) (unfold alloc_buffers.simps Let_def, (intro keeps_intros; simp)+)
  show "keeps pipe (queue_buffers E fd i bs)"
    by (induction bs arbitrary: i) (unfold queue_buffers.simps, (intro keeps_intros; simp)+)
  show "keeps pipe (release_blocks E bl)"
    by (induction bl) (unfold release_blocks.simps, (intro keeps_intros; simp)+)
qed

section \<open>Triples\<close>

text \<open>What holds of the pipeline after a run that starts where \<open>P\<close> holds of it.\<close>

definition triple :: "(pipeline \<Rightarrow> bool) \<Rightarrow> 'a video_m \<Rightarrow> ('a \<Rightarrow> pipeline \<Rightarrow> bool) \<Rightarrow> bool" where
  "triple P m Q \<longleftrightarrow> (\<forall>s r s'. run_state m s = (r, s') \<longrightarrow> P (pipe s) \<longrightarrow> Q r (pipe s'))"

lemma tripleD: "triple P m Q \<Longrightarrow> run_state m s = (r, s') \<Longrightarrow> P (pipe s) \<Longrightarrow> Q r (pipe s')"
  by (simp add: triple_def)

lemma triple_bind:
  assumes "triple P m R" and "\<And>x. triple (R x) (f x) Q"
  shows "triple P (State_Monad.bind m f) Q"
  unfolding triple_def using assms by (metis bindE tripleD)

lemma triple_return: "(\<And>p. P p \<Longrightarrow> Q x p) \<Longrightarrow> triple P (State_Monad.return x) Q"
  by (simp add: triple_def)

lemma triple_skip: "(\<And>p. P p \<Longrightarrow> Q () p) \<Longrightarrow> triple P skip Q"
  by (simp add: triple_def run_skip)

lemma triple_if:
  "(b \<Longrightarrow> triple P m Q) \<Longrightarrow> (\<not> b \<Longrightarrow> triple P m' Q) \<Longrightarrow> triple P (if b then m else m') Q"
  by simp

lemma triple_vsys: "(\<And>a p. P p \<Longrightarrow> Q a (observe (c, a) p)) \<Longrightarrow> triple P (vsys E c) Q"
  by (auto simp: triple_def run_vsys pipe_def pipe_snoc)

lemma triple_keeps: "keeps pipe m \<Longrightarrow> triple P m (\<lambda>_. P)"
  by (simp add: triple_def keeps_def)

lemma triple_conseq: "triple P m Q \<Longrightarrow> (\<And>p. P' p \<Longrightarrow> P p) \<Longrightarrow> (\<And>r p. Q r p \<Longrightarrow> Q' r p) \<Longrightarrow> triple P' m Q'"
  by (simp add: triple_def)

text \<open>Invariants of a run.\<close>

lemma invariant_rules:
  "(\<And>a p. P p \<Longrightarrow> P (observe (c, a) p)) \<Longrightarrow> triple P (vsys E c) (\<lambda>_. P)"
  "triple P (State_Monad.return x) (\<lambda>_. P)" "triple P skip (\<lambda>_. P)" "triple P (rd E g) (\<lambda>_. P)" "triple P (wr h) (\<lambda>_. P)"
  "triple P m (\<lambda>_. P) \<Longrightarrow> (\<And>x. triple P (f x) (\<lambda>_. P)) \<Longrightarrow> triple P (State_Monad.bind m f) (\<lambda>_. P)"
  "(b \<Longrightarrow> triple P m' (\<lambda>_. P)) \<Longrightarrow> (\<not> b \<Longrightarrow> triple P n (\<lambda>_. P)) \<Longrightarrow> triple P (if b then m' else n) (\<lambda>_. P)"
  by (auto intro: triple_vsys triple_return triple_skip triple_keeps keeps_intros triple_bind)

section \<open>The parts of a pass\<close>

text \<open>A channel that was started receives frames of its size.\<close>

definition streams :: "u32 \<Rightarrow> u32 \<Rightarrow> pipeline \<Rightarrow> bool" where
  "streams w h p \<longleftrightarrow> in_order p \<and> format p = Some (w, h) \<and> capturing p"

definition encodes :: "u32 \<Rightarrow> u32 \<Rightarrow> pipeline \<Rightarrow> bool" where
  "encodes w h p \<longleftrightarrow> streams w h p \<and> channel p = Some (w, h) \<and> receiving p"

lemma venc_start_triple:
  "triple (streams w h) (venc_start E b m w h f) (\<lambda>r p. in_order p \<and> (r = RK_SUCCESS \<longrightarrow> encodes w h p))"
proof -
  have attr: "u32PicWidth (populate_venc_attr c x y w h f) = w" "u32PicHeight (populate_venc_attr c x y w h f) = h" for c x y
    by (simp_all add: populate_venc_attr_def Let_def)
  let ?created = "\<lambda>r p. in_order p \<and> (0 \<le> v_ret r \<longrightarrow> streams w h p \<and> channel p = Some (w, h))"
  have create: "triple (streams w h) (vsys E (RK_VENC_CreateChn (populate_venc_attr c x y w h f))) ?created" for c x y
    by (rule triple_vsys) (simp add: observe_def streams_def attr)
  have start: "triple (\<lambda>p. streams w h p \<and> channel p = Some (w, h)) (vsys E (RK_VENC_StartRecvFrame n))
      (\<lambda>r p. in_order p \<and> (0 \<le> v_ret r \<longrightarrow> encodes w h p))" for n
    by (rule triple_vsys) (simp add: observe_def streams_def encodes_def)
  have thread: "triple (encodes w h) (do {
         wr (\<lambda>gl. gl\<lparr>venc_running := True\<rparr>);
         m \<leftarrow> vsys E V_malloc_thread;
         wr (\<lambda>gl. gl\<lparr>venc_read_thread := v_ret m\<rparr>);
         p \<leftarrow> vsys E (V_pthread_create T_venc_read_stream);
         if v_ret p \<noteq> 0 then State_Monad.return RK_FAILURE else State_Monad.return RK_SUCCESS
       }) (\<lambda>_. encodes w h)"
    by (intro invariant_rules) (simp_all add: observe_other)
  have fail: "triple (\<lambda>p. in_order p \<and> (0 \<le> v_ret r \<longrightarrow> Z p)) (State_Monad.return (v_ret r))
      (\<lambda>r p. in_order p \<and> (r = RK_SUCCESS \<longrightarrow> encodes w h p))" if "v_ret r < 0" for r Z
    by (rule triple_return) (use that in \<open>simp add: RK_SUCCESS_def\<close>)
  note thread' = triple_conseq [OF thread, where Q' = "\<lambda>r p. in_order p \<and> (r = RK_SUCCESS \<longrightarrow> encodes w h p)"]
  note receive = triple_bind [OF start triple_if [OF fail thread']]
  note configure = triple_bind [OF triple_keeps [OF keeps_pipe_parts(3)] triple_conseq [OF receive]]
  show ?thesis
    unfolding venc_start_def Let_def
    by (rule triple_bind [OF triple_keeps [OF keeps_pipe_rd] triple_bind [OF create triple_if [OF fail configure]]])
      (simp_all add: encodes_def streams_def)
qed

lemma venc_stop_triple: "triple in_order (venc_stop E) (\<lambda>_. in_order)"
  unfolding venc_stop_def by (intro invariant_rules; simp add: observe_def)

lemma cleanup_triple: "triple in_order (cleanup E fd bufs) (\<lambda>_. in_order)"
  unfolding cleanup_def
  by (intro invariant_rules venc_stop_triple triple_keeps keeps_pipe_loops; simp add: observe_def)

text \<open>Frames are sent in place: the frame loop leaves the pipeline as it is.\<close>

lemma send_frame_triple:
  assumes "\<And>p. P p \<Longrightarrow> in_order p \<and> frame_fits fr p"
  shows "triple P (send_frame E fr) (\<lambda>_. P)"
proof -
  have "observe (RK_VENC_SendFrame fr, a) p = p" if "P p" for a p
  proof -
    from assms [OF that] have "in_order p" "frame_fits fr p"
      by simp_all
    moreover from this(1) have "p\<lparr>in_order := True\<rparr> = p"
      by (cases p) simp
    ultimately show ?thesis
      by (simp add: observe_def)
  qed
  then show ?thesis
    unfolding send_frame_def by (intro invariant_rules) (simp_all add: observe_other)
qed

lemma frame_loop_triple:
  assumes "\<And>p. P p \<Longrightarrow> in_order p \<and> frame_fits fr p"
  shows "triple P (frame_loop fuel E fd fr num) (\<lambda>_. P)"
  using assms
proof (induction fuel arbitrary: fr num)
  case (Suc fuel)
  have "frame_fits (fr\<lparr>fr_blk := b, fr_time_ref := n, fr_pts := t\<rparr>) p = frame_fits fr p" for b n t p
    by (simp add: frame_fits_def)
  with Suc.prems have stamped: "\<And>p. P p \<Longrightarrow> in_order p \<and> frame_fits (fr\<lparr>fr_blk := b, fr_time_ref := n, fr_pts := t\<rparr>) p" for b n t
    by simp
  show ?case
    unfolding frame_loop.simps Let_def
    by (intro invariant_rules Suc.IH [OF Suc.prems] Suc.IH [OF stamped] send_frame_triple [OF stamped]
        triple_keeps keeps_pipe_parts) (simp_all add: observe_other)
qed (simp add: triple_return)

lemma initial_frame_fits: "encodes w h p \<Longrightarrow> in_order p \<and> frame_fits (initial_frame w h) p"
  by (simp add: encodes_def streams_def frame_fits_def initial_frame_def)

lemma stream_frames_triple: "triple (streams w h) (stream_frames fuel E fd w h fps bufs) (\<lambda>_. in_order)"
proof -
  have frames: "triple (encodes w h) (do {
       x \<leftarrow> frame_loop fuel E fd (initial_frame w h) 0;
       case x of
         Frames_done \<Rightarrow> do { cleanup E fd bufs; State_Monad.return Again }
       | Frames_abort \<Rightarrow> State_Monad.return (Leave Aborted)
       | Frames_no_fuel \<Rightarrow> State_Monad.return (Leave No_fuel)
     }) (\<lambda>_. in_order)"
  proof (rule triple_bind [OF frame_loop_triple [OF initial_frame_fits]])
    show "triple (encodes w h) (case x of
         Frames_done \<Rightarrow> do { cleanup E fd bufs; State_Monad.return Again }
       | Frames_abort \<Rightarrow> State_Monad.return (Leave Aborted)
       | Frames_no_fuel \<Rightarrow> State_Monad.return (Leave No_fuel)) (\<lambda>_. in_order)" for x
      by (rule triple_conseq [where P = in_order, OF _ _ iffD1 [OF refl]])
        (auto intro!: invariant_rules cleanup_triple simp: encodes_def streams_def split: frame_exit.split)
  qed
  note stop = triple_conseq [OF invariant_rules(6) [OF cleanup_triple invariant_rules(2)]]
  have started: "triple (\<lambda>p. in_order p \<and> (r = RK_SUCCESS \<longrightarrow> encodes w h p)) (if r \<noteq> RK_SUCCESS
      then do { cleanup E fd bufs; State_Monad.return Again }
      else do {
       x \<leftarrow> frame_loop fuel E fd (initial_frame w h) 0;
       case x of
         Frames_done \<Rightarrow> do { cleanup E fd bufs; State_Monad.return Again }
       | Frames_abort \<Rightarrow> State_Monad.return (Leave Aborted)
       | Frames_no_fuel \<Rightarrow> State_Monad.return (Leave No_fuel)
     }) (\<lambda>_. in_order)" for r
    by (rule triple_if [OF stop triple_conseq [OF frames]]) simp_all
  have "triple (streams w h) (case y of None \<Rightarrow> State_Monad.return (Leave Aborted)
     | Some (bitrate, max_bitrate) \<Rightarrow> do {
         ret \<leftarrow> venc_start E bitrate max_bitrate w h fps;
         if ret \<noteq> RK_SUCCESS then do { cleanup E fd bufs; State_Monad.return Again }
         else do {
           x \<leftarrow> frame_loop fuel E fd (initial_frame w h) 0;
           case x of
             Frames_done \<Rightarrow> do { cleanup E fd bufs; State_Monad.return Again }
           | Frames_abort \<Rightarrow> State_Monad.return (Leave Aborted)
           | Frames_no_fuel \<Rightarrow> State_Monad.return (Leave No_fuel)
         }
       }) (\<lambda>_. in_order)" for y
    by (auto simp: streams_def intro!: triple_return triple_bind [OF venc_start_triple started] split: option.split)
  then show ?thesis
    unfolding stream_frames_def by (intro triple_bind [OF invariant_rules(4)])
qed

definition formatted :: "u32 \<Rightarrow> u32 \<Rightarrow> pipeline \<Rightarrow> bool" where
  "formatted w h p \<longleftrightarrow> in_order p \<and> format p = Some (w, h)"

lemma invariant_cases:
  "(\<And>e. triple P (l e) Q) \<Longrightarrow> (\<And>y. triple P (m y) Q) \<Longrightarrow> triple P (case z of Inl e \<Rightarrow> l e | Inr y \<Rightarrow> m y) Q"
  "triple P n Q \<Longrightarrow> (\<And>y. triple P (k y) Q) \<Longrightarrow> triple P (case x of None \<Rightarrow> n | Some y \<Rightarrow> k y) Q"
  by (auto split: sum.split option.split)

lemma stream_buffers_triple: "triple (formatted w h) (stream_buffers fuel E fd w h fps) (\<lambda>_. in_order)"
proof -
  have on: "triple (formatted w h) (vsys E (V_STREAMON fd)) (\<lambda>r p. in_order p \<and> (0 \<le> v_ret r \<longrightarrow> streams w h p))"
    by (rule triple_vsys) (simp add: observe_def formatted_def streams_def)
  have close: "triple in_order (do { c \<leftarrow> vsys E (V_close fd); State_Monad.return (Leave (Ret_errno (v_errno c))) }) (\<lambda>_. in_order)"
    by (intro invariant_rules) (simp add: observe_other)
  have leave: "triple (formatted w h) (State_Monad.return x) (\<lambda>_. in_order)" for x :: pass_exit
    by (rule triple_return) (simp add: formatted_def)
  have frames: "triple (\<lambda>p. in_order p \<and> (0 \<le> v_ret r \<longrightarrow> streams w h p)) (if v_ret r < 0
      then do { c \<leftarrow> vsys E (V_close fd); State_Monad.return (Leave (Ret_errno (v_errno c))) }
      else stream_frames fuel E fd w h fps bufs) (\<lambda>_. in_order)" for r bufs
    by (rule triple_if [OF triple_conseq [OF close] triple_conseq [OF stream_frames_triple]]) simp_all
  show ?thesis
    unfolding stream_buffers_def
    by (rule triple_bind [OF triple_keeps [OF keeps_pipe_loops(1)] invariant_cases(1) [OF leave
          triple_bind [OF triple_keeps [OF keeps_pipe_loops(2)] invariant_cases(2) [OF triple_bind [OF on frames] leave]]]])
qed

lemma stream_pass_triple: "triple in_order (stream_pass fuel E) (\<lambda>_. in_order)"
proof -
  have fmt: "triple in_order (vsys E (V_S_FMT fd (capture_format w h))) (\<lambda>r p. in_order p \<and> (0 \<le> v_ret r \<longrightarrow> formatted w h p))"
    for fd w h
    by (rule triple_vsys) (simp add: observe_def formatted_def capture_format_def set_v4l2_yuv_colorimetry_def Let_def)
  have request: "triple (formatted w h) (do {
       r \<leftarrow> vsys E (V_REQBUFS fd input_buffer_count);
       if v_ret r < 0 then do { c \<leftarrow> vsys E (V_close fd); State_Monad.return (Leave (Ret_errno (v_errno c))) }
       else stream_buffers fuel E fd w h fps }) (\<lambda>_. in_order)" for fd w h fps
    by (rule triple_bind [OF triple_keeps triple_if [OF triple_conseq [where P = in_order] stream_buffers_triple]])
      (auto intro!: invariant_rules keeps_intros simp: observe_other formatted_def)
  have prepared: "triple (\<lambda>p. in_order p \<and> (0 \<le> v_ret f \<longrightarrow> formatted w h p)) (if v_ret f < 0
      then do { _ \<leftarrow> vsys E (V_usleep 100000); _ \<leftarrow> vsys E (V_close fd); State_Monad.return Again }
      else do {
       r \<leftarrow> vsys E (V_REQBUFS fd input_buffer_count);
       if v_ret r < 0 then do { c \<leftarrow> vsys E (V_close fd); State_Monad.return (Leave (Ret_errno (v_errno c))) }
       else stream_buffers fuel E fd w h fps }) (\<lambda>_. in_order)" for f fd w h fps
    by (rule triple_if [OF triple_conseq [where P = in_order] triple_conseq [OF request]])
      (auto intro!: invariant_rules simp: observe_other)
  show ?thesis
    unfolding stream_pass_def Let_def
    by (intro invariant_rules triple_bind [OF fmt prepared]) (simp_all add: observe_other)
qed

lemma stream_loop_triple: "triple in_order (stream_loop passes frames E) (\<lambda>_. in_order)"
proof (induction passes)
  case (Suc passes)
  have "triple in_order (case x of Again \<Rightarrow> stream_loop passes frames E | Leave r \<Rightarrow> State_Monad.return r) (\<lambda>_. in_order)" for x
    using Suc.IH by (simp add: invariant_rules(2) split: pass_exit.split)
  then show ?case
    unfolding stream_loop.simps
    by (intro invariant_rules stream_pass_triple keeps_pipe_parts [THEN triple_keeps])
qed (simp add: invariant_rules(2))

section \<open>The capture thread\<close>

lemma in_order_fold: "in_order (fold observe es p) \<Longrightarrow> in_order p"
  by (induction es arbitrary: p) (fastforce simp: observe_def)+

lemma in_order_nth:
  assumes "in_order (pipeline_of tr)" and "i < length tr"
  shows "in_place (fst (tr ! i)) (pipeline_of (take i tr))"
proof -
  have "pipeline_of tr = fold observe (drop i tr) (pipeline_of (take i tr))"
    using pipe_snoc [of "take i tr" "drop i tr"] by simp
  also have "drop i tr = tr ! i # drop (Suc i) tr"
    using assms(2) by (rule Cons_nth_drop_Suc [symmetric])
  finally have "in_order (observe (tr ! i) (pipeline_of (take i tr)))"
    using assms(1) in_order_fold by simp
  then show ?thesis
    by (simp add: observe_def)
qed

text \<open>
  C3. The pipeline is used in order: whatever the kernel, the media library and the other threads do, on every
  pass and every error path the capture thread switches the device on only after its format was set, creates
  an encoder channel only for the size the device streams in, and sends a frame only to a channel that receives frames and
  was created for the size of the frame, while the device streams in that size.
\<close>

theorem pipeline_in_order:
  assumes "run_state (run_video_stream passes frames E) s = (r, s')" and "in_order (pipeline_of (trace s))"
    and "i < length (trace s')"
  shows "in_place (fst (trace s' ! i)) (pipeline_of (take i (trace s')))"
proof -
  have "triple in_order (run_video_stream passes frames E) (\<lambda>_. in_order)"
    unfolding run_video_stream_def by (intro invariant_rules stream_loop_triple keeps_pipe_parts [THEN triple_keeps])
  from tripleD [OF this assms(1)] assms(2) have "in_order (pipeline_of (trace s'))"
    by (simp add: pipe_def)
  from in_order_nth [OF this assms(3)] show ?thesis .
qed

text \<open>A pass that sends one frame.\<close>

lemma sample_bitrate: "calculate_bitrate 1 1920 1080 = Some 4000"
  by (rule calculate_bitrate_monotone [of 1 1 0 0 0 0, THEN conjunct2, THEN conjunct2]) simp_all

lemma sample_frame: "\<exists>fr. RK_VENC_SendFrame fr \<in> fst ` set (trace (snd (run_state (run_video_stream 1 1 (capture_env 1000)) sample_world)))"
  by (simp add: run_video_stream_def report_defs run_simps Let_def sample_world_def
      capture_env_def init_globals_def sample_answer_sel numeral_3_eq_3 stream_pass_def
      stream_buffers_def input_buffer_count_def stream_frames_def sample_bitrate max_bitrate_of_def venc_start_def
      venc_configure_limited_range_vui_def RK_SUCCESS_def get_us_def send_frame_def)

theorem pipeline_in_order_witness:
  "\<exists>fr i. fst (trace (snd (run_state (run_video_stream 1 1 (capture_env 1000)) sample_world)) ! i) = RK_VENC_SendFrame fr \<and>
     frame_fits fr (pipeline_of (take i (trace (snd (run_state (run_video_stream 1 1 (capture_env 1000)) sample_world)))))"
proof -
  obtain r s where run: "run_state (run_video_stream 1 1 (capture_env 1000)) sample_world = (r, s)"
    by (cases "run_state (run_video_stream 1 1 (capture_env 1000)) sample_world")
  obtain fr i where i: "i < length (trace s)" "fst (trace s ! i) = RK_VENC_SendFrame fr"
    using sample_frame run by (auto simp: in_set_conv_nth)
  have "in_order (pipeline_of (trace sample_world))"
    by (simp add: sample_world_def pipeline_of_def idle_def)
  from pipeline_in_order [OF run this i(1)] i(2) run show ?thesis
    by (intro exI [of _ fr] exI [of _ i]) simp
qed

end
