(* ===== verification/Detect_Format.thy ===== *)
theory Detect_Format
  imports Video_Control
begin

text \<open>
  The format detection thread of \<open>video.c\<close>: it waits for source changes on the control device,
  measures the incoming timings, reports them and restarts streaming when they have changed.
\<close>

section \<open>The frame rate\<close>

text \<open>
  The blanking sums and their product are 32-bit unsigned and wrap; the quotient is a \<open>double\<close>.
  \<open>None\<close> stands for a division by zero, whose conversion to an integer is undefined.
\<close>

definition total_pixels :: "dv_timings \<Rightarrow> u32" where
  "total_pixels t = (bt_height t + bt_vfrontporch t + bt_vsync t + bt_vbackporch t) *
     (bt_width t + bt_hfrontporch t + bt_hsync t + bt_hbackporch t)"

definition frames_per_second :: "dv_timings \<Rightarrow> rat option" where
  "frames_per_second t =
     (if total_pixels t = 0 then None
      else Some (rnd64 (rnd64 (of_int (uint (bt_pixelclock t))) / of_int (uint (total_pixels t)))))"

definition fps_of :: "rat \<Rightarrow> u32 option" where
  "fps_of frames = map_option (\<lambda>n. let fps_int = (of_int n :: u32) in if fps_int < 1 then 1 else fps_int)
     (to_uint32 (rnd64 (frames + 1 / 2)))"

text \<open>The restart decision against the previously detected format.\<close>

definition fps_changed :: "u32 \<Rightarrow> u32 \<Rightarrow> bool" where
  "fps_changed fps_int old \<longleftrightarrow> fps_int > old + 1 \<or> fps_int + 1 < old"

definition should_restart :: "dv_timings \<Rightarrow> u32 \<Rightarrow> u32 \<Rightarrow> u32 \<Rightarrow> u32 \<Rightarrow> bool \<Rightarrow> bool" where
  "should_restart t fps_int width height fps signal \<longleftrightarrow>
     bt_width t \<noteq> width \<or> bt_height t \<noteq> height \<or> fps_changed fps_int fps \<or> \<not> signal"

section \<open>The thread\<close>

datatype detect_exit = Next | Break | Undefined

text \<open>The end of a pass: wait for the next event.\<close>

definition wait_event :: "video_env \<Rightarrow> detect_exit video_m" where
  "wait_event E = do {
     fd \<leftarrow> rd E sub_dev_fd;
     e \<leftarrow> vsys E (V_DQEVENT fd);
     if v_ret e \<noteq> 0 then State_Monad.return Break
     else State_Monad.return Next
   }"

text \<open>Timings were read: remember and report them, and restart streaming when they have changed.\<close>

definition format_found :: "video_env \<Rightarrow> dv_timings \<Rightarrow> detect_exit video_m" where
  "format_found E t =
     (case Option.bind (frames_per_second t) (\<lambda>fr. map_option (Pair fr) (fps_of fr)) of
        None \<Rightarrow> State_Monad.return Undefined
      | Some (frames, fps_int) \<Rightarrow> do {
          fps \<leftarrow> rd E detected_fps;
          width \<leftarrow> rd E detected_width;
          height \<leftarrow> rd E detected_height;
          signal \<leftarrow> rd E detected_signal;
          let restart = should_restart t fps_int width height fps signal;
          wr (\<lambda>gl. gl\<lparr>detected_width := bt_width t, detected_height := bt_height t,
                      detected_fps := fps_int, detected_signal := True\<rparr>);
          width \<leftarrow> rd E detected_width;
          height \<leftarrow> rd E detected_height;
          video_report_format E True None (ucast width) (ucast height) frames;
          (if restart then video_restart_streaming E else skip);
          wait_event E
        })"

text \<open>No timings: report why; an unexpected error sleeps a second and tries again at once.\<close>

definition format_missing :: "video_env \<Rightarrow> int \<Rightarrow> detect_exit video_m" where
  "format_missing E err = do {
     wr (\<lambda>gl. gl\<lparr>detected_signal := False\<rparr>);
     if err = ENOLINK then do { video_report_format E False (Some ''no_signal'') 0 0 0; wait_event E }
     else if err = ENOLCK then do { video_report_format E False (Some ''no_lock'') 0 0 0; wait_event E }
     else if err = ERANGE then do { video_report_format E False (Some ''out_of_range'') 0 0 0; wait_event E }
     else do { _ \<leftarrow> vsys E (V_sleep 1); State_Monad.return Next }
   }"

definition detect_pass :: "video_env \<Rightarrow> detect_exit video_m" where
  "detect_pass E = do {
     ensure_sleep_mode_disabled E;
     fd \<leftarrow> rd E sub_dev_fd;
     q \<leftarrow> vsys E (V_QUERY_DV_TIMINGS fd);
     if v_ret q \<noteq> 0 then format_missing E (v_errno q)
     else format_found E (v_timings q)
   }"

datatype detect_result = Detect_done | Detect_undefined | Detect_no_fuel

definition detect_close :: "video_env \<Rightarrow> detect_result video_m" where
  "detect_close E = do {
     fd \<leftarrow> rd E sub_dev_fd;
     _ \<leftarrow> vsys E (V_close fd);
     State_Monad.return Detect_done
   }"

fun detect_loop :: "nat \<Rightarrow> video_env \<Rightarrow> detect_result video_m" where
  "detect_loop 0 E = State_Monad.return Detect_no_fuel"
| "detect_loop (Suc fuel) E = do {
     exiting \<leftarrow> rd E should_exit;
     if exiting then detect_close E
     else do {
       x \<leftarrow> detect_pass E;
       case x of
         Next \<Rightarrow> detect_loop fuel E
       | Break \<Rightarrow> detect_close E
       | Undefined \<Rightarrow> State_Monad.return Detect_undefined
     }
   }"

definition run_detect_format :: "nat \<Rightarrow> video_env \<Rightarrow> detect_result video_m" where
  "run_detect_format fuel E = do {
     fd \<leftarrow> rd E sub_dev_fd;
     r \<leftarrow> vsys E (V_SUBSCRIBE_EVENT fd);
     if v_ret r = -1 then detect_close E
     else detect_loop fuel E
   }"

section \<open>The measured rate\<close>

lemma quarter_bounds:
  fixes x :: rat
  assumes "\<bar>x - of_int k\<bar> \<le> 1 / 4"
  shows "of_int (4 * k - 1) / 4 \<le> x" and "x \<le> of_int (4 * k + 1) / 4"
proof -
  have "x - of_int k \<le> 1 / 4" and "of_int k - x \<le> 1 / 4"
    using assms by linarith+
  then show "of_int (4 * k - 1) / 4 \<le> x" and "x \<le> of_int (4 * k + 1) / 4"
    by (simp_all add: field_simps)
qed

lemma fps_of_nominal:
  assumes "\<bar>frames - of_int k\<bar> \<le> 1 / 4" and "1 \<le> k" and "k < 2 ^ 32"
  shows "fps_of frames = Some (of_int k)"
proof -
  have bounds: "of_int (4 * k + 1) / 4 \<le> frames + 1 / 2" "frames + 1 / 2 \<le> of_int (4 * k + 3) / 4"
    using quarter_bounds [OF assms(1)] by (simp_all add: field_simps)
  have "of_int (4 * k + 1) / 4 \<le> rnd64 (frames + 1 / 2)" "rnd64 (frames + 1 / 2) \<le> of_int (4 * k + 3) / 4"
    by (rule rnd64_between_quarters [OF bounds]; use assms(2,3) in simp)+
  then have "of_int k \<le> rnd64 (frames + 1 / 2)" "rnd64 (frames + 1 / 2) < of_int k + 1"
    by (simp_all add: field_simps)
  then have "\<lfloor>rnd64 (frames + 1 / 2)\<rfloor> = k" and "0 \<le> rnd64 (frames + 1 / 2)"
    using assms(2) by (auto simp: floor_unique intro: order_trans [of _ "of_int k"])
  then have "to_uint32 (rnd64 (frames + 1 / 2)) = Some k"
    using assms(2,3) by (simp add: to_uint32_def trunc_def)
  moreover have "\<not> (of_int k :: u32) < 1"
    using assms(2,3) by (simp add: word_less_def uint_word_of_int take_bit_int_eq_self)
  ultimately show ?thesis
    by (simp add: fps_of_def Let_def)
qed


lemma rate_nominal:
  assumes "n = (uint (bt_height t) + uint (bt_vfrontporch t) + uint (bt_vsync t) + uint (bt_vbackporch t)) *
       (uint (bt_width t) + uint (bt_hfrontporch t) + uint (bt_hsync t) + uint (bt_hbackporch t))"
    and "0 < n" and "n < 2 ^ 32" and "uint (bt_pixelclock t) \<le> 2 ^ 53"
    and "\<bar>of_int (uint (bt_pixelclock t)) / of_int n - of_int k\<bar> \<le> (1 / 4 :: rat)" and "1 \<le> k" and "k < 2 ^ 32"
  shows "Option.bind (frames_per_second t) fps_of = Some (of_int k)"
proof -
  have "total_pixels t = of_int n"
    by (simp add: total_pixels_def assms(1) of_int_uint)
  then have total: "uint (total_pixels t) = n"
    using assms(2,3) by (simp add: uint_word_of_int take_bit_int_eq_self)
  with assms(2) have nz: "total_pixels t \<noteq> 0"
    by auto
  let ?x = "of_int (uint (bt_pixelclock t)) / of_int n :: rat"
  have clock: "rnd64 (of_int (uint (bt_pixelclock t))) = of_int (uint (bt_pixelclock t))"
    using assms(4) by (intro f64.rnd_int) simp
  have "of_int (4 * k - 1) / 4 \<le> ?x" "?x \<le> of_int (4 * k + 1) / 4"
    using quarter_bounds [OF assms(5)] by simp_all
  then have "of_int (4 * k - 1) / 4 \<le> rnd64 ?x" "rnd64 ?x \<le> of_int (4 * k + 1) / 4"
    by (rule rnd64_between_quarters; use assms(6,7) in simp)+
  then have "\<bar>rnd64 ?x - of_int k\<bar> \<le> 1 / 4"
    by (intro abs_leI) (simp_all add: field_simps)
  from fps_of_nominal [OF this assms(6,7)] show ?thesis
    using nz clock by (simp add: frames_per_second_def total)
qed

text \<open>
  C27. The rate handed to the encoder is the nominal one: when the totals do not wrap around and the true
  rate \<open>pixelclock / total\<close> is within a quarter of a frame of an integer \<open>k\<close> (119.91 for 120,
  59.94 for 60), the rounded rate is exactly \<open>k\<close>, in spite of the two roundings of the \<open>double\<close> arithmetic.
\<close>

theorem detected_fps_nominal:
  assumes "n = (uint (bt_height t) + uint (bt_vfrontporch t) + uint (bt_vsync t) + uint (bt_vbackporch t)) *
       (uint (bt_width t) + uint (bt_hfrontporch t) + uint (bt_hsync t) + uint (bt_hbackporch t))"
    and "0 < n" and "n < 2 ^ 32" and "uint (bt_pixelclock t) \<le> 2 ^ 53"
    and "\<bar>of_int (uint (bt_pixelclock t)) / of_int n - of_int k\<bar> \<le> (1 / 4 :: rat)" and "1 \<le> k" and "k < 2 ^ 32"
  shows "Option.bind (frames_per_second t) fps_of = Some (of_int k)"
  using rate_nominal [OF assms] .

text \<open>A 120 Hz reduced-blanking source: 285.5 MHz over 2080 x 1144 pixels is 119.98 frames.\<close>

definition timings_120 :: dv_timings where
  "timings_120 = \<lparr>bt_width = 1920, bt_height = 1080, bt_pixelclock = 285500000, bt_hfrontporch = 48,
     bt_hsync = 32, bt_hbackporch = 80, bt_vfrontporch = 3, bt_vsync = 5, bt_vbackporch = 56\<rparr>"

lemma rate_120: "Option.bind (frames_per_second timings_120) fps_of = Some 120"
  using rate_nominal [of "1144 * 2080" timings_120 120]
  by (simp add: timings_120_def abs_le_iff)

theorem detected_fps_nominal_witness:
  "Option.bind (frames_per_second timings_120) fps_of = Some 120"
  using detected_fps_nominal [of "1144 * 2080" timings_120 120]
  by (simp add: timings_120_def abs_le_iff)

section \<open>The restart decision\<close>

text \<open>
  The restart decision, for rates that do not reach the top of the 32-bit range: streaming is restarted exactly
  when the size differs, the rate differs by more than one frame per second, or there was no signal.
\<close>

lemma should_restart_iff:
  assumes "uint fps_int < 2 ^ 32 - 1" and "uint fps < 2 ^ 32 - 1"
  shows "should_restart t fps_int width height fps signal \<longleftrightarrow>
    bt_width t \<noteq> width \<or> bt_height t \<noteq> height \<or> \<bar>uint fps_int - uint fps\<bar> > 1 \<or> \<not> signal"
proof -
  have "uint (fps + 1) = uint fps + 1" "uint (fps_int + 1) = uint fps_int + 1"
    using assms by (simp_all add: uint_plus_if_size word_size)
  then have "fps_changed fps_int fps \<longleftrightarrow> \<bar>uint fps_int - uint fps\<bar> > 1"
    by (auto simp: fps_changed_def word_less_def)
  then show ?thesis
    by (simp add: should_restart_def)
qed

section \<open>The reports\<close>

text \<open>The part of the state that only the format thread writes.\<close>

definition format_view :: "video_world \<Rightarrow> bool \<times> string option \<times> u16 \<times> u16 \<times> rat \<times> u32 \<times> u32 \<times> u32 \<times> bool" where
  "format_view s = (vs_ready (vstate (glob s)), vs_error (vstate (glob s)), vs_width (vstate (glob s)),
     vs_height (vstate (glob s)), vs_fps (vstate (glob s)), detected_width (glob s), detected_height (glob s),
     detected_fps (glob s), detected_signal (glob s))"

lemma keeps_format_basic:
  "keeps format_view (vsys E c)"
  "no_interference E \<Longrightarrow> keeps format_view (rd E f)"
  "(\<And>s. format_view (s\<lparr>glob := g (glob s)\<rparr>) = format_view s) \<Longrightarrow> keeps format_view (wr g)"
  by (auto simp: keeps_def run_simps format_view_def Let_def)

lemma keeps_format_parts:
  assumes "no_interference E"
  shows "keeps format_view (set_streaming_flag E b)" "keeps format_view (video_get_streaming_status E)"
    "keeps format_view (wait_event E)" "keeps format_view (get_streaming_stopped E)"
  unfolding report_defs wait_event_def
  by (intro keeps_bind keeps_return keeps_skip keeps_if keeps_format_basic assms; simp add: format_view_def)+

lemma keeps_format_wait:
  assumes "no_interference E"
  shows "keeps format_view (wait_for_streaming_stopped E)"
proof -
  have "keeps format_view (wait_attempts E n)" for n
    by (induction n) (unfold wait_attempts.simps,
      (intro keeps_bind keeps_return keeps_if keeps_format_basic keeps_format_parts assms; simp)+)
  then show ?thesis
    by (simp add: wait_for_streaming_stopped_def)
qed

lemma keeps_format_restart:
  assumes "no_interference E"
  shows "keeps format_view (video_restart_streaming E)"
  unfolding video_restart_streaming_def video_stop_streaming_def video_start_streaming_def Let_def
  by (intro keeps_bind keeps_return keeps_skip keeps_if keeps_format_basic keeps_format_parts
      keeps_format_wait assms; simp add: format_view_def)

text \<open>The reports handed to the state handler by a list of calls.\<close>

fun reported :: "video_call \<Rightarrow> video_report option" where
  "reported (CB_video_state st) = Some st"
| "reported c = None"

definition reports :: "(video_call \<times> video_answer) list \<Rightarrow> video_report list" where
  "reports es = List.map_filter (\<lambda>e. reported (fst e)) es"

lemma reports_simps [simp]:
  "reports [] = []" "reports (es @ ds) = reports es @ reports ds"
  "reports ((c, a) # es) = (case reported c of None \<Rightarrow> reports es | Some st \<Rightarrow> st # reports es)"
  by (simp_all add: reports_def List.map_filter_def split: option.split)

text \<open>The format in a report.\<close>

definition report_format :: "video_report \<Rightarrow> bool \<times> string option \<times> u16 \<times> u16 \<times> rat" where
  "report_format st = (vs_ready st, vs_error st, vs_width st, vs_height st, vs_fps st)"

text \<open>A run that adds these reports.\<close>

definition tells :: "video_report list \<Rightarrow> video_world \<Rightarrow> video_world \<Rightarrow> bool" where
  "tells sts s s' \<longleftrightarrow> (\<exists>es. trace s' = trace s @ es \<and> reports es = sts)"

lemma tells_trans: "tells sts s t \<Longrightarrow> tells sts' t s' \<Longrightarrow> tells (sts @ sts') s s'"
  by (auto simp: tells_def)

lemma tells_nothing: "calls (\<lambda>c. reported c = None) m \<Longrightarrow> run_state m s = (r, s') \<Longrightarrow> tells [] s s'"
  unfolding tells_def by (erule callsE) (auto simp: reports_def List.map_filter_def filter_empty_conv)

lemma quiet_calls:
  "calls (\<lambda>c. reported c = None) (video_get_streaming_status E)" "calls (\<lambda>c. reported c = None) (wait_event E)"
  "calls (\<lambda>c. reported c = None) (get_streaming_stopped E)"
  unfolding report_defs wait_event_def by (intro calls_intros; simp)+

lemma rd_tells:
  "no_interference E \<Longrightarrow> run_state (rd E f) s = (x, t) \<Longrightarrow> x = f (glob s) \<and> glob t = glob s \<and> tells [] s t"
  by (auto simp: run_rd Let_def tells_def)

lemma handler_tells:
  assumes "no_interference E" and "run_state (call_video_state_handler E) s = (r, s')"
  shows "tells (if video_state_handler (glob s) then [vstate (glob s)] else []) s s'"
  using assms by (auto simp: call_video_state_handler_def run_simps Let_def tells_def)

lemma report_format_tells:
  assumes "no_interference E" and "run_state (video_report_format E ready err w h f) s = (r, s')"
  shows "tells (if video_state_handler (glob s) then [vstate (glob s')] else []) s s'"
proof -
  from assms(2) obtain st t where t: "run_state (video_get_streaming_status E) s = (st, t)"
    and rest: "run_state (call_video_state_handler E) (t\<lparr>glob := (glob t)\<lparr>vstate := (vstate (glob t))\<lparr>vs_streaming := st,
       vs_ready := ready, vs_error := err, vs_width := w, vs_height := h, vs_fps := f\<rparr>\<rparr>\<rparr>) = (r, s')"
    unfolding video_report_format_def by (elim bindE) (simp add: run_wr)
  from status_quiet [OF assms(1) t] tells_nothing [OF quiet_calls(1) t] handler_quiet [OF assms(1) rest]
    handler_tells [OF assms(1) rest] show ?thesis
    by (auto simp: tells_def split: if_splits)
qed

text \<open>A run whose reports, made only to a registered handler, all carry the format already in the state.\<close>

definition repeated :: "video_world \<Rightarrow> video_world \<Rightarrow> bool" where
  "repeated s s' \<longleftrightarrow> report_format (vstate (glob s')) = report_format (vstate (glob s)) \<and>
     video_state_handler (glob s') = video_state_handler (glob s) \<and>
     (\<exists>sts. tells sts s s' \<and> (\<forall>st \<in> set sts. video_state_handler (glob s) \<and> report_format st = report_format (vstate (glob s))))"

lemma repeated_trans:
  assumes "repeated s t" and "repeated t s'"
  shows "repeated s s'"
proof -
  from assms obtain sts sts' where told: "tells sts s t" "tells sts' t s'"
    and 1: "report_format (vstate (glob t)) = report_format (vstate (glob s))" "video_state_handler (glob t) = video_state_handler (glob s)"
      "\<forall>st \<in> set sts. video_state_handler (glob s) \<and> report_format st = report_format (vstate (glob s))"
    and 2: "report_format (vstate (glob s')) = report_format (vstate (glob t))" "video_state_handler (glob s') = video_state_handler (glob t)"
      "\<forall>st \<in> set sts'. video_state_handler (glob t) \<and> report_format st = report_format (vstate (glob t))"
    unfolding repeated_def by blast
  have "\<forall>st \<in> set (sts @ sts'). video_state_handler (glob s) \<and> report_format st = report_format (vstate (glob s))"
    using 1(3) 2(3) unfolding 1(1,2) set_append by blast
  with tells_trans [OF told] have "\<exists>sts. tells sts s s' \<and>
      (\<forall>st \<in> set sts. video_state_handler (glob s) \<and> report_format st = report_format (vstate (glob s)))"
    by blast
  then show ?thesis
    unfolding repeated_def by (rule conjI [OF trans [OF 2(1) 1(1)] conjI [OF trans [OF 2(2) 1(2)]]])
qed

definition repeats :: "'a video_m \<Rightarrow> bool" where
  "repeats m \<longleftrightarrow> (\<forall>s r s'. run_state m s = (r, s') \<longrightarrow> repeated s s')"

lemma repeats_bind: "repeats m \<Longrightarrow> (\<And>x. repeats (f x)) \<Longrightarrow> repeats (State_Monad.bind m f)"
  unfolding repeats_def by (blast elim: bindE intro: repeated_trans)

lemma repeats_basic:
  "repeats (State_Monad.return x)" "repeats skip" "reported c = None \<Longrightarrow> repeats (vsys E c)"
  "no_interference E \<Longrightarrow> repeats (rd E f)"
  "(\<And>gl. report_format (vstate (g gl)) = report_format (vstate gl) \<and> video_state_handler (g gl) = video_state_handler gl) \<Longrightarrow> repeats (wr g)"
  by (auto simp: repeats_def repeated_def run_simps tells_def Let_def intro!: exI [of _ "[]"])

lemma repeats_if: "(b \<Longrightarrow> repeats m) \<Longrightarrow> (\<not> b \<Longrightarrow> repeats m') \<Longrightarrow> repeats (if b then m else m')"
  by simp

lemmas repeats_intros = repeats_bind repeats_if repeats_basic

lemma repeats_report:
  assumes "no_interference E"
  shows "repeats (video_get_streaming_status E)" "repeats (set_streaming_flag E b)" "repeats (get_streaming_stopped E)"
proof -
  have call: "repeats (call_video_state_handler E)"
    unfolding repeats_def repeated_def
    using handler_quiet [OF assms] handler_tells [OF assms] by fastforce
  show status: "repeats (video_get_streaming_status E)"
    unfolding report_defs by (intro repeats_intros assms)
  show "repeats (get_streaming_stopped E)"
    unfolding report_defs by (intro repeats_intros assms)
  show "repeats (set_streaming_flag E b)"
    unfolding set_streaming_flag_def video_send_format_report_def
    by (intro repeats_intros status call; simp add: report_format_def)
qed

lemma repeats_restart:
  assumes "no_interference E"
  shows "repeats (video_restart_streaming E)"
proof -
  note report = repeats_report [OF assms]
  have wait: "repeats (wait_attempts E n)" for n
    by (induction n) (unfold wait_attempts.simps, (intro repeats_intros report; simp)+)
  show ?thesis
    unfolding video_restart_streaming_def video_stop_streaming_def video_start_streaming_def wait_for_streaming_stopped_def Let_def
    by (intro repeats_intros report wait assms; simp)
qed

definition status_error :: "int \<Rightarrow> string option" where
  "status_error err = (if err = ENOLINK then Some ''no_signal'' else if err = ENOLCK then Some ''no_lock''
     else if err = ERANGE then Some ''out_of_range'' else None)"

lemma format_missing_report:
  assumes "no_interference E" and "run_state (format_missing E err) s = (x, s')"
  shows "case status_error err of
      Some e \<Rightarrow> format_view s' = (False, Some e, 0, 0, 0, detected_width (glob s), detected_height (glob s),
        detected_fps (glob s), False)
    | None \<Rightarrow> x = Next \<and> format_view s' = format_view (s\<lparr>glob := (glob s)\<lparr>detected_signal := False\<rparr>\<rparr>)"
proof -
  let ?t = "s\<lparr>glob := (glob s)\<lparr>detected_signal := False\<rparr>\<rparr>"
  have report: "format_view s' = (False, Some e, 0, 0, 0, detected_width (glob s), detected_height (glob s),
        detected_fps (glob s), False)"
    if "run_state (do { video_report_format E False (Some e) 0 0 0; wait_event E }) ?t = (x, s')" for e
  proof -
    from that obtain y u where u: "run_state (video_report_format E False (Some e) 0 0 0) ?t = (y, u)"
      and "run_state (wait_event E) u = (x, s')"
      by (rule bindE)
    from keepsD [OF keeps_format_parts(3) [OF assms(1)] this(2)] report_format_quiet [OF assms(1) u]
    show ?thesis
      by (simp add: format_view_def)
  qed
  have other: "x = Next \<and> format_view s' = format_view ?t"
    if "run_state (do { _ \<leftarrow> vsys E (V_sleep 1); State_Monad.return Next }) ?t = (x, s')"
    using that by (auto simp: run_vsys format_view_def)
  from assms(2) have "run_state (if err = ENOLINK then do { video_report_format E False (Some ''no_signal'') 0 0 0; wait_event E }
     else if err = ENOLCK then do { video_report_format E False (Some ''no_lock'') 0 0 0; wait_event E }
     else if err = ERANGE then do { video_report_format E False (Some ''out_of_range'') 0 0 0; wait_event E }
     else do { _ \<leftarrow> vsys E (V_sleep 1); State_Monad.return Next }) ?t = (x, s')"
    by (simp add: format_missing_def run_wr)
  then show ?thesis
    using report other by (simp add: status_error_def del: run_state_bind split: if_splits)
qed

lemma format_found_report:
  assumes "no_interference E" and "run_state (format_found E t) s = (x, s')" and "x \<noteq> Undefined"
  shows "\<exists>frames fps. frames_per_second t = Some frames \<and> fps_of frames = Some fps \<and>
    format_view s' = (True, None, ucast (bt_width t), ucast (bt_height t), frames, bt_width t, bt_height t, fps, True)"
proof -
  from assms(2,3) obtain frames fps where fr: "frames_per_second t = Some frames" "fps_of frames = Some fps"
    by (cases "frames_per_second t"; cases "fps_of (the (frames_per_second t))") (auto simp: format_found_def)
  from assms(2) fr obtain y u v b where
      u: "run_state (video_report_format E True None (ucast (bt_width t)) (ucast (bt_height t)) frames) u = (y, v)"
      and g: "detected_width (glob u) = bt_width t" "detected_height (glob u) = bt_height t"
        "detected_fps (glob u) = fps" "detected_signal (glob u)"
      and rest: "run_state (do { (if b then video_restart_streaming E else skip); wait_event E }) v = (x, s')"
    using no_interferenceD [OF assms(1)]
    by (auto simp: format_found_def run_rd run_wr Let_def split: prod.splits)
  have "format_view v = (True, None, ucast (bt_width t), ucast (bt_height t), frames, bt_width t, bt_height t, fps, True)"
    using report_format_quiet [OF assms(1) u] g by (simp add: format_view_def)
  moreover have "keeps format_view (do { (if b then video_restart_streaming E else skip); wait_event E })"
    by (intro keeps_bind keeps_if keeps_skip keeps_format_parts keeps_format_restart assms(1))
  from keepsD [OF this rest] have "format_view s' = format_view v" .
  ultimately show ?thesis
    using fr by simp
qed

lemma missing_tells:
  assumes "no_interference E" and "run_state (format_missing E err) s = (x, s')"
  shows "tells (if video_state_handler (glob s) \<and> status_error err \<noteq> None then [vstate (glob s')] else []) s s'"
proof -
  let ?t = "s\<lparr>glob := (glob s)\<lparr>detected_signal := False\<rparr>\<rparr>"
  have report: "tells (if video_state_handler (glob s) then [vstate (glob s')] else []) s s'"
    if "run_state (do { video_report_format E False (Some e) 0 0 0; wait_event E }) ?t = (x, s')" for e
  proof -
    from that obtain y u where u: "run_state (video_report_format E False (Some e) 0 0 0) ?t = (y, u)"
      and wait: "run_state (wait_event E) u = (x, s')"
      by (rule bindE)
    have "glob s' = glob u"
      using wait assms(1) by (auto simp: wait_event_def run_simps Let_def split: if_splits)
    with tells_trans [OF report_format_tells [OF assms(1) u] tells_nothing [OF quiet_calls(2) wait]] show ?thesis
      by (simp add: tells_def split: if_splits)
  qed
  have other: "tells [] s s'" if "run_state (do { _ \<leftarrow> vsys E (V_sleep 1); State_Monad.return Next }) ?t = (x, s')"
    using that by (auto simp: run_vsys tells_def)
  from assms(2) have run: "run_state (if err = ENOLINK then do { video_report_format E False (Some ''no_signal'') 0 0 0; wait_event E }
     else if err = ENOLCK then do { video_report_format E False (Some ''no_lock'') 0 0 0; wait_event E }
     else if err = ERANGE then do { video_report_format E False (Some ''out_of_range'') 0 0 0; wait_event E }
     else do { _ \<leftarrow> vsys E (V_sleep 1); State_Monad.return Next }) ?t = (x, s')"
    by (simp add: format_missing_def run_wr)
  consider "err = ENOLINK" | "err \<noteq> ENOLINK" "err = ENOLCK" | "err \<noteq> ENOLINK" "err \<noteq> ENOLCK" "err = ERANGE"
    | "err \<noteq> ENOLINK" "err \<noteq> ENOLCK" "err \<noteq> ERANGE" by blast
  then show ?thesis
    by cases (use run report other in \<open>simp_all add: status_error_def del: run_state_bind split del: if_split\<close>)
qed

lemma found_tells:
  assumes "no_interference E" and "run_state (format_found E t) s = (x, s')" and "frames_per_second t = Some frames"
    and "fps_of frames = Some fps"
  shows "\<exists>sts. tells sts s s' \<and> (sts \<noteq> [] \<longleftrightarrow> video_state_handler (glob s)) \<and>
    (\<forall>st \<in> set sts. report_format st = (True, None, ucast (bt_width t), ucast (bt_height t), frames))"
proof -
  let ?F = "(True, None :: string option, ucast (bt_width t) :: u16, ucast (bt_height t) :: u16, frames)"
  let ?found = "\<lambda>gl. gl\<lparr>detected_width := bt_width t, detected_height := bt_height t, detected_fps := fps, detected_signal := True\<rparr>"
  from assms(2) obtain d1 s1 d2 s2 d3 s3 d4 s4 where old:
      "run_state (rd E detected_fps) s = (d1, s1)" "run_state (rd E detected_width) s1 = (d2, s2)"
      "run_state (rd E detected_height) s2 = (d3, s3)" "run_state (rd E detected_signal) s3 = (d4, s4)"
    and more: "run_state (do {
          width \<leftarrow> rd E detected_width;
          height \<leftarrow> rd E detected_height;
          video_report_format E True None (ucast width) (ucast height) frames;
          (if should_restart t fps d2 d3 d1 d4 then video_restart_streaming E else skip);
          wait_event E }) (s4\<lparr>glob := ?found (glob s4)\<rparr>) = (x, s')"
    by (simp add: format_found_def assms(3,4) Let_def del: run_state_bind) (elim bindE, simp add: run_wr)
  from more obtain w s5 h u where new: "run_state (rd E detected_width) (s4\<lparr>glob := ?found (glob s4)\<rparr>) = (w, s5)"
      "run_state (rd E detected_height) s5 = (h, u)"
    and "run_state (do {
          video_report_format E True None (ucast w) (ucast h) frames;
          (if should_restart t fps d2 d3 d1 d4 then video_restart_streaming E else skip);
          wait_event E }) u = (x, s')"
    by (elim bindE, simp)
  moreover from old new have before: "tells [] s u" "video_state_handler (glob u) = video_state_handler (glob s)"
      and "w = bt_width t" "h = bt_height t"
    using old new [THEN rd_tells [OF assms(1)]] old [THEN rd_tells [OF assms(1)]] by (simp_all add: tells_def) (elim exE conjE, simp)
  ultimately have "run_state (do { video_report_format E True None (ucast (bt_width t)) (ucast (bt_height t)) frames;
          (if should_restart t fps d2 d3 d1 d4 then video_restart_streaming E else skip); wait_event E }) u = (x, s')"
    by simp
  then obtain y v where u: "run_state (video_report_format E True None (ucast (bt_width t)) (ucast (bt_height t)) frames) u = (y, v)"
    and rest: "run_state (do { (if should_restart t fps d2 d3 d1 d4 then video_restart_streaming E else skip); wait_event E }) v = (x, s')"
    by (rule bindE)
  note told = report_format_quiet [OF assms(1) u] report_format_tells [OF assms(1) u]
  then have v: "report_format (vstate (glob v)) = ?F" "video_state_handler (glob v) = video_state_handler (glob s)"
    by (simp_all add: report_format_def before(2))
  have "repeats (do { (if should_restart t fps d2 d3 d1 d4 then video_restart_streaming E else skip); wait_event E })"
    unfolding wait_event_def by (intro repeats_intros repeats_restart assms(1); simp)
  with rest obtain sts where "tells sts v s'" "\<forall>st \<in> set sts. video_state_handler (glob s) \<and> report_format st = ?F"
    unfolding repeats_def repeated_def v [symmetric] by blast
  with tells_trans [OF tells_trans [OF before(1) told(2)]] v(1) before(2) show ?thesis
    by (fastforce split: if_splits)
qed

text \<open>
  C26. What the format thread reports, when no other thread changes the variables meanwhile: without a signal the state
  it keeps is not ready, with size
  and rate zero and the error that belongs to the driver's error number, and exactly this state is handed to the
  registered handler, once; an unexpected error number changes no state and reports nothing. With a signal the state has the driver's
  size (cut to 16 bits) and the measured rate, size and rounded rate are remembered, and the registered handler is called, at
  least once (a restart of the stream reports again), every time with exactly this size and rate, ready and
  without an error. Without a registered handler nothing is reported.
\<close>

theorem format_reports:
  assumes "no_interference E"
  shows "(\<forall>x s'. run_state (format_missing E err) s = (x, s') \<longrightarrow>
     (case status_error err of
        Some e \<Rightarrow> format_view s' = (False, Some e, 0, 0, 0, detected_width (glob s), detected_height (glob s),
          detected_fps (glob s), False) \<and>
          (\<exists>es. trace s' = trace s @ es \<and> reports es = (if video_state_handler (glob s) then [vstate (glob s')] else []))
      | None \<Rightarrow> x = Next \<and> format_view s' = format_view (s\<lparr>glob := (glob s)\<lparr>detected_signal := False\<rparr>\<rparr>) \<and>
          (\<exists>es. trace s' = trace s @ es \<and> reports es = []))) \<and>
    (\<forall>x s'. run_state (format_found E t) s = (x, s') \<and> x \<noteq> Undefined \<longrightarrow>
     (\<exists>frames fps. frames_per_second t = Some frames \<and> fps_of frames = Some fps \<and>
        format_view s' = (True, None, ucast (bt_width t), ucast (bt_height t), frames,
          bt_width t, bt_height t, fps, True) \<and>
        (\<exists>es. trace s' = trace s @ es \<and> (reports es \<noteq> [] \<longleftrightarrow> video_state_handler (glob s)) \<and>
          (\<forall>st \<in> set (reports es). vs_ready st \<and> vs_error st = None \<and> vs_width st = ucast (bt_width t) \<and>
            vs_height st = ucast (bt_height t) \<and> vs_fps st = frames))))"
proof (intro conjI allI impI)
  fix x s'
  assume run: "run_state (format_missing E err) s = (x, s')"
  show "case status_error err of
        Some e \<Rightarrow> format_view s' = (False, Some e, 0, 0, 0, detected_width (glob s), detected_height (glob s),
          detected_fps (glob s), False) \<and>
          (\<exists>es. trace s' = trace s @ es \<and> reports es = (if video_state_handler (glob s) then [vstate (glob s')] else []))
      | None \<Rightarrow> x = Next \<and> format_view s' = format_view (s\<lparr>glob := (glob s)\<lparr>detected_signal := False\<rparr>\<rparr>) \<and>
          (\<exists>es. trace s' = trace s @ es \<and> reports es = [])"
    using format_missing_report [OF assms run] missing_tells [OF assms run]
    by (cases "status_error err") (simp_all add: tells_def)
next
  fix x s'
  assume "run_state (format_found E t) s = (x, s') \<and> x \<noteq> Undefined"
  then have run: "run_state (format_found E t) s = (x, s')" and "x \<noteq> Undefined"
    by simp_all
  from format_found_report [OF assms this] obtain frames fps where "frames_per_second t = Some frames" "fps_of frames = Some fps"
      "format_view s' = (True, None, ucast (bt_width t), ucast (bt_height t), frames, bt_width t, bt_height t, fps, True)"
    by blast
  with found_tells [OF assms run this(1,2)]
  show "\<exists>frames fps. frames_per_second t = Some frames \<and> fps_of frames = Some fps \<and>
        format_view s' = (True, None, ucast (bt_width t), ucast (bt_height t), frames,
          bt_width t, bt_height t, fps, True) \<and>
        (\<exists>es. trace s' = trace s @ es \<and> (reports es \<noteq> [] \<longleftrightarrow> video_state_handler (glob s)) \<and>
          (\<forall>st \<in> set (reports es). vs_ready st \<and> vs_error st = None \<and> vs_width st = ucast (bt_width t) \<and>
            vs_height st = ucast (bt_height t) \<and> vs_fps st = frames))"
    by (fastforce simp: tells_def report_format_def)
qed

theorem format_reports_witness:
  "let s = sample_world\<lparr>glob := (glob sample_world)\<lparr>video_state_handler := True\<rparr>\<rparr>;
       s' = snd (run_state (format_missing all_succeed ENOLCK) s)
   in format_view s' = (False, Some ''no_lock'', 0, 0, 0, 0, 0, 60, False) \<and> reports (trace s') = [vstate (glob s')]"
proof -
  let ?s = "sample_world\<lparr>glob := (glob sample_world)\<lparr>video_state_handler := True\<rparr>\<rparr>"
  obtain x s' where run: "run_state (format_missing all_succeed ENOLCK) ?s = (x, s')"
    by (cases "run_state (format_missing all_succeed ENOLCK) ?s")
  have "no_interference all_succeed"
    by (simp add: no_interference_def all_succeed_def)
  from format_reports [OF this, of ENOLCK ?s timings_120] run show ?thesis
    by (auto simp: status_error_def ENOLCK_def ENOLINK_def sample_world_def init_globals_def)
qed

section \<open>Termination\<close>

lemma calls_any_detect: "calls any_call (detect_pass E)"
proof -
  have wait: "calls any_call (wait_attempts E n)" for n
    by (induction n) (unfold wait_attempts.simps, (intro calls_intros calls_any_report any_call
      calls_report [THEN calls_mono]; simp)+)
  note report = calls_report [THEN calls_mono, OF any_call]
  show ?thesis
    unfolding detect_pass_def format_found_def format_missing_def wait_event_def Let_def
      video_restart_streaming_def video_stop_streaming_def video_start_streaming_def wait_for_streaming_stopped_def
    by (intro calls_intros calls_any_parts report wait any_call)
qed

definition closed_device :: "detect_result \<Rightarrow> video_world \<Rightarrow> bool" where
  "closed_device r s \<longleftrightarrow> r \<noteq> Detect_no_fuel \<and>
     (r = Detect_done \<longrightarrow> fst (last (trace s)) = V_close (sub_dev_fd (glob s)))"

lemma detect_close_closes: "run_state (detect_close E) s = (r, s') \<Longrightarrow> closed_device r s'"
  by (auto simp: detect_close_def closed_device_def run_simps Let_def)

lemma detect_loop_returns:
  assumes exit: "\<And>h gl. N \<le> length h \<Longrightarrow> should_exit (v_globals (E h (V_yield gl)))"
  shows "0 < fuel \<Longrightarrow> N < fuel + length (trace s) \<Longrightarrow> run_state (detect_loop fuel E) s = (r, s') \<Longrightarrow>
    closed_device r s'"
proof (induction fuel arbitrary: s)
  case (Suc fuel)
  let ?y = "E (trace s) (V_yield (glob s))"
  let ?t = "s\<lparr>trace := trace s @ [(V_yield (glob s), ?y)], glob := v_globals ?y\<rparr>"
  show ?case
  proof (cases "should_exit (v_globals ?y)")
    case True
    with Suc.prems(3) have "run_state (detect_close E) ?t = (r, s')"
      by (simp add: run_rd Let_def)
    then show ?thesis by (rule detect_close_closes)
  next
    case False
    obtain x u where pass: "run_state (detect_pass E) ?t = (x, u)"
      by (cases "run_state (detect_pass E) ?t")
    from False Suc.prems(3) pass have rest: "run_state (case x of Next \<Rightarrow> detect_loop fuel E
        | Break \<Rightarrow> detect_close E | Undefined \<Rightarrow> State_Monad.return Detect_undefined) u = (r, s')"
      by (simp add: run_rd Let_def)
    have "length (trace s) < length (trace u)"
      using calls_grows [OF calls_any_detect pass] by simp
    moreover have "length (trace s) < N"
      using exit [of "trace s"] False by (meson not_le)
    ultimately have "0 < fuel" and "N < fuel + length (trace u)"
      using Suc.prems(2) by linarith+
    then show ?thesis
      using rest Suc.IH [of u] detect_close_closes by (cases x) (auto simp: closed_device_def)
  qed
qed simp

text \<open>
  C18. The format thread terminates: once \<open>should_exit\<close> stays set it returns, whatever the device
  answers (a fuel above that moment is enough), and on every return it has closed the control
  device with its last call.
\<close>

theorem detect_thread_returns:
  assumes "\<And>h gl. N \<le> length h \<Longrightarrow> should_exit (v_globals (E h (V_yield gl)))" and "N < fuel"
    and "run_state (run_detect_format fuel E) s = (r, s')"
  shows "r \<noteq> Detect_no_fuel \<and>
    (r = Detect_done \<longrightarrow> fst (last (trace s')) = V_close (sub_dev_fd (glob s')))"
proof -
  from assms(3) obtain fd t where "run_state (do {
      q \<leftarrow> vsys E (V_SUBSCRIBE_EVENT fd);
      if v_ret q = -1 then detect_close E else detect_loop fuel E}) t = (r, s')"
    unfolding run_detect_format_def by (rule bindE)
  then obtain q :: video_answer and u where "run_state (if v_ret q = -1 then detect_close E else detect_loop fuel E) u = (r, s')"
    by (rule vsysE) blast
  then have "closed_device r s'"
    using detect_close_closes detect_loop_returns [where N = N and E = E, OF assms(1), of fuel u] assms(2)
    by (auto split: if_splits)
  then show ?thesis
    by (simp add: closed_device_def)
qed

definition exit_from :: "nat \<Rightarrow> video_env" where
  "exit_from n h c = (case c of
     V_yield gl \<Rightarrow> sample_answer\<lparr>v_globals := gl\<lparr>should_exit := n \<le> length h, sub_dev_fd := 4\<rparr>\<rparr>
   | _ \<Rightarrow> sample_answer)"

theorem detect_thread_returns_witness:
  "fst (run_state (run_detect_format 41 (exit_from 40)) sample_world) \<noteq> Detect_no_fuel"
proof -
  obtain r s where run: "run_state (run_detect_format 41 (exit_from 40)) sample_world = (r, s)"
    by (cases "run_state (run_detect_format 41 (exit_from 40)) sample_world")
  have "r \<noteq> Detect_no_fuel \<and> (r = Detect_done \<longrightarrow> fst (last (trace s)) = V_close (sub_dev_fd (glob s)))"
    by (rule detect_thread_returns [OF _ _ run, of 40]) (simp_all add: exit_from_def)
  with run show ?thesis
    by simp
qed

end
