(* ===== verification/Player.thy ===== *)
theory Player
  imports Video_Control
begin

text \<open>
  An abstract player: what a client of the video control interface may rely on when threads can be
  created and the capture thread ends normally. Starting, stopping, restarting and changing the settings
  of \<open>video.c\<close> refine it.
\<close>

section \<open>Refinement of sessions\<close>

text \<open>Operations that keep an invariant and act on the abstract state as their specification says.\<close>

locale refined_ops =
  fixes Inv :: "'s \<Rightarrow> bool"
    and abs :: "'s \<Rightarrow> 'a"
    and ops :: "'i \<Rightarrow> ('s, 'b) state"
    and spec :: "'i \<Rightarrow> 'a \<Rightarrow> 'a"
  assumes op_refines: "run_state (ops i) s = (r, s') \<Longrightarrow> Inv s \<Longrightarrow> Inv s' \<and> abs s' = spec i (abs s)"
begin

lemma session_refines: "Inv s \<Longrightarrow> Inv (run_ops ops is s) \<and> abs (run_ops ops is s) = fold spec is (abs s)"
proof (induction "is" arbitrary: s)
  case (Cons i "is")
  have "Inv (snd (run_state (ops i) s))" "abs (snd (run_state (ops i) s)) = spec i (abs s)"
    using op_refines [of i s] Cons.prems by (metis prod.collapse)+
  with Cons.IH show ?case by simp
qed simp

end

sublocale refined_ops \<subseteq> invariant_ops Inv ops
  by unfold_locales (use op_refines in blast)

section \<open>The abstract player\<close>

record player =
  playing :: bool
  quality :: rat
  codec :: int
  closed :: bool

fun player_op :: "video_api \<Rightarrow> player \<Rightarrow> player" where
  "player_op Start p = p\<lparr>playing := True\<rparr>"
| "player_op Stop p = p\<lparr>playing := False\<rparr>"
| "player_op Restart p = p"
| "player_op (Set_quality q) p = p\<lparr>quality := q\<rparr>"
| "player_op (Set_codec c) p = p\<lparr>codec := c\<rparr>"
| "player_op Get_status p = p"
| "player_op Shutdown p = (if closed p then p else p\<lparr>playing := False, closed := True\<rparr>)"

definition player_of :: "video_world \<Rightarrow> player" where
  "player_of s = \<lparr>playing = (streaming_thread (glob s) \<noteq> 0), quality = quality_factor (glob s),
     codec = codec_type (glob s), closed = should_exit (glob s)\<rparr>"

text \<open>The flag agrees with the handle, and a thread exists exactly when the handle is set.\<close>

definition coherent :: "video_world \<Rightarrow> bool" where
  "coherent s \<longleftrightarrow> streaming_flag (glob s) = (streaming_thread (glob s) \<noteq> 0) \<and>
     capture_threads s = (if streaming_thread (glob s) = 0 then {#} else {#()#})"

text \<open>
  The environment: other threads leave the variables of the control interface alone; once the capture
  thread has been joined and streaming is off, \<open>streaming_stopped\<close> is set; allocation and thread creation succeed.
\<close>

definition cooperative :: "video_env \<Rightarrow> bool" where
  "cooperative E \<longleftrightarrow>
     (\<forall>h gl. let gl' = v_globals (E h (V_yield gl)) in
        streaming_thread gl' = streaming_thread gl \<and> streaming_flag gl' = streaming_flag gl \<and>
        quality_factor gl' = quality_factor gl \<and> codec_type gl' = codec_type gl \<and>
        should_exit gl' = should_exit gl) \<and>
     (\<forall>h gl. account cap_acq cap_rel h = {#} \<and> \<not> streaming_flag gl \<longrightarrow>
        streaming_stopped (v_globals (E h (V_yield gl)))) \<and>
     (\<forall>h. v_ret (E h V_malloc_thread) \<noteq> 0) \<and>
     (\<forall>h. v_ret (E h (V_pthread_create T_run_video_stream)) = 0)"

section \<open>The operations on the control state\<close>

definition control :: "video_world \<Rightarrow> int \<times> bool \<times> rat \<times> int \<times> bool \<times> unit multiset" where
  "control s = (streaming_thread (glob s), streaming_flag (glob s), quality_factor (glob s),
     codec_type (glob s), should_exit (glob s), capture_threads s)"

lemmas control_acct = control_def capture_threads_def account_simps book_def

lemma keeps_control_vsys: "\<not> thread_call c \<Longrightarrow> keeps control (vsys E c)"
  by (cases c) (auto simp: keeps_def run_simps control_acct)

lemma keeps_control_rd: "cooperative E \<Longrightarrow> keeps control (rd E f)"
  by (auto simp: keeps_def run_simps control_acct Let_def cooperative_def)

lemma keeps_control_wr:
  "(\<And>gl. streaming_thread (g gl) = streaming_thread gl) \<Longrightarrow> (\<And>gl. streaming_flag (g gl) = streaming_flag gl) \<Longrightarrow>
   (\<And>gl. quality_factor (g gl) = quality_factor gl) \<Longrightarrow> (\<And>gl. codec_type (g gl) = codec_type gl) \<Longrightarrow>
   (\<And>gl. should_exit (g gl) = should_exit gl) \<Longrightarrow> keeps control (wr g)"
  by (auto simp: keeps_def run_simps control_acct)

lemmas keeps_control_basic = keeps_intros keeps_control_vsys keeps_control_rd keeps_control_wr

lemma keeps_control_wait: "cooperative E \<Longrightarrow> keeps control (wait_attempts E n)"
  by (induction n) (unfold wait_attempts.simps get_streaming_stopped_def, (intro keeps_control_basic; simp)+)

lemma keeps_control_parts:
  assumes "cooperative E"
  shows "keeps control (video_send_format_report E)" "keeps control (video_get_streaming_status E)"
    "keeps control (get_streaming_stopped E)" "keeps control (wait_for_streaming_stopped E)"
  unfolding report_defs wait_for_streaming_stopped_def
  by (intro keeps_control_basic keeps_control_wait assms; simp)+

lemma run_set_flag:
  assumes "cooperative E" and "run_state (set_streaming_flag E b) s = (r, s')"
  shows "control s' = (case control s of (th, _, rest) \<Rightarrow> (th, b, rest))"
proof -
  from assms(2) have "run_state (video_send_format_report E) (s\<lparr>glob := (glob s)\<lparr>streaming_flag := b\<rparr>\<rparr>) = (r, s')"
    by (simp add: set_streaming_flag_def run_wr)
  from keepsD [OF keeps_control_parts(1) [OF assms(1)] this] show ?thesis
    by (simp add: control_def capture_threads_def)
qed

lemma idle_stopped:
  assumes "cooperative E" and "capture_threads s = {#}" and "\<not> streaming_flag (glob s)"
  shows "run_state (get_streaming_stopped E) s = (b, s') \<Longrightarrow> b"
    and "run_state (wait_for_streaming_stopped E) s = (b, s') \<Longrightarrow> b"
proof -
  have stopped: "streaming_stopped (v_globals (E (trace s) (V_yield (glob s))))"
    using assms by (auto simp: cooperative_def capture_threads_def)
  show "run_state (get_streaming_stopped E) s = (b, s') \<Longrightarrow> b"
    using stopped by (auto simp: get_streaming_stopped_def run_simps Let_def)
  show "run_state (wait_for_streaming_stopped E) s = (b, s') \<Longrightarrow> b"
    using stopped by (auto simp: wait_for_streaming_stopped_def numeral_eq_Suc get_streaming_stopped_def
        run_simps Let_def)
qed

lemma run_rd_control:
  assumes "cooperative E" and "run_state (rd E streaming_thread) s = (th, t)"
  shows "control t = control s" and "th = streaming_thread (glob s)"
  using keepsD [OF keeps_control_rd [OF assms(1)] assms(2)] assms
  by (auto simp: run_simps Let_def cooperative_def)

text \<open>Starting: a second start changes nothing, the first one creates the thread.\<close>

lemma start_control:
  assumes "cooperative E" and "run_state (video_start_streaming E) s = (r, s')"
  shows "control s' = control s \<and> streaming_thread (glob s) \<noteq> 0 \<or>
    (\<exists>th \<noteq> 0. control s' = (th, True, quality_factor (glob s), codec_type (glob s), should_exit (glob s),
       add_mset () (capture_threads s)) \<and> streaming_thread (glob s) = 0)"
proof -
  from assms(2) obtain th t where "run_state (rd E streaming_thread) s = (th, t)"
    and rest: "run_state (if th \<noteq> 0 then do { _ \<leftarrow> get_streaming_stopped E; skip } else do {
       m \<leftarrow> vsys E V_malloc_thread;
       if v_ret m = 0 then skip
       else do {
         set_streaming_flag E True;
         p \<leftarrow> vsys E (V_pthread_create T_run_video_stream);
         if v_ret p \<noteq> 0 then do {
           set_streaming_flag E False;
           _ \<leftarrow> vsys E (V_free (v_ret m));
           skip
         }
         else wr (\<lambda>gl. gl\<lparr>streaming_thread := v_ret m\<rparr>)
       }
     }) t = (r, s')"
    unfolding video_start_streaming_def Let_def by (rule bindE)
  note t = run_rd_control [OF assms(1) this(1)]
  show ?thesis
  proof (cases "th = 0")
    case False
    with rest have "control s' = control t"
      using keepsD [OF keeps_control_parts(3) [OF assms(1)]]
      by (auto simp: run_skip simp del: run_state_bind elim!: bindE)
    with t False show ?thesis by simp
  next
    case True
    have env: "v_ret (E h V_malloc_thread) \<noteq> 0" "v_ret (E h (V_pthread_create T_run_video_stream)) = 0" for h
      using assms(1) by (simp_all add: cooperative_def)
    let ?m = "E (trace t) V_malloc_thread"
    let ?u = "t\<lparr>trace := trace t @ [(V_malloc_thread, ?m)], errno := v_errno ?m\<rparr>"
    obtain x v where v: "run_state (set_streaming_flag E True) ?u = (x, v)"
      by (cases "run_state (set_streaming_flag E True) ?u")
    with rest True env have "s' = (snd (run_state (vsys E (V_pthread_create T_run_video_stream)) v))
        \<lparr>glob := (glob v)\<lparr>streaming_thread := v_ret ?m\<rparr>\<rparr>"
      by (auto simp: run_vsys run_wr)
    then have "control s' = (v_ret ?m, streaming_flag (glob v), quality_factor (glob v), codec_type (glob v),
        should_exit (glob v), add_mset () (capture_threads v))"
      using env by (simp add: run_vsys control_acct)
    moreover have "control v = (0, True, quality_factor (glob s), codec_type (glob s), should_exit (glob s), capture_threads s)"
      using run_set_flag [OF assms(1) v] t True by (simp add: control_acct)
    ultimately show ?thesis
      using env t True by (auto simp: control_def)
  qed
qed

lemma stop_control:
  assumes "cooperative E" and "run_state (video_stop_streaming E) s = (r, s')"
  shows "control s' = (if streaming_thread (glob s) = 0 then control s
    else (0, False, quality_factor (glob s), codec_type (glob s), should_exit (glob s), capture_threads s - {#()#}))"
proof -
  from assms(2) obtain th t where "run_state (rd E streaming_thread) s = (th, t)"
    and rest: "run_state (if th = 0 then skip else do {
       set_streaming_flag E False;
       _ \<leftarrow> wait_for_streaming_stopped E;
       th \<leftarrow> rd E streaming_thread;
       _ \<leftarrow> vsys E (V_pthread_join th);
       th \<leftarrow> rd E streaming_thread;
       _ \<leftarrow> vsys E (V_free th);
       wr (\<lambda>gl. gl\<lparr>streaming_thread := 0\<rparr>)
     }) t = (r, s')"
    unfolding video_stop_streaming_def by (rule bindE)
  note t = run_rd_control [OF assms(1) this(1)]
  show ?thesis
  proof (cases "th = 0")
    case True
    with rest t show ?thesis by (simp add: run_skip)
  next
    case False
    with rest obtain x u y v where u: "run_state (set_streaming_flag E False) t = (x, u)"
      and v: "run_state (wait_for_streaming_stopped E) u = (y, v)"
      and "run_state (do { th \<leftarrow> rd E streaming_thread; _ \<leftarrow> vsys E (V_pthread_join th);
         th \<leftarrow> rd E streaming_thread; _ \<leftarrow> vsys E (V_free th); wr (\<lambda>gl. gl\<lparr>streaming_thread := 0\<rparr>) }) v = (r, s')"
      by (simp del: run_state_bind) (elim bindE, simp)
    then have "control s' = (0, streaming_flag (glob v), quality_factor (glob v), codec_type (glob v),
        should_exit (glob v), capture_threads v - {#()#})"
      using assms(1) by (auto simp: run_simps Let_def control_acct cooperative_def)
    moreover have "control v = (th, False, quality_factor (glob s), codec_type (glob s), should_exit (glob s), capture_threads s)"
      using keepsD [OF keeps_control_parts(4) [OF assms(1)] v] run_set_flag [OF assms(1) u] t
      by (simp add: control_def)
    ultimately show ?thesis
      using False t by (simp add: control_def)
  qed
qed

lemma control_eq: "control t = control s \<Longrightarrow> player_of t = player_of s \<and> coherent t = coherent s"
  by (simp add: control_def player_of_def coherent_def)

lemma start_refines:
  assumes "cooperative E" and "coherent s" and "run_state (video_start_streaming E) s = (r, s')"
  shows "coherent s' \<and> player_of s' = (player_of s)\<lparr>playing := True\<rparr>"
  using start_control [OF assms(1,3)] assms(2)
  by (auto simp: control_def player_of_def coherent_def split: if_splits)

lemma stop_refines:
  assumes "cooperative E" and "coherent s" and "run_state (video_stop_streaming E) s = (r, s')"
  shows "coherent s' \<and> player_of s' = (player_of s)\<lparr>playing := False\<rparr>"
  using stop_control [OF assms(1,3)] assms(2)
  by (auto simp: control_def player_of_def coherent_def split: if_splits)

text \<open>The status is 1 while playing and 0 otherwise: with the thread joined nothing is stopping.\<close>

lemma status_refines:
  assumes "cooperative E" and "coherent s" and "run_state (video_get_streaming_status E) s = (st, t)"
  shows "control t = control s" and "st = (if playing (player_of s) then 1 else 0)"
proof -
  show same: "control t = control s"
    by (rule keepsD [OF keeps_control_parts(2) [OF assms(1)] assms(3)])
  from assms(3) obtain flag u where u: "run_state (get_streaming_flag E) s = (flag, u)"
    and rest: "run_state (if flag then State_Monad.return 1 else do {
       stopped \<leftarrow> get_streaming_stopped E;
       if \<not> stopped then State_Monad.return 2 else State_Monad.return 0 }) u = (st, t)"
    unfolding video_get_streaming_status_def by (rule bindE)
  have flag: "flag = streaming_flag (glob s)" "control u = control s"
    using u keepsD [OF keeps_control_rd [OF assms(1)], of streaming_flag s] assms(1)
    by (auto simp: get_streaming_flag_def run_simps Let_def cooperative_def control_acct)
  show "st = (if playing (player_of s) then 1 else 0)"
  proof (cases flag)
    case False
    with flag assms(2) have "capture_threads u = {#}" "\<not> playing (player_of s)" "\<not> streaming_flag (glob u)"
      by (auto simp: coherent_def control_def player_of_def split: if_splits)
    with rest False idle_stopped(1) [OF assms(1), of u] show ?thesis
      by (auto simp del: run_state_bind elim!: bindE split: if_splits)
  qed (use rest flag assms(2) in \<open>simp add: coherent_def player_of_def\<close>)
qed

lemma restart_refines:
  assumes "cooperative E" and "coherent s" and "run_state (video_restart_streaming E) s = (r, s')"
  shows "coherent s' \<and> player_of s' = player_of s"
proof -
  from assms(3) obtain st t where st: "run_state (video_get_streaming_status E) s = (st, t)"
    and rest: "run_state (if st = 0 then skip else do {
       (if st = 1 \<or> st = 2 then video_stop_streaming E else skip);
       ok \<leftarrow> wait_for_streaming_stopped E;
       if \<not> ok then skip else video_start_streaming E }) t = (r, s')"
    unfolding video_restart_streaming_def by (rule bindE)
  note status = status_refines [OF assms(1,2) st]
  have t: "coherent t" "player_of t = player_of s"
    using control_eq [OF status(1)] assms(2) by simp_all
  show ?thesis
  proof (cases "playing (player_of s)")
    case False
    with rest status t show ?thesis by (simp add: run_skip)
  next
    case True
    with rest status obtain x u ok v where u: "run_state (video_stop_streaming E) t = (x, u)"
      and v: "run_state (wait_for_streaming_stopped E) u = (ok, v)"
      and last: "run_state (if \<not> ok then skip else video_start_streaming E) v = (r, s')"
      by (simp del: run_state_bind) (elim bindE, simp)
    have stopped: "coherent u" "player_of u = (player_of s)\<lparr>playing := False\<rparr>"
      using stop_refines [OF assms(1) t(1) u] t(2) by simp_all
    then have "capture_threads u = {#}" "\<not> streaming_flag (glob u)"
      by (simp_all add: coherent_def player_of_def)
    then have "ok"
      by (rule idle_stopped(2) [OF assms(1) _ _ v])
    moreover have "control v = control u"
      by (rule keepsD [OF keeps_control_parts(4) [OF assms(1)] v])
    then have "coherent v" "player_of v = player_of u"
      using control_eq stopped(1) by metis+
    ultimately show ?thesis
      using start_refines [OF assms(1), of v r s'] last stopped(2) True by simp
  qed
qed

lemma shutdown_refines:
  assumes "cooperative E" and "coherent s" and "run_state (video_shutdown K E) s = (r, s')"
  shows "coherent s' \<and> player_of s' = player_op Shutdown (player_of s)"
proof -
  from assms(3) obtain ex t where ex: "run_state (rd E should_exit) s = (ex, t)"
    and rest: "run_state (if ex then skip else do {
       video_stop_streaming E;
       wr (\<lambda>gl. gl\<lparr>should_exit := True\<rparr>);
       fd \<leftarrow> rd E sub_dev_fd;
       (if fd > 0 then do { _ \<leftarrow> vsys E (V_shutdown fd); skip } else skip);
       pool \<leftarrow> rd E memPool;
       (if pool \<noteq> MB_INVALID_POOLID K then do { _ \<leftarrow> vsys E (RK_MB_DestroyPool pool); skip } else skip);
       _ \<leftarrow> vsys E V_mutex_destroy;
       skip }) t = (r, s')"
    unfolding video_shutdown_def by (rule bindE)
  have t: "control t = control s" "ex = closed (player_of s)"
    using keepsD [OF keeps_control_rd [OF assms(1)] ex] ex assms(1)
    by (auto simp: run_simps Let_def cooperative_def player_of_def)
  show ?thesis
  proof (cases ex)
    case True
    with rest t assms(2) control_eq [OF t(1)] show ?thesis by (simp add: run_skip)
  next
    case False
    with rest obtain x u where u: "run_state (video_stop_streaming E) t = (x, u)"
      and tail: "run_state (do {
         fd \<leftarrow> rd E sub_dev_fd;
         (if fd > 0 then do { _ \<leftarrow> vsys E (V_shutdown fd); skip } else skip);
         pool \<leftarrow> rd E memPool;
         (if pool \<noteq> MB_INVALID_POOLID K then do { _ \<leftarrow> vsys E (RK_MB_DestroyPool pool); skip } else skip);
         _ \<leftarrow> vsys E V_mutex_destroy;
         skip }) (u\<lparr>glob := (glob u)\<lparr>should_exit := True\<rparr>\<rparr>) = (r, s')"
      by (simp del: run_state_bind) (elim bindE, simp add: run_wr)
    have "control s' = control (u\<lparr>glob := (glob u)\<lparr>should_exit := True\<rparr>\<rparr>)"
      by (rule keepsD [OF _ tail]) (intro keeps_control_basic assms(1); simp)
    moreover have "coherent u" "player_of u = (player_of s)\<lparr>playing := False\<rparr>"
      using stop_refines [OF assms(1) _ u] control_eq [OF t(1)] assms(2) by simp_all
    ultimately show ?thesis
      using False t(2) by (auto simp: control_def player_of_def coherent_def capture_threads_def)
  qed
qed

lemma api_refines:
  assumes "cooperative E" and "coherent s" and "run_state (video_api_op K E i) s = (r, s')"
  shows "coherent s' \<and> player_of s' = player_op i (player_of s)"
proof (cases i)
  case Start
  with start_refines [OF assms(1,2)] assms(3) show ?thesis by simp
next
  case Stop
  with stop_refines [OF assms(1,2)] assms(3) show ?thesis by simp
next
  case Restart
  with restart_refines [OF assms(1,2)] assms(3) show ?thesis by simp
next
  case (Set_quality q)
  let ?t = "s\<lparr>glob := (glob s)\<lparr>quality_factor := q\<rparr>\<rparr>"
  from Set_quality assms(3) have "run_state (video_restart_streaming E) ?t = (r, s')"
    by (simp add: video_set_quality_factor_def run_wr)
  moreover have "coherent ?t" "player_of ?t = (player_of s)\<lparr>quality := q\<rparr>"
    using assms(2) by (simp_all add: coherent_def player_of_def capture_threads_def)
  ultimately show ?thesis
    using restart_refines [OF assms(1), of ?t] Set_quality by simp
next
  case (Set_codec c)
  with assms(2,3) show ?thesis
    by (auto simp: video_set_codec_type_def run_wr coherent_def player_of_def capture_threads_def)
next
  case Get_status
  then obtain st where "run_state (video_get_streaming_status E) s = (st, s')"
    using assms(3) by (auto simp: run_skip simp del: run_state_bind elim!: bindE)
  from control_eq [OF status_refines(1) [OF assms(1,2) this]] Get_status assms(2) show ?thesis
    by simp
next
  case Shutdown
  with shutdown_refines [OF assms(1,2)] assms(3) show ?thesis by simp
qed

interpretation player_session: refined_ops "\<lambda>s. cooperative E \<and> coherent s" player_of "video_api_op K E" player_op for K E
  by unfold_locales (use api_refines in blast)

text \<open>
  The video control interface refines an abstract player: when threads can be created and the joined
  capture thread has ended normally, any session of start, stop, restart, setting, status and shutdown
  calls leaves exactly the playing state, quality, codec and closed state that the player computes; in
  particular changing the quality restarts a running stream and never starts a stopped one.
\<close>

lemma video_control_refines_player:
  assumes "cooperative E" and "coherent s" and "s' = run_ops (video_api_op K E) is s"
  shows "player_of s' = fold player_op is (player_of s) \<and> coherent s'"
  using player_session.session_refines [of E s K "is"] assms by simp

end
