(* ===== verification/Threads.thy ===== *)
theory Threads
  imports Player
begin

text \<open>
  The threads of \<open>video.c\<close> against each other, by rely and guarantee. What a thread does to the global
  variables between two yields is its own step; the interference an operation meets at a yield is a
  sequence of own steps of other threads. The capture thread and the encoder reader leave the variables of
  the control interface alone in every step, whatever the kernel and the other threads do; so an environment made of
  their steps meets what \<open>Player\<close> assumes. Two threads that both stop streaming (Go and the format
  thread, which restarts) are another matter.
\<close>

section \<open>Own steps\<close>

text \<open>The changes a run makes itself: from the answer of one yield to the next yield.\<close>

fun yielded :: "video_call \<Rightarrow> globals option" where
  "yielded (V_yield gl) = Some gl"
| "yielded _ = None"

fun own_steps :: "globals \<Rightarrow> (video_call \<times> video_answer) list \<Rightarrow> globals \<Rightarrow> (globals \<times> globals) list" where
  "own_steps g [] g' = [(g, g')]"
| "own_steps g (e # es) g' = (case yielded (fst e) of
     Some gl \<Rightarrow> (g, gl) # own_steps (v_globals (snd e)) es g'
   | None \<Rightarrow> own_steps g es g')"

definition run_steps :: "video_world \<Rightarrow> video_world \<Rightarrow> (globals \<times> globals) list" where
  "run_steps s s' = own_steps (glob s) (drop (length (trace s)) (trace s')) (glob s')"

text \<open>All own steps of a piece of code, in every environment and from every state.\<close>

definition steps_of :: "(video_env \<Rightarrow> 'a video_m) \<Rightarrow> (globals \<times> globals) set" where
  "steps_of m = {st. \<exists>E s. st \<in> set (run_steps s (snd (run_state (m E) s)))}"

section \<open>Guarantees\<close>

text \<open>Every own step keeps the observation \<open>A\<close> of the global variables.\<close>

definition guarantees :: "(globals \<Rightarrow> 'b) \<Rightarrow> 'a video_m \<Rightarrow> bool" where
  "guarantees A m \<longleftrightarrow> (\<forall>s r s'. run_state m s = (r, s') \<longrightarrow>
     (\<exists>es. trace s' = trace s @ es \<and> (\<forall>(g, g') \<in> set (own_steps (glob s) es (glob s')). A g' = A g)))"

named_theorems guar_intros "compositional rules for guarantees"

lemma own_steps_start:
  assumes "\<forall>(g, g') \<in> set (own_steps g1 es g2). A g' = A g" and "A g1 = A g0"
  shows "\<forall>(g, g') \<in> set (own_steps g0 es g2). A g' = A g"
  using assms by (induction es arbitrary: g0 g1) (auto split: option.splits)

lemma own_steps_append:
  assumes "\<forall>(g, g') \<in> set (own_steps g0 es g1). A g' = A g" and "\<forall>(g, g') \<in> set (own_steps g1 es' g2). A g' = A g"
  shows "\<forall>(g, g') \<in> set (own_steps g0 (es @ es') g2). A g' = A g"
  using assms
proof (induction es arbitrary: g0)
  case Nil
  then show ?case using own_steps_start [of g1 es' g2 A g0] by simp
next
  case (Cons e es)
  show ?case
  proof (cases "yielded (fst e)")
    case (Some gl)
    with Cons.prems have "A gl = A g0" "\<forall>(g, g') \<in> set (own_steps (v_globals (snd e)) es g1). A g' = A g"
      by simp_all
    with Cons.IH [OF this(2) Cons.prems(2)] Some show ?thesis by simp
  qed (use Cons in simp)
qed

lemma guar_bind [guar_intros]:
  assumes "guarantees A m" and "\<And>x. guarantees A (f x)"
  shows "guarantees A (State_Monad.bind m f)"
  unfolding guarantees_def
proof (intro allI impI)
  fix s r s'
  assume "run_state (State_Monad.bind m f) s = (r, s')"
  then obtain x t where "run_state m s = (x, t)" and "run_state (f x) t = (r, s')"
    by (rule bindE)
  with assms obtain es es' where "trace t = trace s @ es" "trace s' = trace t @ es'"
      and "\<forall>(g, g') \<in> set (own_steps (glob s) es (glob t)). A g' = A g"
      and "\<forall>(g, g') \<in> set (own_steps (glob t) es' (glob s')). A g' = A g"
    unfolding guarantees_def by metis
  then show "\<exists>es. trace s' = trace s @ es \<and> (\<forall>(g, g') \<in> set (own_steps (glob s) es (glob s')). A g' = A g)"
    using own_steps_append by (intro exI [of _ "es @ es'"]) simp
qed

lemma guar_basic [guar_intros]:
  "guarantees A (State_Monad.return x)" "guarantees A skip" "guarantees A (reads f)"
  by (simp_all add: guarantees_def run_simps)

lemma guar_if [guar_intros]:
  "(b \<Longrightarrow> guarantees A m) \<Longrightarrow> (\<not> b \<Longrightarrow> guarantees A m') \<Longrightarrow> guarantees A (if b then m else m')"
  by simp

lemma guar_vsys [guar_intros]: "yielded c = None \<Longrightarrow> guarantees A (vsys E c)"
  by (simp add: guarantees_def run_simps)

lemma guar_rd [guar_intros]: "guarantees A (rd E f)"
  by (auto simp: guarantees_def run_simps Let_def)

lemma guar_wr [guar_intros]: "(\<And>gl. A (f gl) = A gl) \<Longrightarrow> guarantees A (wr f)"
  by (simp add: guarantees_def run_simps)

lemma guar_case [guar_intros]:
  "guarantees A n \<Longrightarrow> (\<And>y. guarantees A (m y)) \<Longrightarrow> guarantees A (case x of None \<Rightarrow> n | Some y \<Rightarrow> m y)"
  "(\<And>e. guarantees A (l e)) \<Longrightarrow> (\<And>y. guarantees A (m y)) \<Longrightarrow> guarantees A (case z of Inl e \<Rightarrow> l e | Inr y \<Rightarrow> m y)"
  by (auto split: option.split sum.split)

lemma guarantees_steps:
  assumes "\<And>E. guarantees A (m E)" and "(g, g') \<in> steps_of m"
  shows "A g' = A g"
proof -
  from assms(2) obtain E s where st: "(g, g') \<in> set (run_steps s (snd (run_state (m E) s)))"
    by (auto simp: steps_of_def)
  obtain r s' where run: "run_state (m E) s = (r, s')"
    by (cases "run_state (m E) s")
  with assms(1) obtain es where "trace s' = trace s @ es" "\<forall>(g, g') \<in> set (own_steps (glob s) es (glob s')). A g' = A g"
    unfolding guarantees_def by metis
  with st run show ?thesis
    by (auto simp: run_steps_def)
qed

section \<open>The capture thread and the encoder reader\<close>

text \<open>What the capture thread may change: its flag, the report, and the encoder's variables.\<close>

definition outside_capture :: "globals \<Rightarrow> globals" where
  "outside_capture gl = gl\<lparr>streaming_stopped := False, vstate := zero_report, venc_running := False, venc_read_thread := 0\<rparr>"

lemma guar_report:
  "guarantees outside_capture (set_streaming_stopped E b)"
  unfolding report_defs by (intro guar_intros; simp add: outside_capture_def)

lemma guar_venc:
  "guarantees outside_capture (venc_start E b m w h f)" "guarantees outside_capture (venc_stop E)"
  unfolding venc_start_def venc_stop_def venc_configure_limited_range_vui_def Let_def
  by (intro guar_intros; simp add: outside_capture_def)+

lemma guar_sleep: "guarantees A (ensure_sleep_mode_disabled E)" "guarantees A (get_us E)" "guarantees A (send_frame E fr)"
  unfolding ensure_sleep_mode_disabled_def get_us_def send_frame_def Let_def by (intro guar_intros; simp)+

lemma guar_loops:
  "guarantees A (alloc_buffers E fd i n)" "guarantees A (queue_buffers E fd i bs)"
  "guarantees A (release_blocks E bs)" "guarantees A (frame_loop fuel E fd fr num)"
proof -
  show "guarantees A (alloc_buffers E fd i n)"
    by (induction n arbitrary: i) (unfold alloc_buffers.simps Let_def, (intro guar_intros; simp)+)
  show "guarantees A (queue_buffers E fd i bs)"
    by (induction bs arbitrary: i) (unfold queue_buffers.simps, (intro guar_intros; simp)+)
  show "guarantees A (release_blocks E bs)"
    by (induction bs) (unfold release_blocks.simps, (intro guar_intros; simp)+)
  show "guarantees A (frame_loop fuel E fd fr num)"
    by (induction fuel arbitrary: fr num)
      (unfold frame_loop.simps Let_def, (intro guar_intros guar_sleep; simp)+)
qed

lemma guar_exits [guar_intros]:
  "guarantees A a \<Longrightarrow> guarantees A b \<Longrightarrow> guarantees A c \<Longrightarrow>
   guarantees A (case x of Frames_done \<Rightarrow> a | Frames_abort \<Rightarrow> b | Frames_no_fuel \<Rightarrow> c)"
  "guarantees A m \<Longrightarrow> (\<And>r. guarantees A (l r)) \<Longrightarrow> guarantees A (case y of Again \<Rightarrow> m | Leave r \<Rightarrow> l r)"
  by (simp_all split: frame_exit.split pass_exit.split)

lemma guar_pair [guar_intros]:
  "(\<And>a b. guarantees A (f a b)) \<Longrightarrow> guarantees A (case p of (a, b) \<Rightarrow> f a b)"
  by (simp split: prod.split)

lemma guar_pass: "guarantees outside_capture (stream_pass fuel E)"
  unfolding stream_pass_def stream_buffers_def stream_frames_def cleanup_def Let_def
  by (intro guar_intros guar_venc guar_loops; simp)

lemma capture_guarantee: "guarantees outside_capture (run_video_stream passes frames E)"
proof -
  have "guarantees outside_capture (stream_loop passes frames E)"
    by (induction passes)
      (unfold stream_loop.simps, (intro guar_intros guar_report guar_pass; simp)+)
  then show ?thesis
    unfolding run_video_stream_def by (intro guar_intros guar_report)
qed

lemma reader_guarantee: "guarantees A (venc_read_stream fuel K E)"
proof -
  have "guarantees A (venc_read_loop fuel K E)"
    by (induction fuel)
      (unfold venc_read_loop.simps get_us_def video_send_frame_def, (intro guar_intros; simp)+)
  then show ?thesis
    unfolding venc_read_stream_def by (intro guar_intros; simp)
qed

definition capture_steps :: "(globals \<times> globals) set" where
  "capture_steps = (\<Union>passes frames. steps_of (run_video_stream passes frames))"

definition reader_steps :: "rk_consts \<Rightarrow> (globals \<times> globals) set" where
  "reader_steps K = (\<Union>fuel. steps_of (venc_read_stream fuel K))"

text \<open>An environment whose interference is made of steps of the capture thread and the reader.\<close>

definition streaming_threads :: "rk_consts \<Rightarrow> video_env \<Rightarrow> bool" where
  "streaming_threads K E \<longleftrightarrow>
     (\<forall>h gl. (gl, v_globals (E h (V_yield gl))) \<in> (capture_steps \<union> reader_steps K)\<^sup>*)"

lemma streaming_threads_keep:
  assumes "streaming_threads K E"
  shows "outside_capture (v_globals (E h (V_yield gl))) = outside_capture gl"
proof -
  have "(gl, v_globals (E h (V_yield gl))) \<in> (capture_steps \<union> reader_steps K)\<^sup>*"
    using assms by (simp add: streaming_threads_def)
  then show ?thesis
  proof (induction rule: rtrancl_induct)
    case (step g g')
    then have "outside_capture g' = outside_capture g"
      using guarantees_steps [OF capture_guarantee] guarantees_steps [OF reader_guarantee [where A = outside_capture]]
      by (auto simp: capture_steps_def reader_steps_def)
    with step.IH show ?case by simp
  qed simp
qed


section \<open>The player among its threads\<close>

lemma outside_captureD:
  assumes "outside_capture g' = outside_capture g"
  shows "streaming_thread g' = streaming_thread g" "streaming_flag g' = streaming_flag g"
    "quality_factor g' = quality_factor g" "codec_type g' = codec_type g" "should_exit g' = should_exit g"
  using arg_cong [OF assms, of streaming_thread] arg_cong [OF assms, of streaming_flag]
    arg_cong [OF assms, of quality_factor] arg_cong [OF assms, of codec_type] arg_cong [OF assms, of should_exit]
  by (simp_all add: outside_capture_def)

lemmas streaming_threadsD = outside_captureD [OF streaming_threads_keep]

lemma streaming_threads_stable: "streaming_threads K E \<Longrightarrow> thread_stable E"
  by (simp add: thread_stable_def streaming_threadsD)

text \<open>
  C4. The video control interface refines an abstract player in the presence of its threads: when the
  variables change under it only by steps that the capture thread and the encoder reader really take, when
  threads can be created and a joined capture thread has ended normally, any session of start, stop,
  restart, setting, status and shutdown calls leaves exactly the playing state, quality, codec and
  closed state that the player computes, and one capture thread per handle.
\<close>

theorem threads_refine_player:
  assumes "\<forall>h gl. (gl, v_globals (E h (V_yield gl))) \<in> (capture_steps \<union> reader_steps K)\<^sup>*"
    and "\<forall>h gl. account cap_acq cap_rel h = {#} \<and> \<not> streaming_flag gl \<longrightarrow>
        streaming_stopped (v_globals (E h (V_yield gl)))"
    and "\<forall>h. v_ret (E h V_malloc_thread) \<noteq> 0" and "\<forall>h. v_ret (E h (V_pthread_create T_run_video_stream)) = 0"
    and "coherent s" and "s' = run_ops (video_api_op K E) is s"
  shows "player_of s' = fold player_op is (player_of s) \<and> coherent s' \<and> (thread_inv s \<longrightarrow> thread_inv s')"
proof -
  have threads: "streaming_threads K E"
    using assms(1) by (simp add: streaming_threads_def)
  then have "cooperative E" and "thread_stable E"
    using assms(2-4) streaming_threads_stable by (simp_all add: cooperative_def Let_def streaming_threadsD)
  then show ?thesis
    using video_control_refines_player [OF _ assms(5,6)] api_session.session_keeps [of E s K "is"] assms(6) by blast
qed

text \<open>The last step of the capture thread: it sets its flag once streaming is off.\<close>

lemma capture_ends:
  assumes "\<not> streaming_flag gl"
  shows "(gl, gl\<lparr>streaming_stopped := True\<rparr>) \<in> capture_steps"
proof -
  let ?E = "\<lambda>h c. sample_answer\<lparr>v_globals := gl\<rparr>"
  have "(gl, gl\<lparr>streaming_stopped := True\<rparr>) \<in> set (run_steps sample_world (snd (run_state (run_video_stream 1 0 ?E) sample_world)))"
    using assms by (cases "video_state_handler gl") (simp_all add: run_video_stream_def report_defs run_simps run_steps_def Let_def)
  then show ?thesis
    unfolding capture_steps_def steps_of_def by blast
qed

text \<open>A capture thread that ends as soon as streaming is switched off.\<close>

definition prompt :: video_env where
  "prompt h c = sample_answer\<lparr>
     v_ret := (case c of V_malloc_thread \<Rightarrow> 4096 | _ \<Rightarrow> 0),
     v_globals := (case c of V_yield gl \<Rightarrow> if streaming_flag gl then gl else gl\<lparr>streaming_stopped := True\<rparr>
       | _ \<Rightarrow> v_globals sample_answer)\<rparr>"

theorem threads_refine_player_witness:
  "player_of (run_ops (video_api_op sample_consts prompt) [Start, Set_quality (1 / 2), Set_codec 1] sample_world) =
    \<lparr>playing = True, quality = 1 / 2, codec = 1, closed = False\<rparr>"
proof -
  have "(gl, v_globals (prompt h (V_yield gl))) \<in> (capture_steps \<union> reader_steps sample_consts)\<^sup>*" for h gl
    using capture_ends [of gl] by (auto simp: prompt_def)
  moreover have "coherent sample_world"
    by (simp add: coherent_def sample_world_def init_globals_def capture_threads_def account_simps)
  ultimately show ?thesis
    using threads_refine_player [of prompt sample_consts sample_world _ "[Start, Set_quality (1 / 2), Set_codec 1]"]
    by (simp add: player_of_def sample_world_def init_globals_def prompt_def)
qed


section \<open>Two threads that stop streaming\<close>

lemma wait_stopped:
  assumes "streaming_stopped (v_globals (E (trace s) (V_yield (glob s))))"
  shows "run_state (wait_for_streaming_stopped E) s = (True, snd (run_state (rd E streaming_stopped) s))"
  using assms by (simp add: wait_for_streaming_stopped_def numeral_eq_Suc get_streaming_stopped_def run_simps Let_def)

definition joined :: "(video_call \<times> video_answer) list \<Rightarrow> bool" where
  "joined h = list_ex (\<lambda>e. case fst e of V_pthread_join th \<Rightarrow> True | _ \<Rightarrow> False) h"

lemma joined_simps [simp]: "joined [] = False" "joined (h @ h') = (joined h \<or> joined h')"
  "joined ((c, a) # h) = ((case c of V_pthread_join th \<Rightarrow> True | _ \<Rightarrow> False) \<or> joined h)"
  by (simp_all add: joined_def)

text \<open>The last step of a stop: it clears the handle.\<close>

lemma stop_ends: "(gl, gl\<lparr>streaming_thread := 0\<rparr>) \<in> steps_of video_stop_streaming"
proof -
  let ?E = "\<lambda>h c. sample_answer\<lparr>v_globals := if joined h then gl else gl\<lparr>streaming_stopped := True\<rparr>\<rparr>"
  have "(gl, gl\<lparr>streaming_thread := 0\<rparr>) \<in> set (run_steps (sample_world\<lparr>glob := gl\<rparr>)
      (snd (run_state (video_stop_streaming ?E) (sample_world\<lparr>glob := gl\<rparr>))))"
    by (cases "streaming_thread gl = 0"; cases "video_state_handler gl")
      (simp_all add: video_stop_streaming_def wait_stopped report_defs run_simps run_steps_def Let_def sample_world_def)
  then show ?thesis
    unfolding steps_of_def by blast
qed


text \<open>The calls that create, join and free threads.\<close>

fun on_thread :: "video_call \<Rightarrow> bool" where
  "on_thread V_malloc_thread = True"
| "on_thread (V_pthread_create f) = True"
| "on_thread (V_pthread_join th) = True"
| "on_thread (V_free th) = True"
| "on_thread c = False"

lemma calls_wait_no_join:
  "calls (\<lambda>c. \<not> on_thread c) (set_streaming_flag E b)" "calls (\<lambda>c. \<not> on_thread c) (wait_for_streaming_stopped E)"
proof -
  have wait: "calls (\<lambda>c. \<not> on_thread c) (wait_attempts E n)" for n
    by (induction n) (unfold wait_attempts.simps get_streaming_stopped_def, (intro calls_intros; simp)+)
  show "calls (\<lambda>c. \<not> on_thread c) (set_streaming_flag E b)" "calls (\<lambda>c. \<not> on_thread c) (wait_for_streaming_stopped E)"
    unfolding wait_for_streaming_stopped_def report_defs by (intro calls_intros wait; simp)+
qed

lemma stop_joins_handle:
  assumes "thread_stable E" and "streaming_thread (glob s) \<noteq> 0" and "run_state (video_stop_streaming E) s = (r, s')"
  shows "streaming_thread (glob s') = 0 \<and> (\<exists>es. trace s' = trace s @ es \<and> filter on_thread (map fst es) =
    [V_pthread_join (streaming_thread (glob s)), V_free (streaming_thread (glob s))])"
proof -
  let ?h = "streaming_thread (glob s)"
  from assms(3) obtain h t where t: "run_state (rd E streaming_thread) s = (h, t)"
    and rest: "run_state (if h = 0 then skip else do {
       set_streaming_flag E False;
       _ \<leftarrow> wait_for_streaming_stopped E;
       th \<leftarrow> rd E streaming_thread;
       _ \<leftarrow> vsys E (V_pthread_join th);
       th \<leftarrow> rd E streaming_thread;
       _ \<leftarrow> vsys E (V_free th);
       wr (\<lambda>gl. gl\<lparr>streaming_thread := 0\<rparr>)
     }) t = (r, s')"
    unfolding video_stop_streaming_def by (rule bindE)
  obtain e where h: "h = ?h" "streaming_thread (glob t) = ?h" "trace t = trace s @ [e]" "\<not> on_thread (fst e)"
    using t assms(1) by (auto simp: run_rd Let_def thread_stable_def)
  from rest h(1) assms(2) obtain x u y v where u: "run_state (set_streaming_flag E False) t = (x, u)"
    and v: "run_state (wait_for_streaming_stopped E) u = (y, v)"
    and last: "run_state (do { th \<leftarrow> rd E streaming_thread; _ \<leftarrow> vsys E (V_pthread_join th);
       th \<leftarrow> rd E streaming_thread; _ \<leftarrow> vsys E (V_free th); wr (\<lambda>gl. gl\<lparr>streaming_thread := 0\<rparr>) }) v = (r, s')"
    by (simp del: run_state_bind) (elim bindE, simp)
  obtain es where es: "trace u = trace t @ es" "\<And>e. e \<in> set es \<Longrightarrow> \<not> on_thread (fst e)"
    by (rule callsE [OF calls_wait_no_join(1) u]) blast
  obtain es' where es': "trace v = trace u @ es'" "\<And>e. e \<in> set es' \<Longrightarrow> \<not> on_thread (fst e)"
    by (rule callsE [OF calls_wait_no_join(2) v]) blast
  have "filter on_thread (map fst es) = []" "filter on_thread (map fst es') = []"
    using es(2) es'(2) by (auto simp: filter_empty_conv)
  moreover have "streaming_thread (glob v) = ?h"
    using keepsD [OF keeps_thread_parts(1) [OF assms(1)] u] keepsD [OF keeps_thread_parts(4) [OF assms(1)] v] h(2)
    by (simp add: thread_view_def)
  ultimately show ?thesis
    using last assms(1) es(1) es'(1) h(3,4) by (auto simp: run_simps Let_def thread_stable_def)
qed

text \<open>Another thread that stops streaming, overtaking at the first opportunity.\<close>

definition overtaking :: video_env where
  "overtaking h c = sample_answer\<lparr>v_globals := (case c of
      V_yield gl \<Rightarrow> if streaming_flag gl then gl else gl\<lparr>streaming_stopped := True, streaming_thread := 0\<rparr>
    | _ \<Rightarrow> v_globals sample_answer)\<rparr>"

lemma overtaking_steps:
  "(gl, v_globals (overtaking h (V_yield gl))) \<in> (capture_steps \<union> steps_of video_stop_streaming)\<^sup>*"
proof (cases "streaming_flag gl")
  case False
  then have "(gl, gl\<lparr>streaming_stopped := True\<rparr>) \<in> (capture_steps \<union> steps_of video_stop_streaming)\<^sup>*"
    by (intro r_into_rtrancl) (simp add: capture_ends)
  also have "(gl\<lparr>streaming_stopped := True\<rparr>, gl\<lparr>streaming_stopped := True, streaming_thread := 0\<rparr>) \<in>
      (capture_steps \<union> steps_of video_stop_streaming)\<^sup>*"
    using stop_ends [of "gl\<lparr>streaming_stopped := True\<rparr>"] by (intro r_into_rtrancl) simp
  finally show ?thesis using False by (simp add: overtaking_def)
qed (simp add: overtaking_def)

text \<open>
  C7. A stop joins the capture thread it was asked to stop, exactly once, then frees its handle once and clears it, and does
  nothing else to any thread, whether the wait for the thread timed out or not, as long as the variables change only
  by steps of the capture thread and the encoder reader. When another thread may stop streaming too
  (the format thread restarts it while Go stops it), the steps they really take can clear the handle
  between the check and the join, which then goes through a NULL pointer: no lock protects the handle.
\<close>

theorem stop_joins_its_thread:
  assumes "streaming_thread (glob s) \<noteq> 0" and "streaming_flag (glob s)"
  shows "(\<forall>E r s'. (\<forall>h gl. (gl, v_globals (E h (V_yield gl))) \<in> (capture_steps \<union> reader_steps K)\<^sup>*) \<and>
      run_state (video_stop_streaming E) s = (r, s') \<longrightarrow> streaming_thread (glob s') = 0 \<and>
        (\<exists>es. trace s' = trace s @ es \<and> filter on_thread (map fst es) =
          [V_pthread_join (streaming_thread (glob s)), V_free (streaming_thread (glob s))])) \<and>
    (\<exists>E. (\<forall>h gl. (gl, v_globals (E h (V_yield gl))) \<in> (capture_steps \<union> steps_of video_stop_streaming)\<^sup>*) \<and>
      (\<exists>a. (V_pthread_join 0, a) \<in> set (drop (length (trace s)) (trace (snd (run_state (video_stop_streaming E) s))))))"
proof (rule conjI, intro allI impI)
  fix E r s'
  assume "(\<forall>h gl. (gl, v_globals (E h (V_yield gl))) \<in> (capture_steps \<union> reader_steps K)\<^sup>*) \<and>
      run_state (video_stop_streaming E) s = (r, s')"
  then show "streaming_thread (glob s') = 0 \<and> (\<exists>es. trace s' = trace s @ es \<and> filter on_thread (map fst es) =
      [V_pthread_join (streaming_thread (glob s)), V_free (streaming_thread (glob s))])"
    using stop_joins_handle [OF _ assms(1), of E r s'] streaming_threads_stable [of K E]
    by (simp add: streaming_threads_def)
next
  have "\<exists>a. (V_pthread_join 0, a) \<in> set (drop (length (trace s)) (trace (snd (run_state (video_stop_streaming overtaking) s))))"
    using assms by (cases "video_state_handler (glob s)")
      (simp_all add: video_stop_streaming_def wait_stopped report_defs run_simps Let_def overtaking_def)
  then show "\<exists>E. (\<forall>h gl. (gl, v_globals (E h (V_yield gl))) \<in> (capture_steps \<union> steps_of video_stop_streaming)\<^sup>*) \<and>
      (\<exists>a. (V_pthread_join 0, a) \<in> set (drop (length (trace s)) (trace (snd (run_state (video_stop_streaming E) s)))))"
    using overtaking_steps by blast
qed

theorem stop_joins_its_thread_witness:
  "(\<exists>E. (\<exists>a. (V_pthread_join 0, a) \<in> set (drop 0 (trace (snd (run_state (video_stop_streaming E)
     (sample_world\<lparr>glob := (glob sample_world)\<lparr>streaming_thread := 4096, streaming_flag := True\<rparr>\<rparr>))))))) \<and>
   filter on_thread (map fst (trace (snd (run_state (video_stop_streaming prompt)
     (sample_world\<lparr>glob := (glob sample_world)\<lparr>streaming_thread := 4096, streaming_flag := True\<rparr>\<rparr>))))) =
     [V_pthread_join 4096, V_free 4096]"
proof -
  let ?s = "sample_world\<lparr>glob := (glob sample_world)\<lparr>streaming_thread := 4096, streaming_flag := True\<rparr>\<rparr>"
  obtain r s' where run: "run_state (video_stop_streaming prompt) ?s = (r, s')"
    by (cases "run_state (video_stop_streaming prompt) ?s")
  have "(gl, v_globals (prompt h (V_yield gl))) \<in> (capture_steps \<union> reader_steps sample_consts)\<^sup>*" for h gl
    using capture_ends [of gl] by (auto simp: prompt_def)
  with stop_joins_its_thread [of ?s sample_consts] run show ?thesis
    by (simp add: sample_world_def) blast
qed

end
