(* ===== verification/Format_Change.thy ===== *)
theory Format_Change
  imports Threads Detect_Format Pipeline
begin

text \<open>
  A change of the input format from end to end: the format thread measures it, restarts a running stream, and the
  capture device and the encoder are set up for it.
\<close>

section \<open>What the format thread has detected\<close>

definition detected :: "globals \<Rightarrow> u32 \<times> u32 \<times> u32 \<times> bool" where
  "detected gl = (detected_width gl, detected_height gl, detected_fps gl, detected_signal gl)"

definition capture_starts :: "video_world \<Rightarrow> nat" where
  "capture_starts s = count_list (map fst (trace s)) (V_pthread_create T_run_video_stream)"

text \<open>The observation: the detected format and the number of capture threads requested so far.\<close>

definition watch :: "video_world \<Rightarrow> (u32 \<times> u32 \<times> u32 \<times> bool) \<times> nat" where
  "watch s = (detected (glob s), capture_starts s)"

lemma detected_stable:
  assumes "streaming_threads K E"
  shows "detected (v_globals (E h (V_yield gl))) = detected gl"
  using arg_cong [OF streaming_threads_keep [OF assms, of h gl], of detected]
  by (simp add: outside_capture_def detected_def)

lemma keeps_watch_basic:
  "c \<noteq> V_pthread_create T_run_video_stream \<Longrightarrow> keeps watch (vsys E c)"
  "streaming_threads K E \<Longrightarrow> keeps watch (rd E f)"
  "(\<And>gl. detected (g gl) = detected gl) \<Longrightarrow> keeps watch (wr g)"
  by (auto simp: keeps_def run_simps watch_def capture_starts_def detected_stable Let_def)

lemma keeps_watch_parts:
  assumes "streaming_threads K E"
  shows "keeps watch (video_report_format E b e w h f)" "keeps watch (wait_event E)"
    "keeps watch (wait_for_streaming_stopped E)" "keeps watch (video_stop_streaming E)"
    "keeps watch (video_get_streaming_status E)" "keeps watch (set_streaming_flag E b)" "keeps watch (get_streaming_stopped E)"
proof -
  note basic = keeps_bind keeps_return keeps_skip keeps_if keeps_watch_basic(1,3) keeps_watch_basic(2) [OF assms]
  have wait: "keeps watch (wait_attempts E n)" for n
    by (induction n) (unfold wait_attempts.simps get_streaming_stopped_def, (intro basic; simp)+)
  show "keeps watch (video_report_format E b e w h f)" "keeps watch (wait_event E)"
    "keeps watch (wait_for_streaming_stopped E)" "keeps watch (video_stop_streaming E)"
    "keeps watch (video_get_streaming_status E)" "keeps watch (set_streaming_flag E b)" "keeps watch (get_streaming_stopped E)"
    unfolding wait_event_def wait_for_streaming_stopped_def video_stop_streaming_def report_defs
    by (intro basic wait; simp add: detected_def)+
qed

section \<open>Starting and restarting\<close>

text \<open>The environment of \<open>Player\<close>, with the threads of \<open>Threads\<close>.\<close>

definition threaded :: "rk_consts \<Rightarrow> video_env \<Rightarrow> bool" where
  "threaded K E \<longleftrightarrow> streaming_threads K E \<and> cooperative E"

lemma start_watched:
  assumes "threaded K E" and "streaming_thread (glob s) = 0" and "run_state (video_start_streaming E) s = (r, s')"
  shows "watch s' = (detected (glob s), Suc (capture_starts s))"
proof -
  from assms(1) have env: "streaming_threads K E" "cooperative E"
    by (simp_all add: threaded_def)
  from assms(3) obtain th t where th: "run_state (rd E streaming_thread) s = (th, t)"
    and rest: "run_state (if th \<noteq> 0 then do { _ \<leftarrow> get_streaming_stopped E; skip } else do {
       m \<leftarrow> vsys E V_malloc_thread;
       if v_ret m = 0 then skip
       else do {
         set_streaming_flag E True;
         p \<leftarrow> vsys E (V_pthread_create T_run_video_stream);
         if v_ret p \<noteq> 0 then do {
           set_streaming_flag E False;
           _ \<leftarrow> vsys E (V_free (v_ret m));
           skip
         }
         else wr (\<lambda>gl. gl\<lparr>streaming_thread := v_ret m\<rparr>)
       }
     }) t = (r, s')"
    unfolding video_start_streaming_def Let_def by (rule bindE)
  have th0: "th = 0" "watch t = watch s"
    using run_rd_control(2) [OF env(2) th] assms(2) keepsD [OF keeps_watch_basic(2) [OF env(1)] th] by simp_all
  let ?m = "E (trace t) V_malloc_thread"
  let ?u = "t\<lparr>trace := trace t @ [(V_malloc_thread, ?m)], errno := v_errno ?m\<rparr>"
  obtain x v where v: "run_state (set_streaming_flag E True) ?u = (x, v)"
    by (cases "run_state (set_streaming_flag E True) ?u")
  have "v_ret (E h V_malloc_thread) \<noteq> 0" "v_ret (E h (V_pthread_create T_run_video_stream)) = 0" for h
    using env(2) by (simp_all add: cooperative_def)
  with rest th0(1) v have "s' = (snd (run_state (vsys E (V_pthread_create T_run_video_stream)) v))
      \<lparr>glob := (glob v)\<lparr>streaming_thread := v_ret ?m\<rparr>\<rparr>"
    by (auto simp: run_vsys run_wr)
  then have "watch s' = (detected (glob v), Suc (capture_starts v))"
    by (simp add: run_vsys watch_def capture_starts_def detected_def)
  moreover have "watch v = watch t"
    using keepsD [OF keeps_watch_parts(6) [OF env(1)] v] by (simp add: watch_def capture_starts_def)
  ultimately show ?thesis
    using th0(2) by (simp add: watch_def)
qed

lemma restart_watched:
  assumes "threaded K E" and "coherent s" and "run_state (video_restart_streaming E) s = (r, s')"
  shows "watch s' = (detected (glob s), capture_starts s + (if playing (player_of s) then 1 else 0))"
proof -
  from assms(1) have env: "streaming_threads K E" "cooperative E"
    by (simp_all add: threaded_def)
  from assms(3) obtain st t where st: "run_state (video_get_streaming_status E) s = (st, t)"
    and rest: "run_state (if st = 0 then skip else do {
       (if st = 1 \<or> st = 2 then video_stop_streaming E else skip);
       ok \<leftarrow> wait_for_streaming_stopped E;
       if \<not> ok then skip else video_start_streaming E }) t = (r, s')"
    unfolding video_restart_streaming_def by (rule bindE)
  note status = status_refines [OF env(2) assms(2) st]
  have t: "coherent t" "watch t = watch s"
    using control_eq [OF status(1)] assms(2) keepsD [OF keeps_watch_parts(5) [OF env(1)] st] by simp_all
  show ?thesis
  proof (cases "playing (player_of s)")
    case False
    with rest status t show ?thesis by (simp add: run_skip watch_def)
  next
    case True
    with rest status obtain x u ok v where u: "run_state (video_stop_streaming E) t = (x, u)"
      and v: "run_state (wait_for_streaming_stopped E) u = (ok, v)"
      and last: "run_state (if \<not> ok then skip else video_start_streaming E) v = (r, s')"
      by (simp del: run_state_bind) (elim bindE, simp)
    have "coherent u" "\<not> playing (player_of u)"
      using stop_refines [OF env(2) t(1) u] by simp_all
    then have idle: "capture_threads u = {#}" "\<not> streaming_flag (glob u)" "streaming_thread (glob u) = 0"
      by (simp_all add: coherent_def player_of_def)
    have ok: "ok"
      by (rule idle_stopped(2) [OF env(2) idle(1,2) v])
    have "control v = control u"
      by (rule keepsD [OF keeps_control_parts(4) [OF env(2)] v])
    with idle(3) have "streaming_thread (glob v) = 0"
      by (simp add: control_def)
    from start_watched [OF assms(1) this, of r s'] last ok
    have "watch s' = (detected (glob v), Suc (capture_starts v))" by simp
    moreover have "watch v = watch s"
      using keepsD [OF keeps_watch_parts(3) [OF env(1)] v] keepsD [OF keeps_watch_parts(4) [OF env(1)] u] t(2) by simp
    ultimately show ?thesis
      using True by (simp add: watch_def)
  qed
qed

section \<open>A detected format\<close>

lemma keeps_control_detect:
  assumes "cooperative E"
  shows "keeps control (video_report_format E b e w h f)" "keeps control (wait_event E)"
  unfolding report_defs wait_event_def by (intro keeps_control_basic assms; simp)+

lemma rd_detected:
  assumes "threaded K E" and "run_state (rd E f) s = (x, t)" and "\<And>g g'. detected g = detected g' \<Longrightarrow> f g = f g'"
  shows "x = f (glob s)" and "watch t = watch s" and "control t = control s"
proof -
  from assms(1) have env: "streaming_threads K E" "cooperative E"
    by (simp_all add: threaded_def)
  show "watch t = watch s" "control t = control s"
    using keepsD [OF keeps_watch_basic(2) [OF env(1)] assms(2)] keepsD [OF keeps_control_rd [OF env(2)] assms(2)] by simp_all
  from assms(2) have "x = f (v_globals (E (trace s) (V_yield (glob s))))"
    by (simp add: run_rd Let_def)
  with assms(3) [OF detected_stable [OF env(1)]] show "x = f (glob s)"
    by metis
qed

text \<open>The report and the restart, once the format has been remembered.\<close>

lemma report_restart_effect:
  assumes "threaded K E" and "coherent s"
    and "run_state (do {
          width \<leftarrow> rd E detected_width;
          height \<leftarrow> rd E detected_height;
          video_report_format E True None (ucast width) (ucast height) fr;
          (if b then video_restart_streaming E else skip);
          wait_event E
        }) s = (x, s')"
  shows "coherent s' \<and> player_of s' = player_of s \<and>
    watch s' = (detected (glob s), capture_starts s + (if b \<and> playing (player_of s) then 1 else 0))"
proof -
  from assms(1) have env: "streaming_threads K E" "cooperative E"
    by (simp_all add: threaded_def)
  note read = rd_detected [OF assms(1)]
  from assms(3) obtain w s1 h s2 y s3 z s4 where more:
      "run_state (rd E detected_width) s = (w, s1)" "run_state (rd E detected_height) s1 = (h, s2)"
      "run_state (video_report_format E True None (ucast w) (ucast h) fr) s2 = (y, s3)"
    and restart: "run_state (if b then video_restart_streaming E else skip) s3 = (z, s4)"
    and wait: "run_state (wait_event E) s4 = (x, s')"
    by (elim bindE, simp)
  have s3: "watch s3 = watch s" "control s3 = control s"
    using read(2,3) [OF more(1)] read(2,3) [OF more(2)] keepsD [OF keeps_watch_parts(1) [OF env(1)] more(3)]
      keepsD [OF keeps_control_detect(1) [OF env(2)] more(3)]
    by (simp_all add: detected_def)
  then have c3: "coherent s3" "player_of s3 = player_of s"
    using control_eq [OF s3(2)] assms(2) by simp_all
  have s4: "coherent s4 \<and> player_of s4 = player_of s \<and>
      watch s4 = (detected (glob s), capture_starts s + (if b \<and> playing (player_of s) then 1 else 0))"
    using restart c3 s3(1) restart_refines [OF env(2) c3(1)] restart_watched [OF assms(1) c3(1)]
    by (auto simp: run_skip watch_def split: if_splits)
  have last: "control s' = control s4" "watch s' = watch s4"
    using keepsD [OF keeps_control_detect(2) [OF env(2)] wait] keepsD [OF keeps_watch_parts(2) [OF env(1)] wait] by simp_all
  from s4 show ?thesis
    unfolding last(2) using control_eq [OF last(1)] by simp
qed

lemma format_found_effect:
  assumes "threaded K E" and "coherent s" and "frames_per_second t = Some fr" and "fps_of fr = Some fps"
    and "run_state (format_found E t) s = (x, s')"
  shows "coherent s' \<and> player_of s' = player_of s \<and>
    watch s' = ((bt_width t, bt_height t, fps, True), capture_starts s +
      (if should_restart t fps (detected_width (glob s)) (detected_height (glob s)) (detected_fps (glob s)) (detected_signal (glob s)) \<and>
          playing (player_of s) then 1 else 0))"
proof -
  let ?found = "\<lambda>gl. gl\<lparr>detected_width := bt_width t, detected_height := bt_height t, detected_fps := fps, detected_signal := True\<rparr>"
  from assms(5) obtain d1 s1 d2 s2 d3 s3 d4 s4 where reads:
      "run_state (rd E detected_fps) s = (d1, s1)" "run_state (rd E detected_width) s1 = (d2, s2)"
      "run_state (rd E detected_height) s2 = (d3, s3)" "run_state (rd E detected_signal) s3 = (d4, s4)"
    and rest: "run_state (do {
          width \<leftarrow> rd E detected_width;
          height \<leftarrow> rd E detected_height;
          video_report_format E True None (ucast width) (ucast height) fr;
          (if should_restart t fps d2 d3 d1 d4 then video_restart_streaming E else skip);
          wait_event E
        }) (s4\<lparr>glob := ?found (glob s4)\<rparr>) = (x, s')"
    by (simp add: format_found_def assms(3,4) Let_def del: run_state_bind) (elim bindE, simp add: run_wr)
  note read = rd_detected [OF assms(1)]
  have old: "watch s4 = watch s" "control s4 = control s"
      "d1 = detected_fps (glob s)" "d2 = detected_width (glob s)" "d3 = detected_height (glob s)" "d4 = detected_signal (glob s)"
    using read [OF reads(1)] read [OF reads(2)] read [OF reads(3)] read [OF reads(4)]
    by (simp_all add: detected_def watch_def)
  let ?s5 = "s4\<lparr>glob := ?found (glob s4)\<rparr>"
  have s5: "detected (glob ?s5) = (bt_width t, bt_height t, fps, True)" "capture_starts ?s5 = capture_starts s" "control ?s5 = control s"
    using old(1,2) by (simp_all add: watch_def detected_def capture_starts_def control_def capture_threads_def)
  then have "coherent ?s5" "player_of ?s5 = player_of s"
    using control_eq [OF s5(3)] assms(2) by simp_all
  from report_restart_effect [OF assms(1) this(1) rest] this(2) s5(1,2) old(3-6) show ?thesis
    by simp
qed

section \<open>Setting up for it\<close>

text \<open>The calls of a pass that name a format: they name the given one.\<close>

fun for_format :: "u32 \<Rightarrow> u32 \<Rightarrow> u32 \<Rightarrow> video_call \<Rightarrow> bool" where
  "for_format w h fps (V_S_FMT fd pf) = (pf = capture_format w h)"
| "for_format w h fps (RK_VENC_CreateChn a) = (\<exists>codec b m. a = populate_venc_attr codec b m w h fps)"
| "for_format w h fps c = True"

lemma calls_for_format:
  "calls (for_format w h fps) (alloc_buffers E fd i n)" "calls (for_format w h fps) (queue_buffers E fd i bs)"
  "calls (for_format w h fps) (release_blocks E bl)" "calls (for_format w h fps) (venc_stop E)"
  "calls (for_format w h fps) (venc_start E b m w h fps)" "calls (for_format w h fps) (send_frame E fr)"
  "calls (for_format w h fps) (ensure_sleep_mode_disabled E)" "calls (for_format w h fps) (get_us E)"
proof -
  show "calls (for_format w h fps) (alloc_buffers E fd i n)"
    by (induction n arbitrary: i) (unfold alloc_buffers.simps Let_def, (intro calls_intros; simp)+)
  show "calls (for_format w h fps) (queue_buffers E fd i bs)"
    by (induction bs arbitrary: i) (unfold queue_buffers.simps, (intro calls_intros; simp)+)
  show "calls (for_format w h fps) (release_blocks E bl)"
    by (induction bl) (unfold release_blocks.simps, (intro calls_intros; simp)+)
  show "calls (for_format w h fps) (venc_start E b m w h fps)"
    unfolding venc_start_def venc_configure_limited_range_vui_def Let_def by (intro calls_intros; force)
  show "calls (for_format w h fps) (venc_stop E)" "calls (for_format w h fps) (send_frame E fr)"
    "calls (for_format w h fps) (ensure_sleep_mode_disabled E)" "calls (for_format w h fps) (get_us E)"
    unfolding venc_stop_def send_frame_def ensure_sleep_mode_disabled_def get_us_def Let_def
    by (intro calls_intros; simp)+
qed

lemma calls_for_format_frames: "calls (for_format w h fps) (frame_loop fuel E fd fr num)"
  by (induction fuel arbitrary: fr num)
    (unfold frame_loop.simps Let_def, (intro calls_intros calls_for_format; simp)+)

lemma calls_for_format_pass:
  "calls (for_format w h fps) (stream_buffers fuel E fd w h fps)"
  unfolding stream_buffers_def stream_frames_def cleanup_def Let_def
  by (intro calls_intros calls_for_format calls_for_format_frames; simp)

text \<open>What a pass reads of the globals; the threads of a running stream leave it alone.\<close>

definition settings :: "globals \<Rightarrow> (u32 \<times> u32 \<times> u32 \<times> bool) \<times> rat \<times> int" where
  "settings gl = (detected gl, quality_factor gl, codec_type gl)"

lemma settings_stable:
  assumes "threaded K E"
  shows "settings (v_globals (E h (V_yield gl))) = settings gl"
  using arg_cong [OF streaming_threads_keep [of K E h gl], of settings] assms
  by (simp add: threaded_def outside_capture_def settings_def detected_def)

lemma keeps_settings_basic:
  "keeps (\<lambda>s. settings (glob s)) (vsys E c)" "threaded K E \<Longrightarrow> keeps (\<lambda>s. settings (glob s)) (rd E f)"
  by (auto simp: keeps_def run_simps settings_stable Let_def)

lemma keeps_settings_buffers:
  assumes "threaded K E"
  shows "keeps (\<lambda>s. settings (glob s)) (alloc_buffers E fd i n)" "keeps (\<lambda>s. settings (glob s)) (queue_buffers E fd i bs)"
proof -
  note basic = keeps_bind keeps_return keeps_if keeps_settings_basic(1) keeps_settings_basic(2) [OF assms]
  show "keeps (\<lambda>s. settings (glob s)) (alloc_buffers E fd i n)"
    by (induction n arbitrary: i) (unfold alloc_buffers.simps Let_def, (intro basic; simp)+)
  show "keeps (\<lambda>s. settings (glob s)) (queue_buffers E fd i bs)"
    by (induction bs arbitrary: i) (unfold queue_buffers.simps, (intro basic; simp)+)
qed

text \<open>From a state with settings \<open>c\<close>, a run adds calls and answers that satisfy \<open>R\<close> as a whole.\<close>

definition ensures :: "(u32 \<times> u32 \<times> u32 \<times> bool) \<times> rat \<times> int \<Rightarrow> ((video_call \<times> video_answer) list \<Rightarrow> bool) \<Rightarrow> 'a video_m \<Rightarrow> bool" where
  "ensures c R m \<longleftrightarrow> (\<forall>s x s'. run_state m s = (x, s') \<longrightarrow> settings (glob s) = c \<longrightarrow> (\<exists>es. trace s' = trace s @ es \<and> R es))"

lemma ensuresE:
  assumes "ensures c R m" and "run_state m s = (x, s')" and "settings (glob s) = c"
  obtains es where "trace s' = trace s @ es" and "R es"
  using assms unfolding ensures_def by blast

lemma ensures_calls: "calls P m \<Longrightarrow> (\<And>es. \<forall>e \<in> set es. P (fst e) \<Longrightarrow> R es) \<Longrightarrow> ensures c R m"
  unfolding ensures_def by (metis callsE)

lemma ensures_if: "(b \<Longrightarrow> ensures c R m) \<Longrightarrow> (\<not> b \<Longrightarrow> ensures c R m') \<Longrightarrow> ensures c R (if b then m else m')"
  by simp

lemma ensures_mono: "ensures c R m \<Longrightarrow> (\<And>es. R es \<Longrightarrow> R' es) \<Longrightarrow> ensures c R' m"
  unfolding ensures_def by blast

lemma ensures_vsys:
  assumes "\<And>a. ensures c (\<lambda>es. R ((k, a) # es)) (f a)"
  shows "ensures c R (State_Monad.bind (vsys E k) f)"
  unfolding ensures_def
proof (intro allI impI)
  fix s x s'
  assume "run_state (State_Monad.bind (vsys E k) f) s = (x, s')" and c: "settings (glob s) = c"
  then obtain a where "run_state (f a) (s\<lparr>trace := trace s @ [(k, a)], errno := v_errno a\<rparr>) = (x, s')"
    by (elim vsysE)
  then show "\<exists>es. trace s' = trace s @ es \<and> R es"
    by (rule ensuresE [OF assms]) (auto simp: c)
qed

lemma ensures_rd:
  assumes "threaded K E" and "\<And>gl. settings gl = c \<Longrightarrow> f gl = v" and "\<And>gl a. ensures c (\<lambda>es. R ((V_yield gl, a) # es)) (k v)"
  shows "ensures c R (State_Monad.bind (rd E f) k)"
  unfolding ensures_def
proof (intro allI impI)
  fix s x s'
  assume "run_state (State_Monad.bind (rd E f) k) s = (x, s')" and c: "settings (glob s) = c"
  moreover let ?r = "E (trace s) (V_yield (glob s))"
  have "settings (v_globals ?r) = c"
    using settings_stable [OF assms(1)] c by simp
  moreover from this have "f (v_globals ?r) = v"
    by (rule assms(2))
  ultimately have "run_state (k v) (s\<lparr>trace := trace s @ [(V_yield (glob s), ?r)], glob := v_globals ?r\<rparr>) = (x, s')"
    and "settings (v_globals ?r) = c"
    by (simp_all add: run_simps Let_def)
  then show "\<exists>es. trace s' = trace s @ es \<and> R es"
    by (elim ensuresE [OF assms(3)]) auto
qed

lemma ensures_after:
  assumes "calls P m" and "keeps (\<lambda>s. settings (glob s)) m" and "\<And>x. ensures c R' (f x)"
    and "\<And>ds es. \<forall>e \<in> set ds. P (fst e) \<Longrightarrow> R' es \<Longrightarrow> R (ds @ es)"
  shows "ensures c R (State_Monad.bind m f)"
  unfolding ensures_def
proof (intro allI impI)
  fix s x s'
  assume "run_state (State_Monad.bind m f) s = (x, s')" and c: "settings (glob s) = c"
  then obtain y t where t: "run_state m s = (y, t)" and rest: "run_state (f y) t = (x, s')"
    by (elim bindE)
  obtain ds where "trace t = trace s @ ds" "\<forall>e \<in> set ds. P (fst e)"
    using callsE [OF assms(1) t] by metis
  moreover obtain es where "trace s' = trace t @ es" "R' es"
    using ensuresE [OF assms(3) rest] keepsD [OF assms(2) t] c by auto
  ultimately show "\<exists>es. trace s' = trace s @ es \<and> R es"
    using assms(4) by auto
qed

lemma ensures_before:
  assumes "ensures c R m" and "\<And>x. calls any_call (f x)" and "\<And>es ds. R es \<Longrightarrow> R (es @ ds)"
  shows "ensures c R (State_Monad.bind m f)"
  unfolding ensures_def
proof (intro allI impI)
  fix s x s'
  assume "run_state (State_Monad.bind m f) s = (x, s')" and c: "settings (glob s) = c"
  then obtain y t where t: "run_state m s = (y, t)" and rest: "run_state (f y) t = (x, s')"
    by (elim bindE)
  obtain es where "trace t = trace s @ es" "R es"
    using ensuresE [OF assms(1) t c] .
  moreover obtain ds where "trace s' = trace t @ ds"
    using callsE [OF assms(2) rest] .
  ultimately show "\<exists>es. trace s' = trace s @ es \<and> R es"
    using assms(3) by auto
qed

section \<open>The calls of a pass\<close>

text \<open>The settings with this format detected.\<close>

abbreviation with_format :: "u32 \<Rightarrow> u32 \<Rightarrow> u32 \<Rightarrow> rat \<Rightarrow> int \<Rightarrow> (u32 \<times> u32 \<times> u32 \<times> bool) \<times> rat \<times> int" where
  "with_format w h fps q ct \<equiv> ((w, h, fps, True), q, ct)"

lemmas settings_reads = settings_def detected_def

lemma pass_for_format:
  assumes "threaded K E"
  shows "ensures (with_format w h fps q ct) (\<lambda>es. \<forall>e \<in> set es. for_format w h fps (fst e)) (stream_pass fuel E)"
  unfolding stream_pass_def Let_def
  apply (rule ensures_rd [OF assms, where v = True], simp add: settings_reads)
  apply (rule ensures_if, simp)
  apply (rule ensures_vsys)
  apply (rule ensures_if, rule ensures_calls [where P = "for_format w h fps"], (intro calls_intros; simp), simp)
  apply (rule ensures_rd [OF assms, where v = w], simp add: settings_reads)
  apply (rule ensures_rd [OF assms, where v = h], simp add: settings_reads)
  apply (rule ensures_rd [OF assms, where v = fps], simp add: settings_reads)
  by (rule ensures_calls [where P = "for_format w h fps"]) ((intro calls_intros calls_for_format_pass; simp), simp)

lemma calls_any_buffers: "calls any_call (stream_buffers fuel E fd w h fps)"
  unfolding stream_buffers_def stream_frames_def cleanup_def Let_def
  by (intro calls_intros calls_any_parts calls_any_loops any_call)

text \<open>The device is opened, and when that succeeds it is set to this format.\<close>

definition opened_for :: "u32 \<Rightarrow> u32 \<Rightarrow> (video_call \<times> video_answer) list \<Rightarrow> bool" where
  "opened_for w h es \<longleftrightarrow> (\<exists>a. (V_open VIDEO_DEV, a) \<in> set es \<and>
     (v_ret a < 0 \<or> V_S_FMT (v_ret a) (capture_format w h) \<in> fst ` set es))"

lemma pass_opens:
  assumes "threaded K E"
  shows "ensures (with_format w h fps q ct) (opened_for w h) (stream_pass fuel E)"
  unfolding stream_pass_def Let_def
  apply (rule ensures_rd [OF assms, where v = True], simp add: settings_reads)
  apply (rule ensures_if, simp)
  apply (rule ensures_vsys)
  apply (rule ensures_if)
   apply (rule ensures_calls [where P = any_call], (intro calls_intros any_call))
   apply (force simp: opened_for_def)
  apply (rule ensures_rd [OF assms, where v = w], simp add: settings_reads)
  apply (rule ensures_rd [OF assms, where v = h], simp add: settings_reads)
  apply (rule ensures_rd [OF assms, where v = fps], simp add: settings_reads)
  apply (rule ensures_vsys)
  apply (rule ensures_calls [where P = any_call])
   apply (intro calls_intros calls_any_buffers any_call)
  by (force simp: opened_for_def)

text \<open>When the device starts to stream, the encoder channel is created with these attributes.\<close>

fun is_streamon :: "video_call \<Rightarrow> bool" where
  "is_streamon (V_STREAMON fd) = True"
| "is_streamon _ = False"

definition channel_created :: "venc_attr \<Rightarrow> (video_call \<times> video_answer) list \<Rightarrow> bool" where
  "channel_created a es \<longleftrightarrow> ((\<exists>e \<in> set es. is_streamon (fst e) \<and> 0 \<le> v_ret (snd e)) \<longrightarrow> RK_VENC_CreateChn a \<in> fst ` set es)"

lemma channel_created_append:
  "\<forall>e \<in> set ds. \<not> is_streamon (fst e) \<Longrightarrow> channel_created a es \<Longrightarrow> channel_created a (ds @ es)"
  by (auto simp: channel_created_def)

lemma channel_created_Cons:
  "\<not> is_streamon k \<or> v_ret r < 0 \<Longrightarrow> channel_created a es \<Longrightarrow> channel_created a ((k, r) # es)"
  by (auto simp: channel_created_def)

lemma no_streamon_buffers:
  "calls (\<lambda>k. \<not> is_streamon k) (alloc_buffers E fd i n)" "calls (\<lambda>k. \<not> is_streamon k) (queue_buffers E fd i bs)"
proof -
  show "calls (\<lambda>k. \<not> is_streamon k) (alloc_buffers E fd i n)"
    by (induction n arbitrary: i) (unfold alloc_buffers.simps Let_def, (intro calls_intros; simp)+)
  show "calls (\<lambda>k. \<not> is_streamon k) (queue_buffers E fd i bs)"
    by (induction bs arbitrary: i) (unfold queue_buffers.simps, (intro calls_intros; simp)+)
qed

lemma frames_create_channel:
  assumes "threaded K E" and "calculate_bitrate q (sint w) (sint h) = Some b" and "max_bitrate_of b = Some m"
  shows "ensures (with_format w h fps q ct)
    (\<lambda>es. RK_VENC_CreateChn (populate_venc_attr ct (of_int b) (of_int m) w h fps) \<in> fst ` set es)
    (stream_frames fuel E fd w h fps bufs)"
proof -
  let ?a = "populate_venc_attr ct (of_int b) (of_int m) w h fps"
  let ?R = "\<lambda>es :: (video_call \<times> video_answer) list. RK_VENC_CreateChn ?a \<in> fst ` set es"
  have start: "ensures (with_format w h fps q ct) ?R (venc_start E b m w h fps)"
    unfolding venc_start_def Let_def
    apply (rule ensures_rd [OF assms(1), where v = ct], simp add: settings_reads)
    apply (rule ensures_vsys)
    apply (rule ensures_calls [where P = any_call])
     apply (unfold venc_configure_limited_range_vui_def Let_def, intro calls_intros any_call)
    by simp
  have rest: "calls any_call (if ret \<noteq> RK_SUCCESS then do { cleanup E fd bufs; State_Monad.return Again }
         else do {
           x \<leftarrow> frame_loop fuel E fd (initial_frame w h) 0;
           case x of
             Frames_done \<Rightarrow> do { cleanup E fd bufs; State_Monad.return Again }
           | Frames_abort \<Rightarrow> State_Monad.return (Leave Aborted)
           | Frames_no_fuel \<Rightarrow> State_Monad.return (Leave No_fuel)
         })" for ret
    unfolding cleanup_def by (intro calls_intros calls_any_parts calls_any_loops any_call)
  show ?thesis
    unfolding stream_frames_def
    apply (rule ensures_rd [OF assms(1), where v = q], simp add: settings_reads)
    apply (simp add: assms(2,3))
    apply (rule ensures_before [OF start])
     apply (rule rest)
    by force
qed

lemma pass_creates_channel:
  assumes "threaded K E" and "calculate_bitrate q (sint w) (sint h) = Some b" and "max_bitrate_of b = Some m"
  shows "ensures (with_format w h fps q ct)
    (channel_created (populate_venc_attr ct (of_int b) (of_int m) w h fps)) (stream_pass fuel E)"
proof -
  let ?a = "populate_venc_attr ct (of_int b) (of_int m) w h fps"
  have leave: "ensures c (channel_created ?a) p" if "calls (\<lambda>k. \<not> is_streamon k) p" for c and p :: "pass_exit video_m"
    by (rule ensures_calls [OF that]) (auto simp: channel_created_def)
  have streaming: "ensures (with_format w h fps q ct) (channel_created ?a) (do {
        on \<leftarrow> vsys E (V_STREAMON fd);
        if v_ret on < 0 then do {
          c \<leftarrow> vsys E (V_close fd);
          State_Monad.return (Leave (Ret_errno (v_errno c)))
        }
        else stream_frames fuel E fd w h fps bufs
      })" for fd bufs
    apply (rule ensures_vsys, rule ensures_if)
     apply (rule ensures_mono [OF leave], (intro calls_intros; simp), simp add: channel_created_def)
    by (rule ensures_mono [OF frames_create_channel [OF assms]]) (auto simp: channel_created_def)
  have queued: "ensures (with_format w h fps q ct) (channel_created ?a) (do {
        x \<leftarrow> queue_buffers E fd 0 bufs;
        case x of
          Some e \<Rightarrow> State_Monad.return (Leave (Ret_errno e))
        | None \<Rightarrow> do {
            on \<leftarrow> vsys E (V_STREAMON fd);
            if v_ret on < 0 then do {
              c \<leftarrow> vsys E (V_close fd);
              State_Monad.return (Leave (Ret_errno (v_errno c)))
            }
            else stream_frames fuel E fd w h fps bufs
          }
      })" for fd bufs
    by (rule ensures_after [where R' = "channel_created ?a", OF no_streamon_buffers(2) keeps_settings_buffers(2) [OF assms(1)]])
      (auto split: option.split intro: streaming leave calls_intros channel_created_append)
  have buffers: "ensures (with_format w h fps q ct) (channel_created ?a) (stream_buffers fuel E fd w h fps)" for fd
    unfolding stream_buffers_def
    by (rule ensures_after [where R' = "channel_created ?a", OF no_streamon_buffers(1) keeps_settings_buffers(1) [OF assms(1)]])
      (auto split: sum.split intro: queued leave calls_intros channel_created_append)
  show ?thesis
    unfolding stream_pass_def Let_def
    by ((rule ensures_rd [OF assms(1), where v = True] ensures_rd [OF assms(1), where v = w]
          ensures_rd [OF assms(1), where v = h] ensures_rd [OF assms(1), where v = fps], simp add: settings_reads)
      | rule ensures_if ensures_vsys | rule ensures_mono [OF leave], (intro calls_intros; simp)
      | rule ensures_mono [OF buffers] | simp add: channel_created_def)+
qed

text \<open>
  C5. A change of the input format, end to end: when the variables change under the format thread only by steps of the
  capture thread and the encoder reader, threads can be created and a joined capture thread has ended
  normally, then a detected format never starts or ends the stream; exactly one new capture thread is
  requested when the stream is on and the size differs, the rate differs by more than one frame per second or there was
  no signal before, and none otherwise. The next pass of the capture thread opens the device and, when that succeeds,
  sets it to the detected size and its colours; once the device streams, it creates the encoder channel with
  the attributes of the detected size and rate, the chosen codec and the bitrate of the chosen quality (where the
  bitrate is defined, see C20); and no call of the pass sets the device or creates a channel for another format.
\<close>

theorem new_format_reaches_encoder:
  assumes "\<forall>h gl. (gl, v_globals (E h (V_yield gl))) \<in> (capture_steps \<union> reader_steps K)\<^sup>*"
    and "\<forall>h gl. account cap_acq cap_rel h = {#} \<and> \<not> streaming_flag gl \<longrightarrow>
        streaming_stopped (v_globals (E h (V_yield gl)))"
    and "\<forall>h. v_ret (E h V_malloc_thread) \<noteq> 0" and "\<forall>h. v_ret (E h (V_pthread_create T_run_video_stream)) = 0"
    and "coherent s" and "frames_per_second t = Some fr" and "fps_of fr = Some fps"
    and "uint fps < 2 ^ 32 - 1" and "uint (detected_fps (glob s)) < 2 ^ 32 - 1"
    and "run_state (format_found E t) s = (x, s')" and "run_state (stream_pass fuel E) s' = (y, s'')"
  shows "player_of s' = player_of s \<and> coherent s' \<and>
    capture_starts s' = capture_starts s + (if playing (player_of s) \<and>
      (bt_width t \<noteq> detected_width (glob s) \<or> bt_height t \<noteq> detected_height (glob s) \<or>
       \<bar>uint fps - uint (detected_fps (glob s))\<bar> > 1 \<or> \<not> detected_signal (glob s)) then 1 else 0) \<and>
    (\<exists>es. trace s'' = trace s' @ es \<and>
      (\<exists>a. (V_open VIDEO_DEV, a) \<in> set es \<and>
        (v_ret a < 0 \<or> V_S_FMT (v_ret a) (capture_format (bt_width t) (bt_height t)) \<in> fst ` set es)) \<and>
      (\<forall>fd a b m. (V_STREAMON fd, a) \<in> set es \<and> 0 \<le> v_ret a \<and>
        calculate_bitrate (quality_factor (glob s')) (sint (bt_width t)) (sint (bt_height t)) = Some b \<and> max_bitrate_of b = Some m \<longrightarrow>
        RK_VENC_CreateChn (populate_venc_attr (codec_type (glob s')) (of_int b) (of_int m) (bt_width t) (bt_height t) fps) \<in> fst ` set es) \<and>
      (\<forall>e \<in> set es. for_format (bt_width t) (bt_height t) fps (fst e)))"
proof -
  have threads: "streaming_threads K E"
    using assms(1) by (simp add: streaming_threads_def)
  then have env: "threaded K E"
    using assms(2-4) by (simp add: threaded_def cooperative_def Let_def streaming_threadsD)
  note found = format_found_effect [OF env assms(5-7,10)]
  let ?w = "bt_width t" and ?h = "bt_height t" and ?q = "quality_factor (glob s')" and ?ct = "codec_type (glob s')"
  have now: "settings (glob s') = with_format ?w ?h fps ?q ?ct"
    using found by (simp add: watch_def settings_def)
  obtain es where es: "trace s'' = trace s' @ es" "\<forall>e \<in> set es. for_format ?w ?h fps (fst e)"
    by (rule ensuresE [OF pass_for_format [OF env] assms(11) now])
  have "opened_for ?w ?h es"
    by (rule ensuresE [OF pass_opens [OF env] assms(11) now]) (simp add: es(1))
  moreover have "channel_created (populate_venc_attr ?ct (of_int b) (of_int m) ?w ?h fps) es"
    if "calculate_bitrate ?q (sint ?w) (sint ?h) = Some b" "max_bitrate_of b = Some m" for b m
    by (rule ensuresE [OF pass_creates_channel [OF env that] assms(11) now]) (simp add: es(1))
  moreover have "should_restart t fps (detected_width (glob s)) (detected_height (glob s)) (detected_fps (glob s)) (detected_signal (glob s))
      \<longleftrightarrow> ?w \<noteq> detected_width (glob s) \<or> ?h \<noteq> detected_height (glob s) \<or>
        \<bar>uint fps - uint (detected_fps (glob s))\<bar> > 1 \<or> \<not> detected_signal (glob s)"
    by (rule should_restart_iff [OF assms(8,9)])
  ultimately show ?thesis
    using found es unfolding watch_def opened_for_def channel_created_def
    by (intro conjI exI [of _ es]) (simp, simp, simp, simp, blast, force, blast)
qed

text \<open>
  The format thread of a running stream meets 1080p at 120 Hz: \<open>prompt\<close> is the cooperative
  environment of \<open>Threads\<close>.
\<close>

definition playing_world :: video_world where
  "playing_world = sample_world\<lparr>trace := [(V_pthread_create T_run_video_stream, sample_answer)],
     glob := (init_globals sample_consts)\<lparr>streaming_thread := 4096, streaming_flag := True, streaming_stopped := False\<rparr>\<rparr>"

theorem new_format_reaches_encoder_witness:
  "capture_starts (snd (run_state (format_found prompt timings_120) playing_world)) = 2 \<and>
   playing (player_of (snd (run_state (format_found prompt timings_120) playing_world))) \<and>
   V_open VIDEO_DEV \<in> fst ` set (trace (snd (run_state (stream_pass 0 prompt)
     (snd (run_state (format_found prompt timings_120) playing_world)))))"
proof -
  let ?s = playing_world
  obtain x s' where run: "run_state (format_found prompt timings_120) ?s = (x, s')"
    by (cases "run_state (format_found prompt timings_120) ?s")
  obtain y s'' where pass: "run_state (stream_pass 0 prompt) s' = (y, s'')"
    by (cases "run_state (stream_pass 0 prompt) s'")
  obtain fr where fr: "frames_per_second timings_120 = Some fr" "fps_of fr = Some 120"
    using rate_120 by (auto simp: bind_eq_Some_conv)
  have "(gl, v_globals (prompt h (V_yield gl))) \<in> (capture_steps \<union> reader_steps sample_consts)\<^sup>*" for h gl
    using capture_ends [of gl] by (auto simp: prompt_def)
  moreover have "coherent ?s"
    by (simp add: coherent_def playing_world_def capture_threads_def account_def book_def sample_answer_def)
  ultimately have "playing (player_of s') \<and> capture_starts s' = 2 \<and>
      (\<exists>es. trace s'' = trace s' @ es \<and> (\<exists>a. (V_open VIDEO_DEV, a) \<in> set es))"
    using new_format_reaches_encoder [of prompt sample_consts ?s timings_120 fr 120 x s' 0 y s'', OF _ _ _ _ _ fr _ _ run pass]
    by (auto simp: prompt_def playing_world_def player_of_def init_globals_def capture_starts_def)
  then show ?thesis
    using run pass by force
qed

end
