(* ===== verification/Lvgl.thy ===== *)
theory Lvgl
  imports Native_Prelude
begin

text \<open>
  The user interface's view of LVGL and of the system clock: the arguments the sources pass, the calls,
  the answers of the library, and the global variables of \<open>screens.c\<close>, \<open>styles.c\<close>, \<open>vars.c\<close>,
  \<open>ui.c\<close>, \<open>actions.c\<close>, \<open>screen.c\<close> and the user-interface half of \<open>ctrl.c\<close>. A pointer is its
  address, 0 for NULL. The user interface runs on one thread.
\<close>

section \<open>Arguments\<close>

datatype lv_class = LV_OBJ | LV_LABEL | LV_IMAGE | LV_BUTTON | LV_SPINNER

datatype lv_coord = PX int | LV_PCT int | LV_SIZE_CONTENT

text \<open>A part of an object together with a state.\<close>

datatype lv_selector = MAIN_DEFAULT | MAIN_CHECKED | SCROLLBAR_DEFAULT

datatype lv_flag =
    LV_OBJ_FLAG_HIDDEN | LV_OBJ_FLAG_CLICKABLE | LV_OBJ_FLAG_CLICK_FOCUSABLE | LV_OBJ_FLAG_CHECKABLE
  | LV_OBJ_FLAG_SCROLLABLE | LV_OBJ_FLAG_SCROLL_ON_FOCUS | LV_OBJ_FLAG_SCROLL_CHAIN | LV_OBJ_FLAG_SNAPPABLE
  | LV_OBJ_FLAG_PRESS_LOCK | LV_OBJ_FLAG_OVERFLOW_VISIBLE

datatype lv_state =
    LV_STATE_DEFAULT | LV_STATE_CHECKED | LV_STATE_FOCUSED | LV_STATE_DISABLED
  | LV_STATE_USER_1 | LV_STATE_USER_2 | LV_STATE_USER_3 | LV_STATE_USER_4

datatype lv_event_code =
    LV_EVENT_PRESSED | LV_EVENT_PRESSING | LV_EVENT_RELEASED | LV_EVENT_CLICKED
  | LV_EVENT_LONG_PRESSED | LV_EVENT_GESTURE | LV_EVENT_OTHER nat

datatype lv_dir = LV_DIR_LEFT | LV_DIR_RIGHT | LV_DIR_TOP | LV_DIR_BOTTOM | LV_DIR_VER | LV_DIR_NONE

datatype lv_const =
    LV_FLEX_FLOW_ROW | LV_FLEX_FLOW_COLUMN | LV_FLEX_ALIGN_START | LV_FLEX_ALIGN_CENTER
  | LV_FLEX_ALIGN_SPACE_BETWEEN | LV_LAYOUT_FLEX | LV_TEXT_ALIGN_LEFT | LV_TEXT_ALIGN_CENTER
  | LV_ALIGN_CENTER | LV_ALIGN_LEFT_MID

datatype lv_prop =
    Pad_left | Pad_top | Pad_right | Pad_bottom | Pad_row | Bg_opa | Bg_color | Border_width | Radius
  | Shadow_width | Transform_width | Transform_height | Margin_top | Text_align | Text_font | Text_color
  | Text_opa | Flex_flow | Flex_main_place | Flex_cross_place | Flex_track_place | Layout | Align

datatype lv_value = Num int | Color u32 | Font string | Const lv_const

text \<open>The styles of \<open>styles.c\<close> and the event handlers of \<open>actions.c\<close>.\<close>

datatype style_id =
    Flex_column_space_between | Flex_center | Flex_start | Flow_row_space_between | Flow_row_start_center
  | Flex_column_start | Flex_screen | Flex_screen_menu | Label_font16 | Label_font_bold30 | Header_link
  | Menu_button | Menu_button_label | Info_headline_label | Info_content_label | Back_button

datatype action =
    Switch_to_menu | Switch_to_advanced_menu | Switch_to_status | Switch_to_about | Switch_to_reset_config
  | Switch_to_dhcpc | Switch_to_reboot | Menu_screen_gesture | Menu_advanced_screen_gesture
  | Reset_config_screen_gesture | Home_screen_gesture | About_screen_gesture
  | Reset_config | Dhcpc | Reboot

text \<open>Calls on an object.\<close>

datatype obj_call =
    Obj_set_pos lv_coord lv_coord
  | Obj_set_size lv_coord lv_coord
  | Obj_set_style lv_prop lv_value lv_selector
  | Obj_add_style int
  | Obj_remove_style int
  | Obj_add_flag "lv_flag list"
  | Obj_clear_flag "lv_flag list"
  | Obj_add_state lv_state
  | Obj_clear_state lv_state
  | Obj_add_event_cb action lv_event_code
  | Obj_set_scrollbar_auto
  | Obj_set_scrollbar_off
  | Obj_set_scroll_dir lv_dir
  | Obj_set_scroll_snap_x_start
  | Obj_fade_in u32
  | Obj_fade_out u32
  | Obj_set_opa u8
  | Label_set_text string
  | Label_set_long_mode_dot
  | Image_set_src string
  | Image_set_src_name string
  | Spinner_set_anim_params u32 u32

datatype ui_call =
    Create lv_class int
  | On int obj_call
  | Label_get_text int
  | Style_malloc | Style_init int | Style_set int lv_prop lv_value | Report_style_change int
  | Scr_load int | Scr_act
  | Disp_get_default | Theme_default_init int | Disp_set_theme int int
  | Lv_init | Fbdev_create | Display_set_resolution int int int | Fbdev_set_file int string
  | Display_set_rotation int nat | Evdev_discovery_start | Evdev_set_calibration int int int int int
  | Indev_set_group int | Indev_set_display int int | Indev_add_event_cb int
  | Timer_handler | Tick_get | Tick_elaps u32
  | Indev_gesture_dir | Indev_wait_release
  | Gettimeofday
  | Call_rpc string "string option" | Call_indev lv_event_code

record ui_answer =
  l_ptr :: int
  l_text :: string
  l_tick :: u32
  l_dir :: lv_dir
  l_ok :: bool
  l_sec :: u64
  l_usec :: u64

section \<open>Global variables\<close>

text \<open>The static variables of a hold action: when it was pressed, whether it has completed, its lock.\<close>

record hold_state =
  start_time :: u32
  completed :: bool
  lock :: bool

datatype hold_id = Hold_reset_config | Hold_reboot | Hold_dhcpc

record ui_state =
  objects :: "string \<Rightarrow> int"
  tick_value_change_obj :: int
  style_ptr :: "style_id \<Rightarrow> int"
  app_version :: "char list"
  system_version :: "char list"
  lvgl_version :: "char list"
  main_screen :: "char list"
  currentScreen :: int
  ui_rpc_handler :: bool
  holds :: "hold_id \<Rightarrow> hold_state"
  disp :: int
  touch_indev :: int
  indev_handler :: bool
  jetkvm_indev_handler :: bool
  rpc_handler :: bool
  current_rotation :: u16
  start_ms :: u64

definition char_array :: "nat \<Rightarrow> string \<Rightarrow> char list" where
  "char_array n s = s @ replicate (n - length s) NUL"

definition init_ui :: ui_state where
  "init_ui = \<lparr>objects = (\<lambda>_. 0), tick_value_change_obj = 0, style_ptr = (\<lambda>_. 0),
     app_version = char_array 100 [], system_version = char_array 100 [], lvgl_version = char_array 32 [],
     main_screen = char_array 32 ''home_screen'', currentScreen = -1, ui_rpc_handler = False,
     holds = (\<lambda>_. \<lparr>start_time = 0, completed = False, lock = False\<rparr>), disp = 0, touch_indev = 0,
     indev_handler = False, jetkvm_indev_handler = False, rpc_handler = False, current_rotation = 270,
     start_ms = 0\<rparr>"

record ui_world = "(ui_call, ui_answer) world" +
  ui :: ui_state

type_synonym ui_env = "(ui_call, ui_answer) env"
type_synonym 'a ui_m = "(ui_world, 'a) state"

definition lv :: "ui_env \<Rightarrow> ui_call \<Rightarrow> ui_answer ui_m" where
  "lv E c = perform E c"

definition lv_do :: "ui_env \<Rightarrow> ui_call \<Rightarrow> unit ui_m" where
  "lv_do E c = do { _ \<leftarrow> lv E c; skip }"

definition get_ui :: "(ui_state \<Rightarrow> 'a) \<Rightarrow> 'a ui_m" where
  "get_ui f = reads (\<lambda>s. f (ui s))"

definition set_ui :: "(ui_state \<Rightarrow> ui_state) \<Rightarrow> unit ui_m" where
  "set_ui f = modify (\<lambda>s. s\<lparr>ui := f (ui s)\<rparr>)"

section \<open>Running\<close>

lemma run_lv [run_simps]:
  "run_state (lv E c) s = (E (trace s) c, s\<lparr>trace := trace s @ [(c, E (trace s) c)]\<rparr>)"
  by (simp add: lv_def run_simps)

lemma run_lv_do [run_simps]:
  "run_state (lv_do E c) s = ((), s\<lparr>trace := trace s @ [(c, E (trace s) c)]\<rparr>)"
  by (simp add: lv_do_def run_simps)

lemma run_get_ui [run_simps]: "run_state (get_ui f) s = (f (ui s), s)"
  by (simp add: get_ui_def run_simps)

lemma run_set_ui [run_simps]: "run_state (set_ui f) s = ((), s\<lparr>ui := f (ui s)\<rparr>)"
  by (simp add: set_ui_def run_simps)

text \<open>The calls a computation appends to the trace.\<close>

definition calls_of :: "('c, 'a, 'z) world_scheme \<Rightarrow> ('c, 'a, 'z) world_scheme \<Rightarrow> 'c list" where
  "calls_of s s' = map fst (drop (length (trace s)) (trace s'))"

end
