(* ===== verification/Styles.thy ===== *)
theory Styles
  imports Lvgl
begin

text \<open>
  The styles of \<open>styles.c\<close>: each is allocated and filled in on first use, kept in a static pointer and
  shared by every object it is added to.
\<close>

section \<open>Filling in a style\<close>

definition init_style_flex_column_space_between :: "ui_env \<Rightarrow> int \<Rightarrow> unit ui_m" where
  "init_style_flex_column_space_between E style = do {
     lv_do E (Style_set style Flex_flow (Const LV_FLEX_FLOW_COLUMN));
     lv_do E (Style_set style Flex_main_place (Const LV_FLEX_ALIGN_SPACE_BETWEEN));
     lv_do E (Style_set style Flex_cross_place (Const LV_FLEX_ALIGN_START));
     lv_do E (Style_set style Flex_track_place (Const LV_FLEX_ALIGN_START));
     lv_do E (Style_set style Text_align (Const LV_TEXT_ALIGN_CENTER))
   }"

definition init_style_flex_center :: "ui_env \<Rightarrow> int \<Rightarrow> unit ui_m" where
  "init_style_flex_center E style = do {
     lv_do E (Style_set style Layout (Const LV_LAYOUT_FLEX));
     lv_do E (Style_set style Flex_flow (Const LV_FLEX_FLOW_COLUMN));
     lv_do E (Style_set style Flex_main_place (Const LV_FLEX_ALIGN_CENTER));
     lv_do E (Style_set style Flex_cross_place (Const LV_FLEX_ALIGN_CENTER));
     lv_do E (Style_set style Flex_track_place (Const LV_FLEX_ALIGN_CENTER))
   }"

definition init_style_flex_start :: "ui_env \<Rightarrow> int \<Rightarrow> unit ui_m" where
  "init_style_flex_start E style = do {
     init_style_flex_center E style;
     lv_do E (Style_set style Layout (Const LV_LAYOUT_FLEX));
     lv_do E (Style_set style Flex_flow (Const LV_FLEX_FLOW_COLUMN));
     lv_do E (Style_set style Flex_main_place (Const LV_FLEX_ALIGN_START));
     lv_do E (Style_set style Flex_cross_place (Const LV_FLEX_ALIGN_START));
     lv_do E (Style_set style Flex_track_place (Const LV_FLEX_ALIGN_START))
   }"

definition init_style_flow_row_space_between :: "ui_env \<Rightarrow> int \<Rightarrow> unit ui_m" where
  "init_style_flow_row_space_between E style = do {
     init_style_flex_center E style;
     lv_do E (Style_set style Layout (Const LV_LAYOUT_FLEX));
     lv_do E (Style_set style Flex_flow (Const LV_FLEX_FLOW_ROW));
     lv_do E (Style_set style Flex_main_place (Const LV_FLEX_ALIGN_SPACE_BETWEEN));
     lv_do E (Style_set style Flex_cross_place (Const LV_FLEX_ALIGN_CENTER));
     lv_do E (Style_set style Flex_track_place (Const LV_FLEX_ALIGN_START))
   }"

definition init_style_flow_row_start_center :: "ui_env \<Rightarrow> int \<Rightarrow> unit ui_m" where
  "init_style_flow_row_start_center E style = do {
     init_style_flow_row_space_between E style;
     lv_do E (Style_set style Layout (Const LV_LAYOUT_FLEX));
     lv_do E (Style_set style Flex_flow (Const LV_FLEX_FLOW_ROW));
     lv_do E (Style_set style Flex_main_place (Const LV_FLEX_ALIGN_START));
     lv_do E (Style_set style Flex_cross_place (Const LV_FLEX_ALIGN_CENTER));
     lv_do E (Style_set style Flex_track_place (Const LV_FLEX_ALIGN_START))
   }"

definition init_style_flex_column_start :: "ui_env \<Rightarrow> int \<Rightarrow> unit ui_m" where
  "init_style_flex_column_start E style = do {
     init_style_flow_row_space_between E style;
     lv_do E (Style_set style Layout (Const LV_LAYOUT_FLEX));
     lv_do E (Style_set style Flex_flow (Const LV_FLEX_FLOW_COLUMN));
     lv_do E (Style_set style Flex_main_place (Const LV_FLEX_ALIGN_START));
     lv_do E (Style_set style Flex_cross_place (Const LV_FLEX_ALIGN_START));
     lv_do E (Style_set style Flex_track_place (Const LV_FLEX_ALIGN_START))
   }"

definition init_style_flex_screen :: "ui_env \<Rightarrow> int \<Rightarrow> unit ui_m" where
  "init_style_flex_screen E style = do {
     lv_do E (Style_set style Pad_top (Num 24));
     lv_do E (Style_set style Pad_bottom (Num 24));
     lv_do E (Style_set style Pad_left (Num 44));
     lv_do E (Style_set style Pad_right (Num 24));
     lv_do E (Style_set style Pad_row (Num 16));
     lv_do E (Style_set style Layout (Const LV_LAYOUT_FLEX));
     lv_do E (Style_set style Flex_flow (Const LV_FLEX_FLOW_COLUMN));
     lv_do E (Style_set style Flex_main_place (Const LV_FLEX_ALIGN_START));
     lv_do E (Style_set style Flex_cross_place (Const LV_FLEX_ALIGN_START));
     lv_do E (Style_set style Flex_track_place (Const LV_FLEX_ALIGN_START));
     lv_do E (Style_set style Bg_color (Color 0xff000000))
   }"

definition init_style_flex_screen_menu :: "ui_env \<Rightarrow> int \<Rightarrow> unit ui_m" where
  "init_style_flex_screen_menu E style = do {
     init_style_flex_screen E style
   }"

definition init_style_label_font16 :: "ui_env \<Rightarrow> int \<Rightarrow> unit ui_m" where
  "init_style_label_font16 E style = do {
     lv_do E (Style_set style Text_align (Const LV_TEXT_ALIGN_CENTER));
     lv_do E (Style_set style Text_font (Font ''ui_font_font_book16''));
     lv_do E (Style_set style Text_color (Color 0xffffffff))
   }"

definition init_style_label_font_bold30 :: "ui_env \<Rightarrow> int \<Rightarrow> unit ui_m" where
  "init_style_label_font_bold30 E style = do {
     init_style_label_font16 E style;
     lv_do E (Style_set style Text_font (Font ''ui_font_font_bold30''))
   }"

definition init_style_header_link :: "ui_env \<Rightarrow> int \<Rightarrow> unit ui_m" where
  "init_style_header_link E style = do {
     init_style_label_font16 E style;
     lv_do E (Style_set style Text_color (Color 0xff1d4ed8));
     lv_do E (Style_set style Text_opa (Num 255));
     lv_do E (Style_set style Text_font (Font ''ui_font_font_book20''));
     lv_do E (Style_set style Text_align (Const LV_TEXT_ALIGN_CENTER))
   }"

definition init_style_menu_button :: "ui_env \<Rightarrow> int \<Rightarrow> unit ui_m" where
  "init_style_menu_button E style = do {
     lv_do E (Style_set style Radius (Num 8));
     lv_do E (Style_set style Bg_color (Color 0xff262626));
     lv_do E (Style_set style Bg_opa (Num 255));
     lv_do E (Style_set style Pad_top (Num 20));
     lv_do E (Style_set style Pad_bottom (Num 20));
     lv_do E (Style_set style Pad_left (Num 16));
     lv_do E (Style_set style Pad_right (Num 0));
     lv_do E (Style_set style Shadow_width (Num 0))
   }"

definition init_style_menu_button_label :: "ui_env \<Rightarrow> int \<Rightarrow> unit ui_m" where
  "init_style_menu_button_label E style = do {
     lv_do E (Style_set style Align (Const LV_ALIGN_LEFT_MID));
     lv_do E (Style_set style Text_font (Font ''ui_font_font_book20''));
     lv_do E (Style_set style Text_color (Color 0xffffffff));
     lv_do E (Style_set style Text_opa (Num 255))
   }"

definition init_style_info_headline_label :: "ui_env \<Rightarrow> int \<Rightarrow> unit ui_m" where
  "init_style_info_headline_label E style = do {
     lv_do E (Style_set style Text_color (Color 0xff94a3b8));
     lv_do E (Style_set style Text_font (Font ''ui_font_font_book20''))
   }"

definition init_style_info_content_label :: "ui_env \<Rightarrow> int \<Rightarrow> unit ui_m" where
  "init_style_info_content_label E style = do {
     lv_do E (Style_set style Text_font (Font ''ui_font_font_book18''));
     lv_do E (Style_set style Text_color (Color 0xffffffff))
   }"

definition init_style_back_button :: "ui_env \<Rightarrow> int \<Rightarrow> unit ui_m" where
  "init_style_back_button E style = do {
     lv_do E (Style_set style Bg_color (Color 0xff262626));
     lv_do E (Style_set style Bg_opa (Num 255));
     lv_do E (Style_set style Radius (Num 10000));
     lv_do E (Style_set style Shadow_width (Num 0))
   }"

section \<open>Using a style\<close>

text \<open>
  Every style has a getter, which allocates and fills it in on first use, and functions that add it to an
  object and remove it. The body of the getters is \<open>lazy_style\<close>.
\<close>

definition lazy_style :: "style_id \<Rightarrow> (ui_env \<Rightarrow> int \<Rightarrow> unit ui_m) \<Rightarrow> ui_env \<Rightarrow> int ui_m" where
  "lazy_style st init E = do {
     style \<leftarrow> get_ui (\<lambda>u. style_ptr u st);
     (if style = 0 then do {
        r \<leftarrow> lv E Style_malloc;
        set_ui (\<lambda>u. u\<lparr>style_ptr := (style_ptr u)(st := l_ptr r)\<rparr>);
        lv_do E (Style_init (l_ptr r));
        init E (l_ptr r)
      } else skip);
     get_ui (\<lambda>u. style_ptr u st)
   }"

definition get_style_flex_column_space_between :: "ui_env \<Rightarrow> int ui_m" where
  "get_style_flex_column_space_between = lazy_style Flex_column_space_between init_style_flex_column_space_between"

definition add_style_flex_column_space_between :: "ui_env \<Rightarrow> int \<Rightarrow> unit ui_m" where
  "add_style_flex_column_space_between E obj = do {
     style \<leftarrow> get_style_flex_column_space_between E;
     lv_do E (On obj (Obj_add_style style))
   }"

definition remove_style_flex_column_space_between :: "ui_env \<Rightarrow> int \<Rightarrow> unit ui_m" where
  "remove_style_flex_column_space_between E obj = do {
     style \<leftarrow> get_style_flex_column_space_between E;
     lv_do E (On obj (Obj_remove_style style))
   }"

definition get_style_flex_center :: "ui_env \<Rightarrow> int ui_m" where
  "get_style_flex_center = lazy_style Flex_center init_style_flex_center"

definition add_style_flex_center :: "ui_env \<Rightarrow> int \<Rightarrow> unit ui_m" where
  "add_style_flex_center E obj = do {
     style \<leftarrow> get_style_flex_center E;
     lv_do E (On obj (Obj_add_style style))
   }"

definition remove_style_flex_center :: "ui_env \<Rightarrow> int \<Rightarrow> unit ui_m" where
  "remove_style_flex_center E obj = do {
     style \<leftarrow> get_style_flex_center E;
     lv_do E (On obj (Obj_remove_style style))
   }"

definition get_style_flex_start :: "ui_env \<Rightarrow> int ui_m" where
  "get_style_flex_start = lazy_style Flex_start init_style_flex_start"

definition add_style_flex_start :: "ui_env \<Rightarrow> int \<Rightarrow> unit ui_m" where
  "add_style_flex_start E obj = do {
     style \<leftarrow> get_style_flex_start E;
     lv_do E (On obj (Obj_add_style style))
   }"

definition remove_style_flex_start :: "ui_env \<Rightarrow> int \<Rightarrow> unit ui_m" where
  "remove_style_flex_start E obj = do {
     style \<leftarrow> get_style_flex_start E;
     lv_do E (On obj (Obj_remove_style style))
   }"

definition get_style_flow_row_space_between :: "ui_env \<Rightarrow> int ui_m" where
  "get_style_flow_row_space_between = lazy_style Flow_row_space_between init_style_flow_row_space_between"

definition add_style_flow_row_space_between :: "ui_env \<Rightarrow> int \<Rightarrow> unit ui_m" where
  "add_style_flow_row_space_between E obj = do {
     style \<leftarrow> get_style_flow_row_space_between E;
     lv_do E (On obj (Obj_add_style style))
   }"

definition remove_style_flow_row_space_between :: "ui_env \<Rightarrow> int \<Rightarrow> unit ui_m" where
  "remove_style_flow_row_space_between E obj = do {
     style \<leftarrow> get_style_flow_row_space_between E;
     lv_do E (On obj (Obj_remove_style style))
   }"

definition get_style_flow_row_start_center :: "ui_env \<Rightarrow> int ui_m" where
  "get_style_flow_row_start_center = lazy_style Flow_row_start_center init_style_flow_row_start_center"

definition add_style_flow_row_start_center :: "ui_env \<Rightarrow> int \<Rightarrow> unit ui_m" where
  "add_style_flow_row_start_center E obj = do {
     style \<leftarrow> get_style_flow_row_start_center E;
     lv_do E (On obj (Obj_add_style style))
   }"

definition remove_style_flow_row_start_center :: "ui_env \<Rightarrow> int \<Rightarrow> unit ui_m" where
  "remove_style_flow_row_start_center E obj = do {
     style \<leftarrow> get_style_flow_row_start_center E;
     lv_do E (On obj (Obj_remove_style style))
   }"

definition get_style_flex_column_start :: "ui_env \<Rightarrow> int ui_m" where
  "get_style_flex_column_start = lazy_style Flex_column_start init_style_flex_column_start"

definition add_style_flex_column_start :: "ui_env \<Rightarrow> int \<Rightarrow> unit ui_m" where
  "add_style_flex_column_start E obj = do {
     style \<leftarrow> get_style_flex_column_start E;
     lv_do E (On obj (Obj_add_style style))
   }"

definition remove_style_flex_column_start :: "ui_env \<Rightarrow> int \<Rightarrow> unit ui_m" where
  "remove_style_flex_column_start E obj = do {
     style \<leftarrow> get_style_flex_column_start E;
     lv_do E (On obj (Obj_remove_style style))
   }"

definition get_style_flex_screen :: "ui_env \<Rightarrow> int ui_m" where
  "get_style_flex_screen = lazy_style Flex_screen init_style_flex_screen"

definition add_style_flex_screen :: "ui_env \<Rightarrow> int \<Rightarrow> unit ui_m" where
  "add_style_flex_screen E obj = do {
     style \<leftarrow> get_style_flex_screen E;
     lv_do E (On obj (Obj_add_style style))
   }"

definition remove_style_flex_screen :: "ui_env \<Rightarrow> int \<Rightarrow> unit ui_m" where
  "remove_style_flex_screen E obj = do {
     style \<leftarrow> get_style_flex_screen E;
     lv_do E (On obj (Obj_remove_style style))
   }"

definition get_style_flex_screen_menu :: "ui_env \<Rightarrow> int ui_m" where
  "get_style_flex_screen_menu = lazy_style Flex_screen_menu init_style_flex_screen_menu"

definition add_style_flex_screen_menu :: "ui_env \<Rightarrow> int \<Rightarrow> unit ui_m" where
  "add_style_flex_screen_menu E obj = do {
     style \<leftarrow> get_style_flex_screen_menu E;
     lv_do E (On obj (Obj_add_style style))
   }"

definition remove_style_flex_screen_menu :: "ui_env \<Rightarrow> int \<Rightarrow> unit ui_m" where
  "remove_style_flex_screen_menu E obj = do {
     style \<leftarrow> get_style_flex_screen_menu E;
     lv_do E (On obj (Obj_remove_style style))
   }"

definition get_style_label_font16 :: "ui_env \<Rightarrow> int ui_m" where
  "get_style_label_font16 = lazy_style Label_font16 init_style_label_font16"

definition add_style_label_font16 :: "ui_env \<Rightarrow> int \<Rightarrow> unit ui_m" where
  "add_style_label_font16 E obj = do {
     style \<leftarrow> get_style_label_font16 E;
     lv_do E (On obj (Obj_add_style style))
   }"

definition remove_style_label_font16 :: "ui_env \<Rightarrow> int \<Rightarrow> unit ui_m" where
  "remove_style_label_font16 E obj = do {
     style \<leftarrow> get_style_label_font16 E;
     lv_do E (On obj (Obj_remove_style style))
   }"

definition get_style_label_font_bold30 :: "ui_env \<Rightarrow> int ui_m" where
  "get_style_label_font_bold30 = lazy_style Label_font_bold30 init_style_label_font_bold30"

definition add_style_label_font_bold30 :: "ui_env \<Rightarrow> int \<Rightarrow> unit ui_m" where
  "add_style_label_font_bold30 E obj = do {
     style \<leftarrow> get_style_label_font_bold30 E;
     lv_do E (On obj (Obj_add_style style))
   }"

definition remove_style_label_font_bold30 :: "ui_env \<Rightarrow> int \<Rightarrow> unit ui_m" where
  "remove_style_label_font_bold30 E obj = do {
     style \<leftarrow> get_style_label_font_bold30 E;
     lv_do E (On obj (Obj_remove_style style))
   }"

definition get_style_header_link :: "ui_env \<Rightarrow> int ui_m" where
  "get_style_header_link = lazy_style Header_link init_style_header_link"

definition add_style_header_link :: "ui_env \<Rightarrow> int \<Rightarrow> unit ui_m" where
  "add_style_header_link E obj = do {
     style \<leftarrow> get_style_header_link E;
     lv_do E (On obj (Obj_add_style style))
   }"

definition remove_style_header_link :: "ui_env \<Rightarrow> int \<Rightarrow> unit ui_m" where
  "remove_style_header_link E obj = do {
     style \<leftarrow> get_style_header_link E;
     lv_do E (On obj (Obj_remove_style style))
   }"

definition get_style_menu_button :: "ui_env \<Rightarrow> int ui_m" where
  "get_style_menu_button = lazy_style Menu_button init_style_menu_button"

definition add_style_menu_button :: "ui_env \<Rightarrow> int \<Rightarrow> unit ui_m" where
  "add_style_menu_button E obj = do {
     style \<leftarrow> get_style_menu_button E;
     lv_do E (On obj (Obj_add_style style))
   }"

definition remove_style_menu_button :: "ui_env \<Rightarrow> int \<Rightarrow> unit ui_m" where
  "remove_style_menu_button E obj = do {
     style \<leftarrow> get_style_menu_button E;
     lv_do E (On obj (Obj_remove_style style))
   }"

definition get_style_menu_button_label :: "ui_env \<Rightarrow> int ui_m" where
  "get_style_menu_button_label = lazy_style Menu_button_label init_style_menu_button_label"

definition add_style_menu_button_label :: "ui_env \<Rightarrow> int \<Rightarrow> unit ui_m" where
  "add_style_menu_button_label E obj = do {
     style \<leftarrow> get_style_menu_button_label E;
     lv_do E (On obj (Obj_add_style style))
   }"

definition remove_style_menu_button_label :: "ui_env \<Rightarrow> int \<Rightarrow> unit ui_m" where
  "remove_style_menu_button_label E obj = do {
     style \<leftarrow> get_style_menu_button_label E;
     lv_do E (On obj (Obj_remove_style style))
   }"

definition get_style_info_headline_label :: "ui_env \<Rightarrow> int ui_m" where
  "get_style_info_headline_label = lazy_style Info_headline_label init_style_info_headline_label"

definition add_style_info_headline_label :: "ui_env \<Rightarrow> int \<Rightarrow> unit ui_m" where
  "add_style_info_headline_label E obj = do {
     style \<leftarrow> get_style_info_headline_label E;
     lv_do E (On obj (Obj_add_style style))
   }"

definition remove_style_info_headline_label :: "ui_env \<Rightarrow> int \<Rightarrow> unit ui_m" where
  "remove_style_info_headline_label E obj = do {
     style \<leftarrow> get_style_info_headline_label E;
     lv_do E (On obj (Obj_remove_style style))
   }"

definition get_style_info_content_label :: "ui_env \<Rightarrow> int ui_m" where
  "get_style_info_content_label = lazy_style Info_content_label init_style_info_content_label"

definition add_style_info_content_label :: "ui_env \<Rightarrow> int \<Rightarrow> unit ui_m" where
  "add_style_info_content_label E obj = do {
     style \<leftarrow> get_style_info_content_label E;
     lv_do E (On obj (Obj_add_style style))
   }"

definition remove_style_info_content_label :: "ui_env \<Rightarrow> int \<Rightarrow> unit ui_m" where
  "remove_style_info_content_label E obj = do {
     style \<leftarrow> get_style_info_content_label E;
     lv_do E (On obj (Obj_remove_style style))
   }"

definition get_style_back_button :: "ui_env \<Rightarrow> int ui_m" where
  "get_style_back_button = lazy_style Back_button init_style_back_button"

definition add_style_back_button :: "ui_env \<Rightarrow> int \<Rightarrow> unit ui_m" where
  "add_style_back_button E obj = do {
     style \<leftarrow> get_style_back_button E;
     lv_do E (On obj (Obj_add_style style))
   }"

definition remove_style_back_button :: "ui_env \<Rightarrow> int \<Rightarrow> unit ui_m" where
  "remove_style_back_button E obj = do {
     style \<leftarrow> get_style_back_button E;
     lv_do E (On obj (Obj_remove_style style))
   }"

text \<open>The functions of a style, by the identifier the widget trees use.\<close>

fun init_style :: "style_id \<Rightarrow> ui_env \<Rightarrow> int \<Rightarrow> unit ui_m" where
  "init_style Flex_column_space_between = init_style_flex_column_space_between"
| "init_style Flex_center = init_style_flex_center"
| "init_style Flex_start = init_style_flex_start"
| "init_style Flow_row_space_between = init_style_flow_row_space_between"
| "init_style Flow_row_start_center = init_style_flow_row_start_center"
| "init_style Flex_column_start = init_style_flex_column_start"
| "init_style Flex_screen = init_style_flex_screen"
| "init_style Flex_screen_menu = init_style_flex_screen_menu"
| "init_style Label_font16 = init_style_label_font16"
| "init_style Label_font_bold30 = init_style_label_font_bold30"
| "init_style Header_link = init_style_header_link"
| "init_style Menu_button = init_style_menu_button"
| "init_style Menu_button_label = init_style_menu_button_label"
| "init_style Info_headline_label = init_style_info_headline_label"
| "init_style Info_content_label = init_style_info_content_label"
| "init_style Back_button = init_style_back_button"

fun get_style :: "style_id \<Rightarrow> ui_env \<Rightarrow> int ui_m" where
  "get_style Flex_column_space_between = get_style_flex_column_space_between"
| "get_style Flex_center = get_style_flex_center"
| "get_style Flex_start = get_style_flex_start"
| "get_style Flow_row_space_between = get_style_flow_row_space_between"
| "get_style Flow_row_start_center = get_style_flow_row_start_center"
| "get_style Flex_column_start = get_style_flex_column_start"
| "get_style Flex_screen = get_style_flex_screen"
| "get_style Flex_screen_menu = get_style_flex_screen_menu"
| "get_style Label_font16 = get_style_label_font16"
| "get_style Label_font_bold30 = get_style_label_font_bold30"
| "get_style Header_link = get_style_header_link"
| "get_style Menu_button = get_style_menu_button"
| "get_style Menu_button_label = get_style_menu_button_label"
| "get_style Info_headline_label = get_style_info_headline_label"
| "get_style Info_content_label = get_style_info_content_label"
| "get_style Back_button = get_style_back_button"

fun add_style_to :: "style_id \<Rightarrow> ui_env \<Rightarrow> int \<Rightarrow> unit ui_m" where
  "add_style_to Flex_column_space_between = add_style_flex_column_space_between"
| "add_style_to Flex_center = add_style_flex_center"
| "add_style_to Flex_start = add_style_flex_start"
| "add_style_to Flow_row_space_between = add_style_flow_row_space_between"
| "add_style_to Flow_row_start_center = add_style_flow_row_start_center"
| "add_style_to Flex_column_start = add_style_flex_column_start"
| "add_style_to Flex_screen = add_style_flex_screen"
| "add_style_to Flex_screen_menu = add_style_flex_screen_menu"
| "add_style_to Label_font16 = add_style_label_font16"
| "add_style_to Label_font_bold30 = add_style_label_font_bold30"
| "add_style_to Header_link = add_style_header_link"
| "add_style_to Menu_button = add_style_menu_button"
| "add_style_to Menu_button_label = add_style_menu_button_label"
| "add_style_to Info_headline_label = add_style_info_headline_label"
| "add_style_to Info_content_label = add_style_info_content_label"
| "add_style_to Back_button = add_style_back_button"

text \<open>The function tables of \<open>add_style\<close> and \<open>remove_style\<close>; an index outside them is undefined.\<close>

definition add_style_funcs :: "(ui_env \<Rightarrow> int \<Rightarrow> unit ui_m) list" where
  "add_style_funcs = [add_style_flex_column_space_between, add_style_flex_center, add_style_flex_start,
     add_style_flow_row_space_between, add_style_flow_row_start_center, add_style_flex_column_start,
     add_style_flex_screen, add_style_flex_screen_menu, add_style_label_font16, add_style_label_font_bold30,
     add_style_header_link, add_style_menu_button, add_style_menu_button_label,
     add_style_info_headline_label, add_style_info_content_label, add_style_back_button]"

definition remove_style_funcs :: "(ui_env \<Rightarrow> int \<Rightarrow> unit ui_m) list" where
  "remove_style_funcs = [remove_style_flex_column_space_between, remove_style_flex_center,
     remove_style_flex_start, remove_style_flow_row_space_between, remove_style_flow_row_start_center,
     remove_style_flex_column_start, remove_style_flex_screen, remove_style_flex_screen_menu,
     remove_style_label_font16, remove_style_label_font_bold30, remove_style_header_link,
     remove_style_menu_button, remove_style_menu_button_label, remove_style_info_headline_label,
     remove_style_info_content_label, remove_style_back_button]"

definition add_style :: "ui_env \<Rightarrow> int \<Rightarrow> int \<Rightarrow> unit ui_m option" where
  "add_style E obj styleIndex =
     (if 0 \<le> styleIndex \<and> nat styleIndex < length add_style_funcs
      then Some ((add_style_funcs ! nat styleIndex) E obj) else None)"

definition remove_style :: "ui_env \<Rightarrow> int \<Rightarrow> int \<Rightarrow> unit ui_m option" where
  "remove_style E obj styleIndex =
     (if 0 \<le> styleIndex \<and> nat styleIndex < length remove_style_funcs
      then Some ((remove_style_funcs ! nat styleIndex) E obj) else None)"

section \<open>Facts\<close>

text \<open>The styles in the order of \<open>styles.h\<close> and of the tables.\<close>

definition style_order :: "style_id list" where
  "style_order = [Flex_column_space_between, Flex_center, Flex_start, Flow_row_space_between, Flow_row_start_center, 
     Flex_column_start, Flex_screen, Flex_screen_menu, Label_font16, Label_font_bold30, Header_link, Menu_button, Menu_button_label, 
     Info_headline_label, Info_content_label, Back_button]"

lemma style_order_all: "set style_order = UNIV" "distinct style_order"
proof -
  show "set style_order = UNIV"
    unfolding style_order_def by (auto intro: style_id.exhaust)
qed (simp add: style_order_def)

lemma add_style_funcs_eq: "add_style_funcs = map add_style_to style_order"
  by (simp add: add_style_funcs_def style_order_def)

lemmas style_get_defs = get_style_flex_column_space_between_def get_style_flex_center_def get_style_flex_start_def
  get_style_flow_row_space_between_def get_style_flow_row_start_center_def get_style_flex_column_start_def
  get_style_flex_screen_def get_style_flex_screen_menu_def get_style_label_font16_def
  get_style_label_font_bold30_def get_style_header_link_def get_style_menu_button_def
  get_style_menu_button_label_def get_style_info_headline_label_def get_style_info_content_label_def
  get_style_back_button_def

lemmas style_add_defs = add_style_flex_column_space_between_def add_style_flex_center_def add_style_flex_start_def
  add_style_flow_row_space_between_def add_style_flow_row_start_center_def add_style_flex_column_start_def
  add_style_flex_screen_def add_style_flex_screen_menu_def add_style_label_font16_def
  add_style_label_font_bold30_def add_style_header_link_def add_style_menu_button_def
  add_style_menu_button_label_def add_style_info_headline_label_def add_style_info_content_label_def
  add_style_back_button_def

lemmas style_fill_defs = init_style_flex_column_space_between_def init_style_flex_center_def init_style_flex_start_def
  init_style_flow_row_space_between_def init_style_flow_row_start_center_def init_style_flex_column_start_def
  init_style_flex_screen_def init_style_flex_screen_menu_def init_style_label_font16_def
  init_style_label_font_bold30_def init_style_header_link_def init_style_menu_button_def
  init_style_menu_button_label_def init_style_info_headline_label_def init_style_info_content_label_def
  init_style_back_button_def

lemma get_style_eq: "get_style st = lazy_style st (init_style st)"
  by (cases st) (simp_all add: style_get_defs fun_eq_iff)

lemma add_style_eq:
  "add_style_to st E obj = do { style \<leftarrow> get_style st E; lv_do E (On obj (Obj_add_style style)) }"
  by (cases st) (simp_all add: style_add_defs)

text \<open>Filling in a style only calls LVGL on it.\<close>

lemma keeps_init_style:
  assumes "\<And>prop v. keeps A (lv_do E (Style_set p prop v))"
  shows "keeps A (init_style st E p)"
  by (cases st) (simp_all add: style_fill_defs, (intro keeps_intros assms)+)

lemma keeps_ui_call [keeps_intros]: "keeps ui (lv_do E c)" "keeps ui (lv E c)"
  by (simp_all add: keeps_def run_simps)

lemma keeps_get_ui [keeps_intros]: "keeps A (get_ui f)"
  by (simp add: keeps_def run_simps)

lemma run_init_style: "run_state (init_style st E p) s = (x, s') \<Longrightarrow> ui s' = ui s"
  by (rule keepsD [OF keeps_init_style]) (rule keeps_intros)

text \<open>What a style access leaves: only the pointer of that style can have changed.\<close>

lemma get_style_effect:
  assumes "run_state (get_style st E) s = (p, s')"
  shows "ui s' = (ui s)\<lparr>style_ptr := (style_ptr (ui s))(st := p)\<rparr>"
proof (cases "style_ptr (ui s) st = 0")
  case False
  with assms show ?thesis
    by (auto simp: get_style_eq lazy_style_def run_get_ui run_skip)
next
  case True
  let ?r = "E (trace s) Style_malloc"
  let ?t = "snd (run_state (lv_do E (Style_init (l_ptr ?r))) (s\<lparr>trace := trace s @ [(Style_malloc, ?r)],
    ui := (ui s)\<lparr>style_ptr := (style_ptr (ui s))(st := l_ptr ?r)\<rparr>\<rparr>))"
  have t: "ui ?t = (ui s)\<lparr>style_ptr := (style_ptr (ui s))(st := l_ptr ?r)\<rparr>"
    by (simp add: run_lv_do)
  from assms True obtain x where x: "run_state (init_style st E (l_ptr ?r)) ?t = (x, s')"
      and "p = style_ptr (ui s') st"
    by (auto simp: get_style_eq lazy_style_def run_get_ui run_lv run_lv_do run_set_ui split: prod.splits)
  with t run_init_style [OF x] show ?thesis
    by simp
qed

text \<open>A style access is built from calls on styles and the store of its pointer.\<close>

lemma keeps_get_style:
  assumes "\<And>c. keeps A (lv E c)" and "\<And>c. keeps A (lv_do E c)"
    and "\<And>p. keeps A (set_ui (\<lambda>u. u\<lparr>style_ptr := (style_ptr u)(st := p)\<rparr>))"
  shows "keeps A (get_style st E)"
  unfolding get_style_eq lazy_style_def by (intro keeps_intros keeps_init_style assms)

section \<open>Styles are allocated once\<close>

text \<open>The allocations of a trace, and the styles not allocated yet.\<close>

definition style_allocs :: "(ui_call \<times> ui_answer) list \<Rightarrow> nat" where
  "style_allocs tr = length (filter (\<lambda>e. fst e = Style_malloc) tr)"

definition unallocated :: "ui_state \<Rightarrow> nat" where
  "unallocated u = length (filter (\<lambda>st. style_ptr u st = 0) style_order)"

definition style_account :: "ui_world \<Rightarrow> nat" where
  "style_account s = style_allocs (trace s) + unallocated (ui s)"

lemma style_allocs_simps [simp]:
  "style_allocs [] = 0" "style_allocs (tr @ tr') = style_allocs tr + style_allocs tr'"
  "style_allocs (e # tr) = (if fst e = Style_malloc then 1 else 0) + style_allocs tr"
  by (simp_all add: style_allocs_def)

lemma unallocated_set:
  assumes "p \<noteq> 0" and "style_ptr u st = 0"
  shows "unallocated u = Suc (unallocated (u\<lparr>style_ptr := (style_ptr u)(st := p)\<rparr>))"
proof -
  obtain xs ys where order: "style_order = xs @ st # ys"
    using style_order_all(1) by (metis UNIV_I split_list)
  have "distinct (xs @ st # ys)"
    using style_order_all(2) by (simp only: order)
  then have "st \<notin> set xs" "st \<notin> set ys"
    by auto
  then have "filter (\<lambda>st'. (if st' = st then p else style_ptr u st') = 0) zs = filter (\<lambda>st'. style_ptr u st' = 0) zs"
    if "zs = xs \<or> zs = ys" for zs
    using that by (intro filter_cong) auto
  then show ?thesis
    using assms by (simp add: unallocated_def order)
qed

lemma keeps_account_call: "c \<noteq> Style_malloc \<Longrightarrow> keeps style_account (lv E c)"
    "c \<noteq> Style_malloc \<Longrightarrow> keeps style_account (lv_do E c)"
  by (simp_all add: keeps_def run_simps style_account_def)

lemma keeps_account_set_ui:
  "(\<And>u. style_ptr (f u) = style_ptr u) \<Longrightarrow> keeps style_account (set_ui f)"
  by (simp add: keeps_def run_simps style_account_def unallocated_def)

text \<open>When the allocation succeeds, a style access allocates exactly the styles it sets.\<close>

lemma keeps_account_get_style:
  assumes "\<And>h. l_ptr (E h Style_malloc) \<noteq> 0"
  shows "keeps style_account (get_style st E)"
proof (rule keepsI)
  fix s :: ui_world and p s'
  assume run: "run_state (get_style st E) s = (p, s')"
  show "style_account s' = style_account s"
  proof (cases "style_ptr (ui s) st = 0")
    case False
    with run show ?thesis
      by (auto simp: get_style_eq lazy_style_def run_get_ui run_skip)
  next
    case True
    let ?r = "E (trace s) Style_malloc"
    let ?t = "snd (run_state (lv_do E (Style_init (l_ptr ?r))) (s\<lparr>trace := trace s @ [(Style_malloc, ?r)],
      ui := (ui s)\<lparr>style_ptr := (style_ptr (ui s))(st := l_ptr ?r)\<rparr>\<rparr>))"
    from run True obtain x where "run_state (init_style st E (l_ptr ?r)) ?t = (x, s')"
      by (auto simp: get_style_eq lazy_style_def run_get_ui run_lv run_lv_do run_set_ui split: prod.splits)
    then have "style_account s' = style_account ?t"
      by (intro keepsD [OF keeps_init_style, where s = ?t]) (simp_all add: keeps_account_call)
    also have "\<dots> = style_account s"
      using unallocated_set [OF assms [of "trace s"] True] by (simp add: style_account_def run_lv_do)
    finally show ?thesis .
  qed
qed

lemma keeps_account_add_style:
  assumes "\<And>h. l_ptr (E h Style_malloc) \<noteq> 0"
  shows "keeps style_account (add_style_to st E obj)"
  unfolding add_style_eq by (intro keeps_intros keeps_account_get_style assms keeps_account_call) simp

lemma allocs_bounded: "style_account s' = style_account s \<Longrightarrow> style_allocs (trace s') \<le> style_allocs (trace s) + unallocated (ui s)"
  by (simp add: style_account_def)

lemma unallocated_le: "unallocated u \<le> 16"
  using length_filter_le [of "\<lambda>st. style_ptr u st = 0" style_order] by (simp add: unallocated_def style_order_def)

end
