(* ===== verification/Widgets.thy ===== *)
theory Widgets
  imports Styles
begin

text \<open>
  Widget trees and their creation: every \<open>create_screen\<close> function of \<open>screens.c\<close> creates an object,
  stores its pointer in a field of \<open>objects\<close> (when it has a name), makes its calls and creates
  its children inside it, in this order.
\<close>

datatype attr = Call obj_call | Add_style style_id

datatype widget = Widget lv_class "string option" "attr list" "widget list"

section \<open>Creating a tree\<close>

fun apply_attr :: "ui_env \<Rightarrow> int \<Rightarrow> attr \<Rightarrow> unit ui_m" where
  "apply_attr E obj (Call c) = lv_do E (On obj c)"
| "apply_attr E obj (Add_style st) = add_style_to st E obj"

fun apply_attrs :: "ui_env \<Rightarrow> int \<Rightarrow> attr list \<Rightarrow> unit ui_m" where
  "apply_attrs E obj [] = skip"
| "apply_attrs E obj (a # as) = do { apply_attr E obj a; apply_attrs E obj as }"

definition store_object :: "string option \<Rightarrow> int \<Rightarrow> unit ui_m" where
  "store_object name obj = (case name of
     None \<Rightarrow> skip
   | Some n \<Rightarrow> set_ui (\<lambda>u. u\<lparr>objects := (objects u)(n := obj)\<rparr>))"

fun create_widget :: "ui_env \<Rightarrow> int \<Rightarrow> widget \<Rightarrow> unit ui_m"
and create_widgets :: "ui_env \<Rightarrow> int \<Rightarrow> widget list \<Rightarrow> unit ui_m" where
  "create_widget E parent (Widget cls name as kids) = do {
     r \<leftarrow> lv E (Create cls parent);
     store_object name (l_ptr r);
     apply_attrs E (l_ptr r) as;
     create_widgets E (l_ptr r) kids
   }"
| "create_widgets E parent [] = skip"
| "create_widgets E parent (w # ws) = do { create_widget E parent w; create_widgets E parent ws }"

section \<open>The names of a tree\<close>

definition own_name :: "string option \<Rightarrow> string list" where
  "own_name name = (case name of None \<Rightarrow> [] | Some n \<Rightarrow> [n])"

fun names_of :: "widget \<Rightarrow> string list" and names_of_list :: "widget list \<Rightarrow> string list" where
  "names_of (Widget cls name as kids) = own_name name @ names_of_list kids"
| "names_of_list [] = []"
| "names_of_list (w # ws) = names_of w @ names_of_list ws"

fun root_name :: "widget \<Rightarrow> string list" where
  "root_name (Widget cls name as kids) = own_name name"

fun inner_names :: "widget \<Rightarrow> string list" where
  "inner_names (Widget cls name as kids) = names_of_list kids"

text \<open>The handlers of a tree, with the event and the name of the object they are attached to.\<close>

fun handler_of :: "string option \<Rightarrow> attr \<Rightarrow> (string option \<times> action \<times> lv_event_code) list" where
  "handler_of name (Call (Obj_add_event_cb a ev)) = [(name, a, ev)]"
| "handler_of name _ = []"

fun handlers :: "widget \<Rightarrow> (string option \<times> action \<times> lv_event_code) list"
and handlers_list :: "widget list \<Rightarrow> (string option \<times> action \<times> lv_event_code) list" where
  "handlers (Widget cls name as kids) = concat (map (handler_of name) as) @ handlers_list kids"
| "handlers_list [] = []"
| "handlers_list (w # ws) = handlers w @ handlers_list ws"

section \<open>Creation as a sequence of calls\<close>

text \<open>What creation leaves alone is what its calls leave alone.\<close>

lemma keeps_create_widget:
  assumes "\<And>cls p. keeps A (lv E (Create cls p))" and "\<And>obj c. keeps A (lv_do E (On obj c))"
    and "\<And>st obj. keeps A (add_style_to st E obj)"
    and "\<And>n obj. keeps A (set_ui (\<lambda>u. u\<lparr>objects := (objects u)(n := obj)\<rparr>))"
  shows "keeps A (create_widget E parent w)"
proof -
  have attr: "keeps A (apply_attr E obj a)" for obj a
    by (cases a) (simp_all add: assms)
  have attrs: "keeps A (apply_attrs E obj as)" for obj "as"
    by (induction "as") (simp_all add: keeps_intros attr)
  have store: "keeps A (store_object name obj)" for name obj
    by (simp add: store_object_def assms keeps_intros split: option.split)
  show ?thesis
  proof (induction w arbitrary: parent)
    case (Widget cls name as kids)
    have "keeps A (create_widgets E obj kids)" for obj
      using Widget.IH by (induction kids) (simp_all add: keeps_intros)
    then show ?case
      by (simp add: keeps_intros assms attrs store)
  qed
qed

section \<open>Creation fills in exactly the names\<close>

text \<open>The global variables other than the object and style pointers.\<close>

definition rest_of :: "ui_state \<Rightarrow> ui_state" where
  "rest_of u = u\<lparr>objects := (\<lambda>_. 0), style_ptr := (\<lambda>_. 0)\<rparr>"

definition creates :: "(string \<Rightarrow> bool) \<Rightarrow> 'a ui_m \<Rightarrow> bool" where
  "creates N m \<longleftrightarrow> (\<forall>s r s'. run_state m s = (r, s') \<longrightarrow>
     (\<forall>n. \<not> N n \<longrightarrow> objects (ui s') n = objects (ui s) n) \<and>
     (\<forall>n. N n \<longrightarrow> objects (ui s') n \<noteq> 0) \<and> rest_of (ui s') = rest_of (ui s))"

text \<open>The library never fails to create an object.\<close>

definition creation_succeeds :: "ui_env \<Rightarrow> bool" where
  "creation_succeeds E \<longleftrightarrow> (\<forall>h cls p. l_ptr (E h (Create cls p)) \<noteq> 0)"

lemma creates_bind:
  assumes "creates N m" and "\<And>x. creates N' (f x)"
  shows "creates (\<lambda>n. N n \<or> N' n) (State_Monad.bind m f)"
proof -
  have "(\<forall>n. \<not> (N n \<or> N' n) \<longrightarrow> objects (ui s') n = objects (ui s) n) \<and>
      (\<forall>n. N n \<or> N' n \<longrightarrow> objects (ui s') n \<noteq> 0) \<and> rest_of (ui s') = rest_of (ui s)"
    if "run_state (State_Monad.bind m f) s = (r, s')" for s r s'
  proof -
    obtain x t where "run_state m s = (x, t)" and "run_state (f x) t = (r, s')"
      using \<open>run_state (State_Monad.bind m f) s = (r, s')\<close> by (auto split: prod.splits)
    with assms show ?thesis
      unfolding creates_def by metis
  qed
  then show ?thesis
    by (simp add: creates_def)
qed

lemma creates_none:
  "creates (\<lambda>_. False) skip" "creates (\<lambda>_. False) (lv_do E c)" "creates (\<lambda>_. False) (add_style_to st E obj)"
proof -
  show "creates (\<lambda>_. False) (add_style_to st E obj)"
    by (auto simp: creates_def add_style_eq run_lv_do rest_of_def split: prod.splits
        dest!: get_style_effect)
qed (auto simp: creates_def run_simps)

lemma creates_attrs: "creates (\<lambda>_. False) (apply_attrs E obj as)"
proof (induction "as")
  case (Cons a "as")
  have "creates (\<lambda>_. False) (apply_attr E obj a)"
    by (cases a) (simp_all add: creates_none)
  from creates_bind [OF this Cons] show ?case
    by simp
qed (simp add: creates_none)

lemma creates_store: "obj \<noteq> 0 \<Longrightarrow> creates (\<lambda>n. n \<in> set (own_name name)) (store_object name obj)"
  by (auto simp: creates_def store_object_def own_name_def run_simps rest_of_def split: option.splits)

lemma creates_widgets:
  assumes "\<And>w p. w \<in> set ws \<Longrightarrow> creates (\<lambda>n. n \<in> set (names_of w)) (create_widget E p w)"
  shows "creates (\<lambda>n. n \<in> set (names_of_list ws)) (create_widgets E parent ws)"
  using assms
proof (induction ws)
  case (Cons w ws)
  then have "creates (\<lambda>n. n \<in> set (names_of w)) (create_widget E parent w)"
    and "creates (\<lambda>n. n \<in> set (names_of_list ws)) (create_widgets E parent ws)"
    by simp_all
  from creates_bind [OF this] show ?case by simp
qed (simp add: creates_none)

lemma creates_widget:
  assumes "creation_succeeds E"
  shows "creates (\<lambda>n. n \<in> set (names_of w)) (create_widget E parent w)"
proof (induction w arbitrary: parent)
  case (Widget cls name as kids)
  let ?body = "\<lambda>obj. do { store_object name obj; apply_attrs E obj as; create_widgets E obj kids }"
  have body: "creates (\<lambda>n. n \<in> set (names_of (Widget cls name as kids))) (?body obj)" if "obj \<noteq> 0" for obj
  proof -
    have kids: "creates (\<lambda>n. n \<in> set (names_of_list kids)) (create_widgets E obj kids)"
      by (rule creates_widgets) (rule Widget.IH)
    from creates_bind [OF creates_store [OF that, of name] creates_bind [OF creates_attrs kids]]
    show ?thesis by simp
  qed
  have nz: "l_ptr (E h (Create cls parent)) \<noteq> 0" for h
    using assms by (simp add: creation_succeeds_def)
  show ?case
    unfolding creates_def
  proof (intro allI impI)
    fix s :: ui_world and r s'
    let ?r = "E (trace s) (Create cls parent)"
    assume "run_state (create_widget E parent (Widget cls name as kids)) s = (r, s')"
    then have "run_state (?body (l_ptr ?r)) (s\<lparr>trace := trace s @ [(Create cls parent, ?r)]\<rparr>) = (r, s')"
      by (simp add: run_lv)
    with body [OF nz [of "trace s"]] show
      "(\<forall>n. n \<notin> set (names_of (Widget cls name as kids)) \<longrightarrow> objects (ui s') n = objects (ui s) n) \<and>
       (\<forall>n. n \<in> set (names_of (Widget cls name as kids)) \<longrightarrow> objects (ui s') n \<noteq> 0) \<and>
       rest_of (ui s') = rest_of (ui s)"
      unfolding creates_def by fastforce
  qed
qed

end
