(* ===== verification/Screens_Home.thy ===== *)
theory Screens_Home
  imports Widgets
begin

text \<open>
  The widget trees of \<open>screens.c\<close>: the boot, no-network and home screens. Each tree lists the calls of its
  \<open>create_screen\<close> function in source order; large trees are cut into parts.
\<close>

definition boot_screen_tree :: widget where
  "boot_screen_tree =
    Widget LV_OBJ (Some ''boot_screen'')
      [Call (Obj_set_pos (PX 0) (PX 0)), Call (Obj_set_size (PX 300) (PX 240)),
       Add_style Flex_column_space_between,
       Call (Obj_set_style Bg_color (Color 0xff000000) MAIN_DEFAULT)]
      [
       Widget LV_OBJ None
         [Call (Obj_set_pos (PX 0) (PX 0)), Call (Obj_set_size (LV_PCT 100) (LV_PCT 100)),
          Call (Obj_set_style Pad_left (Num 0) MAIN_DEFAULT),
          Call (Obj_set_style Pad_top (Num 0) MAIN_DEFAULT),
          Call (Obj_set_style Pad_right (Num 0) MAIN_DEFAULT),
          Call (Obj_set_style Pad_bottom (Num 0) MAIN_DEFAULT),
          Call (Obj_set_style Bg_opa (Num 0) MAIN_DEFAULT),
          Call (Obj_set_style Border_width (Num 0) MAIN_DEFAULT),
          Call (Obj_set_style Radius (Num 0) MAIN_DEFAULT), Add_style Flex_start]
         [
          Widget LV_OBJ None
            [Call (Obj_set_pos (PX 0) (PX 0)), Call (Obj_set_size (LV_PCT 100) (LV_PCT 100)),
             Call (Obj_set_style Pad_left (Num 0) MAIN_DEFAULT),
             Call (Obj_set_style Pad_top (Num 0) MAIN_DEFAULT),
             Call (Obj_set_style Pad_right (Num 0) MAIN_DEFAULT),
             Call (Obj_set_style Pad_bottom (Num 0) MAIN_DEFAULT),
             Call (Obj_set_style Bg_opa (Num 0) MAIN_DEFAULT),
             Call (Obj_set_style Border_width (Num 0) MAIN_DEFAULT),
             Call (Obj_set_style Radius (Num 0) MAIN_DEFAULT), Add_style Flex_center]
            [
             Widget LV_IMAGE (Some ''boot_logo'')
               [Call (Obj_set_pos (PX 0) (PX 0)),
                Call (Obj_set_size LV_SIZE_CONTENT LV_SIZE_CONTENT),
                Call (Image_set_src ''img_boot_logo_2''),
                Call (Obj_set_style Transform_width (Num 174) MAIN_DEFAULT),
                Call (Obj_set_style Transform_height (Num 49) MAIN_DEFAULT)]
               [],
             Widget LV_LABEL (Some ''boot_screen_version'')
               [Call (Obj_set_pos (LV_PCT 0) (LV_PCT 0)),
                Call (Obj_set_size LV_SIZE_CONTENT LV_SIZE_CONTENT), Add_style Label_font16,
                Call (Obj_set_style Text_align (Const LV_TEXT_ALIGN_CENTER) MAIN_DEFAULT),
                Call (Obj_set_style Text_font (Font ''ui_font_font_book16'') MAIN_DEFAULT),
                Call (Label_set_text '''')]
               []
            ]
         ]
      ]"

definition no_network_screen_no_network_content_container :: widget where
  "no_network_screen_no_network_content_container =
    Widget LV_OBJ (Some ''no_network_content_container'')
      [Call (Obj_set_pos (PX 0) (PX 20)), Call (Obj_set_size (LV_PCT 100) (LV_PCT 75)),
       Call (Obj_set_style Pad_left (Num 0) MAIN_DEFAULT),
       Call (Obj_set_style Pad_top (Num 0) MAIN_DEFAULT),
       Call (Obj_set_style Pad_right (Num 0) MAIN_DEFAULT),
       Call (Obj_set_style Pad_bottom (Num 0) MAIN_DEFAULT),
       Call (Obj_set_style Bg_opa (Num 0) MAIN_DEFAULT),
       Call (Obj_set_style Border_width (Num 0) MAIN_DEFAULT),
       Call (Obj_set_style Radius (Num 0) MAIN_DEFAULT),
       Call (Obj_clear_flag [LV_OBJ_FLAG_CLICKABLE]), Call Obj_set_scrollbar_off,
       Add_style Flex_column_start,
       Call (Obj_set_style Flex_main_place (Const LV_FLEX_ALIGN_CENTER) MAIN_DEFAULT),
       Call (Obj_set_style Flex_cross_place (Const LV_FLEX_ALIGN_CENTER) MAIN_DEFAULT),
       Call (Obj_set_style Flex_track_place (Const LV_FLEX_ALIGN_CENTER) MAIN_DEFAULT),
       Call (Obj_set_style Margin_top (Num 200) MAIN_CHECKED)]
      [
       Widget LV_IMAGE None
         [Call (Obj_set_pos (PX 227) (PX 50)), Call (Obj_set_size LV_SIZE_CONTENT LV_SIZE_CONTENT),
          Call (Image_set_src ''img_ethernet'')]
         [],
       Widget LV_LABEL (Some ''no_network_title'')
         [Call (Obj_set_pos (LV_PCT 0) (LV_PCT 0)),
          Call (Obj_set_size LV_SIZE_CONTENT LV_SIZE_CONTENT), Add_style Label_font_bold30,
          Call (Label_set_text ''No Network'')]
         [],
       Widget LV_LABEL (Some ''home_info_ipv6_addr_1'')
         [Call (Obj_set_pos (LV_PCT 0) (LV_PCT 0)),
          Call (Obj_set_size LV_SIZE_CONTENT LV_SIZE_CONTENT), Call Label_set_long_mode_dot,
          Add_style Label_font16, Call (Label_set_text ''Connect Ethernet cable'')]
         []
      ]"

definition no_network_screen_tree :: widget where
  "no_network_screen_tree =
    Widget LV_OBJ (Some ''no_network_screen'')
      [Call (Obj_set_pos (PX 0) (PX 0)), Call (Obj_set_size (PX 300) (PX 240)),
       Call (Obj_add_event_cb Switch_to_menu LV_EVENT_LONG_PRESSED),
       Call (Obj_add_event_cb Home_screen_gesture LV_EVENT_GESTURE), Add_style Flex_screen]
      [
       Widget LV_OBJ None
         [Call (Obj_set_pos (PX 0) (PX 0)), Call (Obj_set_size (LV_PCT 100) (LV_PCT 100)),
          Call (Obj_set_style Pad_left (Num 0) MAIN_DEFAULT),
          Call (Obj_set_style Pad_top (Num 0) MAIN_DEFAULT),
          Call (Obj_set_style Pad_right (Num 0) MAIN_DEFAULT),
          Call (Obj_set_style Pad_bottom (Num 0) MAIN_DEFAULT),
          Call (Obj_set_style Bg_opa (Num 0) MAIN_DEFAULT),
          Call (Obj_set_style Border_width (Num 0) MAIN_DEFAULT),
          Call (Obj_set_style Radius (Num 0) MAIN_DEFAULT),
          Call (Obj_clear_flag [LV_OBJ_FLAG_CLICKABLE]), Call Obj_set_scrollbar_off,
          Add_style Flex_start]
         [
          Widget LV_OBJ (Some ''no_network_header_container'')
            [Call (Obj_set_pos (PX 0) (PX 0)), Call (Obj_set_size (LV_PCT 100) LV_SIZE_CONTENT),
             Call (Obj_set_style Pad_left (Num 0) MAIN_DEFAULT),
             Call (Obj_set_style Pad_top (Num 0) MAIN_DEFAULT),
             Call (Obj_set_style Pad_right (Num 0) MAIN_DEFAULT),
             Call (Obj_set_style Pad_bottom (Num 0) MAIN_DEFAULT),
             Call (Obj_set_style Bg_opa (Num 0) MAIN_DEFAULT),
             Call (Obj_set_style Border_width (Num 0) MAIN_DEFAULT),
             Call (Obj_set_style Radius (Num 0) MAIN_DEFAULT),
             Call (Obj_clear_flag [LV_OBJ_FLAG_CLICKABLE]), Add_style Flow_row_space_between]
            [
             Widget LV_IMAGE (Some ''no_network_header_logo'')
               [Call (Obj_set_pos (PX 0) (PX 0)),
                Call (Obj_set_size LV_SIZE_CONTENT LV_SIZE_CONTENT),
                Call (Image_set_src ''img_jetkvm''),
                Call (Obj_set_style Transform_width (Num 174) MAIN_DEFAULT),
                Call (Obj_set_style Transform_height (Num 49) MAIN_DEFAULT)]
               []
            ],
          no_network_screen_no_network_content_container
         ]
      ]"

definition home_screen_home_header_container :: widget where
  "home_screen_home_header_container =
    Widget LV_OBJ (Some ''home_header_container'')
      [Call (Obj_set_pos (PX 0) (PX 0)), Call (Obj_set_size (LV_PCT 100) LV_SIZE_CONTENT),
       Call (Obj_set_style Pad_left (Num 0) MAIN_DEFAULT),
       Call (Obj_set_style Pad_top (Num 0) MAIN_DEFAULT),
       Call (Obj_set_style Pad_right (Num 0) MAIN_DEFAULT),
       Call (Obj_set_style Pad_bottom (Num 0) MAIN_DEFAULT),
       Call (Obj_set_style Bg_opa (Num 0) MAIN_DEFAULT),
       Call (Obj_set_style Border_width (Num 0) MAIN_DEFAULT),
       Call (Obj_set_style Radius (Num 0) MAIN_DEFAULT),
       Call (Obj_clear_flag [LV_OBJ_FLAG_CLICKABLE]), Add_style Flow_row_space_between]
      [
       Widget LV_IMAGE (Some ''home_header_logo'')
         [Call (Obj_set_pos (PX 0) (PX 0)), Call (Obj_set_size LV_SIZE_CONTENT LV_SIZE_CONTENT),
          Call (Image_set_src ''img_jetkvm''),
          Call (Obj_set_style Transform_width (Num 174) MAIN_DEFAULT),
          Call (Obj_set_style Transform_height (Num 49) MAIN_DEFAULT)]
         [],
       Widget LV_OBJ None
         [Call (Obj_set_pos (PX 0) (PX 0)), Call (Obj_set_size LV_SIZE_CONTENT LV_SIZE_CONTENT),
          Call (Obj_set_style Pad_left (Num 0) MAIN_DEFAULT),
          Call (Obj_set_style Pad_top (Num 0) MAIN_DEFAULT),
          Call (Obj_set_style Pad_right (Num 0) MAIN_DEFAULT),
          Call (Obj_set_style Pad_bottom (Num 0) MAIN_DEFAULT),
          Call (Obj_set_style Bg_opa (Num 0) MAIN_DEFAULT),
          Call (Obj_set_style Border_width (Num 0) MAIN_DEFAULT),
          Call (Obj_set_style Radius (Num 0) MAIN_DEFAULT),
          Call (Obj_clear_flag [LV_OBJ_FLAG_CLICKABLE]), Add_style Flow_row_start_center]
         [
          Widget LV_IMAGE (Some ''cloud_status_icon'')
            [Call (Obj_set_pos (PX 0) (PX 0)), Call (Obj_set_size LV_SIZE_CONTENT LV_SIZE_CONTENT),
             Call (Image_set_src ''img_cloud'')]
            [],
          Widget LV_LABEL (Some ''cloud_status_label'')
            [Call (Obj_set_pos (LV_PCT 0) (LV_PCT 0)),
             Call (Obj_set_size LV_SIZE_CONTENT LV_SIZE_CONTENT), Add_style Label_font16,
             Call (Label_set_text ''-1 active'')]
            []
         ]
      ]"

definition home_screen_home_info_container :: widget where
  "home_screen_home_info_container =
    Widget LV_OBJ (Some ''home_info_container'')
      [Call (Obj_set_pos (PX 0) (PX 0)), Call (Obj_set_size (LV_PCT 100) (LV_PCT 47)),
       Call (Obj_set_style Pad_left (Num 0) MAIN_DEFAULT),
       Call (Obj_set_style Pad_top (Num 0) MAIN_DEFAULT),
       Call (Obj_set_style Pad_right (Num 0) MAIN_DEFAULT),
       Call (Obj_set_style Pad_bottom (Num 0) MAIN_DEFAULT),
       Call (Obj_set_style Bg_opa (Num 0) MAIN_DEFAULT),
       Call (Obj_set_style Border_width (Num 0) MAIN_DEFAULT),
       Call (Obj_set_style Radius (Num 0) MAIN_DEFAULT),
       Call (Obj_clear_flag [LV_OBJ_FLAG_CLICKABLE]), Call Obj_set_scrollbar_off,
       Add_style Flex_column_start]
      [
       Widget LV_LABEL (Some ''home_info_ipv4_addr'')
         [Call (Obj_set_pos (LV_PCT 0) (LV_PCT 0)),
          Call (Obj_set_size LV_SIZE_CONTENT LV_SIZE_CONTENT), Add_style Label_font_bold30,
          Call (Label_set_text ''169.254.169.254'')]
         [],
       Widget LV_LABEL (Some ''home_info_ipv6_addr'')
         [Call (Obj_set_pos (LV_PCT 0) (LV_PCT 0)), Call (Obj_set_size (LV_PCT 98) (PX 17)),
          Call Label_set_long_mode_dot, Call (Obj_add_flag [LV_OBJ_FLAG_HIDDEN]),
          Add_style Label_font16,
          Call (Obj_set_style Text_align (Const LV_TEXT_ALIGN_LEFT) MAIN_DEFAULT),
          Call (Label_set_text ''fe80::ffff:ffff:ffff:ffff:ffff:ffff:ffff:ffff'')]
         [],
       Widget LV_LABEL (Some ''home_info_mac_addr'')
         [Call (Obj_set_pos (LV_PCT 0) (LV_PCT 0)),
          Call (Obj_set_size LV_SIZE_CONTENT LV_SIZE_CONTENT), Add_style Label_font16,
          Call (Label_set_text ''01:23:45:67:89:ab'')]
         []
      ]"

definition home_screen_usb_status :: widget where
  "home_screen_usb_status =
    Widget LV_OBJ (Some ''usb_status'')
      [Call (Obj_set_pos (PX 0) (PX 0)), Call (Obj_set_size (LV_PCT 50) LV_SIZE_CONTENT),
       Call (Obj_set_style Pad_left (Num 0) MAIN_DEFAULT),
       Call (Obj_set_style Pad_top (Num 0) MAIN_DEFAULT),
       Call (Obj_set_style Pad_right (Num 0) MAIN_DEFAULT),
       Call (Obj_set_style Pad_bottom (Num 0) MAIN_DEFAULT),
       Call (Obj_set_style Bg_opa (Num 0) MAIN_DEFAULT),
       Call (Obj_set_style Border_width (Num 0) MAIN_DEFAULT),
       Call (Obj_set_style Radius (Num 0) MAIN_DEFAULT),
       Call (Obj_clear_flag [LV_OBJ_FLAG_CLICKABLE]), Add_style Flex_column_start]
      [
       Widget LV_OBJ (Some ''usb_indicator'')
         [Call (Obj_set_pos (PX 0) (PX 0)), Call (Obj_set_size LV_SIZE_CONTENT LV_SIZE_CONTENT),
          Call (Obj_set_style Pad_left (Num 0) MAIN_DEFAULT),
          Call (Obj_set_style Pad_top (Num 0) MAIN_DEFAULT),
          Call (Obj_set_style Pad_right (Num 0) MAIN_DEFAULT),
          Call (Obj_set_style Pad_bottom (Num 0) MAIN_DEFAULT),
          Call (Obj_set_style Bg_opa (Num 0) MAIN_DEFAULT),
          Call (Obj_set_style Border_width (Num 0) MAIN_DEFAULT),
          Call (Obj_set_style Radius (Num 0) MAIN_DEFAULT),
          Call (Obj_clear_flag [LV_OBJ_FLAG_CLICKABLE]), Add_style Flow_row_start_center]
         [
          Widget LV_IMAGE None
            [Call (Obj_set_pos (PX 0) (PX 0)), Call (Obj_set_size LV_SIZE_CONTENT LV_SIZE_CONTENT),
             Call (Image_set_src ''img_usb'')]
            [],
          Widget LV_LABEL None
            [Call (Obj_set_pos (LV_PCT 0) (LV_PCT 0)),
             Call (Obj_set_size LV_SIZE_CONTENT LV_SIZE_CONTENT), Add_style Label_font16,
             Call (Label_set_text ''USB'')]
            []
         ],
       Widget LV_LABEL (Some ''usb_status_label'')
         [Call (Obj_set_pos (LV_PCT 0) (LV_PCT 0)),
          Call (Obj_set_size LV_SIZE_CONTENT LV_SIZE_CONTENT),
          Call (Obj_add_flag [LV_OBJ_FLAG_CHECKABLE]), Add_style Label_font16,
          Call (Obj_set_style Text_color (Color 0xff808080) MAIN_DEFAULT),
          Call (Obj_set_style Text_color (Color 0xff22c55e) MAIN_CHECKED),
          Call (Label_set_text ''Unknown'')]
         []
      ]"

definition home_screen_hdmi_status :: widget where
  "home_screen_hdmi_status =
    Widget LV_OBJ (Some ''hdmi_status'')
      [Call (Obj_set_pos (PX 0) (PX 0)), Call (Obj_set_size (LV_PCT 50) LV_SIZE_CONTENT),
       Call (Obj_set_style Pad_left (Num 0) MAIN_DEFAULT),
       Call (Obj_set_style Pad_top (Num 0) MAIN_DEFAULT),
       Call (Obj_set_style Pad_right (Num 0) MAIN_DEFAULT),
       Call (Obj_set_style Pad_bottom (Num 0) MAIN_DEFAULT),
       Call (Obj_set_style Bg_opa (Num 0) MAIN_DEFAULT),
       Call (Obj_set_style Border_width (Num 0) MAIN_DEFAULT),
       Call (Obj_set_style Radius (Num 0) MAIN_DEFAULT),
       Call (Obj_clear_flag [LV_OBJ_FLAG_CLICKABLE]), Add_style Flex_column_start]
      [
       Widget LV_OBJ (Some ''hdmi_indicator'')
         [Call (Obj_set_pos (PX 0) (PX 0)), Call (Obj_set_size LV_SIZE_CONTENT LV_SIZE_CONTENT),
          Call (Obj_set_style Pad_left (Num 0) MAIN_DEFAULT),
          Call (Obj_set_style Pad_top (Num 0) MAIN_DEFAULT),
          Call (Obj_set_style Pad_right (Num 0) MAIN_DEFAULT),
          Call (Obj_set_style Pad_bottom (Num 0) MAIN_DEFAULT),
          Call (Obj_set_style Bg_opa (Num 0) MAIN_DEFAULT),
          Call (Obj_set_style Border_width (Num 0) MAIN_DEFAULT),
          Call (Obj_set_style Radius (Num 0) MAIN_DEFAULT),
          Call (Obj_clear_flag [LV_OBJ_FLAG_CLICKABLE]), Add_style Flow_row_start_center]
         [
          Widget LV_IMAGE None
            [Call (Obj_set_pos (PX 0) (PX 0)), Call (Obj_set_size LV_SIZE_CONTENT LV_SIZE_CONTENT),
             Call (Image_set_src ''img_hdmi'')]
            [],
          Widget LV_LABEL None
            [Call (Obj_set_pos (LV_PCT 0) (LV_PCT 0)),
             Call (Obj_set_size LV_SIZE_CONTENT LV_SIZE_CONTENT), Add_style Label_font16,
             Call (Label_set_text ''HDMI'')]
            []
         ],
       Widget LV_LABEL (Some ''hdmi_status_label'')
         [Call (Obj_set_pos (LV_PCT 0) (LV_PCT 0)),
          Call (Obj_set_size LV_SIZE_CONTENT LV_SIZE_CONTENT),
          Call (Obj_add_flag [LV_OBJ_FLAG_CHECKABLE]), Add_style Label_font16,
          Call (Obj_set_style Text_color (Color 0xff22c55e) MAIN_CHECKED),
          Call (Obj_set_style Text_color (Color 0xff808080) MAIN_DEFAULT),
          Call (Label_set_text ''Unknown'')]
         []
      ]"

definition home_screen_part5 :: widget where
  "home_screen_part5 =
    Widget LV_OBJ None
      [Call (Obj_set_pos (PX 0) (PX 0)), Call (Obj_set_size (LV_PCT 100) (LV_PCT 100)),
       Call (Obj_set_style Pad_left (Num 0) MAIN_DEFAULT),
       Call (Obj_set_style Pad_top (Num 0) MAIN_DEFAULT),
       Call (Obj_set_style Pad_right (Num 0) MAIN_DEFAULT),
       Call (Obj_set_style Pad_bottom (Num 0) MAIN_DEFAULT),
       Call (Obj_set_style Bg_opa (Num 0) MAIN_DEFAULT),
       Call (Obj_set_style Border_width (Num 0) MAIN_DEFAULT),
       Call (Obj_set_style Radius (Num 0) MAIN_DEFAULT),
       Call (Obj_clear_flag [LV_OBJ_FLAG_CLICKABLE]), Add_style Flex_start]
      [
       home_screen_home_header_container,
       home_screen_home_info_container,
       Widget LV_OBJ (Some ''divider'')
         [Call (Obj_set_pos (PX 0) (PX 0)), Call (Obj_set_size (LV_PCT 100) (PX 1)),
          Call (Obj_set_style Pad_left (Num 0) MAIN_DEFAULT),
          Call (Obj_set_style Pad_top (Num 0) MAIN_DEFAULT),
          Call (Obj_set_style Pad_right (Num 0) MAIN_DEFAULT),
          Call (Obj_set_style Pad_bottom (Num 0) MAIN_DEFAULT),
          Call (Obj_set_style Border_width (Num 0) MAIN_DEFAULT),
          Call (Obj_set_style Radius (Num 0) MAIN_DEFAULT),
          Call (Obj_clear_flag [LV_OBJ_FLAG_CLICKABLE, LV_OBJ_FLAG_CLICK_FOCUSABLE, LV_OBJ_FLAG_SCROLLABLE]),
          Call Obj_set_scrollbar_off, Add_style Flex_column_start,
          Call (Obj_set_style Bg_color (Color 0xff262626) MAIN_DEFAULT),
          Call (Obj_set_style Bg_opa (Num 255) MAIN_DEFAULT)]
         [],
       Widget LV_OBJ (Some ''home_status_container'')
         [Call (Obj_set_pos (PX 0) (PX 0)), Call (Obj_set_size (LV_PCT 100) LV_SIZE_CONTENT),
          Call (Obj_set_style Pad_left (Num 0) MAIN_DEFAULT),
          Call (Obj_set_style Pad_top (Num 0) MAIN_DEFAULT),
          Call (Obj_set_style Pad_right (Num 0) MAIN_DEFAULT),
          Call (Obj_set_style Pad_bottom (Num 0) MAIN_DEFAULT),
          Call (Obj_set_style Bg_opa (Num 0) MAIN_DEFAULT),
          Call (Obj_set_style Border_width (Num 0) MAIN_DEFAULT),
          Call (Obj_set_style Radius (Num 0) MAIN_DEFAULT),
          Call (Obj_clear_flag [LV_OBJ_FLAG_CLICKABLE, LV_OBJ_FLAG_CLICK_FOCUSABLE, LV_OBJ_FLAG_SCROLLABLE]),
          Add_style Flow_row_start_center]
         [
          home_screen_usb_status,
          home_screen_hdmi_status
         ]
      ]"

definition home_screen_tree :: widget where
  "home_screen_tree =
    Widget LV_OBJ (Some ''home_screen'')
      [Call (Obj_set_pos (PX 0) (PX 0)), Call (Obj_set_size (PX 300) (PX 240)),
       Call (Obj_add_event_cb Switch_to_menu LV_EVENT_LONG_PRESSED),
       Call (Obj_add_event_cb Home_screen_gesture LV_EVENT_GESTURE), Add_style Flex_screen]
      [
       home_screen_part5
      ]"

end
