(* ===== verification/Screens_Menu.thy ===== *)
theory Screens_Menu
  imports Widgets
begin

text \<open>
  The widget trees of \<open>screens.c\<close>: the menu screens. Each tree lists the calls of its
  \<open>create_screen\<close> function in source order; large trees are cut into parts.
\<close>

definition menu_screen_menu_header_container :: widget where
  "menu_screen_menu_header_container =
    Widget LV_OBJ (Some ''menu_header_container'')
      [Call (Obj_set_pos (PX 0) (PX 0)), Call (Obj_set_size (LV_PCT 100) LV_SIZE_CONTENT),
       Call (Obj_set_style Pad_left (Num 0) MAIN_DEFAULT),
       Call (Obj_set_style Pad_top (Num 0) MAIN_DEFAULT),
       Call (Obj_set_style Pad_bottom (Num 0) MAIN_DEFAULT),
       Call (Obj_set_style Bg_opa (Num 0) MAIN_DEFAULT),
       Call (Obj_set_style Border_width (Num 0) MAIN_DEFAULT),
       Call (Obj_set_style Radius (Num 0) MAIN_DEFAULT), Add_style Flow_row_space_between,
       Call (Obj_set_style Pad_right (Num 4) MAIN_DEFAULT)]
      [
       Widget LV_BUTTON None
         [Call (Obj_set_pos (PX 0) (PX 0)), Call (Obj_set_size (PX 32) (PX 32)),
          Call (Obj_add_event_cb Menu_screen_gesture LV_EVENT_PRESSED), Add_style Back_button]
         [
          Widget LV_IMAGE None
            [Call (Obj_set_pos (PX (-1)) (PX 2)),
             Call (Obj_set_size LV_SIZE_CONTENT LV_SIZE_CONTENT),
             Call (Image_set_src ''img_back_caret'')]
            []
         ],
       Widget LV_LABEL None
         [Call (Obj_set_pos (LV_PCT 0) (LV_PCT 0)),
          Call (Obj_set_size LV_SIZE_CONTENT LV_SIZE_CONTENT), Add_style Header_link,
          Call (Label_set_text ''Settings'')]
         []
      ]"

definition menu_screen_menu_btn_status :: widget where
  "menu_screen_menu_btn_status =
    Widget LV_BUTTON (Some ''menu_btn_status'')
      [Call (Obj_set_pos (PX 0) (PX 0)), Call (Obj_set_size (LV_PCT 100) (PX 50)),
       Call (Obj_add_event_cb Switch_to_status LV_EVENT_CLICKED), Add_style Menu_button]
      [
       Widget LV_LABEL None
         [Call (Obj_set_pos (PX 0) (PX 0)), Call (Obj_set_size LV_SIZE_CONTENT LV_SIZE_CONTENT),
          Add_style Menu_button_label, Call (Label_set_text ''Status'')]
         []
      ]"

definition menu_screen_menu_btn_advanced :: widget where
  "menu_screen_menu_btn_advanced =
    Widget LV_BUTTON (Some ''menu_btn_advanced'')
      [Call (Obj_set_pos (PX 0) (PX 0)), Call (Obj_set_size (LV_PCT 100) (PX 50)),
       Call (Obj_add_event_cb Switch_to_advanced_menu LV_EVENT_CLICKED),
       Call (Obj_clear_flag [LV_OBJ_FLAG_SNAPPABLE]), Add_style Menu_button]
      [
       Widget LV_LABEL None
         [Call (Obj_set_pos (PX 0) (PX 0)), Call (Obj_set_size LV_SIZE_CONTENT LV_SIZE_CONTENT),
          Add_style Menu_button_label, Call (Label_set_text ''Advanced'')]
         []
      ]"

definition menu_screen_menu_btn_about :: widget where
  "menu_screen_menu_btn_about =
    Widget LV_BUTTON (Some ''menu_btn_about'')
      [Call (Obj_set_pos (PX 0) (PX 0)), Call (Obj_set_size (LV_PCT 100) (PX 50)),
       Call (Obj_add_event_cb Switch_to_about LV_EVENT_CLICKED),
       Call (Obj_clear_flag [LV_OBJ_FLAG_SNAPPABLE]), Add_style Menu_button]
      [
       Widget LV_LABEL None
         [Call (Obj_set_pos (PX 0) (PX 0)), Call (Obj_set_size LV_SIZE_CONTENT LV_SIZE_CONTENT),
          Add_style Menu_button_label, Call (Label_set_text ''About'')]
         []
      ]"

definition menu_screen_part4 :: widget where
  "menu_screen_part4 =
    Widget LV_OBJ None
      [Call (Obj_set_pos (PX 0) (PX 0)), Call (Obj_set_size (LV_PCT 100) LV_SIZE_CONTENT),
       Call (Obj_set_style Pad_left (Num 0) MAIN_DEFAULT),
       Call (Obj_set_style Pad_top (Num 0) MAIN_DEFAULT),
       Call (Obj_set_style Pad_bottom (Num 0) MAIN_DEFAULT),
       Call (Obj_set_style Bg_opa (Num 0) MAIN_DEFAULT),
       Call (Obj_set_style Border_width (Num 0) MAIN_DEFAULT),
       Call (Obj_set_style Radius (Num 0) MAIN_DEFAULT),
       Call (Obj_clear_flag [LV_OBJ_FLAG_SCROLLABLE]), Add_style Flex_column_start,
       Call (Obj_set_style Pad_right (Num 10) MAIN_DEFAULT)]
      [
       menu_screen_menu_btn_status,
       Widget LV_BUTTON (Some ''menu_btn_network'')
         [Call (Obj_set_pos (PX 0) (PX 0)), Call (Obj_set_size (LV_PCT 100) (PX 50)),
          Add_style Menu_button]
         [
          Widget LV_LABEL None
            [Call (Obj_set_pos (PX 0) (PX 0)), Call (Obj_set_size LV_SIZE_CONTENT LV_SIZE_CONTENT),
             Add_style Menu_button_label, Call (Label_set_text ''Network'')]
            []
         ],
       Widget LV_BUTTON (Some ''menu_btn_access'')
         [Call (Obj_set_pos (PX 0) (PX 0)), Call (Obj_set_size (LV_PCT 100) (PX 50)),
          Call (Obj_clear_flag [LV_OBJ_FLAG_SNAPPABLE]), Add_style Menu_button]
         [
          Widget LV_LABEL None
            [Call (Obj_set_pos (PX 0) (PX 0)), Call (Obj_set_size LV_SIZE_CONTENT LV_SIZE_CONTENT),
             Add_style Menu_button_label, Call (Label_set_text ''Access'')]
            []
         ],
       menu_screen_menu_btn_advanced,
       menu_screen_menu_btn_about
      ]"

definition menu_screen_tree :: widget where
  "menu_screen_tree =
    Widget LV_OBJ (Some ''menu_screen'')
      [Call (Obj_set_pos (PX 0) (PX 0)), Call (Obj_set_size (PX 300) (PX 240)),
       Call (Obj_add_event_cb Menu_screen_gesture LV_EVENT_GESTURE), Add_style Flex_screen_menu]
      [
       Widget LV_OBJ None
         [Call (Obj_set_pos (PX 0) (PX 0)), Call (Obj_set_size (LV_PCT 100) (LV_PCT 100)),
          Call (Obj_set_style Pad_left (Num 0) MAIN_DEFAULT),
          Call (Obj_set_style Pad_top (Num 0) MAIN_DEFAULT),
          Call (Obj_set_style Pad_right (Num 0) MAIN_DEFAULT),
          Call (Obj_set_style Pad_bottom (Num 0) MAIN_DEFAULT),
          Call (Obj_set_style Bg_opa (Num 0) MAIN_DEFAULT),
          Call (Obj_set_style Border_width (Num 0) MAIN_DEFAULT),
          Call (Obj_set_style Radius (Num 0) MAIN_DEFAULT),
          Call (Obj_clear_flag [LV_OBJ_FLAG_SCROLLABLE]), Add_style Flex_start]
         [
          menu_screen_menu_header_container,
          Widget LV_OBJ (Some ''menu_items_container'')
            [Call (Obj_set_pos (PX 0) (PX 0)), Call (Obj_set_size (LV_PCT 100) (LV_PCT 80)),
             Call (Obj_set_style Pad_left (Num 0) MAIN_DEFAULT),
             Call (Obj_set_style Pad_top (Num 0) MAIN_DEFAULT),
             Call (Obj_set_style Pad_bottom (Num 0) MAIN_DEFAULT),
             Call (Obj_set_style Bg_opa (Num 0) MAIN_DEFAULT),
             Call (Obj_set_style Border_width (Num 0) MAIN_DEFAULT),
             Call (Obj_set_style Radius (Num 0) MAIN_DEFAULT),
             Call (Obj_add_flag [LV_OBJ_FLAG_OVERFLOW_VISIBLE]), Call Obj_set_scrollbar_auto,
             Call (Obj_set_scroll_dir LV_DIR_VER), Call Obj_set_scroll_snap_x_start,
             Add_style Flex_column_start, Call (Obj_set_style Pad_right (Num 4) MAIN_DEFAULT),
             Call (Obj_set_style Pad_right (Num 2) SCROLLBAR_DEFAULT)]
            [
             menu_screen_part4
            ]
         ]
      ]"

definition menu_advanced_screen_menu_header_container_1 :: widget where
  "menu_advanced_screen_menu_header_container_1 =
    Widget LV_OBJ (Some ''menu_header_container_1'')
      [Call (Obj_set_pos (PX 0) (PX 0)), Call (Obj_set_size (LV_PCT 100) LV_SIZE_CONTENT),
       Call (Obj_set_style Pad_left (Num 0) MAIN_DEFAULT),
       Call (Obj_set_style Pad_top (Num 0) MAIN_DEFAULT),
       Call (Obj_set_style Pad_bottom (Num 0) MAIN_DEFAULT),
       Call (Obj_set_style Bg_opa (Num 0) MAIN_DEFAULT),
       Call (Obj_set_style Border_width (Num 0) MAIN_DEFAULT),
       Call (Obj_set_style Radius (Num 0) MAIN_DEFAULT), Add_style Flow_row_space_between,
       Call (Obj_set_style Pad_right (Num 4) MAIN_DEFAULT)]
      [
       Widget LV_BUTTON None
         [Call (Obj_set_pos (PX 0) (PX 0)), Call (Obj_set_size (PX 32) (PX 32)),
          Call (Obj_add_event_cb Switch_to_menu LV_EVENT_CLICKED), Add_style Back_button]
         [
          Widget LV_IMAGE None
            [Call (Obj_set_pos (PX (-1)) (PX 2)),
             Call (Obj_set_size LV_SIZE_CONTENT LV_SIZE_CONTENT),
             Call (Image_set_src ''img_back_caret'')]
            []
         ],
       Widget LV_LABEL None
         [Call (Obj_set_pos (LV_PCT 0) (LV_PCT 0)),
          Call (Obj_set_size LV_SIZE_CONTENT LV_SIZE_CONTENT), Add_style Header_link,
          Call (Label_set_text ''Advanced'')]
         []
      ]"

definition menu_advanced_screen_menu_btn_advanced_developer_mode :: widget where
  "menu_advanced_screen_menu_btn_advanced_developer_mode =
    Widget LV_BUTTON (Some ''menu_btn_advanced_developer_mode'')
      [Call (Obj_set_pos (PX 0) (PX 0)), Call (Obj_set_size (LV_PCT 100) (PX 50)),
       Call (Obj_add_event_cb Reset_config LV_EVENT_PRESSED),
       Call (Obj_add_flag [LV_OBJ_FLAG_HIDDEN]), Add_style Menu_button]
      [
       Widget LV_LABEL None
         [Call (Obj_set_pos (PX 0) (PX 0)), Call (Obj_set_size LV_SIZE_CONTENT LV_SIZE_CONTENT),
          Add_style Menu_button_label, Call (Label_set_text ''Developer Mode'')]
         []
      ]"

definition menu_advanced_screen_menu_btn_advanced_reboot :: widget where
  "menu_advanced_screen_menu_btn_advanced_reboot =
    Widget LV_BUTTON (Some ''menu_btn_advanced_reboot'')
      [Call (Obj_set_pos (PX 0) (PX 0)), Call (Obj_set_size (LV_PCT 100) (PX 50)),
       Call (Obj_add_event_cb Switch_to_reboot LV_EVENT_PRESSED),
       Call (Obj_clear_flag [LV_OBJ_FLAG_SNAPPABLE]), Add_style Menu_button]
      [
       Widget LV_LABEL None
         [Call (Obj_set_pos (PX 0) (PX 0)), Call (Obj_set_size LV_SIZE_CONTENT LV_SIZE_CONTENT),
          Add_style Menu_button_label, Call (Label_set_text ''Reboot Device'')]
         []
      ]"

definition menu_advanced_screen_menu_btn_advanced_reset_config :: widget where
  "menu_advanced_screen_menu_btn_advanced_reset_config =
    Widget LV_BUTTON (Some ''menu_btn_advanced_reset_config'')
      [Call (Obj_set_pos (PX 0) (PX 0)), Call (Obj_set_size (LV_PCT 100) (PX 50)),
       Call (Obj_add_event_cb Switch_to_reset_config LV_EVENT_PRESSED),
       Call (Obj_clear_flag [LV_OBJ_FLAG_SNAPPABLE]), Add_style Menu_button,
       Call (Obj_set_style Bg_color (Color 0xffdc2626) MAIN_DEFAULT),
       Call (Obj_set_style Bg_opa (Num 255) MAIN_DEFAULT)]
      [
       Widget LV_LABEL None
         [Call (Obj_set_pos (PX 0) (PX 0)), Call (Obj_set_size LV_SIZE_CONTENT LV_SIZE_CONTENT),
          Add_style Menu_button_label, Call (Label_set_text ''Reset Configuration'')]
         []
      ]"

definition menu_advanced_screen_part4 :: widget where
  "menu_advanced_screen_part4 =
    Widget LV_OBJ None
      [Call (Obj_set_pos (PX 0) (PX 0)), Call (Obj_set_size (LV_PCT 100) LV_SIZE_CONTENT),
       Call (Obj_set_style Pad_left (Num 0) MAIN_DEFAULT),
       Call (Obj_set_style Pad_top (Num 0) MAIN_DEFAULT),
       Call (Obj_set_style Pad_bottom (Num 0) MAIN_DEFAULT),
       Call (Obj_set_style Bg_opa (Num 0) MAIN_DEFAULT),
       Call (Obj_set_style Border_width (Num 0) MAIN_DEFAULT),
       Call (Obj_set_style Radius (Num 0) MAIN_DEFAULT),
       Call (Obj_clear_flag [LV_OBJ_FLAG_SCROLLABLE]), Add_style Flex_column_start,
       Call (Obj_set_style Pad_right (Num 10) MAIN_DEFAULT)]
      [
       menu_advanced_screen_menu_btn_advanced_developer_mode,
       Widget LV_BUTTON (Some ''menu_btn_advanced_usb_emulation'')
         [Call (Obj_set_pos (PX 0) (PX 0)), Call (Obj_set_size (LV_PCT 100) (PX 50)),
          Call (Obj_add_flag [LV_OBJ_FLAG_HIDDEN]), Add_style Menu_button]
         [
          Widget LV_LABEL None
            [Call (Obj_set_pos (PX 0) (PX 0)), Call (Obj_set_size LV_SIZE_CONTENT LV_SIZE_CONTENT),
             Add_style Menu_button_label, Call (Label_set_text ''USB Emulation'')]
            []
         ],
       menu_advanced_screen_menu_btn_advanced_reboot,
       Widget LV_BUTTON (Some ''menu_btn_dhcp_client'')
         [Call (Obj_set_pos (PX 0) (PX 0)), Call (Obj_set_size (LV_PCT 100) (PX 50)),
          Call (Obj_add_event_cb Switch_to_dhcpc LV_EVENT_PRESSED),
          Call (Obj_clear_flag [LV_OBJ_FLAG_SNAPPABLE]), Add_style Menu_button]
         [
          Widget LV_LABEL None
            [Call (Obj_set_pos (PX 0) (PX 0)), Call (Obj_set_size LV_SIZE_CONTENT LV_SIZE_CONTENT),
             Add_style Menu_button_label, Call (Label_set_text ''DHCP Client'')]
            []
         ],
       menu_advanced_screen_menu_btn_advanced_reset_config
      ]"

definition menu_advanced_screen_tree :: widget where
  "menu_advanced_screen_tree =
    Widget LV_OBJ (Some ''menu_advanced_screen'')
      [Call (Obj_set_pos (PX 0) (PX 0)), Call (Obj_set_size (PX 300) (PX 240)),
       Call (Obj_add_event_cb Menu_advanced_screen_gesture LV_EVENT_GESTURE),
       Add_style Flex_screen_menu]
      [
       Widget LV_OBJ None
         [Call (Obj_set_pos (PX 0) (PX 0)), Call (Obj_set_size (LV_PCT 100) (LV_PCT 100)),
          Call (Obj_set_style Pad_left (Num 0) MAIN_DEFAULT),
          Call (Obj_set_style Pad_top (Num 0) MAIN_DEFAULT),
          Call (Obj_set_style Pad_right (Num 0) MAIN_DEFAULT),
          Call (Obj_set_style Pad_bottom (Num 0) MAIN_DEFAULT),
          Call (Obj_set_style Bg_opa (Num 0) MAIN_DEFAULT),
          Call (Obj_set_style Border_width (Num 0) MAIN_DEFAULT),
          Call (Obj_set_style Radius (Num 0) MAIN_DEFAULT),
          Call (Obj_clear_flag [LV_OBJ_FLAG_SCROLLABLE]), Add_style Flex_start]
         [
          menu_advanced_screen_menu_header_container_1,
          Widget LV_OBJ (Some ''menu_items_container_1'')
            [Call (Obj_set_pos (PX 0) (PX 0)), Call (Obj_set_size (LV_PCT 100) (LV_PCT 80)),
             Call (Obj_set_style Pad_left (Num 0) MAIN_DEFAULT),
             Call (Obj_set_style Pad_top (Num 0) MAIN_DEFAULT),
             Call (Obj_set_style Pad_bottom (Num 0) MAIN_DEFAULT),
             Call (Obj_set_style Bg_opa (Num 0) MAIN_DEFAULT),
             Call (Obj_set_style Border_width (Num 0) MAIN_DEFAULT),
             Call (Obj_set_style Radius (Num 0) MAIN_DEFAULT), Call Obj_set_scrollbar_auto,
             Call (Obj_set_scroll_dir LV_DIR_VER), Call Obj_set_scroll_snap_x_start,
             Add_style Flex_column_start, Call (Obj_set_style Pad_right (Num 4) MAIN_DEFAULT)]
            [
             menu_advanced_screen_part4
            ]
         ]
      ]"

definition menu_network_screen_menu_header_container_2 :: widget where
  "menu_network_screen_menu_header_container_2 =
    Widget LV_OBJ (Some ''menu_header_container_2'')
      [Call (Obj_set_pos (PX 0) (PX 0)), Call (Obj_set_size (LV_PCT 100) LV_SIZE_CONTENT),
       Call (Obj_set_style Pad_left (Num 0) MAIN_DEFAULT),
       Call (Obj_set_style Pad_top (Num 0) MAIN_DEFAULT),
       Call (Obj_set_style Pad_bottom (Num 0) MAIN_DEFAULT),
       Call (Obj_set_style Bg_opa (Num 0) MAIN_DEFAULT),
       Call (Obj_set_style Border_width (Num 0) MAIN_DEFAULT),
       Call (Obj_set_style Radius (Num 0) MAIN_DEFAULT), Add_style Flow_row_space_between,
       Call (Obj_set_style Pad_right (Num 4) MAIN_DEFAULT)]
      [
       Widget LV_BUTTON None
         [Call (Obj_set_pos (PX 0) (PX 0)), Call (Obj_set_size (PX 32) (PX 32)),
          Call (Obj_add_event_cb Switch_to_menu LV_EVENT_CLICKED), Add_style Back_button]
         [
          Widget LV_IMAGE None
            [Call (Obj_set_pos (PX (-1)) (PX 2)),
             Call (Obj_set_size LV_SIZE_CONTENT LV_SIZE_CONTENT),
             Call (Image_set_src ''img_back_caret'')]
            []
         ],
       Widget LV_LABEL None
         [Call (Obj_set_pos (LV_PCT 0) (LV_PCT 0)),
          Call (Obj_set_size LV_SIZE_CONTENT LV_SIZE_CONTENT), Add_style Header_link,
          Call (Label_set_text ''Network'')]
         []
      ]"

definition menu_network_screen_menu_btn_network_lldp :: widget where
  "menu_network_screen_menu_btn_network_lldp =
    Widget LV_BUTTON (Some ''menu_btn_network_lldp'')
      [Call (Obj_set_pos (PX 0) (PX 0)), Call (Obj_set_size (LV_PCT 100) (PX 50)),
       Call (Obj_clear_flag [LV_OBJ_FLAG_SNAPPABLE]), Add_style Menu_button]
      [
       Widget LV_LABEL None
         [Call (Obj_set_pos (PX 0) (PX 0)), Call (Obj_set_size LV_SIZE_CONTENT LV_SIZE_CONTENT),
          Add_style Menu_button_label, Call (Label_set_text ''LLDP Neighbours'')]
         []
      ]"

definition menu_network_screen_part2 :: widget where
  "menu_network_screen_part2 =
    Widget LV_OBJ None
      [Call (Obj_set_pos (PX 0) (PX 0)), Call (Obj_set_size (LV_PCT 100) LV_SIZE_CONTENT),
       Call (Obj_set_style Pad_left (Num 0) MAIN_DEFAULT),
       Call (Obj_set_style Pad_top (Num 0) MAIN_DEFAULT),
       Call (Obj_set_style Pad_bottom (Num 0) MAIN_DEFAULT),
       Call (Obj_set_style Bg_opa (Num 0) MAIN_DEFAULT),
       Call (Obj_set_style Border_width (Num 0) MAIN_DEFAULT),
       Call (Obj_set_style Radius (Num 0) MAIN_DEFAULT),
       Call (Obj_clear_flag [LV_OBJ_FLAG_SCROLLABLE]), Add_style Flex_column_start,
       Call (Obj_set_style Pad_right (Num 10) MAIN_DEFAULT)]
      [
       Widget LV_BUTTON (Some ''menu_btn_network_ipv4'')
         [Call (Obj_set_pos (PX 0) (PX 0)), Call (Obj_set_size (LV_PCT 100) (PX 50)),
          Add_style Menu_button]
         [
          Widget LV_LABEL None
            [Call (Obj_set_pos (PX 0) (PX 0)), Call (Obj_set_size LV_SIZE_CONTENT LV_SIZE_CONTENT),
             Add_style Menu_button_label, Call (Label_set_text ''IPv4 Info'')]
            []
         ],
       Widget LV_BUTTON (Some ''menu_btn_network_ipv6'')
         [Call (Obj_set_pos (PX 0) (PX 0)), Call (Obj_set_size (LV_PCT 100) (PX 50)),
          Add_style Menu_button]
         [
          Widget LV_LABEL None
            [Call (Obj_set_pos (PX 0) (PX 0)), Call (Obj_set_size LV_SIZE_CONTENT LV_SIZE_CONTENT),
             Add_style Menu_button_label, Call (Label_set_text ''IPv6 Info'')]
            []
         ],
       menu_network_screen_menu_btn_network_lldp
      ]"

definition menu_network_screen_tree :: widget where
  "menu_network_screen_tree =
    Widget LV_OBJ (Some ''menu_network_screen'')
      [Call (Obj_set_pos (PX 0) (PX 0)), Call (Obj_set_size (PX 300) (PX 240)),
       Call (Obj_add_event_cb Menu_advanced_screen_gesture LV_EVENT_GESTURE),
       Add_style Flex_screen_menu]
      [
       Widget LV_OBJ None
         [Call (Obj_set_pos (PX 0) (PX 0)), Call (Obj_set_size (LV_PCT 100) (LV_PCT 100)),
          Call (Obj_set_style Pad_left (Num 0) MAIN_DEFAULT),
          Call (Obj_set_style Pad_top (Num 0) MAIN_DEFAULT),
          Call (Obj_set_style Pad_right (Num 0) MAIN_DEFAULT),
          Call (Obj_set_style Pad_bottom (Num 0) MAIN_DEFAULT),
          Call (Obj_set_style Bg_opa (Num 0) MAIN_DEFAULT),
          Call (Obj_set_style Border_width (Num 0) MAIN_DEFAULT),
          Call (Obj_set_style Radius (Num 0) MAIN_DEFAULT),
          Call (Obj_clear_flag [LV_OBJ_FLAG_SCROLLABLE]), Add_style Flex_start]
         [
          menu_network_screen_menu_header_container_2,
          Widget LV_OBJ (Some ''menu_items_container_2'')
            [Call (Obj_set_pos (PX 0) (PX 0)), Call (Obj_set_size (LV_PCT 100) (LV_PCT 80)),
             Call (Obj_set_style Pad_left (Num 0) MAIN_DEFAULT),
             Call (Obj_set_style Pad_top (Num 0) MAIN_DEFAULT),
             Call (Obj_set_style Pad_bottom (Num 0) MAIN_DEFAULT),
             Call (Obj_set_style Bg_opa (Num 0) MAIN_DEFAULT),
             Call (Obj_set_style Border_width (Num 0) MAIN_DEFAULT),
             Call (Obj_set_style Radius (Num 0) MAIN_DEFAULT), Call Obj_set_scrollbar_auto,
             Call (Obj_set_scroll_dir LV_DIR_VER), Call Obj_set_scroll_snap_x_start,
             Add_style Flex_column_start, Call (Obj_set_style Pad_right (Num 4) MAIN_DEFAULT)]
            [
             menu_network_screen_part2
            ]
         ]
      ]"

end
