(* ===== verification/Screens_Info.thy ===== *)
theory Screens_Info
  imports Widgets
begin

text \<open>
  The widget trees of \<open>screens.c\<close>: the about and status screens. Each tree lists the calls of its
  \<open>create_screen\<close> function in source order; large trees are cut into parts.
\<close>

definition about_screen_about_header_container :: widget where
  "about_screen_about_header_container =
    Widget LV_OBJ (Some ''about_header_container'')
      [Call (Obj_set_pos (PX 0) (PX 0)), Call (Obj_set_size (LV_PCT 100) LV_SIZE_CONTENT),
       Call (Obj_set_style Pad_left (Num 0) MAIN_DEFAULT),
       Call (Obj_set_style Pad_top (Num 0) MAIN_DEFAULT),
       Call (Obj_set_style Pad_bottom (Num 0) MAIN_DEFAULT),
       Call (Obj_set_style Bg_opa (Num 0) MAIN_DEFAULT),
       Call (Obj_set_style Border_width (Num 0) MAIN_DEFAULT),
       Call (Obj_set_style Radius (Num 0) MAIN_DEFAULT), Add_style Flow_row_space_between,
       Call (Obj_set_style Pad_right (Num 4) MAIN_DEFAULT)]
      [
       Widget LV_BUTTON None
         [Call (Obj_set_pos (PX 0) (PX 0)), Call (Obj_set_size (PX 32) (PX 32)),
          Call (Obj_add_event_cb Switch_to_menu LV_EVENT_CLICKED), Add_style Back_button]
         [
          Widget LV_IMAGE None
            [Call (Obj_set_pos (PX (-1)) (PX 2)),
             Call (Obj_set_size LV_SIZE_CONTENT LV_SIZE_CONTENT),
             Call (Image_set_src ''img_back_caret'')]
            []
         ],
       Widget LV_LABEL None
         [Call (Obj_set_pos (LV_PCT 0) (LV_PCT 0)),
          Call (Obj_set_size LV_SIZE_CONTENT LV_SIZE_CONTENT), Add_style Header_link,
          Call (Label_set_text ''About'')]
         []
      ]"

definition about_screen_system_version_container :: widget where
  "about_screen_system_version_container =
    Widget LV_OBJ (Some ''system_version_container'')
      [Call (Obj_set_pos (PX 0) (PX 0)), Call (Obj_set_size (LV_PCT 100) LV_SIZE_CONTENT),
       Call (Obj_set_style Pad_left (Num 0) MAIN_DEFAULT),
       Call (Obj_set_style Pad_top (Num 0) MAIN_DEFAULT),
       Call (Obj_set_style Pad_bottom (Num 0) MAIN_DEFAULT),
       Call (Obj_set_style Bg_opa (Num 0) MAIN_DEFAULT),
       Call (Obj_set_style Border_width (Num 0) MAIN_DEFAULT),
       Call (Obj_set_style Radius (Num 0) MAIN_DEFAULT),
       Call (Obj_clear_flag [LV_OBJ_FLAG_SCROLLABLE]), Add_style Flex_column_start,
       Call (Obj_set_style Pad_right (Num 10) MAIN_DEFAULT)]
      [
       Widget LV_LABEL None
         [Call (Obj_set_pos (PX 0) (PX 0)), Call (Obj_set_size LV_SIZE_CONTENT LV_SIZE_CONTENT),
          Add_style Info_headline_label, Call (Label_set_text ''System'')]
         [],
       Widget LV_LABEL (Some ''system_version'')
         [Call (Obj_set_pos (PX 0) (PX 0)), Call (Obj_set_size (LV_PCT 100) LV_SIZE_CONTENT),
          Add_style Info_content_label, Call (Label_set_text '''')]
         []
      ]"

definition about_screen_app_version_container :: widget where
  "about_screen_app_version_container =
    Widget LV_OBJ (Some ''app_version_container'')
      [Call (Obj_set_pos (PX 0) (PX 0)), Call (Obj_set_size (LV_PCT 100) LV_SIZE_CONTENT),
       Call (Obj_set_style Pad_left (Num 0) MAIN_DEFAULT),
       Call (Obj_set_style Pad_top (Num 0) MAIN_DEFAULT),
       Call (Obj_set_style Pad_bottom (Num 0) MAIN_DEFAULT),
       Call (Obj_set_style Bg_opa (Num 0) MAIN_DEFAULT),
       Call (Obj_set_style Border_width (Num 0) MAIN_DEFAULT),
       Call (Obj_set_style Radius (Num 0) MAIN_DEFAULT),
       Call (Obj_clear_flag [LV_OBJ_FLAG_SCROLLABLE]), Add_style Flex_column_start,
       Call (Obj_set_style Pad_right (Num 10) MAIN_DEFAULT)]
      [
       Widget LV_LABEL None
         [Call (Obj_set_pos (PX 0) (PX 0)), Call (Obj_set_size LV_SIZE_CONTENT LV_SIZE_CONTENT),
          Add_style Info_headline_label, Call (Label_set_text ''Application'')]
         [],
       Widget LV_LABEL (Some ''app_version'')
         [Call (Obj_set_pos (PX 0) (PX 0)), Call (Obj_set_size (LV_PCT 100) LV_SIZE_CONTENT),
          Add_style Info_content_label, Call (Label_set_text '''')]
         []
      ]"

definition about_screen_build_branch_container :: widget where
  "about_screen_build_branch_container =
    Widget LV_OBJ (Some ''build_branch_container'')
      [Call (Obj_set_pos (PX 0) (PX 0)), Call (Obj_set_size (LV_PCT 100) LV_SIZE_CONTENT),
       Call (Obj_set_style Pad_left (Num 0) MAIN_DEFAULT),
       Call (Obj_set_style Pad_top (Num 0) MAIN_DEFAULT),
       Call (Obj_set_style Pad_bottom (Num 0) MAIN_DEFAULT),
       Call (Obj_set_style Bg_opa (Num 0) MAIN_DEFAULT),
       Call (Obj_set_style Border_width (Num 0) MAIN_DEFAULT),
       Call (Obj_set_style Radius (Num 0) MAIN_DEFAULT),
       Call (Obj_clear_flag [LV_OBJ_FLAG_SCROLLABLE]), Add_style Flex_column_start,
       Call (Obj_set_style Pad_right (Num 10) MAIN_DEFAULT)]
      [
       Widget LV_LABEL None
         [Call (Obj_set_pos (PX 0) (PX 0)), Call (Obj_set_size LV_SIZE_CONTENT LV_SIZE_CONTENT),
          Add_style Info_headline_label, Call (Label_set_text ''App Branch'')]
         [],
       Widget LV_LABEL (Some ''build_branch'')
         [Call (Obj_set_pos (PX 0) (PX 0)), Call (Obj_set_size (LV_PCT 100) LV_SIZE_CONTENT),
          Add_style Info_content_label, Call (Label_set_text ''0.0.1'')]
         []
      ]"

definition about_screen_build_date_container :: widget where
  "about_screen_build_date_container =
    Widget LV_OBJ (Some ''build_date_container'')
      [Call (Obj_set_pos (PX 0) (PX 0)), Call (Obj_set_size (LV_PCT 100) LV_SIZE_CONTENT),
       Call (Obj_set_style Pad_left (Num 0) MAIN_DEFAULT),
       Call (Obj_set_style Pad_top (Num 0) MAIN_DEFAULT),
       Call (Obj_set_style Pad_bottom (Num 0) MAIN_DEFAULT),
       Call (Obj_set_style Bg_opa (Num 0) MAIN_DEFAULT),
       Call (Obj_set_style Border_width (Num 0) MAIN_DEFAULT),
       Call (Obj_set_style Radius (Num 0) MAIN_DEFAULT),
       Call (Obj_clear_flag [LV_OBJ_FLAG_SCROLLABLE]), Add_style Flex_column_start,
       Call (Obj_set_style Pad_right (Num 10) MAIN_DEFAULT)]
      [
       Widget LV_LABEL None
         [Call (Obj_set_pos (PX 0) (PX 0)), Call (Obj_set_size LV_SIZE_CONTENT LV_SIZE_CONTENT),
          Add_style Info_headline_label, Call (Label_set_text ''App Build Date'')]
         [],
       Widget LV_LABEL (Some ''build_date'')
         [Call (Obj_set_pos (PX 0) (PX 0)), Call (Obj_set_size (LV_PCT 100) LV_SIZE_CONTENT),
          Add_style Info_content_label, Call (Label_set_text ''0.0.1'')]
         []
      ]"

definition about_screen_golang_version_container :: widget where
  "about_screen_golang_version_container =
    Widget LV_OBJ (Some ''golang_version_container'')
      [Call (Obj_set_pos (PX 0) (PX 0)), Call (Obj_set_size (LV_PCT 100) LV_SIZE_CONTENT),
       Call (Obj_set_style Pad_left (Num 0) MAIN_DEFAULT),
       Call (Obj_set_style Pad_top (Num 0) MAIN_DEFAULT),
       Call (Obj_set_style Pad_bottom (Num 0) MAIN_DEFAULT),
       Call (Obj_set_style Bg_opa (Num 0) MAIN_DEFAULT),
       Call (Obj_set_style Border_width (Num 0) MAIN_DEFAULT),
       Call (Obj_set_style Radius (Num 0) MAIN_DEFAULT),
       Call (Obj_clear_flag [LV_OBJ_FLAG_SCROLLABLE]), Add_style Flex_column_start,
       Call (Obj_set_style Pad_right (Num 10) MAIN_DEFAULT)]
      [
       Widget LV_LABEL None
         [Call (Obj_set_pos (PX 0) (PX 0)), Call (Obj_set_size LV_SIZE_CONTENT LV_SIZE_CONTENT),
          Add_style Info_headline_label, Call (Label_set_text ''Golang'')]
         [],
       Widget LV_LABEL (Some ''golang_version'')
         [Call (Obj_set_pos (PX 0) (PX 0)), Call (Obj_set_size (LV_PCT 100) LV_SIZE_CONTENT),
          Add_style Info_content_label, Call (Label_set_text ''0.0.1'')]
         []
      ]"

definition about_screen_lvgl_version_container :: widget where
  "about_screen_lvgl_version_container =
    Widget LV_OBJ (Some ''lvgl_version_container'')
      [Call (Obj_set_pos (PX 0) (PX 0)), Call (Obj_set_size (LV_PCT 100) LV_SIZE_CONTENT),
       Call (Obj_set_style Pad_left (Num 0) MAIN_DEFAULT),
       Call (Obj_set_style Pad_top (Num 0) MAIN_DEFAULT),
       Call (Obj_set_style Pad_bottom (Num 0) MAIN_DEFAULT),
       Call (Obj_set_style Bg_opa (Num 0) MAIN_DEFAULT),
       Call (Obj_set_style Border_width (Num 0) MAIN_DEFAULT),
       Call (Obj_set_style Radius (Num 0) MAIN_DEFAULT),
       Call (Obj_clear_flag [LV_OBJ_FLAG_SCROLLABLE]), Add_style Flex_column_start,
       Call (Obj_set_style Pad_right (Num 10) MAIN_DEFAULT)]
      [
       Widget LV_LABEL None
         [Call (Obj_set_pos (PX 0) (PX 0)), Call (Obj_set_size LV_SIZE_CONTENT LV_SIZE_CONTENT),
          Add_style Info_headline_label, Call (Label_set_text ''LVGL'')]
         [],
       Widget LV_LABEL (Some ''lvgl_version'')
         [Call (Obj_set_pos (PX 0) (PX 0)), Call (Obj_set_size (LV_PCT 100) LV_SIZE_CONTENT),
          Add_style Info_content_label, Call (Label_set_text '''')]
         []
      ]"

definition about_screen_kernel_version_container :: widget where
  "about_screen_kernel_version_container =
    Widget LV_OBJ (Some ''kernel_version_container'')
      [Call (Obj_set_pos (PX 0) (PX 0)), Call (Obj_set_size (LV_PCT 100) LV_SIZE_CONTENT),
       Call (Obj_set_style Pad_left (Num 0) MAIN_DEFAULT),
       Call (Obj_set_style Pad_top (Num 0) MAIN_DEFAULT),
       Call (Obj_set_style Pad_bottom (Num 0) MAIN_DEFAULT),
       Call (Obj_set_style Bg_opa (Num 0) MAIN_DEFAULT),
       Call (Obj_set_style Border_width (Num 0) MAIN_DEFAULT),
       Call (Obj_set_style Radius (Num 0) MAIN_DEFAULT),
       Call (Obj_clear_flag [LV_OBJ_FLAG_SCROLLABLE]), Add_style Flex_column_start,
       Call (Obj_set_style Pad_right (Num 10) MAIN_DEFAULT)]
      [
       Widget LV_LABEL None
         [Call (Obj_set_pos (PX 0) (PX 0)), Call (Obj_set_size LV_SIZE_CONTENT LV_SIZE_CONTENT),
          Add_style Info_headline_label, Call (Label_set_text ''Linux Kernel'')]
         [],
       Widget LV_LABEL (Some ''kernel_version'')
         [Call (Obj_set_pos (PX 0) (PX 0)), Call (Obj_set_size (LV_PCT 100) LV_SIZE_CONTENT),
          Add_style Info_content_label, Call (Label_set_text ''0.0.1'')]
         []
      ]"

definition about_screen_part8 :: widget where
  "about_screen_part8 =
    Widget LV_OBJ None
      [Call (Obj_set_pos (PX 0) (PX 0)), Call (Obj_set_size (LV_PCT 100) LV_SIZE_CONTENT),
       Call (Obj_set_style Pad_left (Num 0) MAIN_DEFAULT),
       Call (Obj_set_style Pad_top (Num 0) MAIN_DEFAULT),
       Call (Obj_set_style Pad_bottom (Num 0) MAIN_DEFAULT),
       Call (Obj_set_style Bg_opa (Num 0) MAIN_DEFAULT),
       Call (Obj_set_style Border_width (Num 0) MAIN_DEFAULT),
       Call (Obj_set_style Radius (Num 0) MAIN_DEFAULT),
       Call (Obj_clear_flag [LV_OBJ_FLAG_SCROLLABLE]), Add_style Flex_column_start,
       Call (Obj_set_style Pad_right (Num 10) MAIN_DEFAULT)]
      [
       about_screen_system_version_container,
       about_screen_app_version_container,
       about_screen_build_branch_container,
       about_screen_build_date_container,
       about_screen_golang_version_container,
       about_screen_lvgl_version_container,
       about_screen_kernel_version_container,
       Widget LV_OBJ (Some ''cpu_serial_container'')
         [Call (Obj_set_pos (PX 0) (PX 0)), Call (Obj_set_size (LV_PCT 100) LV_SIZE_CONTENT),
          Call (Obj_set_style Pad_left (Num 0) MAIN_DEFAULT),
          Call (Obj_set_style Pad_top (Num 0) MAIN_DEFAULT),
          Call (Obj_set_style Pad_bottom (Num 0) MAIN_DEFAULT),
          Call (Obj_set_style Bg_opa (Num 0) MAIN_DEFAULT),
          Call (Obj_set_style Border_width (Num 0) MAIN_DEFAULT),
          Call (Obj_set_style Radius (Num 0) MAIN_DEFAULT),
          Call (Obj_clear_flag [LV_OBJ_FLAG_SCROLLABLE]), Add_style Flex_column_start,
          Call (Obj_set_style Pad_right (Num 10) MAIN_DEFAULT)]
         [
          Widget LV_LABEL None
            [Call (Obj_set_pos (PX 0) (PX 0)), Call (Obj_set_size LV_SIZE_CONTENT LV_SIZE_CONTENT),
             Add_style Info_headline_label, Call (Label_set_text ''CPU Serial'')]
            [],
          Widget LV_LABEL (Some ''cpu_serial'')
            [Call (Obj_set_pos (PX 0) (PX 0)), Call (Obj_set_size (LV_PCT 100) LV_SIZE_CONTENT),
             Add_style Info_content_label, Call (Label_set_text ''0.0.1'')]
            []
         ]
      ]"

definition about_screen_tree :: widget where
  "about_screen_tree =
    Widget LV_OBJ (Some ''about_screen'')
      [Call (Obj_set_pos (PX 0) (PX 0)), Call (Obj_set_size (PX 300) (PX 240)),
       Call (Obj_add_event_cb About_screen_gesture LV_EVENT_GESTURE), Add_style Flex_screen_menu]
      [
       Widget LV_OBJ None
         [Call (Obj_set_pos (PX 0) (PX 0)), Call (Obj_set_size (LV_PCT 100) (LV_PCT 100)),
          Call (Obj_set_style Pad_left (Num 0) MAIN_DEFAULT),
          Call (Obj_set_style Pad_top (Num 0) MAIN_DEFAULT),
          Call (Obj_set_style Pad_right (Num 0) MAIN_DEFAULT),
          Call (Obj_set_style Pad_bottom (Num 0) MAIN_DEFAULT),
          Call (Obj_set_style Bg_opa (Num 0) MAIN_DEFAULT),
          Call (Obj_set_style Border_width (Num 0) MAIN_DEFAULT),
          Call (Obj_set_style Radius (Num 0) MAIN_DEFAULT),
          Call (Obj_clear_flag [LV_OBJ_FLAG_SCROLLABLE]), Add_style Flex_start]
         [
          about_screen_about_header_container,
          Widget LV_OBJ (Some ''about_items_container'')
            [Call (Obj_set_pos (PX 0) (PX 0)), Call (Obj_set_size (LV_PCT 100) (LV_PCT 80)),
             Call (Obj_set_style Pad_left (Num 0) MAIN_DEFAULT),
             Call (Obj_set_style Pad_top (Num 0) MAIN_DEFAULT),
             Call (Obj_set_style Pad_bottom (Num 0) MAIN_DEFAULT),
             Call (Obj_set_style Bg_opa (Num 0) MAIN_DEFAULT),
             Call (Obj_set_style Border_width (Num 0) MAIN_DEFAULT),
             Call (Obj_set_style Radius (Num 0) MAIN_DEFAULT), Call Obj_set_scrollbar_auto,
             Call (Obj_set_scroll_dir LV_DIR_VER), Call Obj_set_scroll_snap_x_start,
             Add_style Flex_column_start, Call (Obj_set_style Pad_right (Num 4) MAIN_DEFAULT)]
            [
             about_screen_part8
            ]
         ]
      ]"

definition status_screen_status_header_container :: widget where
  "status_screen_status_header_container =
    Widget LV_OBJ (Some ''status_header_container'')
      [Call (Obj_set_pos (PX 0) (PX 0)), Call (Obj_set_size (LV_PCT 100) LV_SIZE_CONTENT),
       Call (Obj_set_style Pad_left (Num 0) MAIN_DEFAULT),
       Call (Obj_set_style Pad_top (Num 0) MAIN_DEFAULT),
       Call (Obj_set_style Pad_bottom (Num 0) MAIN_DEFAULT),
       Call (Obj_set_style Bg_opa (Num 0) MAIN_DEFAULT),
       Call (Obj_set_style Border_width (Num 0) MAIN_DEFAULT),
       Call (Obj_set_style Radius (Num 0) MAIN_DEFAULT), Add_style Flow_row_space_between,
       Call (Obj_set_style Pad_right (Num 4) MAIN_DEFAULT)]
      [
       Widget LV_BUTTON None
         [Call (Obj_set_pos (PX 0) (PX 0)), Call (Obj_set_size (PX 32) (PX 32)),
          Call (Obj_add_event_cb Switch_to_menu LV_EVENT_CLICKED), Add_style Back_button]
         [
          Widget LV_IMAGE None
            [Call (Obj_set_pos (PX (-1)) (PX 2)),
             Call (Obj_set_size LV_SIZE_CONTENT LV_SIZE_CONTENT),
             Call (Image_set_src ''img_back_caret'')]
            []
         ],
       Widget LV_LABEL None
         [Call (Obj_set_pos (LV_PCT 0) (LV_PCT 0)),
          Call (Obj_set_size LV_SIZE_CONTENT LV_SIZE_CONTENT), Add_style Header_link,
          Call (Label_set_text ''Status'')]
         []
      ]"

definition status_screen_device_id_container :: widget where
  "status_screen_device_id_container =
    Widget LV_OBJ (Some ''device_id_container'')
      [Call (Obj_set_pos (PX 0) (PX 0)), Call (Obj_set_size (LV_PCT 100) LV_SIZE_CONTENT),
       Call (Obj_set_style Pad_left (Num 0) MAIN_DEFAULT),
       Call (Obj_set_style Pad_top (Num 0) MAIN_DEFAULT),
       Call (Obj_set_style Pad_bottom (Num 0) MAIN_DEFAULT),
       Call (Obj_set_style Bg_opa (Num 0) MAIN_DEFAULT),
       Call (Obj_set_style Border_width (Num 0) MAIN_DEFAULT),
       Call (Obj_set_style Radius (Num 0) MAIN_DEFAULT),
       Call (Obj_clear_flag [LV_OBJ_FLAG_SCROLLABLE]), Add_style Flex_column_start,
       Call (Obj_set_style Pad_right (Num 10) MAIN_DEFAULT)]
      [
       Widget LV_LABEL None
         [Call (Obj_set_pos (PX 0) (PX 0)), Call (Obj_set_size LV_SIZE_CONTENT LV_SIZE_CONTENT),
          Add_style Info_headline_label, Call (Label_set_text ''Device ID'')]
         [],
       Widget LV_LABEL (Some ''device_id'')
         [Call (Obj_set_pos (PX 0) (PX 0)), Call (Obj_set_size (LV_PCT 100) LV_SIZE_CONTENT),
          Add_style Info_content_label, Call (Label_set_text ''64238c05ececc831'')]
         []
      ]"

definition status_screen_cloud_account_id_container :: widget where
  "status_screen_cloud_account_id_container =
    Widget LV_OBJ (Some ''cloud_account_id_container'')
      [Call (Obj_set_pos (PX 0) (PX 0)), Call (Obj_set_size (LV_PCT 100) LV_SIZE_CONTENT),
       Call (Obj_set_style Pad_left (Num 0) MAIN_DEFAULT),
       Call (Obj_set_style Pad_top (Num 0) MAIN_DEFAULT),
       Call (Obj_set_style Pad_bottom (Num 0) MAIN_DEFAULT),
       Call (Obj_set_style Bg_opa (Num 0) MAIN_DEFAULT),
       Call (Obj_set_style Border_width (Num 0) MAIN_DEFAULT),
       Call (Obj_set_style Radius (Num 0) MAIN_DEFAULT), Call (Obj_add_flag [LV_OBJ_FLAG_HIDDEN]),
       Call (Obj_clear_flag [LV_OBJ_FLAG_SCROLLABLE]), Add_style Flex_column_start,
       Call (Obj_set_style Pad_right (Num 10) MAIN_DEFAULT)]
      [
       Widget LV_LABEL None
         [Call (Obj_set_pos (PX 0) (PX 0)), Call (Obj_set_size LV_SIZE_CONTENT LV_SIZE_CONTENT),
          Add_style Info_headline_label, Call (Label_set_text ''Cloud Account ID'')]
         [],
       Widget LV_LABEL (Some ''app_version_1'')
         [Call (Obj_set_pos (PX 0) (PX 0)), Call (Obj_set_size (LV_PCT 100) LV_SIZE_CONTENT),
          Add_style Info_content_label, Call (Label_set_text ''12387612876312673dd'')]
         []
      ]"

definition status_screen_part3 :: widget where
  "status_screen_part3 =
    Widget LV_OBJ None
      [Call (Obj_set_pos (PX 0) (PX 0)), Call (Obj_set_size (LV_PCT 100) LV_SIZE_CONTENT),
       Call (Obj_set_style Pad_left (Num 0) MAIN_DEFAULT),
       Call (Obj_set_style Pad_top (Num 0) MAIN_DEFAULT),
       Call (Obj_set_style Pad_bottom (Num 0) MAIN_DEFAULT),
       Call (Obj_set_style Bg_opa (Num 0) MAIN_DEFAULT),
       Call (Obj_set_style Border_width (Num 0) MAIN_DEFAULT),
       Call (Obj_set_style Radius (Num 0) MAIN_DEFAULT),
       Call (Obj_clear_flag [LV_OBJ_FLAG_SCROLLABLE]), Add_style Flex_column_start,
       Call (Obj_set_style Pad_right (Num 10) MAIN_DEFAULT)]
      [
       status_screen_device_id_container,
       status_screen_cloud_account_id_container,
       Widget LV_OBJ (Some ''cloud_domain_container'')
         [Call (Obj_set_pos (PX 0) (PX 0)), Call (Obj_set_size (LV_PCT 100) LV_SIZE_CONTENT),
          Call (Obj_set_style Pad_left (Num 0) MAIN_DEFAULT),
          Call (Obj_set_style Pad_top (Num 0) MAIN_DEFAULT),
          Call (Obj_set_style Pad_bottom (Num 0) MAIN_DEFAULT),
          Call (Obj_set_style Bg_opa (Num 0) MAIN_DEFAULT),
          Call (Obj_set_style Border_width (Num 0) MAIN_DEFAULT),
          Call (Obj_set_style Radius (Num 0) MAIN_DEFAULT),
          Call (Obj_clear_flag [LV_OBJ_FLAG_SCROLLABLE]), Add_style Flex_column_start,
          Call (Obj_set_style Pad_right (Num 10) MAIN_DEFAULT)]
         [
          Widget LV_LABEL None
            [Call (Obj_set_pos (PX 0) (PX 0)), Call (Obj_set_size LV_SIZE_CONTENT LV_SIZE_CONTENT),
             Add_style Info_headline_label, Call (Label_set_text ''Cloud Endpoint'')]
            [],
          Widget LV_LABEL (Some ''cloud_domain'')
            [Call (Obj_set_pos (PX 0) (PX 0)), Call (Obj_set_size (LV_PCT 100) LV_SIZE_CONTENT),
             Add_style Info_content_label, Call (Label_set_text ''api.jetkvm.com'')]
            []
         ]
      ]"

definition status_screen_tree :: widget where
  "status_screen_tree =
    Widget LV_OBJ (Some ''status_screen'')
      [Call (Obj_set_pos (PX 0) (PX 0)), Call (Obj_set_size (PX 300) (PX 240)),
       Call (Obj_add_event_cb About_screen_gesture LV_EVENT_GESTURE), Add_style Flex_screen_menu]
      [
       Widget LV_OBJ None
         [Call (Obj_set_pos (PX 0) (PX 0)), Call (Obj_set_size (LV_PCT 100) (LV_PCT 100)),
          Call (Obj_set_style Pad_left (Num 0) MAIN_DEFAULT),
          Call (Obj_set_style Pad_top (Num 0) MAIN_DEFAULT),
          Call (Obj_set_style Pad_right (Num 0) MAIN_DEFAULT),
          Call (Obj_set_style Pad_bottom (Num 0) MAIN_DEFAULT),
          Call (Obj_set_style Bg_opa (Num 0) MAIN_DEFAULT),
          Call (Obj_set_style Border_width (Num 0) MAIN_DEFAULT),
          Call (Obj_set_style Radius (Num 0) MAIN_DEFAULT),
          Call (Obj_clear_flag [LV_OBJ_FLAG_SCROLLABLE]), Add_style Flex_start]
         [
          status_screen_status_header_container,
          Widget LV_OBJ (Some ''status_items_container'')
            [Call (Obj_set_pos (PX 0) (PX 0)), Call (Obj_set_size (LV_PCT 100) (LV_PCT 80)),
             Call (Obj_set_style Pad_left (Num 0) MAIN_DEFAULT),
             Call (Obj_set_style Pad_top (Num 0) MAIN_DEFAULT),
             Call (Obj_set_style Pad_bottom (Num 0) MAIN_DEFAULT),
             Call (Obj_set_style Bg_opa (Num 0) MAIN_DEFAULT),
             Call (Obj_set_style Border_width (Num 0) MAIN_DEFAULT),
             Call (Obj_set_style Radius (Num 0) MAIN_DEFAULT), Call Obj_set_scrollbar_auto,
             Call (Obj_set_scroll_dir LV_DIR_VER), Call Obj_set_scroll_snap_x_start,
             Add_style Flex_column_start, Call (Obj_set_style Pad_right (Num 4) MAIN_DEFAULT)]
            [
             status_screen_part3
            ]
         ]
      ]"

end
