(* ===== verification/Screens_Action.thy ===== *)
theory Screens_Action
  imports Widgets
begin

text \<open>
  The widget trees of \<open>screens.c\<close>: the reset, reboot and DHCP client screens. Each tree lists the calls of its
  \<open>create_screen\<close> function in source order; large trees are cut into parts.
\<close>

definition reset_config_screen_reset_config_label_container :: widget where
  "reset_config_screen_reset_config_label_container =
    Widget LV_OBJ (Some ''reset_config_label_container'')
      [Call (Obj_set_pos (PX 0) (PX 0)), Call (Obj_set_size (LV_PCT 100) LV_SIZE_CONTENT),
       Call (Obj_set_style Bg_opa (Num 0) MAIN_DEFAULT),
       Call (Obj_set_style Border_width (Num 0) MAIN_DEFAULT),
       Call (Obj_set_style Radius (Num 0) MAIN_DEFAULT),
       Call (Obj_clear_flag [LV_OBJ_FLAG_SCROLLABLE]), Add_style Flex_column_start,
       Call (Obj_set_style Pad_right (Num 10) MAIN_DEFAULT),
       Call (Obj_set_style Pad_left (Num 10) MAIN_DEFAULT),
       Call (Obj_set_style Pad_top (Num 10) MAIN_DEFAULT),
       Call (Obj_set_style Pad_bottom (Num 10) MAIN_DEFAULT)]
      [
       Widget LV_LABEL (Some ''reset_config_label'')
         [Call (Obj_set_pos (PX 0) (PX 0)), Call (Obj_set_size (LV_PCT 100) LV_SIZE_CONTENT),
          Add_style Info_content_label,
          Call (Obj_set_style Text_font (Font ''ui_font_font_book20'') MAIN_DEFAULT),
          Call (Label_set_text (''Press and hold for'' @ [CHR 0x0A] @ ''10 seconds''))]
         []
      ]"

definition reset_config_screen_reset_config_button :: widget where
  "reset_config_screen_reset_config_button =
    Widget LV_OBJ (Some ''reset_config_button'')
      [Call (Obj_set_pos (PX 0) (PX 0)), Call (Obj_set_size (LV_PCT 100) LV_SIZE_CONTENT),
       Call (Obj_set_style Pad_left (Num 0) MAIN_DEFAULT),
       Call (Obj_set_style Pad_top (Num 0) MAIN_DEFAULT),
       Call (Obj_set_style Pad_right (Num 0) MAIN_DEFAULT),
       Call (Obj_set_style Pad_bottom (Num 0) MAIN_DEFAULT),
       Call (Obj_set_style Bg_opa (Num 0) MAIN_DEFAULT),
       Call (Obj_set_style Border_width (Num 0) MAIN_DEFAULT),
       Call (Obj_set_style Radius (Num 0) MAIN_DEFAULT),
       Call (Obj_clear_flag [LV_OBJ_FLAG_SCROLLABLE]), Add_style Flex_column_start]
      [
       Widget LV_BUTTON (Some ''obj0'')
         [Call (Obj_set_pos (PX 0) (PX 0)), Call (Obj_set_size (LV_PCT 100) (PX 50)),
          Call (Obj_add_event_cb Reset_config LV_EVENT_PRESSED),
          Call (Obj_add_event_cb Reset_config LV_EVENT_PRESSING),
          Call (Obj_add_event_cb Reset_config LV_EVENT_RELEASED),
          Call (Obj_set_style Bg_color (Color 0xffdc2626) MAIN_DEFAULT),
          Call (Obj_set_style Text_align (Const LV_TEXT_ALIGN_LEFT) MAIN_DEFAULT),
          Call (Obj_set_style Pad_right (Num 13) MAIN_DEFAULT)]
         [
          Widget LV_LABEL None
            [Call (Obj_set_pos (PX 0) (PX 0)), Call (Obj_set_size LV_SIZE_CONTENT LV_SIZE_CONTENT),
             Call (Obj_set_style Align (Const LV_ALIGN_CENTER) MAIN_DEFAULT),
             Call (Obj_set_style Text_align (Const LV_TEXT_ALIGN_LEFT) MAIN_DEFAULT),
             Call (Label_set_text ''Reset configuration'')]
            []
         ]
      ]"

definition reset_config_screen_reset_config_container :: widget where
  "reset_config_screen_reset_config_container =
    Widget LV_OBJ (Some ''reset_config_container'')
      [Call (Obj_set_pos (PX 0) (PX 0)), Call (Obj_set_size (LV_PCT 100) (LV_PCT 80)),
       Call (Obj_set_style Pad_left (Num 0) MAIN_DEFAULT),
       Call (Obj_set_style Pad_top (Num 0) MAIN_DEFAULT),
       Call (Obj_set_style Pad_bottom (Num 0) MAIN_DEFAULT),
       Call (Obj_set_style Bg_opa (Num 0) MAIN_DEFAULT),
       Call (Obj_set_style Border_width (Num 0) MAIN_DEFAULT),
       Call (Obj_set_style Radius (Num 0) MAIN_DEFAULT), Call Obj_set_scrollbar_auto,
       Call (Obj_set_scroll_dir LV_DIR_VER), Call Obj_set_scroll_snap_x_start,
       Add_style Flex_column_start, Call (Obj_set_style Pad_right (Num 4) MAIN_DEFAULT)]
      [
       Widget LV_OBJ None
         [Call (Obj_set_pos (PX 0) (PX 0)), Call (Obj_set_size (LV_PCT 100) LV_SIZE_CONTENT),
          Call (Obj_set_style Pad_left (Num 0) MAIN_DEFAULT),
          Call (Obj_set_style Pad_top (Num 0) MAIN_DEFAULT),
          Call (Obj_set_style Pad_bottom (Num 0) MAIN_DEFAULT),
          Call (Obj_set_style Bg_opa (Num 0) MAIN_DEFAULT),
          Call (Obj_set_style Border_width (Num 0) MAIN_DEFAULT),
          Call (Obj_set_style Radius (Num 0) MAIN_DEFAULT),
          Call (Obj_clear_flag [LV_OBJ_FLAG_SCROLLABLE]), Add_style Flex_column_start,
          Call (Obj_set_style Pad_right (Num 10) MAIN_DEFAULT)]
         [
          reset_config_screen_reset_config_label_container,
          Widget LV_OBJ (Some ''reset_config_spinner'')
            [Call (Obj_set_pos (PX 0) (PX 0)), Call (Obj_set_size (LV_PCT 100) LV_SIZE_CONTENT),
             Call (Obj_set_style Pad_left (Num 0) MAIN_DEFAULT),
             Call (Obj_set_style Pad_top (Num 0) MAIN_DEFAULT),
             Call (Obj_set_style Pad_right (Num 0) MAIN_DEFAULT),
             Call (Obj_set_style Pad_bottom (Num 0) MAIN_DEFAULT),
             Call (Obj_set_style Bg_opa (Num 0) MAIN_DEFAULT),
             Call (Obj_set_style Border_width (Num 0) MAIN_DEFAULT),
             Call (Obj_set_style Radius (Num 0) MAIN_DEFAULT),
             Call (Obj_add_flag [LV_OBJ_FLAG_HIDDEN]),
             Call (Obj_clear_flag [LV_OBJ_FLAG_CLICKABLE, LV_OBJ_FLAG_SCROLLABLE]),
             Add_style Flex_column_start,
             Call (Obj_set_style Flex_main_place (Const LV_FLEX_ALIGN_CENTER) MAIN_DEFAULT),
             Call (Obj_set_style Flex_cross_place (Const LV_FLEX_ALIGN_CENTER) MAIN_DEFAULT),
             Call (Obj_set_style Flex_track_place (Const LV_FLEX_ALIGN_CENTER) MAIN_DEFAULT)]
            [
             Widget LV_SPINNER None
               [Call (Obj_set_pos (PX 0) (PX 0)), Call (Obj_set_size (PX 80) (PX 80)),
                Call (Spinner_set_anim_params 1000 60)]
               []
            ],
          reset_config_screen_reset_config_button
         ]
      ]"

definition reset_config_screen_tree :: widget where
  "reset_config_screen_tree =
    Widget LV_OBJ (Some ''reset_config_screen'')
      [Call (Obj_set_pos (PX 0) (PX 0)), Call (Obj_set_size (PX 300) (PX 240)),
       Call (Obj_add_event_cb About_screen_gesture LV_EVENT_GESTURE), Add_style Flex_screen_menu]
      [
       Widget LV_OBJ None
         [Call (Obj_set_pos (PX 0) (PX 0)), Call (Obj_set_size (LV_PCT 100) (LV_PCT 100)),
          Call (Obj_set_style Pad_left (Num 0) MAIN_DEFAULT),
          Call (Obj_set_style Pad_top (Num 0) MAIN_DEFAULT),
          Call (Obj_set_style Pad_right (Num 0) MAIN_DEFAULT),
          Call (Obj_set_style Pad_bottom (Num 0) MAIN_DEFAULT),
          Call (Obj_set_style Bg_opa (Num 0) MAIN_DEFAULT),
          Call (Obj_set_style Border_width (Num 0) MAIN_DEFAULT),
          Call (Obj_set_style Radius (Num 0) MAIN_DEFAULT),
          Call (Obj_clear_flag [LV_OBJ_FLAG_SCROLLABLE]), Add_style Flex_start]
         [
          Widget LV_OBJ (Some ''reset_config_header'')
            [Call (Obj_set_pos (PX 0) (PX 0)), Call (Obj_set_size (LV_PCT 100) LV_SIZE_CONTENT),
             Call (Obj_set_style Pad_left (Num 0) MAIN_DEFAULT),
             Call (Obj_set_style Pad_top (Num 0) MAIN_DEFAULT),
             Call (Obj_set_style Pad_bottom (Num 0) MAIN_DEFAULT),
             Call (Obj_set_style Bg_opa (Num 0) MAIN_DEFAULT),
             Call (Obj_set_style Border_width (Num 0) MAIN_DEFAULT),
             Call (Obj_set_style Radius (Num 0) MAIN_DEFAULT), Add_style Flow_row_space_between,
             Call (Obj_set_style Pad_right (Num 4) MAIN_DEFAULT)]
            [
             Widget LV_BUTTON None
               [Call (Obj_set_pos (PX 0) (PX 0)), Call (Obj_set_size (PX 32) (PX 32)),
                Call (Obj_add_event_cb Switch_to_menu LV_EVENT_CLICKED), Add_style Back_button]
               [
                Widget LV_IMAGE None
                  [Call (Obj_set_pos (PX (-1)) (PX 2)),
                   Call (Obj_set_size LV_SIZE_CONTENT LV_SIZE_CONTENT),
                   Call (Image_set_src ''img_back_caret'')]
                  []
               ],
             Widget LV_LABEL None
               [Call (Obj_set_pos (LV_PCT 0) (LV_PCT 0)),
                Call (Obj_set_size LV_SIZE_CONTENT LV_SIZE_CONTENT), Add_style Header_link,
                Call (Label_set_text ''Reset Config'')]
               []
            ],
          reset_config_screen_reset_config_container
         ]
      ]"

definition reboot_screen_reboot_config_button :: widget where
  "reboot_screen_reboot_config_button =
    Widget LV_OBJ (Some ''reboot_config_button'')
      [Call (Obj_set_pos (PX 0) (PX 0)), Call (Obj_set_size (LV_PCT 100) LV_SIZE_CONTENT),
       Call (Obj_set_style Pad_left (Num 0) MAIN_DEFAULT),
       Call (Obj_set_style Pad_top (Num 0) MAIN_DEFAULT),
       Call (Obj_set_style Pad_right (Num 0) MAIN_DEFAULT),
       Call (Obj_set_style Pad_bottom (Num 0) MAIN_DEFAULT),
       Call (Obj_set_style Bg_opa (Num 0) MAIN_DEFAULT),
       Call (Obj_set_style Border_width (Num 0) MAIN_DEFAULT),
       Call (Obj_set_style Radius (Num 0) MAIN_DEFAULT),
       Call (Obj_clear_flag [LV_OBJ_FLAG_SCROLLABLE]), Add_style Flex_column_start]
      [
       Widget LV_BUTTON (Some ''obj1'')
         [Call (Obj_set_pos (PX 0) (PX 0)), Call (Obj_set_size (LV_PCT 100) (PX 50)),
          Call (Obj_add_event_cb Reboot LV_EVENT_PRESSED),
          Call (Obj_add_event_cb Reboot LV_EVENT_PRESSING),
          Call (Obj_add_event_cb Reboot LV_EVENT_RELEASED),
          Call (Obj_set_style Bg_color (Color 0xffdc2626) MAIN_DEFAULT),
          Call (Obj_set_style Text_align (Const LV_TEXT_ALIGN_LEFT) MAIN_DEFAULT),
          Call (Obj_set_style Pad_right (Num 13) MAIN_DEFAULT)]
         [
          Widget LV_LABEL None
            [Call (Obj_set_pos (PX 0) (PX 0)), Call (Obj_set_size LV_SIZE_CONTENT LV_SIZE_CONTENT),
             Call (Obj_set_style Align (Const LV_ALIGN_CENTER) MAIN_DEFAULT),
             Call (Obj_set_style Text_align (Const LV_TEXT_ALIGN_LEFT) MAIN_DEFAULT),
             Call (Label_set_text ''Hold to reboot'')]
            []
         ]
      ]"

definition reboot_screen_reboot_container :: widget where
  "reboot_screen_reboot_container =
    Widget LV_OBJ (Some ''reboot_container'')
      [Call (Obj_set_pos (PX 0) (PX 0)), Call (Obj_set_size (LV_PCT 100) (LV_PCT 80)),
       Call (Obj_set_style Pad_left (Num 0) MAIN_DEFAULT),
       Call (Obj_set_style Pad_top (Num 0) MAIN_DEFAULT),
       Call (Obj_set_style Pad_bottom (Num 0) MAIN_DEFAULT),
       Call (Obj_set_style Bg_opa (Num 0) MAIN_DEFAULT),
       Call (Obj_set_style Border_width (Num 0) MAIN_DEFAULT),
       Call (Obj_set_style Radius (Num 0) MAIN_DEFAULT), Call Obj_set_scrollbar_auto,
       Call (Obj_set_scroll_dir LV_DIR_VER), Call Obj_set_scroll_snap_x_start,
       Add_style Flex_column_start, Call (Obj_set_style Pad_right (Num 4) MAIN_DEFAULT)]
      [
       Widget LV_OBJ None
         [Call (Obj_set_pos (PX 0) (PX 0)), Call (Obj_set_size (LV_PCT 100) LV_SIZE_CONTENT),
          Call (Obj_set_style Pad_left (Num 0) MAIN_DEFAULT),
          Call (Obj_set_style Pad_top (Num 0) MAIN_DEFAULT),
          Call (Obj_set_style Pad_bottom (Num 0) MAIN_DEFAULT),
          Call (Obj_set_style Bg_opa (Num 0) MAIN_DEFAULT),
          Call (Obj_set_style Border_width (Num 0) MAIN_DEFAULT),
          Call (Obj_set_style Radius (Num 0) MAIN_DEFAULT),
          Call (Obj_clear_flag [LV_OBJ_FLAG_SCROLLABLE]), Add_style Flex_column_start,
          Call (Obj_set_style Pad_right (Num 10) MAIN_DEFAULT)]
         [
          Widget LV_OBJ (Some ''reboot_label_container'')
            [Call (Obj_set_pos (PX 0) (PX 0)), Call (Obj_set_size (LV_PCT 100) LV_SIZE_CONTENT),
             Call (Obj_set_style Bg_opa (Num 0) MAIN_DEFAULT),
             Call (Obj_set_style Border_width (Num 0) MAIN_DEFAULT),
             Call (Obj_set_style Radius (Num 0) MAIN_DEFAULT),
             Call (Obj_clear_flag [LV_OBJ_FLAG_SCROLLABLE]), Add_style Flex_column_start,
             Call (Obj_set_style Pad_right (Num 10) MAIN_DEFAULT),
             Call (Obj_set_style Pad_left (Num 10) MAIN_DEFAULT),
             Call (Obj_set_style Pad_top (Num 10) MAIN_DEFAULT),
             Call (Obj_set_style Pad_bottom (Num 10) MAIN_DEFAULT)]
            [
             Widget LV_LABEL (Some ''reboot_label'')
               [Call (Obj_set_pos (PX 0) (PX 0)), Call (Obj_set_size (LV_PCT 100) LV_SIZE_CONTENT),
                Add_style Info_content_label,
                Call (Obj_set_style Text_font (Font ''ui_font_font_book20'') MAIN_DEFAULT),
                Call (Label_set_text (''Press and hold for'' @ [CHR 0x0A] @ ''5 seconds''))]
               []
            ],
          reboot_screen_reboot_config_button
         ]
      ]"

definition reboot_screen_tree :: widget where
  "reboot_screen_tree =
    Widget LV_OBJ (Some ''reboot_screen'')
      [Call (Obj_set_pos (PX 0) (PX 0)), Call (Obj_set_size (PX 300) (PX 240)),
       Call (Obj_add_event_cb About_screen_gesture LV_EVENT_GESTURE), Add_style Flex_screen_menu]
      [
       Widget LV_OBJ None
         [Call (Obj_set_pos (PX 0) (PX 0)), Call (Obj_set_size (LV_PCT 100) (LV_PCT 100)),
          Call (Obj_set_style Pad_left (Num 0) MAIN_DEFAULT),
          Call (Obj_set_style Pad_top (Num 0) MAIN_DEFAULT),
          Call (Obj_set_style Pad_right (Num 0) MAIN_DEFAULT),
          Call (Obj_set_style Pad_bottom (Num 0) MAIN_DEFAULT),
          Call (Obj_set_style Bg_opa (Num 0) MAIN_DEFAULT),
          Call (Obj_set_style Border_width (Num 0) MAIN_DEFAULT),
          Call (Obj_set_style Radius (Num 0) MAIN_DEFAULT),
          Call (Obj_clear_flag [LV_OBJ_FLAG_SCROLLABLE]), Add_style Flex_start]
         [
          Widget LV_OBJ (Some ''reboot_header'')
            [Call (Obj_set_pos (PX 0) (PX 0)), Call (Obj_set_size (LV_PCT 100) LV_SIZE_CONTENT),
             Call (Obj_set_style Pad_left (Num 0) MAIN_DEFAULT),
             Call (Obj_set_style Pad_top (Num 0) MAIN_DEFAULT),
             Call (Obj_set_style Pad_bottom (Num 0) MAIN_DEFAULT),
             Call (Obj_set_style Bg_opa (Num 0) MAIN_DEFAULT),
             Call (Obj_set_style Border_width (Num 0) MAIN_DEFAULT),
             Call (Obj_set_style Radius (Num 0) MAIN_DEFAULT), Add_style Flow_row_space_between,
             Call (Obj_set_style Pad_right (Num 4) MAIN_DEFAULT)]
            [
             Widget LV_BUTTON None
               [Call (Obj_set_pos (PX 0) (PX 0)), Call (Obj_set_size (PX 32) (PX 32)),
                Call (Obj_add_event_cb Switch_to_menu LV_EVENT_CLICKED), Add_style Back_button]
               [
                Widget LV_IMAGE None
                  [Call (Obj_set_pos (PX (-1)) (PX 2)),
                   Call (Obj_set_size LV_SIZE_CONTENT LV_SIZE_CONTENT),
                   Call (Image_set_src ''img_back_caret'')]
                  []
               ],
             Widget LV_LABEL None
               [Call (Obj_set_pos (LV_PCT 0) (LV_PCT 0)),
                Call (Obj_set_size LV_SIZE_CONTENT LV_SIZE_CONTENT), Add_style Header_link,
                Call (Label_set_text ''Reboot Device'')]
               []
            ],
          reboot_screen_reboot_container
         ]
      ]"

definition rebooting_screen_tree :: widget where
  "rebooting_screen_tree =
    Widget LV_OBJ (Some ''rebooting_screen'')
      [Call (Obj_set_pos (PX 0) (PX 0)), Call (Obj_set_size (PX 300) (PX 240)),
       Add_style Flex_column_space_between,
       Call (Obj_set_style Bg_color (Color 0xff000000) MAIN_DEFAULT)]
      [
       Widget LV_OBJ None
         [Call (Obj_set_pos (PX 0) (PX 0)), Call (Obj_set_size (LV_PCT 100) (LV_PCT 100)),
          Call (Obj_set_style Pad_left (Num 0) MAIN_DEFAULT),
          Call (Obj_set_style Pad_top (Num 0) MAIN_DEFAULT),
          Call (Obj_set_style Pad_right (Num 0) MAIN_DEFAULT),
          Call (Obj_set_style Pad_bottom (Num 0) MAIN_DEFAULT),
          Call (Obj_set_style Bg_opa (Num 0) MAIN_DEFAULT),
          Call (Obj_set_style Border_width (Num 0) MAIN_DEFAULT),
          Call (Obj_set_style Radius (Num 0) MAIN_DEFAULT), Add_style Flex_start]
         [
          Widget LV_OBJ None
            [Call (Obj_set_pos (PX 0) (PX 0)), Call (Obj_set_size (LV_PCT 100) (LV_PCT 100)),
             Call (Obj_set_style Pad_left (Num 0) MAIN_DEFAULT),
             Call (Obj_set_style Pad_top (Num 0) MAIN_DEFAULT),
             Call (Obj_set_style Pad_right (Num 0) MAIN_DEFAULT),
             Call (Obj_set_style Pad_bottom (Num 0) MAIN_DEFAULT),
             Call (Obj_set_style Bg_opa (Num 0) MAIN_DEFAULT),
             Call (Obj_set_style Border_width (Num 0) MAIN_DEFAULT),
             Call (Obj_set_style Radius (Num 0) MAIN_DEFAULT), Add_style Flex_center]
            [
             Widget LV_IMAGE (Some ''reboot_in_progress_logo'')
               [Call (Obj_set_pos (PX 0) (PX 0)),
                Call (Obj_set_size LV_SIZE_CONTENT LV_SIZE_CONTENT),
                Call (Image_set_src ''img_boot_logo_2''),
                Call (Obj_set_style Transform_width (Num 174) MAIN_DEFAULT),
                Call (Obj_set_style Transform_height (Num 49) MAIN_DEFAULT)]
               [],
             Widget LV_LABEL (Some ''reboot_in_progress_label'')
               [Call (Obj_set_pos (LV_PCT 0) (LV_PCT 0)),
                Call (Obj_set_size LV_SIZE_CONTENT LV_SIZE_CONTENT), Add_style Label_font16,
                Call (Obj_set_style Text_align (Const LV_TEXT_ALIGN_CENTER) MAIN_DEFAULT),
                Call (Obj_set_style Text_font (Font ''ui_font_font_book16'') MAIN_DEFAULT),
                Call (Label_set_text ''Rebooting device ...'')]
               []
            ]
         ]
      ]"

definition switch_dhcp_client_screen_dhcp_client_label_container :: widget where
  "switch_dhcp_client_screen_dhcp_client_label_container =
    Widget LV_OBJ (Some ''dhcp_client_label_container'')
      [Call (Obj_set_pos (PX 0) (PX 0)), Call (Obj_set_size (LV_PCT 100) LV_SIZE_CONTENT),
       Call (Obj_set_style Bg_opa (Num 0) MAIN_DEFAULT),
       Call (Obj_set_style Border_width (Num 0) MAIN_DEFAULT),
       Call (Obj_set_style Radius (Num 0) MAIN_DEFAULT),
       Call (Obj_clear_flag [LV_OBJ_FLAG_SCROLLABLE]), Add_style Flex_column_start,
       Call (Obj_set_style Pad_right (Num 10) MAIN_DEFAULT),
       Call (Obj_set_style Pad_left (Num 10) MAIN_DEFAULT),
       Call (Obj_set_style Pad_top (Num 10) MAIN_DEFAULT),
       Call (Obj_set_style Pad_bottom (Num 10) MAIN_DEFAULT)]
      [
       Widget LV_LABEL (Some ''dhcpc_label'')
         [Call (Obj_set_pos (PX 0) (PX 0)), Call (Obj_set_size (LV_PCT 100) LV_SIZE_CONTENT),
          Add_style Info_content_label,
          Call (Obj_set_style Text_font (Font ''ui_font_font_book20'') MAIN_DEFAULT),
          Call (Label_set_text (''Press and hold for'' @ [CHR 0x0A] @ ''5 seconds''))]
         []
      ]"

definition switch_dhcp_client_screen_dhcp_client_button :: widget where
  "switch_dhcp_client_screen_dhcp_client_button =
    Widget LV_OBJ (Some ''dhcp_client_button'')
      [Call (Obj_set_pos (PX 0) (PX 0)), Call (Obj_set_size (LV_PCT 100) LV_SIZE_CONTENT),
       Call (Obj_set_style Pad_left (Num 0) MAIN_DEFAULT),
       Call (Obj_set_style Pad_top (Num 0) MAIN_DEFAULT),
       Call (Obj_set_style Pad_right (Num 0) MAIN_DEFAULT),
       Call (Obj_set_style Pad_bottom (Num 0) MAIN_DEFAULT),
       Call (Obj_set_style Bg_opa (Num 0) MAIN_DEFAULT),
       Call (Obj_set_style Border_width (Num 0) MAIN_DEFAULT),
       Call (Obj_set_style Radius (Num 0) MAIN_DEFAULT),
       Call (Obj_clear_flag [LV_OBJ_FLAG_SCROLLABLE]), Add_style Flex_column_start]
      [
       Widget LV_BUTTON (Some ''obj2'')
         [Call (Obj_set_pos (PX 0) (PX 0)), Call (Obj_set_size (LV_PCT 100) (PX 50)),
          Call (Obj_add_event_cb Dhcpc LV_EVENT_PRESSED),
          Call (Obj_add_event_cb Dhcpc LV_EVENT_PRESSING),
          Call (Obj_add_event_cb Dhcpc LV_EVENT_RELEASED),
          Call (Obj_set_style Bg_color (Color 0xffdc2626) MAIN_DEFAULT),
          Call (Obj_set_style Text_align (Const LV_TEXT_ALIGN_LEFT) MAIN_DEFAULT),
          Call (Obj_set_style Pad_right (Num 13) MAIN_DEFAULT)]
         [
          Widget LV_LABEL (Some ''dhcp_client_change_label'')
            [Call (Obj_set_pos (PX 0) (PX 0)), Call (Obj_set_size LV_SIZE_CONTENT LV_SIZE_CONTENT),
             Call (Obj_set_style Align (Const LV_ALIGN_CENTER) MAIN_DEFAULT),
             Call (Obj_set_style Text_align (Const LV_TEXT_ALIGN_LEFT) MAIN_DEFAULT),
             Call (Label_set_text ''Switch to udhcpc'')]
            []
         ]
      ]"

definition switch_dhcp_client_screen_dhcp_client_container :: widget where
  "switch_dhcp_client_screen_dhcp_client_container =
    Widget LV_OBJ (Some ''dhcp_client_container'')
      [Call (Obj_set_pos (PX 0) (PX 0)), Call (Obj_set_size (LV_PCT 100) (LV_PCT 80)),
       Call (Obj_set_style Pad_left (Num 0) MAIN_DEFAULT),
       Call (Obj_set_style Pad_top (Num 0) MAIN_DEFAULT),
       Call (Obj_set_style Pad_bottom (Num 0) MAIN_DEFAULT),
       Call (Obj_set_style Bg_opa (Num 0) MAIN_DEFAULT),
       Call (Obj_set_style Border_width (Num 0) MAIN_DEFAULT),
       Call (Obj_set_style Radius (Num 0) MAIN_DEFAULT), Call Obj_set_scrollbar_auto,
       Call (Obj_set_scroll_dir LV_DIR_VER), Call Obj_set_scroll_snap_x_start,
       Add_style Flex_column_start, Call (Obj_set_style Pad_right (Num 4) MAIN_DEFAULT)]
      [
       Widget LV_OBJ None
         [Call (Obj_set_pos (PX 0) (PX 0)), Call (Obj_set_size (LV_PCT 100) LV_SIZE_CONTENT),
          Call (Obj_set_style Pad_left (Num 0) MAIN_DEFAULT),
          Call (Obj_set_style Pad_top (Num 0) MAIN_DEFAULT),
          Call (Obj_set_style Pad_bottom (Num 0) MAIN_DEFAULT),
          Call (Obj_set_style Bg_opa (Num 0) MAIN_DEFAULT),
          Call (Obj_set_style Border_width (Num 0) MAIN_DEFAULT),
          Call (Obj_set_style Radius (Num 0) MAIN_DEFAULT),
          Call (Obj_clear_flag [LV_OBJ_FLAG_SCROLLABLE]), Add_style Flex_column_start,
          Call (Obj_set_style Pad_right (Num 10) MAIN_DEFAULT)]
         [
          switch_dhcp_client_screen_dhcp_client_label_container,
          Widget LV_OBJ (Some ''dhcp_client_spinner'')
            [Call (Obj_set_pos (PX 0) (PX 0)), Call (Obj_set_size (LV_PCT 100) LV_SIZE_CONTENT),
             Call (Obj_set_style Pad_left (Num 0) MAIN_DEFAULT),
             Call (Obj_set_style Pad_top (Num 0) MAIN_DEFAULT),
             Call (Obj_set_style Pad_right (Num 0) MAIN_DEFAULT),
             Call (Obj_set_style Pad_bottom (Num 0) MAIN_DEFAULT),
             Call (Obj_set_style Bg_opa (Num 0) MAIN_DEFAULT),
             Call (Obj_set_style Border_width (Num 0) MAIN_DEFAULT),
             Call (Obj_set_style Radius (Num 0) MAIN_DEFAULT),
             Call (Obj_add_flag [LV_OBJ_FLAG_HIDDEN]),
             Call (Obj_clear_flag [LV_OBJ_FLAG_CLICKABLE, LV_OBJ_FLAG_SCROLLABLE]),
             Add_style Flex_column_start,
             Call (Obj_set_style Flex_main_place (Const LV_FLEX_ALIGN_CENTER) MAIN_DEFAULT),
             Call (Obj_set_style Flex_cross_place (Const LV_FLEX_ALIGN_CENTER) MAIN_DEFAULT),
             Call (Obj_set_style Flex_track_place (Const LV_FLEX_ALIGN_CENTER) MAIN_DEFAULT)]
            [
             Widget LV_SPINNER None
               [Call (Obj_set_pos (PX 0) (PX 0)), Call (Obj_set_size (PX 80) (PX 80)),
                Call (Spinner_set_anim_params 1000 60)]
               []
            ],
          switch_dhcp_client_screen_dhcp_client_button
         ]
      ]"

definition switch_dhcp_client_screen_tree :: widget where
  "switch_dhcp_client_screen_tree =
    Widget LV_OBJ (Some ''switch_dhcp_client_screen'')
      [Call (Obj_set_pos (PX 0) (PX 0)), Call (Obj_set_size (PX 300) (PX 240)),
       Call (Obj_add_event_cb About_screen_gesture LV_EVENT_GESTURE), Add_style Flex_screen_menu]
      [
       Widget LV_OBJ None
         [Call (Obj_set_pos (PX 0) (PX 0)), Call (Obj_set_size (LV_PCT 100) (LV_PCT 100)),
          Call (Obj_set_style Pad_left (Num 0) MAIN_DEFAULT),
          Call (Obj_set_style Pad_top (Num 0) MAIN_DEFAULT),
          Call (Obj_set_style Pad_right (Num 0) MAIN_DEFAULT),
          Call (Obj_set_style Pad_bottom (Num 0) MAIN_DEFAULT),
          Call (Obj_set_style Bg_opa (Num 0) MAIN_DEFAULT),
          Call (Obj_set_style Border_width (Num 0) MAIN_DEFAULT),
          Call (Obj_set_style Radius (Num 0) MAIN_DEFAULT),
          Call (Obj_clear_flag [LV_OBJ_FLAG_SCROLLABLE]), Add_style Flex_start]
         [
          Widget LV_OBJ (Some ''dhcp_client_header'')
            [Call (Obj_set_pos (PX 0) (PX 0)), Call (Obj_set_size (LV_PCT 100) LV_SIZE_CONTENT),
             Call (Obj_set_style Pad_left (Num 0) MAIN_DEFAULT),
             Call (Obj_set_style Pad_top (Num 0) MAIN_DEFAULT),
             Call (Obj_set_style Pad_bottom (Num 0) MAIN_DEFAULT),
             Call (Obj_set_style Bg_opa (Num 0) MAIN_DEFAULT),
             Call (Obj_set_style Border_width (Num 0) MAIN_DEFAULT),
             Call (Obj_set_style Radius (Num 0) MAIN_DEFAULT), Add_style Flow_row_space_between,
             Call (Obj_set_style Pad_right (Num 4) MAIN_DEFAULT)]
            [
             Widget LV_BUTTON None
               [Call (Obj_set_pos (PX 0) (PX 0)), Call (Obj_set_size (PX 32) (PX 32)),
                Call (Obj_add_event_cb Switch_to_menu LV_EVENT_CLICKED), Add_style Back_button]
               [
                Widget LV_IMAGE None
                  [Call (Obj_set_pos (PX (-1)) (PX 2)),
                   Call (Obj_set_size LV_SIZE_CONTENT LV_SIZE_CONTENT),
                   Call (Image_set_src ''img_back_caret'')]
                  []
               ],
             Widget LV_LABEL None
               [Call (Obj_set_pos (LV_PCT 0) (LV_PCT 0)),
                Call (Obj_set_size LV_SIZE_CONTENT LV_SIZE_CONTENT), Add_style Header_link,
                Call (Label_set_text ''DHCP Client'')]
               []
            ],
          switch_dhcp_client_screen_dhcp_client_container
         ]
      ]"

end
