(* ===== verification/Vars.thy ===== *)
theory Vars
  imports Lvgl
begin

text \<open>
  The variables of \<open>vars.c\<close>: character arrays set with \<open>strncpy\<close> and a NUL in the last cell, and the LVGL
  version, filled in on the first read.
\<close>

section \<open>Getters and setters\<close>

text \<open>The decimal text of a version number, as \<open>sprintf\<close> with \<open>%d\<close> writes it.\<close>

fun decimal :: "nat \<Rightarrow> string" where
  "decimal n = (if n < 10 then [char_of (48 + n)] else decimal (n div 10) @ [char_of (48 + n mod 10)])"

declare decimal.simps [simp del]

text \<open>The version numbers are macros of the LVGL headers.\<close>

record lvgl_ver =
  LVGL_VERSION_MAJOR :: nat
  LVGL_VERSION_MINOR :: nat
  LVGL_VERSION_PATCH :: nat

definition version_text :: "lvgl_ver \<Rightarrow> string" where
  "version_text L = decimal (LVGL_VERSION_MAJOR L) @ ''.'' @ decimal (LVGL_VERSION_MINOR L) @ ''.'' @
     decimal (LVGL_VERSION_PATCH L)"

definition get_var_app_version :: "ui_state \<Rightarrow> string" where
  "get_var_app_version u = cstr (app_version u)"

definition get_var_system_version :: "ui_state \<Rightarrow> string" where
  "get_var_system_version u = cstr (system_version u)"

text \<open>The NUL goes into \<open>app_version\<close>, at the index of the last cell of \<open>lvgl_version\<close>.\<close>

definition get_var_lvgl_version :: "lvgl_ver \<Rightarrow> ui_state \<Rightarrow> string \<times> ui_state" where
  "get_var_lvgl_version L u =
     (let u' = (if lvgl_version u ! 0 = NUL
                then u\<lparr>lvgl_version := strncpy (lvgl_version u) (version_text L) 32,
                       app_version := (app_version u)[31 := NUL]\<rparr>
                else u)
      in (cstr (lvgl_version u'), u'))"

definition get_var_main_screen :: "ui_state \<Rightarrow> string" where
  "get_var_main_screen u = cstr (main_screen u)"

definition set_var_app_version :: "string \<Rightarrow> ui_state \<Rightarrow> ui_state" where
  "set_var_app_version value u = u\<lparr>app_version := (strncpy (app_version u) value 100)[99 := NUL]\<rparr>"

definition set_var_system_version :: "string \<Rightarrow> ui_state \<Rightarrow> ui_state" where
  "set_var_system_version value u = u\<lparr>system_version := (strncpy (system_version u) value 100)[99 := NUL]\<rparr>"

definition set_var_lvgl_version :: "string \<Rightarrow> ui_state \<Rightarrow> ui_state" where
  "set_var_lvgl_version value u = u"

definition set_var_main_screen :: "string \<Rightarrow> ui_state \<Rightarrow> ui_state" where
  "set_var_main_screen value u = u\<lparr>main_screen := (strncpy (main_screen u) value 32)[31 := NUL]\<rparr>"

section \<open>The arrays keep their sizes\<close>

definition arrays_ok :: "ui_state \<Rightarrow> bool" where
  "arrays_ok u \<longleftrightarrow> length (app_version u) = 100 \<and> length (system_version u) = 100 \<and>
     length (lvgl_version u) = 32 \<and> length (main_screen u) = 32"

lemmas var_defs = get_var_app_version_def get_var_system_version_def get_var_lvgl_version_def
  get_var_main_screen_def set_var_app_version_def set_var_system_version_def set_var_lvgl_version_def
  set_var_main_screen_def

lemma arrays_ok_init: "arrays_ok init_ui"
  by (simp add: arrays_ok_def init_ui_def char_array_def)

lemma arrays_ok_ops:
  assumes "arrays_ok u"
  shows "arrays_ok (set_var_app_version v u)" "arrays_ok (set_var_system_version v u)"
    "arrays_ok (set_var_lvgl_version v u)" "arrays_ok (set_var_main_screen v u)"
    "arrays_ok (snd (get_var_lvgl_version L u))"
  using assms by (simp_all add: arrays_ok_def var_defs Let_def)

lemma get_set_var:
  assumes "arrays_ok u" and "is_cstring v"
  shows "get_var_app_version (set_var_app_version v u) = take 99 v"
    "get_var_system_version (set_var_system_version v u) = take 99 v"
    "get_var_main_screen (set_var_main_screen v u) = take 31 v"
  using cstr_strncpy_terminated [OF assms(2), of "app_version u" 99]
    cstr_strncpy_terminated [OF assms(2), of "system_version u" 99]
    cstr_strncpy_terminated [OF assms(2), of "main_screen u" 31] assms(1)
  by (simp_all add: var_defs arrays_ok_def numeral_eq_Suc)

lemma cstr_cut: "n < length buf \<Longrightarrow> cstr (buf[n := NUL]) = take n (cstr buf)"
proof (induction buf arbitrary: n)
  case (Cons c buf)
  then show ?case
    by (cases n) (auto simp: cstr_def)
qed simp

text \<open>
  Reading the LVGL version for the first time puts the terminating NUL into the application version.
\<close>

lemma lvgl_version_cuts_app_version:
  assumes "arrays_ok u" and "is_cstring v" and "lvgl_version u ! 0 = NUL"
  shows "get_var_app_version (snd (get_var_lvgl_version L (set_var_app_version v u))) = take 31 v"
proof -
  let ?u = "set_var_app_version v u"
  have "lvgl_version ?u ! 0 = NUL" and len: "length (app_version ?u) = 100"
    using assms(1,3) arrays_ok_ops(1) [OF assms(1), of v] by (simp_all add: set_var_app_version_def arrays_ok_def)
  then have "get_var_app_version (snd (get_var_lvgl_version L ?u)) = take 31 (get_var_app_version ?u)"
    by (simp add: get_var_app_version_def get_var_lvgl_version_def cstr_cut)
  also have "\<dots> = take 31 v"
    by (simp add: get_set_var [OF assms(1,2)])
  finally show ?thesis .
qed

end
