(* ===== verification/Screens.thy ===== *)
theory Screens
  imports Screens_Home Screens_Menu Screens_Info Screens_Action Vars
begin

text \<open>
  \<open>screens.c\<close> and \<open>screens.h\<close>: the object table, the functions that create and refresh the screens,
  and their dispatch by index.
\<close>

section \<open>The object table\<close>

text \<open>The fields of \<open>objects_t\<close> in their order; the twelve screens come first.\<close>

definition screen_names :: "string list" where
  "screen_names = [''boot_screen'', ''no_network_screen'', ''home_screen'', ''menu_screen'',
     ''menu_advanced_screen'', ''menu_network_screen'', ''about_screen'', ''status_screen'',
     ''reset_config_screen'', ''reboot_screen'', ''rebooting_screen'',
     ''switch_dhcp_client_screen'']"

definition objects_t_fields :: "string list" where
  "objects_t_fields = screen_names @
    [''boot_logo'', ''boot_screen_version'', ''no_network_header_container'',
     ''no_network_header_logo'', ''no_network_content_container'', ''no_network_title'',
     ''home_info_ipv6_addr_1'', ''home_header_container'', ''home_header_logo'',
     ''cloud_status_icon'', ''cloud_status_label'', ''home_info_container'',
     ''home_info_ipv4_addr'', ''home_info_ipv6_addr'', ''home_info_mac_addr'', ''divider'',
     ''home_status_container'', ''usb_status'', ''usb_indicator'', ''usb_status_label'',
     ''hdmi_status'', ''hdmi_indicator'', ''hdmi_status_label'', ''menu_header_container'',
     ''menu_items_container'', ''menu_btn_status'', ''menu_btn_network'', ''menu_btn_access'',
     ''menu_btn_advanced'', ''menu_btn_about'', ''menu_header_container_1'',
     ''menu_items_container_1'', ''menu_btn_advanced_developer_mode'',
     ''menu_btn_advanced_usb_emulation'', ''menu_btn_advanced_reboot'',
     ''menu_btn_dhcp_client'', ''menu_btn_advanced_reset_config'', ''menu_header_container_2'',
     ''menu_items_container_2'', ''menu_btn_network_ipv4'', ''menu_btn_network_ipv6'',
     ''menu_btn_network_lldp'', ''about_header_container'', ''about_items_container'',
     ''system_version_container'', ''system_version'', ''app_version_container'',
     ''app_version'', ''build_branch_container'', ''build_branch'', ''build_date_container'',
     ''build_date'', ''golang_version_container'', ''golang_version'',
     ''lvgl_version_container'', ''lvgl_version'', ''kernel_version_container'',
     ''kernel_version'', ''cpu_serial_container'', ''cpu_serial'', ''status_header_container'',
     ''status_items_container'', ''device_id_container'', ''device_id'',
     ''cloud_account_id_container'', ''app_version_1'', ''cloud_domain_container'',
     ''cloud_domain'', ''reset_config_header'', ''reset_config_container'',
     ''reset_config_label_container'', ''reset_config_label'', ''reset_config_spinner'',
     ''reset_config_button'', ''obj0'', ''reboot_header'', ''reboot_container'',
     ''reboot_label_container'', ''reboot_label'', ''reboot_config_button'', ''obj1'',
     ''reboot_in_progress_logo'', ''reboot_in_progress_label'', ''dhcp_client_header'',
     ''dhcp_client_container'', ''dhcp_client_label_container'', ''dhcpc_label'',
     ''dhcp_client_spinner'', ''dhcp_client_button'', ''obj2'', ''dhcp_client_change_label'']"

section \<open>Refreshing a screen\<close>

text \<open>The refresh of a label: it is written only when its text has changed.\<close>

definition tick_label :: "ui_env \<Rightarrow> string \<Rightarrow> string \<Rightarrow> unit ui_m" where
  "tick_label E field new_val = do {
     obj \<leftarrow> get_ui (\<lambda>u. objects u field);
     cur \<leftarrow> lv E (Label_get_text obj);
     if new_val \<noteq> l_text cur then do {
       set_ui (\<lambda>u. u\<lparr>tick_value_change_obj := obj\<rparr>);
       lv_do E (On obj (Label_set_text new_val));
       set_ui (\<lambda>u. u\<lparr>tick_value_change_obj := 0\<rparr>)
     }
     else skip
   }"

definition tick_screen_boot_screen :: "lvgl_ver \<Rightarrow> ui_env \<Rightarrow> unit ui_m" where
  "tick_screen_boot_screen L E = do {
     new_val \<leftarrow> get_ui get_var_app_version;
     tick_label E ''boot_screen_version'' new_val
   }"

definition read_lvgl_version :: "lvgl_ver \<Rightarrow> string ui_m" where
  "read_lvgl_version L = State (\<lambda>s. case get_var_lvgl_version L (ui s) of (v, u) \<Rightarrow> (v, s\<lparr>ui := u\<rparr>))"

definition tick_screen_about_screen :: "lvgl_ver \<Rightarrow> ui_env \<Rightarrow> unit ui_m" where
  "tick_screen_about_screen L E = do {
     new_val \<leftarrow> get_ui get_var_system_version;
     tick_label E ''system_version'' new_val;
     new_val \<leftarrow> get_ui get_var_app_version;
     tick_label E ''app_version'' new_val;
     new_val \<leftarrow> read_lvgl_version L;
     tick_label E ''lvgl_version'' new_val
   }"

text \<open>The refresh functions of the other screens are empty.\<close>

definition tick_screen_no_network_screen :: "lvgl_ver \<Rightarrow> ui_env \<Rightarrow> unit ui_m" where
  "tick_screen_no_network_screen L E = skip"

definition tick_screen_home_screen :: "lvgl_ver \<Rightarrow> ui_env \<Rightarrow> unit ui_m" where
  "tick_screen_home_screen L E = skip"

definition tick_screen_menu_screen :: "lvgl_ver \<Rightarrow> ui_env \<Rightarrow> unit ui_m" where
  "tick_screen_menu_screen L E = skip"

definition tick_screen_menu_advanced_screen :: "lvgl_ver \<Rightarrow> ui_env \<Rightarrow> unit ui_m" where
  "tick_screen_menu_advanced_screen L E = skip"

definition tick_screen_menu_network_screen :: "lvgl_ver \<Rightarrow> ui_env \<Rightarrow> unit ui_m" where
  "tick_screen_menu_network_screen L E = skip"

definition tick_screen_status_screen :: "lvgl_ver \<Rightarrow> ui_env \<Rightarrow> unit ui_m" where
  "tick_screen_status_screen L E = skip"

definition tick_screen_reset_config_screen :: "lvgl_ver \<Rightarrow> ui_env \<Rightarrow> unit ui_m" where
  "tick_screen_reset_config_screen L E = skip"

definition tick_screen_reboot_screen :: "lvgl_ver \<Rightarrow> ui_env \<Rightarrow> unit ui_m" where
  "tick_screen_reboot_screen L E = skip"

definition tick_screen_rebooting_screen :: "lvgl_ver \<Rightarrow> ui_env \<Rightarrow> unit ui_m" where
  "tick_screen_rebooting_screen L E = skip"

definition tick_screen_switch_dhcp_client_screen :: "lvgl_ver \<Rightarrow> ui_env \<Rightarrow> unit ui_m" where
  "tick_screen_switch_dhcp_client_screen L E = skip"

text \<open>The dispatch table; an index outside it is undefined (\<open>None\<close>).\<close>

definition tick_screen_funcs :: "(lvgl_ver \<Rightarrow> ui_env \<Rightarrow> unit ui_m) list" where
  "tick_screen_funcs = [tick_screen_boot_screen, tick_screen_no_network_screen, tick_screen_home_screen,
     tick_screen_menu_screen, tick_screen_menu_advanced_screen,
     tick_screen_menu_network_screen, tick_screen_about_screen, tick_screen_status_screen,
     tick_screen_reset_config_screen, tick_screen_reboot_screen, tick_screen_rebooting_screen,
     tick_screen_switch_dhcp_client_screen]"

definition tick_screen :: "lvgl_ver \<Rightarrow> ui_env \<Rightarrow> int \<Rightarrow> bool ui_m" where
  "tick_screen L E screen_index =
     (if 0 \<le> screen_index \<and> nat screen_index < length tick_screen_funcs
      then do { (tick_screen_funcs ! nat screen_index) L E; State_Monad.return True }
      else State_Monad.return False)"

definition tick_screen_by_id :: "lvgl_ver \<Rightarrow> ui_env \<Rightarrow> int \<Rightarrow> bool ui_m" where
  "tick_screen_by_id L E screenId = tick_screen L E (screenId - 1)"

section \<open>Creating the screens\<close>

definition create_screen_boot_screen :: "lvgl_ver \<Rightarrow> ui_env \<Rightarrow> unit ui_m" where
  "create_screen_boot_screen L E = do { create_widget E 0 boot_screen_tree; tick_screen_boot_screen L E }"

definition create_screen_no_network_screen :: "lvgl_ver \<Rightarrow> ui_env \<Rightarrow> unit ui_m" where
  "create_screen_no_network_screen L E = do { create_widget E 0 no_network_screen_tree; tick_screen_no_network_screen L E }"

definition create_screen_home_screen :: "lvgl_ver \<Rightarrow> ui_env \<Rightarrow> unit ui_m" where
  "create_screen_home_screen L E = do { create_widget E 0 home_screen_tree; tick_screen_home_screen L E }"

definition create_screen_menu_screen :: "lvgl_ver \<Rightarrow> ui_env \<Rightarrow> unit ui_m" where
  "create_screen_menu_screen L E = do { create_widget E 0 menu_screen_tree; tick_screen_menu_screen L E }"

definition create_screen_menu_advanced_screen :: "lvgl_ver \<Rightarrow> ui_env \<Rightarrow> unit ui_m" where
  "create_screen_menu_advanced_screen L E = do { create_widget E 0 menu_advanced_screen_tree; tick_screen_menu_advanced_screen L E }"

definition create_screen_menu_network_screen :: "lvgl_ver \<Rightarrow> ui_env \<Rightarrow> unit ui_m" where
  "create_screen_menu_network_screen L E = do { create_widget E 0 menu_network_screen_tree; tick_screen_menu_network_screen L E }"

definition create_screen_about_screen :: "lvgl_ver \<Rightarrow> ui_env \<Rightarrow> unit ui_m" where
  "create_screen_about_screen L E = do { create_widget E 0 about_screen_tree; tick_screen_about_screen L E }"

definition create_screen_status_screen :: "lvgl_ver \<Rightarrow> ui_env \<Rightarrow> unit ui_m" where
  "create_screen_status_screen L E = do { create_widget E 0 status_screen_tree; tick_screen_status_screen L E }"

definition create_screen_reset_config_screen :: "lvgl_ver \<Rightarrow> ui_env \<Rightarrow> unit ui_m" where
  "create_screen_reset_config_screen L E = do { create_widget E 0 reset_config_screen_tree; tick_screen_reset_config_screen L E }"

definition create_screen_reboot_screen :: "lvgl_ver \<Rightarrow> ui_env \<Rightarrow> unit ui_m" where
  "create_screen_reboot_screen L E = do { create_widget E 0 reboot_screen_tree; tick_screen_reboot_screen L E }"

definition create_screen_rebooting_screen :: "lvgl_ver \<Rightarrow> ui_env \<Rightarrow> unit ui_m" where
  "create_screen_rebooting_screen L E = do { create_widget E 0 rebooting_screen_tree; tick_screen_rebooting_screen L E }"

definition create_screen_switch_dhcp_client_screen :: "lvgl_ver \<Rightarrow> ui_env \<Rightarrow> unit ui_m" where
  "create_screen_switch_dhcp_client_screen L E = do { create_widget E 0 switch_dhcp_client_screen_tree; tick_screen_switch_dhcp_client_screen L E }"

definition create_screens :: "lvgl_ver \<Rightarrow> ui_env \<Rightarrow> unit ui_m" where
  "create_screens L E = do {
     dispp \<leftarrow> lv E Disp_get_default;
     theme \<leftarrow> lv E (Theme_default_init (l_ptr dispp));
     lv_do E (Disp_set_theme (l_ptr dispp) (l_ptr theme));
     create_screen_boot_screen L E;
     create_screen_no_network_screen L E;
     create_screen_home_screen L E;
     create_screen_menu_screen L E;
     create_screen_menu_advanced_screen L E;
     create_screen_menu_network_screen L E;
     create_screen_about_screen L E;
     create_screen_status_screen L E;
     create_screen_reset_config_screen L E;
     create_screen_reboot_screen L E;
     create_screen_rebooting_screen L E;
     create_screen_switch_dhcp_client_screen L E
   }"

definition screen_trees :: "widget list" where
  "screen_trees = [boot_screen_tree, no_network_screen_tree, home_screen_tree, menu_screen_tree,
     menu_advanced_screen_tree, menu_network_screen_tree, about_screen_tree,
     status_screen_tree, reset_config_screen_tree, reboot_screen_tree, rebooting_screen_tree,
     switch_dhcp_client_screen_tree]"

section \<open>Facts\<close>

lemmas tree_defs = screen_trees_def
  boot_screen_tree_def no_network_screen_no_network_content_container_def
  no_network_screen_tree_def home_screen_home_header_container_def
  home_screen_home_info_container_def home_screen_usb_status_def
  home_screen_hdmi_status_def home_screen_part5_def
  home_screen_tree_def menu_screen_menu_header_container_def
  menu_screen_menu_btn_status_def menu_screen_menu_btn_advanced_def
  menu_screen_menu_btn_about_def menu_screen_part4_def
  menu_screen_tree_def menu_advanced_screen_menu_header_container_1_def
  menu_advanced_screen_menu_btn_advanced_developer_mode_def menu_advanced_screen_menu_btn_advanced_reboot_def
  menu_advanced_screen_menu_btn_advanced_reset_config_def menu_advanced_screen_part4_def
  menu_advanced_screen_tree_def menu_network_screen_menu_header_container_2_def
  menu_network_screen_menu_btn_network_lldp_def menu_network_screen_part2_def
  menu_network_screen_tree_def about_screen_about_header_container_def
  about_screen_system_version_container_def about_screen_app_version_container_def
  about_screen_build_branch_container_def about_screen_build_date_container_def
  about_screen_golang_version_container_def about_screen_lvgl_version_container_def
  about_screen_kernel_version_container_def about_screen_part8_def
  about_screen_tree_def status_screen_status_header_container_def
  status_screen_device_id_container_def status_screen_cloud_account_id_container_def
  status_screen_part3_def status_screen_tree_def
  reset_config_screen_reset_config_label_container_def reset_config_screen_reset_config_button_def
  reset_config_screen_reset_config_container_def reset_config_screen_tree_def
  reboot_screen_reboot_config_button_def reboot_screen_reboot_container_def
  reboot_screen_tree_def rebooting_screen_tree_def
  switch_dhcp_client_screen_dhcp_client_label_container_def switch_dhcp_client_screen_dhcp_client_button_def
  switch_dhcp_client_screen_dhcp_client_container_def switch_dhcp_client_screen_tree_def

lemmas name_simps = tree_defs own_name_def

text \<open>
  The names stored by the screens are the fields of \<open>objects_t\<close>: the screens first, then the
  inner objects in the order of their creation.
\<close>

lemma screen_root_names: "concat (map root_name screen_trees) = screen_names"
  by (simp add: name_simps screen_names_def)

lemma screen_inner_names: "screen_names @ concat (map inner_names screen_trees) = objects_t_fields"
  by (simp add: name_simps screen_names_def objects_t_fields_def)

section \<open>Creation fills in the object table\<close>

text \<open>The global variables that neither creation nor refreshing touches.\<close>

definition frame :: "ui_state \<Rightarrow> ui_state" where
  "frame u = u\<lparr>objects := (\<lambda>_. 0), style_ptr := (\<lambda>_. 0), tick_value_change_obj := 0,
     lvgl_version := [], app_version := []\<rparr>"

definition fills :: "(string \<Rightarrow> bool) \<Rightarrow> 'a ui_m \<Rightarrow> bool" where
  "fills N m \<longleftrightarrow> (\<forall>s r s'. run_state m s = (r, s') \<longrightarrow>
     (\<forall>n. objects (ui s) n \<noteq> 0 \<or> N n \<longrightarrow> objects (ui s') n \<noteq> 0) \<and> frame (ui s') = frame (ui s))"

lemma fillsD:
  assumes "fills N m" and "run_state m s = (r, s')"
  shows "objects (ui s) n \<noteq> 0 \<or> N n \<Longrightarrow> objects (ui s') n \<noteq> 0" and "frame (ui s') = frame (ui s)"
  using assms by (auto simp: fills_def)

lemma frame_rest_of: "rest_of u' = rest_of u \<Longrightarrow> frame u' = frame u"
proof -
  assume "rest_of u' = rest_of u"
  then have "frame (rest_of u') = frame (rest_of u)" by simp
  then show ?thesis by (simp add: frame_def rest_of_def)
qed

lemma creates_fills: "creates N m \<Longrightarrow> fills N m"
  unfolding creates_def fills_def using frame_rest_of by metis

lemma fills_bind:
  assumes "fills N m" and "\<And>x. fills N' (f x)"
  shows "fills (\<lambda>n. N n \<or> N' n) (State_Monad.bind m f)"
  unfolding fills_def
proof (intro allI impI)
  fix s :: ui_world and r s'
  assume "run_state (State_Monad.bind m f) s = (r, s')"
  then obtain x t where "run_state m s = (x, t)" and "run_state (f x) t = (r, s')"
    by (auto split: prod.splits)
  with fillsD [OF assms(1)] fillsD [OF assms(2)]
  show "(\<forall>n. objects (ui s) n \<noteq> 0 \<or> N n \<or> N' n \<longrightarrow> objects (ui s') n \<noteq> 0) \<and> frame (ui s') = frame (ui s)"
    by metis
qed

lemma fills_weaken: "fills N m \<Longrightarrow> (\<And>n. N' n \<Longrightarrow> N n) \<Longrightarrow> fills N' m"
  unfolding fills_def by meson

text \<open>Refreshing stores no object.\<close>

abbreviation stores_none :: "'a ui_m \<Rightarrow> bool" where
  "stores_none m \<equiv> fills (\<lambda>_. False) m"

lemma stores_none_bind: "stores_none m \<Longrightarrow> (\<And>x. stores_none (f x)) \<Longrightarrow> stores_none (State_Monad.bind m f)"
  using fills_bind [of "\<lambda>_. False" m "\<lambda>_. False" f] by simp

lemma stores_none_basic:
  "stores_none skip" "stores_none (lv E c)" "stores_none (lv_do E c)" "stores_none (get_ui f)"
  by (auto simp: fills_def run_simps)

lemma stores_none_tick_label: "stores_none (tick_label E field v)"
  by (auto simp: fills_def tick_label_def run_simps frame_def split: if_splits)

lemma stores_none_read_lvgl: "stores_none (read_lvgl_version L)"
  by (auto simp: fills_def read_lvgl_version_def get_var_lvgl_version_def frame_def Let_def)

lemmas tick_defs = tick_screen_boot_screen_def tick_screen_about_screen_def
  tick_screen_no_network_screen_def tick_screen_home_screen_def tick_screen_menu_screen_def tick_screen_menu_advanced_screen_def tick_screen_menu_network_screen_def tick_screen_status_screen_def tick_screen_reset_config_screen_def tick_screen_reboot_screen_def tick_screen_rebooting_screen_def tick_screen_switch_dhcp_client_screen_def

lemma stores_none_ticks:
  "stores_none (tick_screen_boot_screen L E)" "stores_none (tick_screen_no_network_screen L E)"
  "stores_none (tick_screen_home_screen L E)" "stores_none (tick_screen_menu_screen L E)"
  "stores_none (tick_screen_menu_advanced_screen L E)" "stores_none (tick_screen_menu_network_screen L E)"
  "stores_none (tick_screen_about_screen L E)" "stores_none (tick_screen_status_screen L E)"
  "stores_none (tick_screen_reset_config_screen L E)" "stores_none (tick_screen_reboot_screen L E)"
  "stores_none (tick_screen_rebooting_screen L E)" "stores_none (tick_screen_switch_dhcp_client_screen L E)"
  unfolding tick_defs
  by (intro stores_none_bind stores_none_basic stores_none_tick_label stores_none_read_lvgl)+

lemmas create_screen_defs = create_screen_boot_screen_def
  create_screen_no_network_screen_def
  create_screen_home_screen_def
  create_screen_menu_screen_def
  create_screen_menu_advanced_screen_def
  create_screen_menu_network_screen_def
  create_screen_about_screen_def
  create_screen_status_screen_def
  create_screen_reset_config_screen_def
  create_screen_reboot_screen_def
  create_screen_rebooting_screen_def
  create_screen_switch_dhcp_client_screen_def

lemma create_screen_fills:
  assumes "creation_succeeds E" and "stores_none tick"
  shows "fills (\<lambda>n. n \<in> set (names_of tree)) (do { create_widget E 0 tree; tick })"
  using fills_bind [OF creates_fills [OF creates_widget [OF assms(1)]] assms(2)] by simp

lemma each_screen_fills:
  assumes "creation_succeeds E"
  shows
    "fills (\<lambda>n. n \<in> set (names_of boot_screen_tree)) (create_screen_boot_screen L E)"
    "fills (\<lambda>n. n \<in> set (names_of no_network_screen_tree)) (create_screen_no_network_screen L E)"
    "fills (\<lambda>n. n \<in> set (names_of home_screen_tree)) (create_screen_home_screen L E)"
    "fills (\<lambda>n. n \<in> set (names_of menu_screen_tree)) (create_screen_menu_screen L E)"
    "fills (\<lambda>n. n \<in> set (names_of menu_advanced_screen_tree)) (create_screen_menu_advanced_screen L E)"
    "fills (\<lambda>n. n \<in> set (names_of menu_network_screen_tree)) (create_screen_menu_network_screen L E)"
    "fills (\<lambda>n. n \<in> set (names_of about_screen_tree)) (create_screen_about_screen L E)"
    "fills (\<lambda>n. n \<in> set (names_of status_screen_tree)) (create_screen_status_screen L E)"
    "fills (\<lambda>n. n \<in> set (names_of reset_config_screen_tree)) (create_screen_reset_config_screen L E)"
    "fills (\<lambda>n. n \<in> set (names_of reboot_screen_tree)) (create_screen_reboot_screen L E)"
    "fills (\<lambda>n. n \<in> set (names_of rebooting_screen_tree)) (create_screen_rebooting_screen L E)"
    "fills (\<lambda>n. n \<in> set (names_of switch_dhcp_client_screen_tree)) (create_screen_switch_dhcp_client_screen L E)"
  unfolding create_screen_defs
  by (intro create_screen_fills assms stores_none_ticks)+

lemma create_screens_fill:
  assumes "creation_succeeds E"
  shows "fills (\<lambda>n. n \<in> set (concat (map names_of screen_trees))) (create_screens L E)"
proof (rule fills_weaken)
  show "fills (\<lambda>n. False \<or> False \<or> False \<or>
      n \<in> set (names_of boot_screen_tree) \<or>
      n \<in> set (names_of no_network_screen_tree) \<or>
      n \<in> set (names_of home_screen_tree) \<or>
      n \<in> set (names_of menu_screen_tree) \<or>
      n \<in> set (names_of menu_advanced_screen_tree) \<or>
      n \<in> set (names_of menu_network_screen_tree) \<or>
      n \<in> set (names_of about_screen_tree) \<or>
      n \<in> set (names_of status_screen_tree) \<or>
      n \<in> set (names_of reset_config_screen_tree) \<or>
      n \<in> set (names_of reboot_screen_tree) \<or>
      n \<in> set (names_of rebooting_screen_tree) \<or>
      n \<in> set (names_of switch_dhcp_client_screen_tree)) (create_screens L E)"
    unfolding create_screens_def
    by (intro fills_bind stores_none_basic each_screen_fills assms)
qed (auto simp: screen_trees_def)

section \<open>What refreshing and creation leave alone\<close>

lemma keeps_tick_screens:
  assumes "\<And>obj. keeps A (lv E (Label_get_text obj))" and "\<And>obj txt. keeps A (lv_do E (On obj (Label_set_text txt)))"
    and "\<And>p. keeps A (set_ui (\<lambda>u. u\<lparr>tick_value_change_obj := p\<rparr>))" and "keeps A (read_lvgl_version L)"
  shows "f \<in> set tick_screen_funcs \<Longrightarrow> keeps A (f L E)" and "keeps A (tick_screen L E i)"
proof -
  have label: "keeps A (tick_label E field v)" for field v
    unfolding tick_label_def Let_def by (intro keeps_intros assms)
  show funcs: "keeps A (f L E)" if "f \<in> set tick_screen_funcs" for f
    using that label assms(4)
    by (auto simp: tick_screen_funcs_def tick_defs intro!: keeps_intros)
  show "keeps A (tick_screen L E i)"
    unfolding tick_screen_def by (intro keeps_intros funcs) (auto simp: nat_less_iff)
qed

lemma keeps_create_screens:
  assumes "\<And>c. c \<noteq> Style_malloc \<Longrightarrow> keeps A (lv E c)" and "\<And>c. c \<noteq> Style_malloc \<Longrightarrow> keeps A (lv_do E c)"
    and "\<And>st obj. keeps A (add_style_to st E obj)" and "keeps A (read_lvgl_version L)"
    and "\<And>n obj. keeps A (set_ui (\<lambda>u. u\<lparr>objects := (objects u)(n := obj)\<rparr>))"
    and "\<And>p. keeps A (set_ui (\<lambda>u. u\<lparr>tick_value_change_obj := p\<rparr>))"
  shows "keeps A (create_screens L E)"
proof -
  have "keeps A (create_widget E 0 w)" for w
    by (intro keeps_create_widget assms) simp_all
  moreover have "keeps A (f L E)" if "f \<in> set tick_screen_funcs" for f
    by (rule keeps_tick_screens(1) [OF _ _ assms(6,4) that]) (simp_all add: assms)
  ultimately show ?thesis
    unfolding create_screens_def create_screen_defs tick_screen_funcs_def
    by (intro keeps_intros assms) simp_all
qed

lemma keeps_account_create_screens:
  assumes "\<And>h. l_ptr (E h Style_malloc) \<noteq> 0"
  shows "keeps style_account (create_screens L E)"
proof (intro keeps_create_screens keeps_account_call keeps_account_add_style keeps_account_set_ui assms)
  show "keeps style_account (read_lvgl_version L)"
    by (auto simp: keeps_def read_lvgl_version_def get_var_lvgl_version_def style_account_def unallocated_def Let_def)
qed simp_all

lemma set_names_of: "set (names_of w) = set (root_name w) \<union> set (inner_names w)"
  by (cases w) auto

lemma field_names: "n \<in> set objects_t_fields \<Longrightarrow> n \<in> set (concat (map names_of screen_trees))"
proof -
  assume "n \<in> set objects_t_fields"
  then have "n \<in> set (concat (map root_name screen_trees) @ concat (map inner_names screen_trees))"
    by (simp only: screen_root_names screen_inner_names)
  then obtain w where "w \<in> set screen_trees" and "n \<in> set (root_name w) \<or> n \<in> set (inner_names w)"
    by auto
  then have "n \<in> set (names_of w)"
    by (auto simp: set_names_of)
  with \<open>w \<in> set screen_trees\<close> show ?thesis
    by auto
qed

text \<open>
  C17. The object table is complete: the fields of \<open>objects_t\<close> are exactly the names the screens
  store, each stored once, and when the library creates every object and allocates every style, after
  \<open>create_screens\<close> no field is NULL and each of the sixteen styles has been allocated at most once, however
  often it is added to an object.
\<close>

theorem create_screens_complete:
  assumes "\<forall>h cls p. l_ptr (E h (Create cls p)) \<noteq> 0" and "\<forall>h. l_ptr (E h Style_malloc) \<noteq> 0"
    and "run_state (create_screens L E) s = (r, s')"
  shows "concat (map root_name screen_trees) @ concat (map inner_names screen_trees) = objects_t_fields \<and>
    distinct objects_t_fields \<and> (\<forall>field \<in> set objects_t_fields. objects (ui s') field \<noteq> 0) \<and>
    style_allocs (trace s') + unallocated (ui s') = style_allocs (trace s) + unallocated (ui s)"
proof -
  have "creation_succeeds E"
    using assms(1) by (simp add: creation_succeeds_def)
  from fillsD(1) [OF create_screens_fill [OF this] assms(3)] field_names
  have "\<forall>field \<in> set objects_t_fields. objects (ui s') field \<noteq> 0"
    by blast
  moreover have "distinct objects_t_fields"
    by (simp add: objects_t_fields_def screen_names_def)
  moreover have "style_account s' = style_account s"
    by (rule keepsD [OF keeps_account_create_screens assms(3)]) (simp add: assms(2))
  ultimately show ?thesis
    using screen_root_names screen_inner_names by (simp add: style_account_def)
qed

definition sample_lv :: ui_env where
  "sample_lv h c = \<lparr>l_ptr = 1000 + int (length h), l_text = [], l_tick = of_nat (length h), l_dir = LV_DIR_LEFT,
     l_ok = True, l_sec = 1, l_usec = 0\<rparr>"

definition sample_ver :: lvgl_ver where
  "sample_ver = \<lparr>LVGL_VERSION_MAJOR = 9, LVGL_VERSION_MINOR = 2, LVGL_VERSION_PATCH = 2\<rparr>"

definition sample_ui :: ui_world where
  "sample_ui = \<lparr>trace = [], ui = init_ui\<rparr>"

theorem create_screens_complete_witness:
  "objects (ui (snd (run_state (create_screens sample_ver sample_lv) sample_ui))) ''dhcpc_label'' \<noteq> 0 \<and>
    style_allocs (trace (snd (run_state (create_screens sample_ver sample_lv) sample_ui))) \<le> 16"
proof -
  obtain r s' where run: "run_state (create_screens sample_ver sample_lv) sample_ui = (r, s')"
    by (cases "run_state (create_screens sample_ver sample_lv) sample_ui")
  have "\<forall>h cls p. l_ptr (sample_lv h (Create cls p)) \<noteq> 0" "\<forall>h. l_ptr (sample_lv h Style_malloc) \<noteq> 0"
    by (simp_all add: sample_lv_def)
  from create_screens_complete [OF this run] run show ?thesis
    using unallocated_le [of "ui sample_ui"] by (simp add: objects_t_fields_def sample_ui_def)
qed

end
