(* ===== verification/Ui.thy ===== *)
theory Ui
  imports Screens
begin

text \<open>
  \<open>ui.c\<close>: loading screens, initialisation and the periodic tick, and the path of a remote call from
  the user interface to the handler registered by Go (\<open>ctrl.c\<close>). Operations that can index outside
  a table return whether they were defined.
\<close>

section \<open>Screens by identifier\<close>

definition SCREEN_ID_BOOT_SCREEN :: int where "SCREEN_ID_BOOT_SCREEN = 1"
definition SCREEN_ID_NO_NETWORK_SCREEN :: int where "SCREEN_ID_NO_NETWORK_SCREEN = 2"
definition SCREEN_ID_HOME_SCREEN :: int where "SCREEN_ID_HOME_SCREEN = 3"
definition SCREEN_ID_MENU_SCREEN :: int where "SCREEN_ID_MENU_SCREEN = 4"
definition SCREEN_ID_MENU_ADVANCED_SCREEN :: int where "SCREEN_ID_MENU_ADVANCED_SCREEN = 5"
definition SCREEN_ID_MENU_NETWORK_SCREEN :: int where "SCREEN_ID_MENU_NETWORK_SCREEN = 6"
definition SCREEN_ID_ABOUT_SCREEN :: int where "SCREEN_ID_ABOUT_SCREEN = 7"
definition SCREEN_ID_STATUS_SCREEN :: int where "SCREEN_ID_STATUS_SCREEN = 8"
definition SCREEN_ID_RESET_CONFIG_SCREEN :: int where "SCREEN_ID_RESET_CONFIG_SCREEN = 9"
definition SCREEN_ID_REBOOT_SCREEN :: int where "SCREEN_ID_REBOOT_SCREEN = 10"
definition SCREEN_ID_REBOOTING_SCREEN :: int where "SCREEN_ID_REBOOTING_SCREEN = 11"
definition SCREEN_ID_SWITCH_DHCP_CLIENT_SCREEN :: int where "SCREEN_ID_SWITCH_DHCP_CLIENT_SCREEN = 12"

lemmas screen_id_defs = SCREEN_ID_BOOT_SCREEN_def SCREEN_ID_NO_NETWORK_SCREEN_def SCREEN_ID_HOME_SCREEN_def
  SCREEN_ID_MENU_SCREEN_def SCREEN_ID_MENU_ADVANCED_SCREEN_def SCREEN_ID_MENU_NETWORK_SCREEN_def
  SCREEN_ID_ABOUT_SCREEN_def SCREEN_ID_STATUS_SCREEN_def SCREEN_ID_RESET_CONFIG_SCREEN_def
  SCREEN_ID_REBOOT_SCREEN_def SCREEN_ID_REBOOTING_SCREEN_def SCREEN_ID_SWITCH_DHCP_CLIENT_SCREEN_def

text \<open>Indexing \<open>objects\<close> as an array of pointers.\<close>

definition getLvglObjectFromIndex :: "ui_state \<Rightarrow> int \<Rightarrow> int option" where
  "getLvglObjectFromIndex u index =
     (if index = -1 then Some 0
      else if 0 \<le> index \<and> nat index < length objects_t_fields
      then Some (objects u (objects_t_fields ! nat index))
      else None)"

text \<open>\<open>currentScreen\<close> is 16 bits wide.\<close>

definition loadScreen :: "ui_env \<Rightarrow> int \<Rightarrow> bool ui_m" where
  "loadScreen E screenId = do {
     set_ui (\<lambda>u. u\<lparr>currentScreen := signed_take_bit 15 (screenId - 1)\<rparr>);
     screen \<leftarrow> get_ui (\<lambda>u. getLvglObjectFromIndex u (currentScreen u));
     case screen of
       None \<Rightarrow> State_Monad.return False
     | Some obj \<Rightarrow> do { lv_do E (Scr_load obj); State_Monad.return True }
   }"

section \<open>Initialisation and tick\<close>

definition ui_init :: "lvgl_ver \<Rightarrow> ui_env \<Rightarrow> bool ui_m" where
  "ui_init L E = do {
     create_screens L E;
     loadScreen E SCREEN_ID_BOOT_SCREEN
   }"

definition ui_tick :: "lvgl_ver \<Rightarrow> ui_env \<Rightarrow> bool ui_m" where
  "ui_tick L E = do {
     cur \<leftarrow> get_ui currentScreen;
     tick_screen L E cur
   }"

section \<open>Remote calls\<close>

definition jetkvm_call_rpc_handler :: "ui_env \<Rightarrow> string \<Rightarrow> string option \<Rightarrow> unit ui_m" where
  "jetkvm_call_rpc_handler E rpc params = do {
     h \<leftarrow> get_ui rpc_handler;
     if h then lv_do E (Call_rpc rpc params) else skip
   }"

text \<open>The only handler ever installed is \<open>jetkvm_call_rpc_handler\<close>.\<close>

definition ui_set_rpc_handler :: "unit ui_m" where
  "ui_set_rpc_handler = set_ui (\<lambda>u. u\<lparr>ui_rpc_handler := True\<rparr>)"

definition ui_call_rpc_handler :: "ui_env \<Rightarrow> string \<Rightarrow> string option \<Rightarrow> unit ui_m" where
  "ui_call_rpc_handler E rpc params = do {
     h \<leftarrow> get_ui ui_rpc_handler;
     if h then jetkvm_call_rpc_handler E rpc params else skip
   }"

section \<open>The screen invariant\<close>

text \<open>The user interface is initialised: every object exists and a screen is current.\<close>

definition ui_ok :: "ui_state \<Rightarrow> bool" where
  "ui_ok u \<longleftrightarrow> (\<forall>field \<in> set objects_t_fields. objects u field \<noteq> 0) \<and>
     0 \<le> currentScreen u \<and> currentScreen u < 12"

lemma length_screen_names [simp]: "length screen_names = 12"
  by (simp add: screen_names_def)

lemma length_fields_ge: "12 \<le> length objects_t_fields"
  by (simp add: objects_t_fields_def)

lemma field_screen: "i < 12 \<Longrightarrow> objects_t_fields ! i = screen_names ! i"
  by (simp add: objects_t_fields_def nth_append)

lemma length_tick_funcs [simp]: "length tick_screen_funcs = 12"
  by (simp add: tick_screen_funcs_def)

lemma small_index: "1 \<le> i \<Longrightarrow> i \<le> 12 \<Longrightarrow> signed_take_bit 15 (i - 1) = (i - 1 :: int)"
  by (rule signed_take_bit_int_eq_self) auto

lemma run_loadScreen:
  assumes "1 \<le> i" and "i \<le> 12"
  shows "run_state (loadScreen E i) s =
    (True, snd (run_state (lv_do E (Scr_load (objects (ui s) (screen_names ! nat (i - 1)))))
      (s\<lparr>ui := (ui s)\<lparr>currentScreen := i - 1\<rparr>\<rparr>)))"
proof -
  have "nat (i - 1) < 12" using assms by auto
  moreover from this have "nat (i - 1) < length objects_t_fields"
    using length_fields_ge by linarith
  ultimately show ?thesis
    using assms
    by (simp add: loadScreen_def run_set_ui run_get_ui run_lv_do getLvglObjectFromIndex_def small_index field_screen)
qed

lemma frame_current: "currentScreen (frame u) = currentScreen u"
  by (simp add: frame_def)

lemma tick_defined:
  assumes "0 \<le> i" and "i < 12" and "run_state (tick_screen L E i) s = (r, s')"
  shows "r" and "ui_ok (ui s) \<Longrightarrow> ui_ok (ui s')"
proof -
  have "\<forall>f \<in> set tick_screen_funcs. stores_none (f L E)"
    by (simp add: tick_screen_funcs_def stores_none_ticks)
  then have quiet: "stores_none ((tick_screen_funcs ! nat i) L E)"
    using assms(1,2) by (simp add: nat_less_iff)
  from assms obtain x where "run_state ((tick_screen_funcs ! nat i) L E) s = (x, s')" and r: "r"
    by (auto simp: tick_screen_def nat_less_iff split: prod.splits)
  from fillsD [OF quiet this(1)] have "\<And>n. objects (ui s) n \<noteq> 0 \<Longrightarrow> objects (ui s') n \<noteq> 0"
      and "currentScreen (ui s') = currentScreen (ui s)"
    by (blast, metis frame_current)
  then show "ui_ok (ui s) \<Longrightarrow> ui_ok (ui s')"
    by (auto simp: ui_ok_def)
  from r show "r" .
qed

lemma ui_init_ok:
  assumes "creation_succeeds E" and "run_state (ui_init L E) s = (r, s')"
  shows "r \<and> ui_ok (ui s')"
proof -
  obtain x t where t: "run_state (create_screens L E) s = (x, t)"
    by (cases "run_state (create_screens L E) s")
  have "\<forall>field \<in> set objects_t_fields. objects (ui t) field \<noteq> 0"
    using fillsD(1) [OF create_screens_fill [OF assms(1)] t] field_names by blast
  then show ?thesis
    using assms(2) t by (auto simp: ui_init_def run_loadScreen SCREEN_ID_BOOT_SCREEN_def run_lv_do ui_ok_def)
qed

text \<open>
  C11. After initialisation every screen identifier works: loading it makes it the current screen by showing
  the (existing) object of that name, and the following tick stays inside the dispatch table and
  keeps the user interface initialised. Initialisation itself shows the boot screen.
\<close>

theorem load_screen_correct:
  assumes "\<forall>h cls p. l_ptr (E h (Create cls p)) \<noteq> 0" and "run_state (ui_init L E) s0 = (r, s)"
    and "1 \<le> i" and "i \<le> 12" and "run_state (loadScreen E i) s = (ok, s')"
    and "run_state (ui_tick L E) s' = (ticked, s'')"
  shows "r \<and> currentScreen (ui s) = 0 \<and> ok \<and> currentScreen (ui s') = i - 1 \<and>
    calls_of s s' = [Scr_load (objects (ui s) (screen_names ! nat (i - 1)))] \<and>
    objects (ui s) (screen_names ! nat (i - 1)) \<noteq> 0 \<and> ticked \<and> ui_ok (ui s'')"
proof -
  have succeeds: "creation_succeeds E"
    using assms(1) by (simp add: creation_succeeds_def)
  have init: "r" "ui_ok (ui s)"
    using ui_init_ok [OF succeeds assms(2)] by simp_all
  have first: "currentScreen (ui s) = 0"
    using assms(2) by (auto simp: ui_init_def run_loadScreen SCREEN_ID_BOOT_SCREEN_def run_lv_do split: prod.splits)
  have load: "ok" "currentScreen (ui s') = i - 1" "objects (ui s') = objects (ui s)"
      "calls_of s s' = [Scr_load (objects (ui s) (screen_names ! nat (i - 1)))]"
    using assms(5) by (auto simp: run_loadScreen [OF assms(3,4)] run_lv_do calls_of_def)
  have "nat (i - 1) < length screen_names"
    using assms(3,4) by simp
  then have "screen_names ! nat (i - 1) \<in> set objects_t_fields"
    by (auto simp: objects_t_fields_def dest: nth_mem)
  then have "objects (ui s) (screen_names ! nat (i - 1)) \<noteq> 0"
    using init(2) by (simp add: ui_ok_def)
  moreover have "ui_ok (ui s')"
    using init(2) load assms(3,4) by (simp add: ui_ok_def)
  moreover have "run_state (tick_screen L E (i - 1)) s' = (ticked, s'')"
    using assms(6) load(2) by (simp add: ui_tick_def run_get_ui)
  ultimately show ?thesis
    using init first load tick_defined [of "i - 1" L E s' ticked s''] assms(3,4) by simp
qed

theorem load_screen_correct_witness:
  "currentScreen (ui (snd (run_state (do { _ \<leftarrow> ui_init sample_ver sample_lv; loadScreen sample_lv 7 }) sample_ui))) = 6"
proof -
  obtain r s where init: "run_state (ui_init sample_ver sample_lv) sample_ui = (r, s)"
    by (cases "run_state (ui_init sample_ver sample_lv) sample_ui")
  obtain ok s' where load: "run_state (loadScreen sample_lv 7) s = (ok, s')"
    by (cases "run_state (loadScreen sample_lv 7) s")
  obtain b s'' where tick: "run_state (ui_tick sample_ver sample_lv) s' = (b, s'')"
    by (cases "run_state (ui_tick sample_ver sample_lv) s'")
  have "\<forall>h cls p. l_ptr (sample_lv h (Create cls p)) \<noteq> 0"
    by (simp add: sample_lv_def)
  from load_screen_correct [OF this init _ _ load tick] init load show ?thesis
    by simp
qed

end
