(* ===== verification/Actions.thy ===== *)
theory Actions
  imports Ui
begin

text \<open>
  The event handlers of \<open>actions.c\<close>: screen switches, gestures and the hold actions (reset, reboot,
  DHCP client), which call Go after the button has been held long enough. The event is represented by
  its code.
\<close>

section \<open>Switching screens\<close>

definition handle_gesture_screen_switch :: "ui_env \<Rightarrow> lv_event_code \<Rightarrow> lv_dir \<Rightarrow> int \<Rightarrow> int ui_m" where
  "handle_gesture_screen_switch E event_code direction screenId =
     (if event_code \<noteq> LV_EVENT_GESTURE then State_Monad.return 0
      else do {
        d \<leftarrow> lv E Indev_gesture_dir;
        if l_dir d \<noteq> direction then State_Monad.return 0
        else do {
          lv_do E Indev_wait_release;
          _ \<leftarrow> loadScreen E screenId;
          State_Monad.return 1
        }
      })"

text \<open>The event and the direction are not used.\<close>

definition handle_gesture_main_screen_switch :: "ui_env \<Rightarrow> lv_event_code \<Rightarrow> lv_dir \<Rightarrow> unit ui_m" where
  "handle_gesture_main_screen_switch E event_code direction = do {
     main_screen \<leftarrow> get_ui get_var_main_screen;
     if main_screen = ''home_screen'' then do { _ \<leftarrow> loadScreen E SCREEN_ID_HOME_SCREEN; skip }
     else if main_screen = ''no_network_screen'' then do { _ \<leftarrow> loadScreen E SCREEN_ID_NO_NETWORK_SCREEN; skip }
     else skip
   }"

definition load :: "ui_env \<Rightarrow> int \<Rightarrow> unit ui_m" where
  "load E screenId = do { _ \<leftarrow> loadScreen E screenId; skip }"

definition gesture :: "ui_env \<Rightarrow> lv_event_code \<Rightarrow> lv_dir \<Rightarrow> int \<Rightarrow> unit ui_m" where
  "gesture E code direction screenId = do { _ \<leftarrow> handle_gesture_screen_switch E code direction screenId; skip }"

definition action_switch_to_menu :: "ui_env \<Rightarrow> lv_event_code \<Rightarrow> unit ui_m" where
  "action_switch_to_menu E code = load E SCREEN_ID_MENU_SCREEN"
definition action_switch_to_advanced_menu :: "ui_env \<Rightarrow> lv_event_code \<Rightarrow> unit ui_m" where
  "action_switch_to_advanced_menu E code = load E SCREEN_ID_MENU_ADVANCED_SCREEN"
definition action_switch_to_status :: "ui_env \<Rightarrow> lv_event_code \<Rightarrow> unit ui_m" where
  "action_switch_to_status E code = load E SCREEN_ID_STATUS_SCREEN"
definition action_switch_to_about :: "ui_env \<Rightarrow> lv_event_code \<Rightarrow> unit ui_m" where
  "action_switch_to_about E code = load E SCREEN_ID_ABOUT_SCREEN"
definition action_switch_to_reset_config :: "ui_env \<Rightarrow> lv_event_code \<Rightarrow> unit ui_m" where
  "action_switch_to_reset_config E code = load E SCREEN_ID_RESET_CONFIG_SCREEN"
definition action_switch_to_dhcpc :: "ui_env \<Rightarrow> lv_event_code \<Rightarrow> unit ui_m" where
  "action_switch_to_dhcpc E code = load E SCREEN_ID_SWITCH_DHCP_CLIENT_SCREEN"
definition action_switch_to_reboot :: "ui_env \<Rightarrow> lv_event_code \<Rightarrow> unit ui_m" where
  "action_switch_to_reboot E code = load E SCREEN_ID_REBOOT_SCREEN"
definition action_menu_screen_gesture :: "ui_env \<Rightarrow> lv_event_code \<Rightarrow> unit ui_m" where
  "action_menu_screen_gesture E code = handle_gesture_main_screen_switch E code LV_DIR_RIGHT"
definition action_menu_advanced_screen_gesture :: "ui_env \<Rightarrow> lv_event_code \<Rightarrow> unit ui_m" where
  "action_menu_advanced_screen_gesture E code = gesture E code LV_DIR_RIGHT SCREEN_ID_MENU_SCREEN"
definition action_reset_config_screen_gesture :: "ui_env \<Rightarrow> lv_event_code \<Rightarrow> unit ui_m" where
  "action_reset_config_screen_gesture E code = gesture E code LV_DIR_RIGHT SCREEN_ID_MENU_SCREEN"
definition action_home_screen_gesture :: "ui_env \<Rightarrow> lv_event_code \<Rightarrow> unit ui_m" where
  "action_home_screen_gesture E code = gesture E code LV_DIR_LEFT SCREEN_ID_MENU_SCREEN"
definition action_about_screen_gesture :: "ui_env \<Rightarrow> lv_event_code \<Rightarrow> unit ui_m" where
  "action_about_screen_gesture E code = gesture E code LV_DIR_RIGHT SCREEN_ID_MENU_SCREEN"

section \<open>Hold actions\<close>

definition RESET_CONFIG_HOLD_TIME :: int where "RESET_CONFIG_HOLD_TIME = 10"
definition REBOOT_HOLD_TIME :: int where "REBOOT_HOLD_TIME = 5"
definition DHCPC_HOLD_TIME :: int where "DHCPC_HOLD_TIME = 5"

text \<open>The pointers to the static variables are the identifier of the action.\<close>

record hold_action_config =
  hold :: hold_id
  hold_time_seconds :: int
  rpc_method :: string
  button_obj :: int
  spinner_obj :: int
  label_obj :: int
  default_text :: string

definition set_hold :: "hold_id \<Rightarrow> (hold_state \<Rightarrow> hold_state) \<Rightarrow> unit ui_m" where
  "set_hold i f = set_ui (\<lambda>u. u\<lparr>holds := (holds u)(i := f (holds u i))\<rparr>)"

definition hold_text :: "int \<Rightarrow> string" where
  "hold_text seconds = ''Press and hold for'' @ [CHR 0x0A] @ decimal (nat seconds) @ '' seconds''"

text \<open>The difference is computed unsigned and read as a signed number.\<close>

definition remaining_ms :: "int \<Rightarrow> u32 \<Rightarrow> int" where
  "remaining_ms seconds elapsed = sint (of_int (seconds * 1000) - elapsed)"

definition hold_pressing :: "ui_env \<Rightarrow> hold_action_config \<Rightarrow> unit ui_m" where
  "hold_pressing E config = do {
     h \<leftarrow> get_ui (\<lambda>u. holds u (hold config));
     el \<leftarrow> lv E (Tick_elaps (start_time h));
     let remaining_time = remaining_ms (hold_time_seconds config) (l_tick el);
     if remaining_time \<le> 0 then
       (if lock h then skip
        else do {
          (if button_obj config \<noteq> 0 \<and> spinner_obj config \<noteq> 0 then do {
             lv_do E (On (button_obj config) (Obj_add_flag [LV_OBJ_FLAG_HIDDEN]));
             lv_do E (On (spinner_obj config) (Obj_clear_flag [LV_OBJ_FLAG_HIDDEN]))
           } else skip);
          ui_call_rpc_handler E (rpc_method config) None;
          set_hold (hold config) (\<lambda>h. h\<lparr>lock := True\<rparr>);
          set_hold (hold config) (\<lambda>h. h\<lparr>completed := True\<rparr>)
        })
     else do {
       set_hold (hold config) (\<lambda>h. h\<lparr>completed := False\<rparr>);
       let remaining_time_seconds = remaining_time div 1000;
       let remaining_time_seconds = (if remaining_time_seconds \<le> 1 then 1 else remaining_time_seconds);
       lv_do E (On (label_obj config) (Label_set_text (hold_text remaining_time_seconds)))
     }
   }"

definition hold_released :: "ui_env \<Rightarrow> hold_action_config \<Rightarrow> unit ui_m" where
  "hold_released E config = do {
     h \<leftarrow> get_ui (\<lambda>u. holds u (hold config));
     (if lock h then set_hold (hold config) (\<lambda>h. h\<lparr>lock := False\<rparr>) else skip);
     if \<not> completed h then lv_do E (On (label_obj config) (Label_set_text (default_text config))) else skip
   }"

definition handle_hold_action :: "ui_env \<Rightarrow> lv_event_code \<Rightarrow> hold_action_config \<Rightarrow> unit ui_m" where
  "handle_hold_action E event_code config =
     (if event_code = LV_EVENT_PRESSED then do {
        t \<leftarrow> lv E Tick_get;
        set_hold (hold config) (\<lambda>h. h\<lparr>start_time := l_tick t\<rparr>)
      }
      else if event_code = LV_EVENT_PRESSING then hold_pressing E config
      else if event_code = LV_EVENT_RELEASED then hold_released E config
      else skip)"

definition reset_config_hold :: "ui_state \<Rightarrow> hold_action_config" where
  "reset_config_hold u = \<lparr>hold = Hold_reset_config, hold_time_seconds = RESET_CONFIG_HOLD_TIME,
     rpc_method = ''resetConfig'', button_obj = objects u ''reset_config_button'',
     spinner_obj = objects u ''reset_config_spinner'', label_obj = objects u ''reset_config_label'',
     default_text = ''Press and hold for'' @ [CHR 0x0A] @ ''10 seconds''\<rparr>"

definition dhcpc_hold :: "ui_state \<Rightarrow> hold_action_config" where
  "dhcpc_hold u = \<lparr>hold = Hold_dhcpc, hold_time_seconds = DHCPC_HOLD_TIME,
     rpc_method = ''toggleDHCPClient'', button_obj = 0, spinner_obj = 0, label_obj = objects u ''dhcpc_label'',
     default_text = ''Press and hold for'' @ [CHR 0x0A] @ ''5 seconds''\<rparr>"

definition reboot_hold :: "ui_state \<Rightarrow> hold_action_config" where
  "reboot_hold u = \<lparr>hold = Hold_reboot, hold_time_seconds = REBOOT_HOLD_TIME,
     rpc_method = ''reboot'', button_obj = 0, spinner_obj = 0, label_obj = objects u ''reboot_label'',
     default_text = ''Press and hold for'' @ [CHR 0x0A] @ ''5 seconds''\<rparr>"

definition action_reset_config :: "ui_env \<Rightarrow> lv_event_code \<Rightarrow> unit ui_m" where
  "action_reset_config E code = do { config \<leftarrow> get_ui reset_config_hold; handle_hold_action E code config }"

definition action_dhcpc :: "ui_env \<Rightarrow> lv_event_code \<Rightarrow> unit ui_m" where
  "action_dhcpc E code = do { config \<leftarrow> get_ui dhcpc_hold; handle_hold_action E code config }"

definition action_reboot :: "ui_env \<Rightarrow> lv_event_code \<Rightarrow> unit ui_m" where
  "action_reboot E code = do { config \<leftarrow> get_ui reboot_hold; handle_hold_action E code config }"

text \<open>The handler LVGL calls for an action attached to an object.\<close>

fun run_action :: "action \<Rightarrow> ui_env \<Rightarrow> lv_event_code \<Rightarrow> unit ui_m" where
  "run_action Switch_to_menu = action_switch_to_menu"
| "run_action Switch_to_advanced_menu = action_switch_to_advanced_menu"
| "run_action Switch_to_status = action_switch_to_status"
| "run_action Switch_to_about = action_switch_to_about"
| "run_action Switch_to_reset_config = action_switch_to_reset_config"
| "run_action Switch_to_dhcpc = action_switch_to_dhcpc"
| "run_action Switch_to_reboot = action_switch_to_reboot"
| "run_action Menu_screen_gesture = action_menu_screen_gesture"
| "run_action Menu_advanced_screen_gesture = action_menu_advanced_screen_gesture"
| "run_action Reset_config_screen_gesture = action_reset_config_screen_gesture"
| "run_action Home_screen_gesture = action_home_screen_gesture"
| "run_action About_screen_gesture = action_about_screen_gesture"
| "run_action Reset_config = action_reset_config"
| "run_action Dhcpc = action_dhcpc"
| "run_action Reboot = action_reboot"

section \<open>Hold actions fire once\<close>

definition rpc_calls :: "(ui_call \<times> ui_answer) list \<Rightarrow> nat" where
  "rpc_calls tr = length (filter (\<lambda>e. case fst e of Call_rpc m p \<Rightarrow> True | _ \<Rightarrow> False) tr)"

lemma rpc_calls_simps [simp]:
  "rpc_calls [] = 0"
  "rpc_calls (e # tr) = (case fst e of Call_rpc m p \<Rightarrow> 1 | _ \<Rightarrow> 0) + rpc_calls tr"
  "rpc_calls (tr @ tr') = rpc_calls tr + rpc_calls tr'"
  by (auto simp: rpc_calls_def split: ui_call.splits)

text \<open>A sequence of events delivered to one hold action.\<close>

fun hold_events :: "ui_env \<Rightarrow> hold_action_config \<Rightarrow> lv_event_code list \<Rightarrow> unit ui_m" where
  "hold_events E config [] = skip"
| "hold_events E config (e # es) = do { handle_hold_action E e config; hold_events E config es }"

definition fires :: "hold_action_config \<Rightarrow> u32 \<Rightarrow> hold_state \<Rightarrow> bool" where
  "fires config elapsed h \<longleftrightarrow> remaining_ms (hold_time_seconds config) elapsed \<le> 0 \<and> \<not> lock h"

lemma run_rpc:
  "run_state (ui_call_rpc_handler E m p) s =
     ((), if ui_rpc_handler (ui s) \<and> rpc_handler (ui s)
          then s\<lparr>trace := trace s @ [(Call_rpc m p, E (trace s) (Call_rpc m p))]\<rparr> else s)"
  by (simp add: ui_call_rpc_handler_def jetkvm_call_rpc_handler_def run_simps)

lemma pressing_effect:
  assumes "run_state (hold_pressing E config) s = (r, s')"
  shows "\<exists>elapsed. elapsed = l_tick (E (trace s) (Tick_elaps (start_time (holds (ui s) (hold config))))) \<and>
    rpc_calls (trace s') = rpc_calls (trace s) +
      (if fires config elapsed (holds (ui s) (hold config)) \<and> ui_rpc_handler (ui s) \<and> rpc_handler (ui s) then 1 else 0) \<and>
    (lock (holds (ui s') (hold config)) \<longleftrightarrow>
      lock (holds (ui s) (hold config)) \<or> fires config elapsed (holds (ui s) (hold config)))"
  using assms
  by (auto simp: hold_pressing_def fires_def Let_def run_simps run_rpc set_hold_def split: if_splits)

lemma event_effect:
  assumes "run_state (handle_hold_action E e config) s = (r, s')" and "e \<noteq> LV_EVENT_RELEASED"
  shows "rpc_calls (trace s') + (if lock (holds (ui s') (hold config)) then 0 else 1) \<le>
    rpc_calls (trace s) + (if lock (holds (ui s) (hold config)) then 0 else 1)"
proof (cases "e = LV_EVENT_PRESSING")
  case True
  with assms(1) have "run_state (hold_pressing E config) s = (r, s')"
    by (simp add: handle_hold_action_def)
  from pressing_effect [OF this] show ?thesis
    by (auto simp: fires_def split: if_splits)
next
  case False
  with assms show ?thesis
    by (auto simp: handle_hold_action_def run_simps set_hold_def split: if_splits)
qed

text \<open>
  C14. A hold action calls Go at most once per press: however long the button is held and whatever other
  events arrive, until it is released there is at most one remote call, and none if the action was
  locked already.
\<close>

theorem hold_fires_once:
  "LV_EVENT_RELEASED \<notin> set es \<Longrightarrow> run_state (hold_events E config es) s = (r, s') \<Longrightarrow>
   rpc_calls (trace s') \<le> rpc_calls (trace s) + (if lock (holds (ui s) (hold config)) then 0 else 1)"
proof (induction es arbitrary: s)
  case (Cons e es)
  from Cons.prems(2) obtain x t where e: "run_state (handle_hold_action E e config) s = (x, t)"
    and "run_state (hold_events E config es) t = (r, s')"
    by (auto split: prod.splits)
  then have "rpc_calls (trace s') \<le> rpc_calls (trace t) + (if lock (holds (ui t) (hold config)) then 0 else 1)"
    using Cons.IH Cons.prems(1) by simp
  also have "\<dots> \<le> rpc_calls (trace s) + (if lock (holds (ui s) (hold config)) then 0 else 1)"
    using event_effect [OF e] Cons.prems(1) by auto
  finally show ?case .
qed (simp add: run_skip)

theorem hold_fires_once_witness:
  "rpc_calls (trace (snd (run_state (hold_events sample_lv (reboot_hold init_ui)
      [LV_EVENT_PRESSED, LV_EVENT_PRESSING, LV_EVENT_PRESSING, LV_EVENT_PRESSING]) sample_ui))) \<le> 1"
proof -
  let ?es = "[LV_EVENT_PRESSED, LV_EVENT_PRESSING, LV_EVENT_PRESSING, LV_EVENT_PRESSING]"
  obtain r s' where run: "run_state (hold_events sample_lv (reboot_hold init_ui) ?es) sample_ui = (r, s')"
    by (cases "run_state (hold_events sample_lv (reboot_hold init_ui) ?es) sample_ui")
  have "LV_EVENT_RELEASED \<notin> set ?es" by simp
  from hold_fires_once [OF this run] run show ?thesis
    by (simp add: sample_ui_def init_ui_def)
qed

lemma sint_of_int_in_range:
  assumes "- (2 ^ 31) \<le> k" and "k < 2 ^ 31"
  shows "sint (of_int k :: u32) = k"
  using assms by (simp add: sint_sbintrunc' signed_take_bit_int_eq_self)

lemma remaining_le_zero:
  assumes "0 \<le> seconds" and "seconds * 1000 < 2 ^ 31" and "uint elapsed < 2 ^ 31"
  shows "remaining_ms seconds elapsed \<le> 0 \<longleftrightarrow> seconds * 1000 \<le> uint elapsed"
proof -
  have "(of_int (seconds * 1000) - elapsed :: u32) = of_int (seconds * 1000 - uint elapsed)"
    by simp
  then have "remaining_ms seconds elapsed = sint (of_int (seconds * 1000 - uint elapsed) :: u32)"
    unfolding remaining_ms_def by (rule arg_cong)
  also have "\<dots> = seconds * 1000 - uint elapsed"
    using assms uint_ge_0 [of elapsed]
    by (intro sint_of_int_in_range) linarith+
  finally show ?thesis by simp
qed

text \<open>
  C21. The three hold actions fire after exactly their hold time: while LVGL reports less than \<open>2 ^ 31\<close> ms since the
  press, a pressing event makes the remote call exactly when at least ten (reset) or five
  (reboot, DHCP client) seconds have elapsed, the action is not locked and a handler is registered;
  the call names the method of the action.
\<close>

theorem hold_fires_in_time:
  assumes "config \<in> {reset_config_hold u, reboot_hold u, dhcpc_hold u}"
    and "run_state (handle_hold_action E LV_EVENT_PRESSING config) s = (r, s')"
    and "elapsed = uint (l_tick (E (trace s) (Tick_elaps (start_time (holds (ui s) (hold config))))))"
    and "elapsed < 2 ^ 31"
  shows "Call_rpc (rpc_method config) None \<in> set (calls_of s s') \<longleftrightarrow>
    (if hold config = Hold_reset_config then 10000 else 5000) \<le> elapsed \<and>
    \<not> lock (holds (ui s) (hold config)) \<and> ui_rpc_handler (ui s) \<and> rpc_handler (ui s)"
proof -
  let ?el = "l_tick (E (trace s) (Tick_elaps (start_time (holds (ui s) (hold config)))))"
  have time: "remaining_ms (hold_time_seconds config) ?el \<le> 0 \<longleftrightarrow>
      (if hold config = Hold_reset_config then 10000 else 5000) \<le> elapsed"
    using assms(1,3,4) remaining_le_zero [of _ ?el]
    by (auto simp: reset_config_hold_def reboot_hold_def dhcpc_hold_def RESET_CONFIG_HOLD_TIME_def
        REBOOT_HOLD_TIME_def DHCPC_HOLD_TIME_def)
  have run: "run_state (hold_pressing E config) s = (r, s')"
    using assms(2) by (simp add: handle_hold_action_def)
  show ?thesis
    unfolding time [symmetric] using run
    by (auto simp: hold_pressing_def calls_of_def Let_def run_simps run_rpc set_hold_def split: if_splits)
qed

definition late_lv :: ui_env where
  "late_lv h c = (sample_lv h c)\<lparr>l_tick := 10500\<rparr>"

definition rpc_ui :: ui_world where
  "rpc_ui = \<lparr>trace = [], ui = init_ui\<lparr>ui_rpc_handler := True, rpc_handler := True\<rparr>\<rparr>"

theorem hold_fires_in_time_witness:
  "Call_rpc ''resetConfig'' None \<in> set (calls_of rpc_ui
     (snd (run_state (handle_hold_action late_lv LV_EVENT_PRESSING (reset_config_hold init_ui)) rpc_ui)))"
proof -
  let ?c = "reset_config_hold init_ui"
  obtain r s' where run: "run_state (handle_hold_action late_lv LV_EVENT_PRESSING ?c) rpc_ui = (r, s')"
    by (cases "run_state (handle_hold_action late_lv LV_EVENT_PRESSING ?c) rpc_ui")
  from hold_fires_in_time [OF _ run refl, of init_ui] run show ?thesis
    by (simp add: late_lv_def reset_config_hold_def rpc_ui_def init_ui_def)
qed

section \<open>Navigation\<close>

text \<open>The handlers attached anywhere on each screen, in the order of the screens.\<close>

definition screen_actions :: "action list list" where
  "screen_actions = map (\<lambda>w. map (fst \<circ> snd) (handlers w)) screen_trees"

lemma screen_actions_eq:
  "screen_actions = [
      [],
      [Switch_to_menu, Home_screen_gesture],
      [Switch_to_menu, Home_screen_gesture],
      [Menu_screen_gesture, Menu_screen_gesture, Switch_to_status, Switch_to_advanced_menu, Switch_to_about],
      [Menu_advanced_screen_gesture, Switch_to_menu, Reset_config, Switch_to_reboot, Switch_to_dhcpc, Switch_to_reset_config],
      [Menu_advanced_screen_gesture, Switch_to_menu],
      [About_screen_gesture, Switch_to_menu],
      [About_screen_gesture, Switch_to_menu],
      [About_screen_gesture, Switch_to_menu, Reset_config, Reset_config, Reset_config],
      [About_screen_gesture, Switch_to_menu, Reboot, Reboot, Reboot],
      [],
      [About_screen_gesture, Switch_to_menu, Dhcpc, Dhcpc, Dhcpc]]"
  by (simp add: screen_actions_def tree_defs)

text \<open>
  The user touches an object of the current screen: LVGL delivers an event to one of the handlers
  attached there.
\<close>

inductive ui_step :: "ui_env \<Rightarrow> ui_world \<Rightarrow> ui_world \<Rightarrow> bool" for E where
  touch: "0 \<le> currentScreen (ui s) \<Longrightarrow> currentScreen (ui s) < 12 \<Longrightarrow>
    a \<in> set (screen_actions ! nat (currentScreen (ui s))) \<Longrightarrow>
    run_state (run_action a E code) s = (r, s') \<Longrightarrow> ui_step E s s'"

inductive_cases ui_stepE: "ui_step E s s'"

text \<open>The screen an action can lead to, by its index.\<close>

fun target :: "ui_state \<Rightarrow> action \<Rightarrow> int" where
  "target u Switch_to_advanced_menu = 4"
| "target u Switch_to_status = 7"
| "target u Switch_to_about = 6"
| "target u Switch_to_reset_config = 8"
| "target u Switch_to_dhcpc = 11"
| "target u Switch_to_reboot = 9"
| "target u Menu_screen_gesture =
     (if get_var_main_screen u = ''home_screen'' then 2
      else if get_var_main_screen u = ''no_network_screen'' then 1 else currentScreen u)"
| "target u Reset_config = currentScreen u"
| "target u Dhcpc = currentScreen u"
| "target u Reboot = currentScreen u"
| "target u _ = 3"

lemmas action_defs = action_switch_to_menu_def action_switch_to_advanced_menu_def
  action_switch_to_status_def action_switch_to_about_def action_switch_to_reset_config_def
  action_switch_to_dhcpc_def action_switch_to_reboot_def action_menu_screen_gesture_def
  action_menu_advanced_screen_gesture_def action_reset_config_screen_gesture_def
  action_home_screen_gesture_def action_about_screen_gesture_def action_reset_config_def
  action_dhcpc_def action_reboot_def load_def gesture_def handle_gesture_screen_switch_def
  handle_gesture_main_screen_switch_def screen_id_defs

lemma hold_keeps_screen:
  assumes "run_state (handle_hold_action E code config) s = (r, s')"
  shows "currentScreen (ui s') = currentScreen (ui s)" and "main_screen (ui s') = main_screen (ui s)"
  using assms
  by (auto simp: handle_hold_action_def hold_pressing_def hold_released_def Let_def run_simps run_rpc
      set_hold_def split: if_splits)

lemma action_effect:
  assumes "run_state (run_action a E code) s = (r, s')"
  shows "currentScreen (ui s') \<in> {currentScreen (ui s), target (ui s) a}"
    and "main_screen (ui s') = main_screen (ui s)"
  using assms
  by (cases a; auto simp: action_defs run_loadScreen run_simps get_var_main_screen_def
      split: if_splits dest: hold_keeps_screen)+

text \<open>The screens the user can reach from the home screen.\<close>

definition user_screens :: "int set" where
  "user_screens = {2, 3, 4, 6, 7, 8, 9, 11}"

lemma user_screen_cases:
  assumes "i \<in> user_screens"
  obtains "i = 2" | "i = 3" | "i = 4" | "i = 6" | "i = 7" | "i = 8" | "i = 9" | "i = 11"
  using assms by (auto simp: user_screens_def)

lemma targets_closed:
  assumes "i \<in> user_screens" and "a \<in> set (screen_actions ! nat i)" and "currentScreen u = i"
    and "get_var_main_screen u = ''home_screen''"
  shows "target u a \<in> user_screens"
  using assms(1,2,3,4)
  by (cases rule: user_screen_cases) (auto simp: screen_actions_eq user_screens_def)

lemma navigation_invariant:
  assumes "(ui_step E)\<^sup>*\<^sup>* s s'" and "currentScreen (ui s) \<in> user_screens"
    and "get_var_main_screen (ui s) = ''home_screen''"
  shows "currentScreen (ui s') \<in> user_screens \<and> get_var_main_screen (ui s') = ''home_screen''"
  using assms
proof (induction rule: rtranclp_induct)
  case (step t t')
  from step.hyps(2) obtain a code r where a: "a \<in> set (screen_actions ! nat (currentScreen (ui t)))"
      and run: "run_state (run_action a E code) t = (r, t')"
    by (rule ui_stepE)
  have inv: "currentScreen (ui t) \<in> user_screens" "get_var_main_screen (ui t) = ''home_screen''"
    using step by simp_all
  from action_effect [OF run] inv targets_closed [OF inv(1) a refl inv(2)] show ?case
    by (auto simp: get_var_main_screen_def)
qed simp

lemma step_to_menu:
  assumes "currentScreen (ui s) \<in> user_screens" and "currentScreen (ui s) \<noteq> 3"
  shows "\<exists>s'. ui_step E s s' \<and> currentScreen (ui s') = 3 \<and> main_screen (ui s') = main_screen (ui s)"
proof -
  obtain r s' where run: "run_state (run_action Switch_to_menu E LV_EVENT_CLICKED) s = (r, s')"
    by (cases "run_state (run_action Switch_to_menu E LV_EVENT_CLICKED) s")
  have "Switch_to_menu \<in> set (screen_actions ! nat (currentScreen (ui s)))"
    using assms by (cases rule: user_screen_cases) (auto simp: screen_actions_eq)
  moreover have "0 \<le> currentScreen (ui s)" "currentScreen (ui s) < 12"
    using assms(1) by (auto simp: user_screens_def)
  ultimately have "ui_step E s s'"
    using run by (intro touch)
  moreover have "currentScreen (ui s') = 3" "main_screen (ui s') = main_screen (ui s)"
    using run by (auto simp: action_defs run_loadScreen run_simps)
  ultimately show ?thesis by blast
qed

lemma step_to_home:
  assumes "currentScreen (ui s) = 3" and "get_var_main_screen (ui s) = ''home_screen''"
  shows "\<exists>s'. ui_step E s s' \<and> currentScreen (ui s') = 2"
proof -
  obtain r s' where run: "run_state (run_action Menu_screen_gesture E LV_EVENT_GESTURE) s = (r, s')"
    by (cases "run_state (run_action Menu_screen_gesture E LV_EVENT_GESTURE) s")
  have "Menu_screen_gesture \<in> set (screen_actions ! nat (currentScreen (ui s)))"
    using assms(1) by (simp add: screen_actions_eq)
  with run assms(1) have "ui_step E s s'"
    by (intro touch) auto
  moreover have "currentScreen (ui s') = 2"
    using run assms(2) by (auto simp: action_defs run_loadScreen run_simps)
  ultimately show ?thesis by blast
qed

text \<open>
  C10. Navigation: from the home screen, whatever the user touches, only the home, menu, advanced menu,
  about, status, reset, reboot and DHCP client screens are ever current (never the boot, no-network,
  network menu or rebooting screen), and from each of them at most two touches lead back home.
\<close>

theorem navigation_returns_home:
  assumes "currentScreen (ui s) = SCREEN_ID_HOME_SCREEN - 1"
    and "get_var_main_screen (ui s) = ''home_screen''" and "(ui_step E)\<^sup>*\<^sup>* s s'"
  shows "currentScreen (ui s') \<in> {2, 3, 4, 6, 7, 8, 9, 11} \<and>
    (\<exists>n \<le> 2. \<exists>t. (ui_step E ^^ n) s' t \<and> currentScreen (ui t) = SCREEN_ID_HOME_SCREEN - 1)"
proof -
  have here: "currentScreen (ui s') \<in> user_screens" "get_var_main_screen (ui s') = ''home_screen''"
    using navigation_invariant [OF assms(3)] assms(1,2)
    by (simp_all add: user_screens_def SCREEN_ID_HOME_SCREEN_def)
  have "\<exists>n \<le> 2. \<exists>t. (ui_step E ^^ n) s' t \<and> currentScreen (ui t) = 2"
  proof (cases "currentScreen (ui s') = 3")
    case True
    from step_to_home [OF this here(2)] obtain t where "ui_step E s' t" "currentScreen (ui t) = 2"
      by blast
    then show ?thesis by (intro exI [of _ 1]) auto
  next
    case False
    from step_to_menu [OF here(1) this] obtain m where m: "ui_step E s' m" "currentScreen (ui m) = 3"
        "main_screen (ui m) = main_screen (ui s')"
      by blast
    from step_to_home [of m E] m here(2) obtain t where "ui_step E m t" "currentScreen (ui t) = 2"
      by (auto simp: get_var_main_screen_def)
    with m(1) show ?thesis by (intro exI [of _ 2]) (auto simp: numeral_2_eq_2)
  qed
  with here(1) show ?thesis
    by (simp add: user_screens_def SCREEN_ID_HOME_SCREEN_def)
qed

definition home_ui :: ui_world where
  "home_ui = \<lparr>trace = [], ui = init_ui\<lparr>currentScreen := 2\<rparr>\<rparr>"

theorem navigation_returns_home_witness:
  "\<exists>s'. ui_step sample_lv home_ui s' \<and> currentScreen (ui s') = 3 \<and>
     (\<exists>n \<le> 2. \<exists>t. (ui_step sample_lv ^^ n) s' t \<and> currentScreen (ui t) = SCREEN_ID_HOME_SCREEN - 1)"
proof -
  have start: "currentScreen (ui home_ui) = SCREEN_ID_HOME_SCREEN - 1"
      "get_var_main_screen (ui home_ui) = ''home_screen''"
    by (simp_all add: home_ui_def SCREEN_ID_HOME_SCREEN_def get_var_main_screen_def init_ui_def
        char_array_def cstr_def NUL_def)
  obtain s' where s': "ui_step sample_lv home_ui s'" "currentScreen (ui s') = 3"
    using step_to_menu [of home_ui sample_lv] by (auto simp: home_ui_def user_screens_def)
  from navigation_returns_home [OF start r_into_rtranclp [of "ui_step sample_lv", OF s'(1)]] s' show ?thesis
    by blast
qed

end
