(* ===== verification/Screen.thy ===== *)
theory Screen
  imports Actions
begin

text \<open>
  \<open>screen.c\<close>: the display, its rotation and touch calibration, the periodic tick, and the lookups by
  name. The tables of names are those \<open>ui_index.gen.sh\<close> writes from the headers of the user
  interface: every field of \<open>objects_t\<close>, every style, every image. Logging is left out.
\<close>

section \<open>Lookup by name\<close>

definition ui_objects :: "string list" where
  "ui_objects = objects_t_fields"

definition ui_styles :: "(string \<times> style_id) list" where
  "ui_styles = [(''flex_column_space_between'', Flex_column_space_between), (''flex_center'', Flex_center),
     (''flex_start'', Flex_start), (''flow_row_space_between'', Flow_row_space_between),
     (''flow_row_start_center'', Flow_row_start_center), (''flex_column_start'', Flex_column_start),
     (''flex_screen'', Flex_screen), (''flex_screen_menu'', Flex_screen_menu),
     (''label_font16'', Label_font16), (''label_font_bold30'', Label_font_bold30),
     (''header_link'', Header_link), (''menu_button'', Menu_button),
     (''menu_button_label'', Menu_button_label), (''info_headline_label'', Info_headline_label),
     (''info_content_label'', Info_content_label), (''back_button'', Back_button)]"

definition ui_images :: "string list" where
  "ui_images = [''img_logo'', ''img_boot_logo_2'', ''img_arrow_icon'', ''img_back_caret'', ''img_back_icon'',
     ''img_check_icon'', ''img_cloud_disconnected'', ''img_cloud'', ''img_d2'', ''img_ethernet'',
     ''img_hdmi'', ''img_jetkvm'', ''img_usb'', ''img_x_icon'']"

definition ui_get_obj :: "ui_state \<Rightarrow> string \<Rightarrow> int" where
  "ui_get_obj u name =
     (case table_find (\<lambda>e. e = name) ui_objects of Some e \<Rightarrow> objects u e | None \<Rightarrow> 0)"

definition ui_get_style :: "ui_env \<Rightarrow> string \<Rightarrow> int ui_m" where
  "ui_get_style E name =
     (case table_find (\<lambda>e. fst e = name) ui_styles of
        Some e \<Rightarrow> get_style (snd e) E
      | None \<Rightarrow> State_Monad.return 0)"

text \<open>An image descriptor is a constant object, represented by its name.\<close>

definition ui_get_image :: "string \<Rightarrow> string option" where
  "ui_get_image name = table_find (\<lambda>e. e = name) ui_images"

definition ui_get_current_screen :: "ui_env \<Rightarrow> string option ui_m" where
  "ui_get_current_screen E = do {
     scr \<leftarrow> lv E Scr_act;
     if l_ptr scr = 0 then State_Monad.return None
     else get_ui (\<lambda>u. table_find (\<lambda>e. objects u e = l_ptr scr) ui_objects)
   }"

definition ui_set_text :: "ui_env \<Rightarrow> string \<Rightarrow> string \<Rightarrow> unit ui_m" where
  "ui_set_text E name txt = do {
     obj \<leftarrow> get_ui (\<lambda>u. ui_get_obj u name);
     if obj = 0 then skip else lv_do E (On obj (Label_set_text txt))
   }"

section \<open>Input devices\<close>

text \<open>The only handler ever installed is \<open>jetkvm_indev_wrapper\<close> of \<open>ctrl.c\<close>.\<close>

definition lvgl_set_indev_handler :: "unit ui_m" where
  "lvgl_set_indev_handler = set_ui (\<lambda>u. u\<lparr>indev_handler := True\<rparr>)"

definition jetkvm_indev_wrapper :: "ui_env \<Rightarrow> lv_event_code \<Rightarrow> unit ui_m" where
  "jetkvm_indev_wrapper E code = do {
     h \<leftarrow> get_ui jetkvm_indev_handler;
     if h then lv_do E (Call_indev code) else skip
   }"

definition handle_indev_event :: "ui_env \<Rightarrow> lv_event_code \<Rightarrow> unit ui_m" where
  "handle_indev_event E code = do {
     h \<leftarrow> get_ui indev_handler;
     if \<not> h then skip else jetkvm_indev_wrapper E code
   }"

definition TOUCH_Y_OFFSET :: int where "TOUCH_Y_OFFSET = 20"

definition apply_touch_calibration :: "ui_env \<Rightarrow> unit ui_m" where
  "apply_touch_calibration E = do {
     indev \<leftarrow> get_ui touch_indev;
     if indev = 0 then skip
     else do {
       rotation \<leftarrow> get_ui current_rotation;
       if rotation = 90
       then lv_do E (Evdev_set_calibration indev 0 (- TOUCH_Y_OFFSET) 239 (299 - TOUCH_Y_OFFSET))
       else lv_do E (Evdev_set_calibration indev 0 0 239 299)
     }
   }"

datatype lv_evdev_type = LV_EVDEV_TYPE_REL | LV_EVDEV_TYPE_KEY | LV_EVDEV_TYPE_ABS

definition evdev_discovery_cb :: "ui_env \<Rightarrow> int \<Rightarrow> lv_evdev_type \<Rightarrow> unit ui_m" where
  "evdev_discovery_cb E indev typ =
     (if typ \<noteq> LV_EVDEV_TYPE_ABS then skip
      else do {
        lv_do E (Indev_set_group indev);
        d \<leftarrow> get_ui disp;
        lv_do E (Indev_set_display indev d);
        lv_do E (Indev_add_event_cb indev);
        set_ui (\<lambda>u. u\<lparr>touch_indev := indev\<rparr>);
        apply_touch_calibration E
      })"

section \<open>Rotation\<close>

definition set_pads :: "ui_env \<Rightarrow> int \<Rightarrow> int \<Rightarrow> int \<Rightarrow> int \<Rightarrow> unit ui_m" where
  "set_pads E flex_screen_style flex_screen_menu_style left right = do {
     lv_do E (Style_set flex_screen_style Pad_left (Num left));
     lv_do E (Style_set flex_screen_style Pad_right (Num right));
     lv_do E (Style_set flex_screen_menu_style Pad_left (Num left));
     lv_do E (Style_set flex_screen_menu_style Pad_right (Num right))
   }"

definition refresh_pads :: "ui_env \<Rightarrow> u16 \<Rightarrow> unit ui_m" where
  "refresh_pads E rotation = do {
     flex_screen_style \<leftarrow> ui_get_style E ''flex_screen'';
     if flex_screen_style = 0 then skip
     else do {
       flex_screen_menu_style \<leftarrow> ui_get_style E ''flex_screen_menu'';
       if flex_screen_menu_style = 0 then skip
       else do {
         (if rotation = 90 then set_pads E flex_screen_style flex_screen_menu_style 24 44
          else if rotation = 270 then set_pads E flex_screen_style flex_screen_menu_style 44 24
          else skip);
         lv_do E (Report_style_change flex_screen_style);
         lv_do E (Report_style_change flex_screen_menu_style)
       }
     }
   }"

definition lvgl_set_rotation :: "ui_env \<Rightarrow> int \<Rightarrow> u16 \<Rightarrow> unit ui_m" where
  "lvgl_set_rotation E disp_ref rotation = do {
     d \<leftarrow> get_ui disp;
     let disp_ref = (if disp_ref = 0 then d else disp_ref);
     (if rotation = 0 then lv_do E (Display_set_rotation disp_ref 0)
      else if rotation = 90 then lv_do E (Display_set_rotation disp_ref 90)
      else if rotation = 180 then lv_do E (Display_set_rotation disp_ref 180)
      else if rotation = 270 then lv_do E (Display_set_rotation disp_ref 270)
      else skip);
     set_ui (\<lambda>u. u\<lparr>current_rotation := rotation\<rparr>);
     apply_touch_calibration E;
     refresh_pads E rotation
   }"

section \<open>Start and tick\<close>

text \<open>
  The timer handler delivers discovery and touch events; they are steps of their own
  (\<open>evdev_discovery_cb\<close>, \<open>handle_indev_event\<close>, the handlers of \<open>actions.c\<close>). The results say
  whether the table accesses of \<open>ui.c\<close> were defined.
\<close>

definition lvgl_init :: "lvgl_ver \<Rightarrow> ui_env \<Rightarrow> u16 \<Rightarrow> bool ui_m" where
  "lvgl_init L E rotation = do {
     lv_do E Lv_init;
     d \<leftarrow> lv E Fbdev_create;
     set_ui (\<lambda>u. u\<lparr>disp := l_ptr d\<rparr>);
     lv_do E (Display_set_resolution (l_ptr d) 240 300);
     lv_do E (Fbdev_set_file (l_ptr d) ''/dev/fb0'');
     lvgl_set_rotation E (l_ptr d) rotation;
     _ \<leftarrow> lv E Evdev_discovery_start;
     ok \<leftarrow> ui_init L E;
     ui_set_rpc_handler;
     State_Monad.return ok
   }"

definition lvgl_tick :: "lvgl_ver \<Rightarrow> ui_env \<Rightarrow> bool ui_m" where
  "lvgl_tick L E = do {
     lv_do E Timer_handler;
     ui_tick L E
   }"

text \<open>
  The millisecond clock: \<open>w\<close> is the width of \<open>time_t\<close>, in which the microseconds are computed;
  overflow is undefined.
\<close>

definition time_ms :: "nat \<Rightarrow> ui_answer \<Rightarrow> u64 option" where
  "time_ms w tv =
     (let us = sint (l_sec tv) * 1000000 + sint (l_usec tv)
      in if - (2 ^ (w - 1)) \<le> us \<and> us < 2 ^ (w - 1)
         then Some (of_int (if 0 \<le> us then us div 1000 else - ((- us) div 1000))) else None)"

definition custom_tick_get :: "nat \<Rightarrow> ui_env \<Rightarrow> u32 option ui_m" where
  "custom_tick_get w E = do {
     start \<leftarrow> get_ui start_ms;
     started \<leftarrow> (if start = 0 then do {
         tv_start \<leftarrow> lv E Gettimeofday;
         (case time_ms w tv_start of
            None \<Rightarrow> State_Monad.return False
          | Some ms \<Rightarrow> do { set_ui (\<lambda>u. u\<lparr>start_ms := ms\<rparr>); State_Monad.return True })
       } else State_Monad.return True);
     if \<not> started then State_Monad.return None
     else do {
       tv_now \<leftarrow> lv E Gettimeofday;
       (case time_ms w tv_now of
          None \<Rightarrow> State_Monad.return None
        | Some now_ms \<Rightarrow> get_ui (\<lambda>u. Some (ucast (now_ms - start_ms u))))
     }
   }"

section \<open>Lookups\<close>

lemma ui_get_obj_eq: "ui_get_obj u name = (if name \<in> set objects_t_fields then objects u name else 0)"
proof (cases "table_find (\<lambda>e. e = name) ui_objects")
  case None
  then have "name \<notin> set objects_t_fields"
    by (auto simp: ui_objects_def table_find_None_iff)
  with None show ?thesis
    by (simp add: ui_get_obj_def)
next
  case (Some e)
  from table_find_SomeD [OF this] have "e = name" "name \<in> set objects_t_fields"
    by (auto simp: ui_objects_def)
  with Some show ?thesis
    by (simp add: ui_get_obj_def)
qed

lemma ui_get_style_screen:
  "ui_get_style E ''flex_screen'' = get_style Flex_screen E"
  "ui_get_style E ''flex_screen_menu'' = get_style Flex_screen_menu E"
  by (simp_all add: ui_get_style_def ui_styles_def)

lemma style_tables_agree: "map snd ui_styles = style_order"
  by (simp add: ui_styles_def style_order_def)

section \<open>Calibration follows rotation\<close>

text \<open>The calibration last given to each input device.\<close>

fun note_calibration :: "ui_call \<times> ui_answer \<Rightarrow> (int \<rightharpoonup> int \<times> int \<times> int \<times> int) \<Rightarrow>
    (int \<rightharpoonup> int \<times> int \<times> int \<times> int)" where
  "note_calibration (Evdev_set_calibration i a b c d, _) m = m(i \<mapsto> (a, b, c, d))"
| "note_calibration _ m = m"

definition calibrations :: "(ui_call \<times> ui_answer) list \<Rightarrow> (int \<rightharpoonup> int \<times> int \<times> int \<times> int)" where
  "calibrations tr = fold note_calibration tr Map.empty"

lemma calibrations_simps [simp]:
  "calibrations [] = Map.empty"
  "calibrations (tr @ [e]) = note_calibration e (calibrations tr)"
  by (simp_all add: calibrations_def)

definition calibration_of :: "u16 \<Rightarrow> int \<times> int \<times> int \<times> int" where
  "calibration_of rotation = (if rotation = 90 then (0, -20, 239, 279) else (0, 0, 239, 299))"

definition calibrated :: "ui_world \<Rightarrow> bool" where
  "calibrated s \<longleftrightarrow> (touch_indev (ui s) \<noteq> 0 \<longrightarrow>
     calibrations (trace s) (touch_indev (ui s)) = Some (calibration_of (current_rotation (ui s))))"

text \<open>What a computation that has nothing to do with the touchscreen leaves alone.\<close>

definition touch_view :: "ui_world \<Rightarrow> int \<times> u16 \<times> (int \<rightharpoonup> int \<times> int \<times> int \<times> int)" where
  "touch_view s = (touch_indev (ui s), current_rotation (ui s), calibrations (trace s))"

lemma calibrated_view: "touch_view s' = touch_view s \<Longrightarrow> calibrated s' = calibrated s"
  by (simp add: calibrated_def touch_view_def)

lemma keeps_touch_set_ui [keeps_intros]:
  "(\<And>u. touch_indev (f u) = touch_indev u) \<Longrightarrow> (\<And>u. current_rotation (f u) = current_rotation u) \<Longrightarrow>
    keeps touch_view (set_ui f)"
  by (simp add: keeps_def touch_view_def run_simps)

lemma keeps_touch_call [keeps_intros]:
  assumes "\<And>a m. note_calibration (c, a) m = m"
  shows "keeps touch_view (lv E c)" "keeps touch_view (lv_do E c)"
  using assms by (simp_all add: keeps_def touch_view_def run_simps)

lemma keeps_touch_get_style: "keeps touch_view (get_style st E)"
  unfolding get_style_eq lazy_style_def by (intro keeps_intros keeps_init_style) simp_all

lemma keeps_touch_pads: "keeps touch_view (refresh_pads E rotation)"
  unfolding refresh_pads_def set_pads_def ui_get_style_screen
  by (intro keeps_intros keeps_touch_get_style) simp_all

lemma run_apply_calibration:
  assumes "run_state (apply_touch_calibration E) s = (r, s')"
  shows "calibrated s'" and "touch_indev (ui s') = touch_indev (ui s)"
    and "current_rotation (ui s') = current_rotation (ui s)"
  using assms
  by (auto simp: apply_touch_calibration_def run_simps calibrated_def calibration_of_def TOUCH_Y_OFFSET_def
      split: if_splits)

lemma keeps_touch_tick: "keeps touch_view (lvgl_tick L E)"
proof -
  have "keeps touch_view (read_lvgl_version L)"
    by (auto simp: keeps_def touch_view_def read_lvgl_version_def get_var_lvgl_version_def Let_def)
  then have "keeps touch_view (tick_screen L E i)" for i
    by (intro keeps_tick_screens(2) keeps_intros) simp_all
  then show ?thesis
    unfolding lvgl_tick_def ui_tick_def by (intro keeps_intros) simp_all
qed

lemma keeps_touch_loadScreen: "keeps touch_view (loadScreen E i)"
  unfolding loadScreen_def
  by (intro keeps_intros; simp split: option.split add: keeps_intros)

lemma keeps_touch_hold: "keeps touch_view (handle_hold_action E code config)"
  unfolding handle_hold_action_def hold_pressing_def hold_released_def set_hold_def Let_def
    ui_call_rpc_handler_def jetkvm_call_rpc_handler_def
  by (intro keeps_intros; simp)

lemma keeps_touch_action: "keeps touch_view (run_action a E code)"
  by (cases a; simp only: run_action.simps action_defs)
    (intro keeps_intros keeps_touch_hold keeps_touch_loadScreen; simp)+

text \<open>What happens to the running user interface.\<close>

datatype screen_event = Set_rotation u16 | Discover int lv_evdev_type | Tick | Touch action lv_event_code

fun screen_op :: "lvgl_ver \<Rightarrow> ui_env \<Rightarrow> screen_event \<Rightarrow> unit ui_m" where
  "screen_op L E (Set_rotation rotation) = lvgl_set_rotation E 0 rotation"
| "screen_op L E (Discover indev typ) = evdev_discovery_cb E indev typ"
| "screen_op L E Tick = do { _ \<leftarrow> lvgl_tick L E; skip }"
| "screen_op L E (Touch a code) = run_action a E code"

lemma rotation_calibrated:
  assumes "run_state (lvgl_set_rotation E d rotation) s = (r, s')"
  shows "calibrated s'" and "current_rotation (ui s') = rotation" and "touch_indev (ui s') = touch_indev (ui s)"
proof -
  from assms obtain t t' where cal: "run_state (apply_touch_calibration E) t = ((), t')"
      and pads: "run_state (refresh_pads E rotation) t' = (r, s')" and t: "current_rotation (ui t) = rotation" "touch_indev (ui t) = touch_indev (ui s)"
    by (auto simp: lvgl_set_rotation_def Let_def run_simps split: if_splits prod.splits)
  have "touch_view s' = touch_view t'"
    by (rule keepsD [OF keeps_touch_pads pads])
  then show "calibrated s'" and "current_rotation (ui s') = rotation" and "touch_indev (ui s') = touch_indev (ui s)"
    using run_apply_calibration [OF cal] t calibrated_view [of s' t'] by (auto simp: touch_view_def)
qed

lemma discovery_calibrated:
  assumes "run_state (evdev_discovery_cb E indev typ) s = (r, s')" and "calibrated s"
  shows "calibrated s'"
proof (cases "typ = LV_EVDEV_TYPE_ABS")
  case True
  let ?t = "snd (run_state (do {
      lv_do E (Indev_set_group indev); d \<leftarrow> get_ui disp; lv_do E (Indev_set_display indev d);
      lv_do E (Indev_add_event_cb indev); set_ui (\<lambda>u. u\<lparr>touch_indev := indev\<rparr>) }) s)"
  from True assms(1) have "run_state (apply_touch_calibration E) ?t = (r, s')"
    by (simp add: evdev_discovery_cb_def run_lv_do run_get_ui run_set_ui)
  then show ?thesis by (rule run_apply_calibration(1))
next
  case False
  with assms show ?thesis by (simp add: evdev_discovery_cb_def run_skip)
qed

lemma keeps_calibrated:
  "keeps touch_view m \<Longrightarrow> run_state m s = (r, s') \<Longrightarrow> calibrated s \<Longrightarrow> calibrated s'"
  by (drule (1) keepsD) (simp add: calibrated_view [of s' s])

interpretation screen_session: invariant_ops calibrated "screen_op L E" for L E
proof unfold_locales
  fix i s r s'
  assume run: "run_state (screen_op L E i) s = (r, s')" and inv: "calibrated s"
  have "keeps touch_view (do { _ \<leftarrow> lvgl_tick L E; skip })"
    by (intro keeps_intros keeps_touch_tick)
  with run inv show "calibrated s'"
    by (cases i) (auto intro: rotation_calibrated discovery_calibrated keeps_calibrated [OF keeps_touch_action]
        keeps_calibrated simp del: run_state_bind)
qed

text \<open>
  C16. The touch calibration follows the rotation: in whatever order the rotation is set, touchscreens are
  discovered, the interface is refreshed and the user touches it, the calibration last given to the current
  touchscreen is the one for the current rotation, shifted by 20 pixels at 90 degrees only.
\<close>

theorem touch_calibration_follows_rotation:
  assumes "touch_indev (ui s) = 0" and "s' = run_ops (screen_op L E) ops s" and "touch_indev (ui s') \<noteq> 0"
  shows "calibrations (trace s') (touch_indev (ui s')) =
    Some (if current_rotation (ui s') = 90 then (0, - TOUCH_Y_OFFSET, 239, 299 - TOUCH_Y_OFFSET) else (0, 0, 239, 299))"
proof -
  have "calibrated s"
    using assms(1) by (simp add: calibrated_def)
  then have "calibrated s'"
    unfolding assms(2) by (rule screen_session.session_keeps)
  with assms(3) show ?thesis
    by (simp add: calibrated_def calibration_of_def TOUCH_Y_OFFSET_def)
qed

theorem touch_calibration_follows_rotation_witness:
  "calibrations (trace (run_ops (screen_op sample_ver sample_lv) [Discover 7 LV_EVDEV_TYPE_ABS, Set_rotation 90] sample_ui)) 7 =
     Some (0, -20, 239, 279)"
proof -
  let ?s = "run_ops (screen_op sample_ver sample_lv) [Discover 7 LV_EVDEV_TYPE_ABS, Set_rotation 90] sample_ui"
  let ?t = "snd (run_state (evdev_discovery_cb sample_lv 7 LV_EVDEV_TYPE_ABS) sample_ui)"
  obtain r where rot: "run_state (lvgl_set_rotation sample_lv 0 90) ?t = (r, ?s)"
    by (cases "run_state (lvgl_set_rotation sample_lv 0 90) ?t") simp
  have "touch_indev (ui ?t) = 7"
    by (simp add: evdev_discovery_cb_def apply_touch_calibration_def run_simps)
  then have dev: "touch_indev (ui ?s) = 7"
    using rotation_calibrated(3) [OF rot] by simp
  have "touch_indev (ui sample_ui) = 0"
    by (simp add: sample_ui_def init_ui_def)
  from touch_calibration_follows_rotation [OF this refl, of sample_ver sample_lv "[Discover 7 LV_EVDEV_TYPE_ABS, Set_rotation 90]"]
  show ?thesis
    unfolding dev using rotation_calibrated(2) [OF rot] by (simp add: TOUCH_Y_OFFSET_def)
qed

end
