(* ===== verification/Ctrl_Ui.thy ===== *)
theory Ctrl_Ui
  imports Screen
begin

text \<open>
  The user-interface half of \<open>ctrl.c\<close>: what Go calls to start and refresh the display, to set and read
  variables, and to change objects by name, and the registration of the callbacks into Go. The
  calls that only forward to LVGL (\<open>jetkvm_ui_event_code_to_name\<close>, \<open>jetkvm_ui_get_lvgl_version\<close>) are
  left out.
\<close>

section \<open>Handlers\<close>

text \<open>The argument says whether the handler is not NULL.\<close>

definition jetkvm_set_indev_handler :: "bool \<Rightarrow> unit ui_m" where
  "jetkvm_set_indev_handler handler = do {
     set_ui (\<lambda>u. u\<lparr>jetkvm_indev_handler := handler\<rparr>);
     lvgl_set_indev_handler
   }"

definition jetkvm_set_rpc_handler :: "bool \<Rightarrow> unit ui_m" where
  "jetkvm_set_rpc_handler handler = set_ui (\<lambda>u. u\<lparr>rpc_handler := handler\<rparr>)"

section \<open>Variables\<close>

record ui_var_map =
  var_name :: string
  getter :: "lvgl_ver \<Rightarrow> ui_state \<Rightarrow> string \<times> ui_state"
  setter :: "string \<Rightarrow> ui_state \<Rightarrow> ui_state"

definition ui_vars :: "ui_var_map list" where
  "ui_vars =
     [\<lparr>var_name = ''app_version'', getter = (\<lambda>L u. (get_var_app_version u, u)), setter = set_var_app_version\<rparr>,
      \<lparr>var_name = ''system_version'', getter = (\<lambda>L u. (get_var_system_version u, u)), setter = set_var_system_version\<rparr>,
      \<lparr>var_name = ''lvgl_version'', getter = get_var_lvgl_version, setter = set_var_lvgl_version\<rparr>,
      \<lparr>var_name = ''main_screen'', getter = (\<lambda>L u. (get_var_main_screen u, u)), setter = set_var_main_screen\<rparr>]"

definition jetkvm_ui_set_var :: "string \<Rightarrow> string \<Rightarrow> unit ui_m" where
  "jetkvm_ui_set_var name value =
     (case table_find (\<lambda>v. var_name v = name) ui_vars of
        Some v \<Rightarrow> set_ui (setter v value)
      | None \<Rightarrow> skip)"

definition jetkvm_ui_get_var :: "lvgl_ver \<Rightarrow> string \<Rightarrow> string option ui_m" where
  "jetkvm_ui_get_var L name =
     (case table_find (\<lambda>v. var_name v = name) ui_vars of
        Some v \<Rightarrow> State (\<lambda>s. case getter v L (ui s) of (r, u) \<Rightarrow> (Some r, s\<lparr>ui := u\<rparr>))
      | None \<Rightarrow> State_Monad.return None)"

section \<open>Display\<close>

definition jetkvm_ui_init :: "lvgl_ver \<Rightarrow> ui_env \<Rightarrow> u16 \<Rightarrow> bool ui_m" where
  "jetkvm_ui_init L E rotation = lvgl_init L E rotation"

definition jetkvm_ui_tick :: "lvgl_ver \<Rightarrow> ui_env \<Rightarrow> bool ui_m" where
  "jetkvm_ui_tick L E = lvgl_tick L E"

definition jetkvm_ui_set_rotation :: "ui_env \<Rightarrow> u16 \<Rightarrow> unit ui_m" where
  "jetkvm_ui_set_rotation E rotation = lvgl_set_rotation E 0 rotation"

definition jetkvm_ui_get_current_screen :: "ui_env \<Rightarrow> string option ui_m" where
  "jetkvm_ui_get_current_screen E = ui_get_current_screen E"

section \<open>Objects by name\<close>

text \<open>The value 0 of an unknown flag, which no flag of LVGL has, is \<open>None\<close>.\<close>

definition str_to_lv_obj_flag :: "string \<Rightarrow> lv_flag option" where
  "str_to_lv_obj_flag flag =
     (if flag = ''LV_OBJ_FLAG_HIDDEN'' then Some LV_OBJ_FLAG_HIDDEN
      else if flag = ''LV_OBJ_FLAG_CLICKABLE'' then Some LV_OBJ_FLAG_CLICKABLE
      else if flag = ''LV_OBJ_FLAG_SCROLLABLE'' then Some LV_OBJ_FLAG_SCROLLABLE
      else if flag = ''LV_OBJ_FLAG_CLICK_FOCUSABLE'' then Some LV_OBJ_FLAG_CLICK_FOCUSABLE
      else if flag = ''LV_OBJ_FLAG_SCROLL_ON_FOCUS'' then Some LV_OBJ_FLAG_SCROLL_ON_FOCUS
      else if flag = ''LV_OBJ_FLAG_SCROLL_CHAIN'' then Some LV_OBJ_FLAG_SCROLL_CHAIN
      else if flag = ''LV_OBJ_FLAG_PRESS_LOCK'' then Some LV_OBJ_FLAG_PRESS_LOCK
      else if flag = ''LV_OBJ_FLAG_OVERFLOW_VISIBLE'' then Some LV_OBJ_FLAG_OVERFLOW_VISIBLE
      else None)"

definition str_to_lv_state :: "string \<Rightarrow> lv_state" where
  "str_to_lv_state state_name =
     (if state_name = ''LV_STATE_USER_1'' then LV_STATE_USER_1
      else if state_name = ''LV_STATE_USER_2'' then LV_STATE_USER_2
      else if state_name = ''LV_STATE_USER_3'' then LV_STATE_USER_3
      else if state_name = ''LV_STATE_USER_4'' then LV_STATE_USER_4
      else if state_name = ''LV_STATE_DISABLED'' then LV_STATE_DISABLED
      else if state_name = ''LV_STATE_DEFAULT'' then LV_STATE_DEFAULT
      else if state_name = ''LV_STATE_CHECKED'' then LV_STATE_CHECKED
      else if state_name = ''LV_STATE_FOCUSED'' then LV_STATE_FOCUSED
      else LV_STATE_DEFAULT)"

definition jetkvm_ui_load_screen :: "ui_env \<Rightarrow> string \<Rightarrow> unit ui_m" where
  "jetkvm_ui_load_screen E obj_name = do {
     obj \<leftarrow> get_ui (\<lambda>u. ui_get_obj u obj_name);
     if obj = 0 then skip
     else do {
       scr \<leftarrow> lv E Scr_act;
       if l_ptr scr \<noteq> obj then lv_do E (Scr_load obj) else skip
     }
   }"

definition jetkvm_ui_set_text :: "ui_env \<Rightarrow> string \<Rightarrow> string \<Rightarrow> int ui_m" where
  "jetkvm_ui_set_text E obj_name txt = do {
     obj \<leftarrow> get_ui (\<lambda>u. ui_get_obj u obj_name);
     if obj = 0 then State_Monad.return (-1)
     else do {
       cur \<leftarrow> lv E (Label_get_text obj);
       if l_text cur = txt then State_Monad.return 1
       else do {
         lv_do E (On obj (Label_set_text txt));
         State_Monad.return 0
       }
     }
   }"

text \<open>The name itself is handed to LVGL, which reads it as a path or symbol.\<close>

definition jetkvm_ui_set_image :: "ui_env \<Rightarrow> string \<Rightarrow> string \<Rightarrow> unit ui_m" where
  "jetkvm_ui_set_image E obj_name image_name = do {
     obj \<leftarrow> get_ui (\<lambda>u. ui_get_obj u obj_name);
     if obj = 0 then skip else lv_do E (On obj (Image_set_src_name image_name))
   }"

definition jetkvm_ui_add_state :: "ui_env \<Rightarrow> string \<Rightarrow> string \<Rightarrow> unit ui_m" where
  "jetkvm_ui_add_state E obj_name state_name = do {
     obj \<leftarrow> get_ui (\<lambda>u. ui_get_obj u obj_name);
     if obj = 0 then skip else lv_do E (On obj (Obj_add_state (str_to_lv_state state_name)))
   }"

definition jetkvm_ui_clear_state :: "ui_env \<Rightarrow> string \<Rightarrow> string \<Rightarrow> unit ui_m" where
  "jetkvm_ui_clear_state E obj_name state_name = do {
     obj \<leftarrow> get_ui (\<lambda>u. ui_get_obj u obj_name);
     if obj = 0 then skip else lv_do E (On obj (Obj_clear_state (str_to_lv_state state_name)))
   }"

definition jetkvm_ui_add_flag :: "ui_env \<Rightarrow> string \<Rightarrow> string \<Rightarrow> int ui_m" where
  "jetkvm_ui_add_flag E obj_name flag_name = do {
     obj \<leftarrow> get_ui (\<lambda>u. ui_get_obj u obj_name);
     if obj = 0 then State_Monad.return (-1)
     else (case str_to_lv_obj_flag flag_name of
       None \<Rightarrow> State_Monad.return (-2)
     | Some flag_val \<Rightarrow> do {
         lv_do E (On obj (Obj_add_flag [flag_val]));
         State_Monad.return 0
       })
   }"

definition jetkvm_ui_clear_flag :: "ui_env \<Rightarrow> string \<Rightarrow> string \<Rightarrow> int ui_m" where
  "jetkvm_ui_clear_flag E obj_name flag_name = do {
     obj \<leftarrow> get_ui (\<lambda>u. ui_get_obj u obj_name);
     if obj = 0 then State_Monad.return (-1)
     else (case str_to_lv_obj_flag flag_name of
       None \<Rightarrow> State_Monad.return (-2)
     | Some flag_val \<Rightarrow> do {
         lv_do E (On obj (Obj_clear_flag [flag_val]));
         State_Monad.return 0
       })
   }"

definition jetkvm_ui_fade_in :: "ui_env \<Rightarrow> string \<Rightarrow> u32 \<Rightarrow> unit ui_m" where
  "jetkvm_ui_fade_in E obj_name duration = do {
     obj \<leftarrow> get_ui (\<lambda>u. ui_get_obj u obj_name);
     if obj = 0 then skip else lv_do E (On obj (Obj_fade_in duration))
   }"

definition jetkvm_ui_fade_out :: "ui_env \<Rightarrow> string \<Rightarrow> u32 \<Rightarrow> unit ui_m" where
  "jetkvm_ui_fade_out E obj_name duration = do {
     obj \<leftarrow> get_ui (\<lambda>u. ui_get_obj u obj_name);
     if obj = 0 then skip else lv_do E (On obj (Obj_fade_out duration))
   }"

definition jetkvm_ui_set_opacity :: "ui_env \<Rightarrow> string \<Rightarrow> u8 \<Rightarrow> unit ui_m" where
  "jetkvm_ui_set_opacity E obj_name opacity = do {
     obj \<leftarrow> get_ui (\<lambda>u. ui_get_obj u obj_name);
     if obj = 0 then skip else lv_do E (On obj (Obj_set_opa opacity))
   }"

section \<open>Variables keep what was set\<close>

text \<open>The text a variable shows, and the number of characters it keeps.\<close>

definition var_text :: "lvgl_ver \<Rightarrow> string \<Rightarrow> ui_state \<Rightarrow> string option" where
  "var_text L name u = fst (run_state (jetkvm_ui_get_var L name) \<lparr>trace = [], ui = u\<rparr>)"

definition var_capacity :: "string \<Rightarrow> nat" where
  "var_capacity name = (if name = ''main_screen'' then 31 else 99)"

text \<open>The table searches, unfolded.\<close>

lemma var_cases:
  obtains "name = ''app_version''" | "name = ''system_version''" | "name = ''lvgl_version''"
    | "name = ''main_screen''" | "name \<notin> var_name ` set ui_vars"
  by (auto simp: ui_vars_def)

lemma set_var_unknown: "name \<notin> var_name ` set ui_vars \<Longrightarrow> jetkvm_ui_set_var name v = skip"
proof -
  assume "name \<notin> var_name ` set ui_vars"
  then have "table_find (\<lambda>v. var_name v = name) ui_vars = None"
    by (auto simp: table_find_None_iff)
  then show ?thesis by (simp add: jetkvm_ui_set_var_def)
qed

lemma get_var_unknown:
  "name \<notin> var_name ` set ui_vars \<Longrightarrow> jetkvm_ui_get_var L name = State_Monad.return None"
proof -
  assume "name \<notin> var_name ` set ui_vars"
  then have "table_find (\<lambda>v. var_name v = name) ui_vars = None"
    by (auto simp: table_find_None_iff)
  then show ?thesis by (simp add: jetkvm_ui_get_var_def)
qed

lemma set_var_eqs:
  "jetkvm_ui_set_var ''app_version'' v = set_ui (set_var_app_version v)"
  "jetkvm_ui_set_var ''system_version'' v = set_ui (set_var_system_version v)"
  "jetkvm_ui_set_var ''lvgl_version'' v = set_ui (set_var_lvgl_version v)"
  "jetkvm_ui_set_var ''main_screen'' v = set_ui (set_var_main_screen v)"
  by (simp_all add: jetkvm_ui_set_var_def ui_vars_def)

lemma run_get_vars:
  "run_state (jetkvm_ui_get_var L ''app_version'') s = (Some (get_var_app_version (ui s)), s)"
  "run_state (jetkvm_ui_get_var L ''system_version'') s = (Some (get_var_system_version (ui s)), s)"
  "run_state (jetkvm_ui_get_var L ''lvgl_version'') s =
     (Some (fst (get_var_lvgl_version L (ui s))), s\<lparr>ui := snd (get_var_lvgl_version L (ui s))\<rparr>)"
  "run_state (jetkvm_ui_get_var L ''main_screen'') s = (Some (get_var_main_screen (ui s)), s)"
  by (simp_all add: jetkvm_ui_get_var_def ui_vars_def split: prod.split)

lemma var_text_eqs:
  "var_text L ''app_version'' u = Some (get_var_app_version u)"
  "var_text L ''system_version'' u = Some (get_var_system_version u)"
  "var_text L ''lvgl_version'' u = Some (fst (get_var_lvgl_version L u))"
  "var_text L ''main_screen'' u = Some (get_var_main_screen u)"
  "name \<notin> var_name ` set ui_vars \<Longrightarrow> var_text L name u = None"
  by (simp_all add: var_text_def run_get_vars get_var_unknown)

lemmas var_eqs = set_var_eqs set_var_unknown run_set_ui run_skip var_text_eqs

lemma set_var_others:
  assumes "run_state (jetkvm_ui_set_var name v) s = (x, t)" and "name' \<noteq> name"
  shows "var_text L name' (ui t) = var_text L name' (ui s)"
proof (cases rule: var_cases [of name'])
  case 1
  with assms show ?thesis by (cases rule: var_cases [of name]) (auto simp: var_eqs var_defs)
next
  case 2
  with assms show ?thesis by (cases rule: var_cases [of name]) (auto simp: var_eqs var_defs)
next
  case 3
  with assms show ?thesis by (cases rule: var_cases [of name]) (auto simp: var_eqs var_defs Let_def)
next
  case 4
  with assms show ?thesis by (cases rule: var_cases [of name]) (auto simp: var_eqs var_defs)
qed (simp add: var_text_eqs)

text \<open>
  C22. Variables keep what Go sets: reading a variable that was set gives its text back, cut to the size of
  its array; no other variable changes; the LVGL version cannot be set, and an unknown name
  changes nothing and reads as NULL. The arrays keep their sizes. The one exception is a fault: when the LVGL
  version is read for the first time after the application version was set, the application version reads as
  its first 31 characters from then on.
\<close>

theorem ui_var_roundtrip:
  assumes "arrays_ok (ui s)" and "is_cstring v" and "run_state (jetkvm_ui_set_var name v) s = (x, t)"
    and "run_state (jetkvm_ui_get_var L name) t = (r, t')"
  shows "r = (if name \<in> {''app_version'', ''system_version'', ''main_screen''} then Some (take (var_capacity name) v)
       else if name = ''lvgl_version'' then var_text L name (ui s) else None) \<and>
    (\<forall>name'. name' = name \<or> var_text L name' (ui t) = var_text L name' (ui s)) \<and> arrays_ok (ui t') \<and>
    (name = ''app_version'' \<and> lvgl_version (ui s) ! 0 = NUL \<longrightarrow>
       var_text L ''app_version'' (ui (snd (run_state (jetkvm_ui_get_var L ''lvgl_version'') t))) = Some (take 31 v))"
proof -
  have "r = (if name \<in> {''app_version'', ''system_version'', ''main_screen''} then Some (take (var_capacity name) v)
       else if name = ''lvgl_version'' then var_text L name (ui s) else None) \<and> arrays_ok (ui t')"
    using assms(1,3,4) get_set_var [OF assms(1,2)] arrays_ok_ops [OF assms(1)]
    by (cases rule: var_cases [of name])
      (auto simp: var_eqs run_get_vars get_var_unknown var_capacity_def set_var_lvgl_version_def
        ui_vars_def)
  moreover have "var_text L ''app_version'' (ui (snd (run_state (jetkvm_ui_get_var L ''lvgl_version'') t))) = Some (take 31 v)"
    if "name = ''app_version''" "lvgl_version (ui s) ! 0 = NUL"
    using that assms(3) lvgl_version_cuts_app_version [OF assms(1,2) that(2)]
    by (auto simp: set_var_eqs run_set_ui run_get_vars var_text_eqs)
  ultimately show ?thesis
    using set_var_others [OF assms(3)] by blast
qed

theorem ui_var_roundtrip_witness:
  "fst (run_state (do { jetkvm_ui_set_var ''main_screen'' ''no_network_screen'';
      jetkvm_ui_get_var sample_ver ''main_screen'' }) sample_ui) = Some ''no_network_screen''"
proof -
  obtain x t where set: "run_state (jetkvm_ui_set_var ''main_screen'' ''no_network_screen'') sample_ui = (x, t)"
    by (cases "run_state (jetkvm_ui_set_var ''main_screen'' ''no_network_screen'') sample_ui")
  obtain r t' where get: "run_state (jetkvm_ui_get_var sample_ver ''main_screen'') t = (r, t')"
    by (cases "run_state (jetkvm_ui_get_var sample_ver ''main_screen'') t")
  have "arrays_ok (ui sample_ui)" and "is_cstring ''no_network_screen''"
    by (simp_all add: sample_ui_def arrays_ok_init is_cstring_def NUL_def)
  from ui_var_roundtrip [OF this set get] set get show ?thesis
    by (simp add: var_capacity_def)
qed

section \<open>Objects by name\<close>

text \<open>The name of a flag that Go can set.\<close>

fun flag_name :: "lv_flag \<Rightarrow> string option" where
  "flag_name LV_OBJ_FLAG_HIDDEN = Some ''LV_OBJ_FLAG_HIDDEN''"
| "flag_name LV_OBJ_FLAG_CLICKABLE = Some ''LV_OBJ_FLAG_CLICKABLE''"
| "flag_name LV_OBJ_FLAG_SCROLLABLE = Some ''LV_OBJ_FLAG_SCROLLABLE''"
| "flag_name LV_OBJ_FLAG_CLICK_FOCUSABLE = Some ''LV_OBJ_FLAG_CLICK_FOCUSABLE''"
| "flag_name LV_OBJ_FLAG_SCROLL_ON_FOCUS = Some ''LV_OBJ_FLAG_SCROLL_ON_FOCUS''"
| "flag_name LV_OBJ_FLAG_SCROLL_CHAIN = Some ''LV_OBJ_FLAG_SCROLL_CHAIN''"
| "flag_name LV_OBJ_FLAG_PRESS_LOCK = Some ''LV_OBJ_FLAG_PRESS_LOCK''"
| "flag_name LV_OBJ_FLAG_OVERFLOW_VISIBLE = Some ''LV_OBJ_FLAG_OVERFLOW_VISIBLE''"
| "flag_name LV_OBJ_FLAG_CHECKABLE = None"
| "flag_name LV_OBJ_FLAG_SNAPPABLE = None"

lemma str_to_flag_iff: "str_to_lv_obj_flag name = Some f \<longleftrightarrow> flag_name f = Some name"
proof
  show "str_to_lv_obj_flag name = Some f \<Longrightarrow> flag_name f = Some name"
    by (auto simp: str_to_lv_obj_flag_def split: if_splits)
  show "flag_name f = Some name \<Longrightarrow> str_to_lv_obj_flag name = Some f"
    by (cases f) (auto simp: str_to_lv_obj_flag_def)
qed

lemma str_to_flag_None: "str_to_lv_obj_flag name = None \<longleftrightarrow> (\<forall>f. flag_name f \<noteq> Some name)"
  using str_to_flag_iff by (metis not_Some_eq)

text \<open>What the result of an operation on a named object says about its calls.\<close>

definition flag_result :: "ui_world \<Rightarrow> string \<Rightarrow> string \<Rightarrow> (lv_flag list \<Rightarrow> obj_call) \<Rightarrow> int \<Rightarrow> ui_world \<Rightarrow> bool" where
  "flag_result s obj_name name op r s' \<longleftrightarrow>
     (if objects (ui s) obj_name = 0 \<or> obj_name \<notin> set objects_t_fields then r = -1 \<and> s' = s
      else if \<forall>f. flag_name f \<noteq> Some name then r = -2 \<and> s' = s
      else r = 0 \<and> ui s' = ui s \<and>
        (\<exists>f. flag_name f = Some name \<and> calls_of s s' = [On (objects (ui s) obj_name) (op [f])]))"

text \<open>
  C32. Operations on a named object report exactly what they did: -1 and no call when there is no such
  object, -2 and no call when the flag is unknown, otherwise 0 and one call that changes just that
  flag of that object; setting a text returns 1 and changes nothing when the label shows it already.
\<close>

theorem named_object_results:
  "(case run_state (jetkvm_ui_add_flag E obj_name name) s of (r, s') \<Rightarrow> flag_result s obj_name name Obj_add_flag r s') \<and>
   (case run_state (jetkvm_ui_clear_flag E obj_name name) s of (r, s') \<Rightarrow> flag_result s obj_name name Obj_clear_flag r s') \<and>
   (case run_state (jetkvm_ui_set_text E obj_name txt) s of (r, s') \<Rightarrow>
      if obj_name \<in> set objects_t_fields \<and> objects (ui s) obj_name \<noteq> 0
      then calls_of s s' = Label_get_text (objects (ui s) obj_name) #
          (if r = 1 then [] else [On (objects (ui s) obj_name) (Label_set_text txt)]) \<and>
        r = (if l_text (E (trace s) (Label_get_text (objects (ui s) obj_name))) = txt then 1 else 0)
      else r = -1 \<and> s' = s)"
proof -
  have "case run_state (jetkvm_ui_add_flag E obj_name name) s of (r, s') \<Rightarrow> flag_result s obj_name name Obj_add_flag r s'"
    by (auto simp: jetkvm_ui_add_flag_def flag_result_def ui_get_obj_eq run_simps calls_of_def
        str_to_flag_iff str_to_flag_None split: option.split)
  moreover have "case run_state (jetkvm_ui_clear_flag E obj_name name) s of (r, s') \<Rightarrow>
      flag_result s obj_name name Obj_clear_flag r s'"
    by (auto simp: jetkvm_ui_clear_flag_def flag_result_def ui_get_obj_eq run_simps calls_of_def
        str_to_flag_iff str_to_flag_None split: option.split)
  ultimately show ?thesis
    by (auto simp: jetkvm_ui_set_text_def ui_get_obj_eq run_simps calls_of_def)
qed

section \<open>Screens by name\<close>

text \<open>The screen LVGL shows after a trace, if it showed \<open>p\<close> before.\<close>

fun show_screen :: "ui_call \<times> ui_answer \<Rightarrow> int \<Rightarrow> int" where
  "show_screen (Scr_load q, _) p = q"
| "show_screen _ p = p"

definition shown :: "int \<Rightarrow> (ui_call \<times> ui_answer) list \<Rightarrow> int" where
  "shown p tr = fold show_screen tr p"

lemma shown_append [simp]: "shown p (tr @ es) = fold show_screen es (shown p tr)"
  by (simp add: shown_def)

lemma run_load_by_name:
  assumes "\<forall>h. l_ptr (E h Scr_act) = shown p h" and "name \<in> set objects_t_fields"
    and "objects (ui s) name \<noteq> 0" and "run_state (jetkvm_ui_load_screen E name) s = (x, t)"
  shows "shown p (trace t) = objects (ui s) name" and "ui t = ui s"
  using assms by (auto simp: jetkvm_ui_load_screen_def ui_get_obj_eq run_simps split: if_splits)

lemma find_object:
  assumes "inj_on f (set xs)" and "name \<in> set xs"
  shows "table_find (\<lambda>e. f e = f name) xs = Some name"
proof (cases "table_find (\<lambda>e. f e = f name) xs")
  case None
  with assms(2) show ?thesis by (auto simp: table_find_None_iff)
next
  case (Some e)
  from table_find_SomeD [OF this] assms have "e = name" by (auto dest: inj_onD)
  with Some show ?thesis by simp
qed

text \<open>
  C31. When LVGL shows the screen it loaded last and the objects are different, a screen loaded by name is
  the one Go reads back as current; but \<open>currentScreen\<close> of \<open>ui.c\<close> is left behind, so the
  next tick refreshes the screen that was current before.
\<close>

theorem load_screen_by_name:
  assumes "\<forall>h. l_ptr (E h Scr_act) = shown p h" and "name \<in> set objects_t_fields"
    and "objects (ui s) name \<noteq> 0" and "inj_on (objects (ui s)) (set objects_t_fields)"
    and "run_state (jetkvm_ui_load_screen E name) s = (x, t)"
    and "run_state (jetkvm_ui_get_current_screen E) t = (r, t')"
  shows "r = Some name \<and> currentScreen (ui t') = currentScreen (ui s) \<and>
    run_state (ui_tick L E) t' = run_state (tick_screen L E (currentScreen (ui s))) t'"
proof -
  note load = run_load_by_name [OF assms(1-3,5)]
  have "l_ptr (E (trace t) Scr_act) = objects (ui s) name"
    using assms(1) load by simp
  with assms(3,6) load have "r = table_find (\<lambda>e. objects (ui s) e = objects (ui s) name) objects_t_fields"
      and "ui t' = ui s"
    by (auto simp: jetkvm_ui_get_current_screen_def ui_get_current_screen_def ui_objects_def run_simps)
  then show ?thesis
    using find_object [OF assms(4,2)] by (simp add: ui_tick_def run_get_ui)
qed

text \<open>A display whose objects are numbered and whose LVGL shows what was loaded last.\<close>

definition shown_lv :: ui_env where
  "shown_lv h c = (sample_lv h c)\<lparr>l_ptr := shown 0 h\<rparr>"

definition numbered_ui :: ui_world where
  "numbered_ui = \<lparr>trace = [], ui = init_ui\<lparr>currentScreen := 2,
     objects := (\<lambda>n. 1 + int (length (takeWhile (\<lambda>e. e \<noteq> n) objects_t_fields)))\<rparr>\<rparr>"

lemma inj_on_position: "inj_on (\<lambda>n. length (takeWhile (\<lambda>e. e \<noteq> n) xs)) (set xs)"
proof (rule inj_onI)
  fix m n
  assume "m \<in> set xs" "n \<in> set xs" and eq: "length (takeWhile (\<lambda>e. e \<noteq> m) xs) = length (takeWhile (\<lambda>e. e \<noteq> n) xs)"
  have "xs ! length (takeWhile (\<lambda>e. e \<noteq> k) xs) = k" if "k \<in> set xs" for k
    using that by (induction xs) auto
  with \<open>m \<in> set xs\<close> \<open>n \<in> set xs\<close> eq show "m = n" by metis
qed

theorem load_screen_by_name_witness:
  "fst (run_state (do { jetkvm_ui_load_screen shown_lv ''about_screen''; jetkvm_ui_get_current_screen shown_lv })
     numbered_ui) = Some ''about_screen''"
proof -
  obtain x t where load: "run_state (jetkvm_ui_load_screen shown_lv ''about_screen'') numbered_ui = (x, t)"
    by (cases "run_state (jetkvm_ui_load_screen shown_lv ''about_screen'') numbered_ui")
  obtain r t' where get: "run_state (jetkvm_ui_get_current_screen shown_lv) t = (r, t')"
    by (cases "run_state (jetkvm_ui_get_current_screen shown_lv) t")
  have "\<forall>h. l_ptr (shown_lv h Scr_act) = shown 0 h"
    by (simp add: shown_lv_def)
  moreover have "''about_screen'' \<in> set objects_t_fields"
    by (simp add: objects_t_fields_def screen_names_def)
  moreover have "objects (ui numbered_ui) ''about_screen'' \<noteq> 0"
    by (simp add: numbered_ui_def)
  moreover have "inj_on (objects (ui numbered_ui)) (set objects_t_fields)"
    using inj_on_position [of objects_t_fields] by (simp add: numbered_ui_def inj_on_def)
  ultimately have "r = Some ''about_screen''"
    using load_screen_by_name [OF _ _ _ _ load get, of 0 sample_ver] by blast
  with load get show ?thesis by simp
qed

end
