(* ===== verification/Ctrl_Video.thy ===== *)
theory Ctrl_Video
  imports Hex Edid Video_Control
begin

text \<open>
  The video half of \<open>ctrl.c\<close>: the entry points Go calls to control streaming, to change the
  encoder settings and to read and write the EDID as hexadecimal text.
\<close>

section \<open>Handlers\<close>

text \<open>The argument says whether the handler is not NULL.\<close>

definition jetkvm_set_video_handler :: "bool \<Rightarrow> unit video_m" where
  "jetkvm_set_video_handler handler = wr (\<lambda>gl. gl\<lparr>video_handler := handler\<rparr>)"

definition jetkvm_set_video_state_handler :: "bool \<Rightarrow> unit video_m" where
  "jetkvm_set_video_state_handler handler = wr (\<lambda>gl. gl\<lparr>video_state_handler := handler\<rparr>)"

section \<open>Streaming and settings\<close>

definition jetkvm_video_init :: "rk_consts \<Rightarrow> video_env \<Rightarrow> rat \<Rightarrow> int video_m" where
  "jetkvm_video_init K E factor = video_init K E factor"

definition jetkvm_video_shutdown :: "rk_consts \<Rightarrow> video_env \<Rightarrow> unit video_m" where
  "jetkvm_video_shutdown K E = video_shutdown K E"

definition jetkvm_video_start :: "video_env \<Rightarrow> unit video_m" where
  "jetkvm_video_start E = video_start_streaming E"

definition jetkvm_video_stop :: "video_env \<Rightarrow> unit video_m" where
  "jetkvm_video_stop E = video_stop_streaming E"

definition jetkvm_video_get_streaming_status :: "video_env \<Rightarrow> u8 video_m" where
  "jetkvm_video_get_streaming_status E = video_get_streaming_status E"

definition jetkvm_video_set_quality_factor :: "video_env \<Rightarrow> rat \<Rightarrow> int video_m" where
  "jetkvm_video_set_quality_factor E factor =
     (if factor \<le> 0 then State_Monad.return (-1)
      else do {
        video_set_quality_factor E factor;
        State_Monad.return 0
      })"

definition jetkvm_video_get_quality_factor :: "video_env \<Rightarrow> rat video_m" where
  "jetkvm_video_get_quality_factor E = video_get_quality_factor E"

definition jetkvm_video_set_codec_type :: "int \<Rightarrow> int video_m" where
  "jetkvm_video_set_codec_type codec =
     (if codec < 0 \<or> codec > 1 then State_Monad.return (-1)
      else do {
        video_set_codec_type codec;
        State_Monad.return 0
      })"

definition jetkvm_video_get_codec_type :: "video_env \<Rightarrow> int video_m" where
  "jetkvm_video_get_codec_type E = video_get_codec_type E"

definition jetkvm_video_get_status :: "video_env \<Rightarrow> video_report video_m" where
  "jetkvm_video_get_status E = rd E vstate"

section \<open>EDID\<close>

text \<open>The buffers on the stack start with arbitrary contents \<open>edid\<close>.\<close>

definition jetkvm_video_set_edid :: "edid_env \<Rightarrow> u8 list \<Rightarrow> string \<Rightarrow> int edid_m" where
  "jetkvm_video_set_edid E edid edid_hex =
     (case hex_to_bytes edid_hex edid 256 of
        (edid_len, edid') \<Rightarrow>
          if edid_len < 0 then State_Monad.return (-1)
          else do {
            r \<leftarrow> set_edid E (Some edid') (nat edid_len);
            State_Monad.return (fst r)
          })"

definition jetkvm_video_get_edid_hex :: "edid_env \<Rightarrow> bool \<Rightarrow> u8 list \<Rightarrow> string option edid_m" where
  "jetkvm_video_get_edid_hex E malloc_ok edid = do {
     r \<leftarrow> get_edid E (Some edid) 256;
     if fst r < 0 then State_Monad.return None
     else State_Monad.return (bytes_to_hex malloc_ok (snd r) (nat (fst r)))
   }"

definition jetkvm_video_log_status :: "edid_env \<Rightarrow> string option edid_m" where
  "jetkvm_video_log_status E = videoc_log_status E"

section \<open>The EDID comes back\<close>

text \<open>What the receiver stores: the EDID written last.\<close>

fun store_edid :: "edid_call \<times> edid_answer \<Rightarrow> (u32 \<times> u8 list) option \<Rightarrow> (u32 \<times> u8 list) option" where
  "store_edid (E_S_EDID fd start n bs, a) m = (if 0 \<le> a_ret a then Some (n, bs) else m)"
| "store_edid _ m = m"

definition stored :: "(edid_call \<times> edid_answer) list \<Rightarrow> (u32 \<times> u8 list) option" where
  "stored tr = fold store_edid tr None"

lemma stored_append [simp]: "stored (tr @ es) = fold store_edid es (stored tr)"
  by (simp add: stored_def)

text \<open>
  A receiver that works: it can be opened, accepts an EDID, and returns the one it accepted last
  with its number of blocks.
\<close>

definition edid_receiver :: "edid_env \<Rightarrow> bool" where
  "edid_receiver E \<longleftrightarrow> (\<forall>h. 0 \<le> a_ret (E h (E_open V4L_SUBDEV))) \<and>
     (\<forall>h fd n bs. 0 \<le> a_ret (E h (E_S_EDID fd 0 n bs))) \<and>
     (\<forall>h fd n bs. stored h = Some (n, bs) \<longrightarrow>
        0 \<le> a_ret (E h (E_G_EDID fd 0 2)) \<and> a_blocks (E h (E_G_EDID fd 0 2)) = n \<and>
        a_data (E h (E_G_EDID fd 0 2)) = bs)"

lemma take_fix_edid_checksum:
  assumes "sz = length bs" and "128 dvd sz"
  shows "take sz (fix_edid_checksum (bs @ rest) sz) = fix_edid_checksum bs sz"
proof (rule nth_equalityI)
  fix j
  assume "j < length (take sz (fix_edid_checksum (bs @ rest) sz))"
  then have j: "j < length bs" by (simp add: assms(1))
  obtain k where k: "sz = k * 128"
    using assms(2) by (auto simp: dvd_def mult.commute)
  have "block_sum (bs @ rest) (j div 128) 127 = block_sum bs (j div 128) 127"
  proof (rule block_sum_cong)
    fix i :: nat
    assume "i < 127"
    moreover have "j div 128 * 128 + 128 \<le> length bs"
      using j assms(1) k less_mult_imp_div_less [of j k 128] by simp
    ultimately show "(bs @ rest) ! (j div 128 * 128 + i) = bs ! (j div 128 * 128 + i)"
      by (simp add: nth_append)
  qed
  with j assms(1) show "take sz (fix_edid_checksum (bs @ rest) sz) ! j = fix_edid_checksum bs sz ! j"
    by (simp add: fix_edid_checksum_nth nth_append)
qed (simp add: assms(1))

lemma run_set_edid:
  assumes "edid_receiver E" and "sz = 128 \<or> sz = 256"
    and "run_state (set_edid E (Some buf) sz) s = (r, t)"
  shows "fst r = 0" and "stored (trace t) = Some (of_nat (sz div 128), take sz (fix_edid_checksum buf sz))"
proof -
  have "\<not> a_ret (E h (E_open V4L_SUBDEV)) < 0" "\<not> a_ret (E h (E_S_EDID fd 0 n bs)) < 0"
      "0 \<le> a_ret (E h (E_S_EDID fd 0 n bs))" for h fd n bs
    using assms(1) by (simp_all add: edid_receiver_def not_less)
  with assms(2,3) show "fst r = 0"
      and "stored (trace t) = Some (of_nat (sz div 128), take sz (fix_edid_checksum buf sz))"
    by (auto simp: set_edid_def run_simps Let_def)
qed

lemma run_get_edid:
  assumes "edid_receiver E" and "stored (trace t) = Some (n, bs)"
    and "run_state (get_edid E (Some buf) 256) t = (r, t')"
  shows "r = (sint (n * 128), Some (write_out buf bs))"
proof -
  let ?a = "E (trace t) (E_open V4L_SUBDEV)"
  let ?h = "trace t @ [(E_open V4L_SUBDEV, ?a)]"
  have "stored ?h = Some (n, bs)"
    using assms(2) by simp
  with assms(1) have "0 \<le> a_ret ?a" "0 \<le> a_ret (E ?h (E_G_EDID (a_ret ?a) 0 2))"
      "a_blocks (E ?h (E_G_EDID (a_ret ?a) 0 2)) = n" "a_data (E ?h (E_G_EDID (a_ret ?a) 0 2)) = bs"
    unfolding edid_receiver_def by blast+
  with assms(3) show ?thesis
    by (auto simp: get_edid_def run_simps Let_def)
qed

lemma bytes_to_hex_prefix:
  assumes "0 < length bs"
  shows "bytes_to_hex True (Some (bs @ rest)) (length bs) = Some (concat (map hex2 bs))"
proof -
  have "map (\<lambda>i. hex2 ((bs @ rest) ! i)) [0..<length bs] = map hex2 (map ((!) bs) [0..<length bs])"
    by (simp add: nth_append)
  then show ?thesis
    using assms by (simp only: map_nth) (simp add: bytes_to_hex_def)
qed

lemma fix_edid_checksum_id:
  assumes "sz \<le> length e" and "\<forall>b < sz div 128. block_valid e b"
  shows "fix_edid_checksum e sz = e"
proof (rule nth_equalityI)
  fix j
  assume "j < length (fix_edid_checksum e sz)"
  then have j: "j < length e" by simp
  show "fix_edid_checksum e sz ! j = e ! j"
  proof (cases "j mod 128 = 127 \<and> j div 128 < sz div 128")
    case True
    let ?b = "j div 128"
    have pos: "j = ?b * 128 + 127" using True by (metis div_mult_mod_eq)
    have "block_sum e ?b (Suc 127) = sum_list (take (Suc 127) (drop (?b * 128) e))"
      using j pos by (intro block_sum_list) linarith
    also have "\<dots> = 0"
      using assms(2) True by (simp add: block_valid_def)
    finally have "block_sum e ?b 127 + e ! j = 0"
      using pos by (simp only: block_sum.simps)
    then have "e ! j = - block_sum e ?b 127"
      by (simp add: add_eq_0_iff)
    then show ?thesis
      using True j by (simp add: fix_edid_checksum_nth)
  qed (use j in \<open>auto simp: fix_edid_checksum_nth\<close>)
qed simp

text \<open>
  C8. The EDID comes back: on a receiver that works, setting the hexadecimal text of one or two blocks
  succeeds, and reading it gives the text of the same bytes with the checksum of every block
  repaired; a text whose checksums are right comes back unchanged.
\<close>

theorem edid_hex_roundtrip:
  assumes "edid_receiver E" and "length bs = 128 \<or> length bs = 256" and "length buf = 256" and "length buf' = 256"
    and "run_state (jetkvm_video_set_edid E buf (concat (map hex2 bs))) s = (r, t)"
    and "run_state (jetkvm_video_get_edid_hex E True buf') t = (out, t')"
  shows "r = 0 \<and> out = Some (concat (map hex2 (fix_edid_checksum bs (length bs)))) \<and>
    ((\<forall>b < length bs div 128. block_valid bs b) \<longrightarrow> out = Some (concat (map hex2 bs)))"
proof -
  let ?sz = "length bs" and ?fixed = "fix_edid_checksum bs (length bs)"
  have "hex_to_bytes (concat (map hex2 bs)) buf 256 = (int ?sz, bs @ drop ?sz buf)"
    using assms(2,3) by (intro hex_to_bytes_encoded) auto
  with assms(5) obtain r' where r': "run_state (set_edid E (Some (bs @ drop ?sz buf)) ?sz) s = (r', t)" "r = fst r'"
    by (auto simp: jetkvm_video_set_edid_def split: prod.splits)
  note set_result = run_set_edid [OF assms(1,2) r'(1)]
  have "128 dvd ?sz" using assms(2) by auto
  then have "stored (trace t) = Some (of_nat (?sz div 128), ?fixed)"
    using set_result(2) take_fix_edid_checksum [OF refl] by simp
  note get_result = run_get_edid [OF assms(1) this]
  have size: "sint (of_nat (?sz div 128) * 128 :: u32) = int ?sz"
    using assms(2) by auto
  obtain g t'' where g: "run_state (get_edid E (Some buf') 256) t = (g, t'')"
    by (cases "run_state (get_edid E (Some buf') 256) t")
  have "g = (int ?sz, Some (write_out buf' ?fixed))"
    using get_result [OF g] by (simp only: size)
  with g assms(6) have "out = bytes_to_hex True (Some (write_out buf' ?fixed)) ?sz"
    by (simp add: jetkvm_video_get_edid_hex_def)
  also have "\<dots> = Some (concat (map hex2 ?fixed))"
    using bytes_to_hex_prefix [of ?fixed "drop ?sz buf'"] assms(2) by (simp add: write_out_def) (metis list.size(3) zero_neq_numeral)
  finally have "out = Some (concat (map hex2 ?fixed))" .
  then show ?thesis
    using set_result(1) r'(2) fix_edid_checksum_id [of ?sz bs] by auto
qed

text \<open>A receiver that works.\<close>

definition receiver :: edid_env where
  "receiver h c = \<lparr>a_ret = 0, a_errno = 0,
     a_blocks = (case stored h of Some (n, bs) \<Rightarrow> n | None \<Rightarrow> 0),
     a_data = (case stored h of Some (n, bs) \<Rightarrow> bs | None \<Rightarrow> []), a_text = []\<rparr>"

theorem edid_hex_roundtrip_witness:
  "fst (run_state (do {
       _ \<leftarrow> jetkvm_video_set_edid receiver (replicate 256 0) (concat (map hex2 (replicate 128 2)));
       jetkvm_video_get_edid_hex receiver True (replicate 256 9)
     }) \<lparr>trace = [], e_errno = 0\<rparr>) = Some (concat (map hex2 (replicate 128 2)))"
proof -
  let ?s = "\<lparr>trace = [], e_errno = 0\<rparr> :: edid_state" and ?bs = "replicate 128 (2 :: u8)"
  obtain r t where set: "run_state (jetkvm_video_set_edid receiver (replicate 256 0) (concat (map hex2 ?bs))) ?s = (r, t)"
    by (cases "run_state (jetkvm_video_set_edid receiver (replicate 256 0) (concat (map hex2 ?bs))) ?s")
  obtain out t' where get: "run_state (jetkvm_video_get_edid_hex receiver True (replicate 256 9)) t = (out, t')"
    by (cases "run_state (jetkvm_video_get_edid_hex receiver True (replicate 256 9)) t")
  have "edid_receiver receiver"
    by (simp add: edid_receiver_def receiver_def)
  moreover have "\<forall>b < length ?bs div 128. block_valid ?bs b"
    by (simp add: block_valid_def sum_list_replicate)
  ultimately have "out = Some (concat (map hex2 ?bs))"
    using edid_hex_roundtrip [OF _ _ _ _ set get] by (metis length_replicate)
  with set get show ?thesis
    by (simp del: map_replicate)
qed

section \<open>Settings stay in range\<close>

lemma codec_range:
  assumes "run_state (jetkvm_video_set_codec_type c) s = (r, s')" and "codec_type (glob s) \<in> {0, 1}"
  shows "codec_type (glob s') \<in> {0, 1}" and "r = (if c \<in> {0, 1} then 0 else -1)"
    and "r = 0 \<Longrightarrow> codec_type (glob s') = c"
  using assms by (auto simp: jetkvm_video_set_codec_type_def video_set_codec_type_def run_wr split: if_splits)

lemma quality_rejected:
  "q \<le> 0 \<Longrightarrow> run_state (jetkvm_video_set_quality_factor E q) s = (-1, s)"
  by (simp add: jetkvm_video_set_quality_factor_def)

end
