(* ===== verification/Typing.thy ===== *)
theory Typing
  imports Ctrl_Ui
begin

text \<open>
  A type discipline for the calls into LVGL, which takes every object and style as an untyped pointer:
  calls of a class are made only on objects created with that class, properties get values of
  their kind, fonts and images are declared ones, and styles are initialised before they are used. The
  widget trees are checked by evaluation, and the code that reaches objects through the fields of
  \<open>objects_t\<close> by a typing of those fields.
\<close>

section \<open>Types of calls\<close>

text \<open>The fonts declared in \<open>fonts.h\<close>.\<close>

definition ui_fonts :: "string list" where
  "ui_fonts = [''ui_font_font_bold30'', ''ui_font_font_book16'', ''ui_font_font_book18'',
     ''ui_font_font_book20'', ''ui_font_font_book24'']"

fun value_ok :: "lv_prop \<Rightarrow> lv_value \<Rightarrow> bool" where
  "value_ok Text_font v = (case v of Font f \<Rightarrow> f \<in> set ui_fonts | _ \<Rightarrow> False)"
| "value_ok Text_color v = (case v of Color c \<Rightarrow> True | _ \<Rightarrow> False)"
| "value_ok Bg_color v = (case v of Color c \<Rightarrow> True | _ \<Rightarrow> False)"
| "value_ok Text_align v = (v = Const LV_TEXT_ALIGN_LEFT \<or> v = Const LV_TEXT_ALIGN_CENTER)"
| "value_ok Flex_flow v = (v = Const LV_FLEX_FLOW_ROW \<or> v = Const LV_FLEX_FLOW_COLUMN)"
| "value_ok Flex_main_place v = (v \<in> {Const LV_FLEX_ALIGN_START, Const LV_FLEX_ALIGN_CENTER, Const LV_FLEX_ALIGN_SPACE_BETWEEN})"
| "value_ok Flex_cross_place v = (v \<in> {Const LV_FLEX_ALIGN_START, Const LV_FLEX_ALIGN_CENTER})"
| "value_ok Flex_track_place v = (v \<in> {Const LV_FLEX_ALIGN_START, Const LV_FLEX_ALIGN_CENTER, Const LV_FLEX_ALIGN_SPACE_BETWEEN})"
| "value_ok Layout v = (v = Const LV_LAYOUT_FLEX)"
| "value_ok Align v = (v = Const LV_ALIGN_CENTER \<or> v = Const LV_ALIGN_LEFT_MID)"
| "value_ok p v = (case v of Num n \<Rightarrow> True | _ \<Rightarrow> False)"

text \<open>
  What a call needs of the class of its object and of its arguments. The images of the screens are declared descriptors; \<open>jetkvm_ui_set_image\<close>
  hands LVGL a name instead, which LVGL takes for the path of a file: all that can be said of it is that it is one of
  the names \<open>G\<close> given by Go.
\<close>

fun call_ok :: "string set \<Rightarrow> lv_class \<Rightarrow> obj_call \<Rightarrow> bool" where
  "call_ok G cls (Label_set_text txt) = (cls = LV_LABEL)"
| "call_ok G cls Label_set_long_mode_dot = (cls = LV_LABEL)"
| "call_ok G cls (Image_set_src img) = (cls = LV_IMAGE \<and> img \<in> set ui_images)"
| "call_ok G cls (Image_set_src_name img) = (cls = LV_IMAGE \<and> img \<in> G)"
| "call_ok G cls (Spinner_set_anim_params t a) = (cls = LV_SPINNER)"
| "call_ok G cls (Obj_set_style p v sel) = value_ok p v"
| "call_ok G cls c = True"

fun styles_used :: "obj_call \<Rightarrow> int set" where
  "styles_used (Obj_add_style st) = {st}"
| "styles_used (Obj_remove_style st) = {st}"
| "styles_used c = {}"

text \<open>A call under a typing of object pointers and a set of initialised styles; screens are plain objects.\<close>

fun call_typed :: "string set \<Rightarrow> (int \<times> lv_class) set \<Rightarrow> int set \<Rightarrow> ui_call \<Rightarrow> bool" where
  "call_typed G Ob St (Create cls parent) = (parent = 0 \<or> parent \<in> fst ` Ob)"
| "call_typed G Ob St (On p c) = ((\<exists>cls. (p, cls) \<in> Ob \<and> call_ok G cls c) \<and> styles_used c \<subseteq> St)"
| "call_typed G Ob St (Label_get_text p) = ((p, LV_LABEL) \<in> Ob)"
| "call_typed G Ob St (Style_set p prop v) = (p \<in> St \<and> value_ok prop v)"
| "call_typed G Ob St (Report_style_change p) = (p \<in> St)"
| "call_typed G Ob St (Scr_load p) = ((p, LV_OBJ) \<in> Ob)"
| "call_typed G Ob St c = True"

text \<open>What a trace has created and initialised.\<close>

fun created_by :: "ui_call \<times> ui_answer \<Rightarrow> (int \<times> lv_class) set" where
  "created_by (Create cls parent, a) = {(l_ptr a, cls)}"
| "created_by e = {}"

fun inits :: "ui_call \<times> ui_answer \<Rightarrow> int set" where
  "inits (Style_init p, a) = {p}"
| "inits e = {}"

definition created :: "(ui_call \<times> ui_answer) list \<Rightarrow> (int \<times> lv_class) set" where
  "created tr = \<Union> (created_by ` set tr)"

definition ready :: "(ui_call \<times> ui_answer) list \<Rightarrow> int set" where
  "ready tr = \<Union> (inits ` set tr)"

text \<open>A trace of the environment in which every call is typed by what precedes it.\<close>

definition well_typed :: "string set \<Rightarrow> ui_env \<Rightarrow> (ui_call \<times> ui_answer) list \<Rightarrow> bool" where
  "well_typed G E tr \<longleftrightarrow> (\<forall>i < length tr. call_typed G (created (take i tr)) (ready (take i tr)) (fst (tr ! i)) \<and>
     snd (tr ! i) = E (take i tr) (fst (tr ! i)))"

lemma created_append [simp]: "created (tr @ tr') = created tr \<union> created tr'"
  by (simp add: created_def)

lemma ready_append [simp]: "ready (tr @ tr') = ready tr \<union> ready tr'"
  by (simp add: ready_def)

lemma created_Nil [simp]: "created [] = {}" "ready [] = {}"
  by (simp_all add: created_def ready_def)

lemma created_Cons [simp]: "created (e # tr) = created_by e \<union> created tr" "ready (e # tr) = inits e \<union> ready tr"
  by (simp_all add: created_def ready_def)

lemma well_typed_snoc:
  "well_typed G E (tr @ [(c, a)]) \<longleftrightarrow> well_typed G E tr \<and> call_typed G (created tr) (ready tr) c \<and> a = E tr c"
  by (auto simp: well_typed_def less_Suc_eq nth_append)

lemma well_typed_snoc2:
  "well_typed G E (tr @ [(c, a), (d, b)]) \<longleftrightarrow> well_typed G E (tr @ [(c, a)]) \<and>
     call_typed G (created (tr @ [(c, a)])) (ready (tr @ [(c, a)])) d \<and> b = E (tr @ [(c, a)]) d"
  using well_typed_snoc [of G E "tr @ [(c, a)]"] by simp

lemma call_typed_mono:
  assumes "call_typed G Ob St c" and "Ob \<subseteq> Ob'" and "St \<subseteq> St'"
  shows "call_typed G Ob' St' c"
  using assms by (cases c) auto

lemma well_typed_not_null:
  assumes "well_typed G E tr" and "creation_succeeds E" and "(p, cls) \<in> created tr"
  shows "p \<noteq> 0"
proof -
  from assms(3) obtain i where i: "i < length tr" "(p, cls) \<in> created_by (tr ! i)"
    by (auto simp: created_def in_set_conv_nth)
  then obtain parent a where "tr ! i = (Create cls parent, a)" "p = l_ptr a"
    by (cases "tr ! i" rule: created_by.cases) auto
  with i(1) assms(1,2) show ?thesis
    by (metis creation_succeeds_def fst_conv snd_conv well_typed_def)
qed

section \<open>Well-typed widget trees\<close>

fun attr_ok :: "lv_class \<Rightarrow> attr \<Rightarrow> bool" where
  "attr_ok cls (Call c) = (call_ok {} cls c \<and> styles_used c = {})"
| "attr_ok cls (Add_style st) = True"

fun widget_ok :: "widget \<Rightarrow> bool" and widgets_ok :: "widget list \<Rightarrow> bool" where
  "widget_ok (Widget cls name as kids) = (list_all (attr_ok cls) as \<and> widgets_ok kids)"
| "widgets_ok [] = True"
| "widgets_ok (w # ws) = (widget_ok w \<and> widgets_ok ws)"

lemma screen_trees_ok: "list_all widget_ok screen_trees"
  by (simp add: tree_defs ui_fonts_def ui_images_def)

text \<open>The class of the object each field points to.\<close>

fun classes_of :: "widget \<Rightarrow> (string \<times> lv_class) list"
and classes_of_list :: "widget list \<Rightarrow> (string \<times> lv_class) list" where
  "classes_of (Widget cls name as kids) = map (\<lambda>n. (n, cls)) (own_name name) @ classes_of_list kids"
| "classes_of_list [] = []"
| "classes_of_list (w # ws) = classes_of w @ classes_of_list ws"

definition field_class :: "string \<Rightarrow> lv_class option" where
  "field_class = map_of (classes_of_list screen_trees)"

lemma fst_classes: "map fst (classes_of w) = names_of w" "map fst (classes_of_list ws) = names_of_list ws"
  by (induction w and ws rule: classes_of_classes_of_list.induct) (simp_all add: comp_def)

lemma names_of_list_concat: "names_of_list ws = concat (map names_of ws)"
  by (induction ws) simp_all

lemma mset_names: "mset (names_of w) = mset (root_name w) + mset (inner_names w)"
  by (cases w) simp

lemma mset_names_list:
  "mset (names_of_list ws) = mset (concat (map root_name ws)) + mset (concat (map inner_names ws))"
  by (induction ws) (simp_all add: mset_names)

lemma names_of_screens: "mset (names_of_list screen_trees) = mset objects_t_fields"
  unfolding mset_names_list screen_root_names using screen_inner_names by (metis mset_append)

lemma distinct_names: "distinct (names_of_list screen_trees)"
proof -
  have "distinct objects_t_fields"
    by (simp add: objects_t_fields_def screen_names_def)
  then show ?thesis
    using names_of_screens by (metis mset_eq_imp_distinct_iff)
qed

lemma field_class_iff: "field_class n = Some cls \<longleftrightarrow> (n, cls) \<in> set (classes_of_list screen_trees)"
  unfolding field_class_def by (rule map_of_eq_Some_iff) (simp add: fst_classes distinct_names)

lemma field_class_dom: "n \<in> set objects_t_fields \<longleftrightarrow> (\<exists>cls. field_class n = Some cls)"
proof -
  have "set objects_t_fields = fst ` set (classes_of_list screen_trees)"
    using mset_eq_setD [OF names_of_screens] fst_classes(2) [of screen_trees] by (metis list.set_map)
  then show ?thesis
    by (force simp: field_class_iff)
qed

text \<open>The fields the code uses by name.\<close>

lemma field_classes:
  "field_class ''boot_screen_version'' = Some LV_LABEL" "field_class ''system_version'' = Some LV_LABEL"
  "field_class ''app_version'' = Some LV_LABEL" "field_class ''lvgl_version'' = Some LV_LABEL"
  "field_class ''reset_config_label'' = Some LV_LABEL" "field_class ''reset_config_button'' = Some LV_OBJ"
  "field_class ''reset_config_spinner'' = Some LV_OBJ" "field_class ''dhcpc_label'' = Some LV_LABEL"
  "field_class ''reboot_label'' = Some LV_LABEL"
  unfolding field_class_iff by (simp_all add: tree_defs own_name_def)

lemma classes_of_list_screens:
  "\<forall>n \<in> set (root_name w). (n, LV_OBJ) \<in> set (classes_of w) \<Longrightarrow> w \<in> set ws \<Longrightarrow>
   n \<in> set (root_name w) \<Longrightarrow> (n, LV_OBJ) \<in> set (classes_of_list ws)"
  by (induction ws) auto

lemma screens_are_objects: "n \<in> set screen_names \<Longrightarrow> field_class n = Some LV_OBJ"
proof -
  assume "n \<in> set screen_names"
  then obtain w where w: "w \<in> set screen_trees" "n \<in> set (root_name w)"
    unfolding screen_root_names [symmetric] by auto
  have "\<forall>w \<in> set screen_trees. \<forall>n \<in> set (root_name w). (n, LV_OBJ) \<in> set (classes_of w)"
    by (simp add: tree_defs own_name_def)
  with w show ?thesis
    unfolding field_class_iff by (blast intro: classes_of_list_screens)
qed

section \<open>Computations that respect the types\<close>

text \<open>
  The typing of a state: the trace is well typed, the fields \<open>N\<close> point to objects of their class, the pointers
  \<open>Ob\<close> and the styles \<open>St\<close> are known to be good, and so are the style pointers that are set.
\<close>

definition typed :: "string set \<Rightarrow> ui_env \<Rightarrow> string set \<Rightarrow> (int \<times> lv_class) set \<Rightarrow> int set \<Rightarrow> ui_world \<Rightarrow> bool" where
  "typed G E N Ob St s \<longleftrightarrow> well_typed G E (trace s) \<and>
     (\<forall>n \<in> N. \<exists>cls. field_class n = Some cls \<and> (objects (ui s) n, cls) \<in> created (trace s)) \<and>
     Ob \<subseteq> created (trace s) \<and> St \<subseteq> ready (trace s) \<and>
     (\<forall>st. style_ptr (ui s) st \<noteq> 0 \<longrightarrow> style_ptr (ui s) st \<in> ready (trace s))"

definition type_safe ::
  "string set \<Rightarrow> ui_env \<Rightarrow> string set \<Rightarrow> (int \<times> lv_class) set \<Rightarrow> int set \<Rightarrow> string set \<Rightarrow> 'a ui_m \<Rightarrow> bool" where
  "type_safe G E N Ob St N' m \<longleftrightarrow>
     (\<forall>s r s'. run_state m s = (r, s') \<longrightarrow> typed G E N Ob St s \<longrightarrow> typed G E N' Ob St s')"

definition field_objs :: "string set \<Rightarrow> ui_state \<Rightarrow> (int \<times> lv_class) set" where
  "field_objs N u = {(objects u n, cls) | n cls. n \<in> N \<and> field_class n = Some cls}"

named_theorems resp_intros "compositional rules for type_safe"

lemma type_safeD: "type_safe G E N Ob St N' m \<Longrightarrow> run_state m s = (r, s') \<Longrightarrow> typed G E N Ob St s \<Longrightarrow> typed G E N' Ob St s'"
  by (simp add: type_safe_def)

lemma typed_call:
  assumes "typed G E N Ob St s" and "call_typed G Ob St c"
  shows "typed G E N (Ob \<union> created_by (c, E (trace s) c)) (St \<union> inits (c, E (trace s) c))
    (s\<lparr>trace := trace s @ [(c, E (trace s) c)]\<rparr>)"
  using assms call_typed_mono [OF assms(2)] unfolding typed_def by (auto simp: well_typed_snoc)

lemma typed_weaken: "typed G E N Ob St s \<Longrightarrow> N' \<subseteq> N \<Longrightarrow> Ob' \<subseteq> Ob \<Longrightarrow> St' \<subseteq> St \<Longrightarrow> typed G E N' Ob' St' s"
  unfolding typed_def by blast

lemma resp_bind:
  assumes "type_safe G E N Ob St N1 m" and "\<And>x. type_safe G E N1 Ob St N' (f x)"
  shows "type_safe G E N Ob St N' (State_Monad.bind m f)"
  unfolding type_safe_def
proof (intro allI impI)
  fix s :: ui_world and r s'
  assume "run_state (State_Monad.bind m f) s = (r, s')" and s: "typed G E N Ob St s"
  then obtain x t where "run_state m s = (x, t)" "run_state (f x) t = (r, s')"
    by (elim bindE)
  with s assms show "typed G E N' Ob St s'"
    by (metis type_safeD)
qed

text \<open>The steps that store no field.\<close>

lemmas resp_seq [resp_intros] = resp_bind [where ?N1.0 = N and N = N for N]

lemma resp_basic [resp_intros]:
  "type_safe G E N Ob St N skip" "type_safe G E N Ob St N (State_Monad.return x)"
  by (simp_all add: type_safe_def run_simps)

lemma resp_if [resp_intros]:
  "(b \<Longrightarrow> type_safe G E N Ob St N' m) \<Longrightarrow> (\<not> b \<Longrightarrow> type_safe G E N Ob St N' m') \<Longrightarrow>
    type_safe G E N Ob St N' (if b then m else m')"
  by simp

lemma resp_call [resp_intros]:
  assumes "call_typed G Ob St c"
  shows "type_safe G E N Ob St N (lv E c)" "type_safe G E N Ob St N (lv_do E c)"
  using typed_weaken [OF typed_call [OF _ assms], of E N _ N Ob St] by (auto simp: type_safe_def run_simps)

lemma resp_create:
  assumes "call_typed G Ob St (Create cls parent)" and "\<And>r. type_safe G E N (insert (l_ptr r, cls) Ob) St N' (f r)"
  shows "type_safe G E N Ob St N' (State_Monad.bind (lv E (Create cls parent)) f)"
  unfolding type_safe_def
proof (intro allI impI)
  fix s :: ui_world and r s'
  let ?a = "E (trace s) (Create cls parent)"
  assume run: "run_state (State_Monad.bind (lv E (Create cls parent)) f) s = (r, s')" and s: "typed G E N Ob St s"
  from typed_call [OF s assms(1)]
  have "typed G E N (insert (l_ptr ?a, cls) Ob) St (s\<lparr>trace := trace s @ [(Create cls parent, ?a)]\<rparr>)"
    by simp
  from type_safeD [OF assms(2) [of ?a] _ this] run show "typed G E N' Ob St s'"
    by (auto simp: run_lv elim!: typed_weaken)
qed

lemma resp_set_ui [resp_intros]:
  assumes "\<And>u. objects (f u) = objects u" and "\<And>u. style_ptr (f u) = style_ptr u"
  shows "type_safe G E N Ob St N (set_ui f)"
  by (simp add: type_safe_def run_simps typed_def assms)

lemma resp_get_ui:
  assumes "\<And>u. type_safe G E N (Ob \<union> field_objs N u) St N' (k (f u))"
  shows "type_safe G E N Ob St N' (State_Monad.bind (get_ui f) k)"
  unfolding type_safe_def
proof (intro allI impI)
  fix s :: ui_world and r s'
  assume run: "run_state (State_Monad.bind (get_ui f) k) s = (r, s')" and s: "typed G E N Ob St s"
  have "typed G E N (Ob \<union> field_objs N (ui s)) St s"
    using s by (fastforce simp: typed_def field_objs_def)
  from type_safeD [OF assms _ this] run show "typed G E N' Ob St s'"
    by (auto simp: run_get_ui elim!: typed_weaken)
qed

lemma resp_get_ui_only [resp_intros]: "type_safe G E N Ob St N (get_ui f)"
  by (simp add: type_safe_def run_simps)

lemma resp_store:
  "(p, cls) \<in> Ob \<Longrightarrow> field_class n = Some cls \<Longrightarrow> type_safe G E N Ob St (insert n N) (store_object (Some n) p)"
  by (auto simp: type_safe_def store_object_def run_simps typed_def)

lemma field_objsI: "n \<in> N \<Longrightarrow> field_class n = Some cls \<Longrightarrow> (objects u n, cls) \<in> Ob \<union> field_objs N u"
  by (auto simp: field_objs_def)

section \<open>Styles\<close>

lemma resp_init_style:
  assumes "p \<in> St"
  shows "type_safe G E N Ob St N (init_style st E p)"
  by (cases st; simp only: init_style.simps style_fill_defs)
    (intro resp_intros; simp add: ui_fonts_def assms)+

lemma resp_get_style:
  assumes "\<And>p. type_safe G E N Ob (insert p St) N' (f p)"
  shows "type_safe G E N Ob St N' (State_Monad.bind (get_style st E) f)"
  unfolding type_safe_def
proof (intro allI impI)
  fix s :: ui_world and r s'
  assume run: "run_state (State_Monad.bind (get_style st E) f) s = (r, s')" and s: "typed G E N Ob St s"
  then obtain p t where t: "run_state (get_style st E) s = (p, t)" and rest: "run_state (f p) t = (r, s')"
    by (elim bindE)
  have "typed G E N Ob (insert p St) t"
  proof (cases "style_ptr (ui s) st = 0")
    case False
    with t s show ?thesis
      by (auto simp: get_style_eq lazy_style_def run_simps typed_def)
  next
    case True
    let ?r = "E (trace s) Style_malloc"
    let ?u = "s\<lparr>trace := trace s @ [(Style_malloc, ?r)], ui := (ui s)\<lparr>style_ptr := (style_ptr (ui s))(st := l_ptr ?r)\<rparr>\<rparr>"
    let ?i = "E (trace ?u) (Style_init (l_ptr ?r))"
    let ?v = "?u\<lparr>trace := trace ?u @ [(Style_init (l_ptr ?r), ?i)]\<rparr>"
    from t True obtain x where x: "run_state (init_style st E (l_ptr ?r)) ?v = (x, t)" and p: "p = style_ptr (ui t) st"
      by (auto simp: get_style_eq lazy_style_def run_get_ui run_lv run_lv_do run_set_ui split: prod.splits)
    have "typed G E N Ob (insert (l_ptr ?r) St) ?v"
      using s by (auto simp: typed_def well_typed_snoc2 well_typed_snoc split: if_splits)
    from type_safeD [OF resp_init_style x this] run_init_style [OF x] p show ?thesis
      by simp
  qed
  from type_safeD [OF assms rest this] show "typed G E N' Ob St s'"
    by (elim typed_weaken) auto
qed


lemma resp_add_style:
  assumes "p \<in> fst ` Ob"
  shows "type_safe G E N Ob St N (add_style_to st E p)"
proof -
  obtain cls where "(p, cls) \<in> Ob"
    using assms by force
  then show ?thesis
    unfolding add_style_eq by (intro resp_get_style resp_intros) auto
qed

section \<open>Screens\<close>

lemma call_ok_screens: "call_ok {} cls c \<Longrightarrow> call_ok G cls c"
  by (cases c) auto

lemma resp_attrs:
  assumes "(p, cls) \<in> Ob" and "list_all (attr_ok cls) as"
  shows "type_safe G E N Ob St N (apply_attrs E p as)"
  using assms(2)
proof (induction "as")
  case (Cons a "as")
  have "p \<in> fst ` Ob"
    using assms(1) by force
  then have "type_safe G E N Ob St N (apply_attr E p a)"
    using Cons.prems assms(1) resp_add_style by (cases a) (auto intro!: resp_call exI [of _ cls] call_ok_screens)
  with Cons show ?case
    by (auto intro: resp_seq)
qed (simp add: resp_basic)

text \<open>A well-typed tree whose names have the classes of its widgets can be created.\<close>

lemma resp_create_widgets:
  assumes "\<And>w N. w \<in> set ws \<Longrightarrow> type_safe G E N Ob St (N \<union> set (names_of w)) (create_widget E parent w)"
  shows "type_safe G E N Ob St (N \<union> set (names_of_list ws)) (create_widgets E parent ws)"
  using assms
proof (induction ws arbitrary: N)
  case (Cons w ws)
  have "type_safe G E (N \<union> set (names_of w)) Ob St (N \<union> set (names_of w) \<union> set (names_of_list ws)) (create_widgets E parent ws)"
    by (rule Cons.IH) (simp add: Cons.prems)
  with Cons.prems [of w N] show ?case
    by (auto simp: Un_assoc intro: resp_bind)
qed (simp add: resp_basic)

lemma widgets_ok_all: "widgets_ok ws \<longleftrightarrow> (\<forall>w \<in> set ws. widget_ok w)"
  by (induction ws) simp_all

lemma classes_of_list_all: "set (classes_of_list ws) = (\<Union>w \<in> set ws. set (classes_of w))"
  by (induction ws) auto

lemma resp_create_widget:
  assumes "widget_ok w" and "\<forall>(n, cls) \<in> set (classes_of w). field_class n = Some cls"
    and "parent = 0 \<or> parent \<in> fst ` Ob"
  shows "type_safe G E N Ob St (N \<union> set (names_of w)) (create_widget E parent w)"
  using assms
proof (induction w arbitrary: parent Ob N)
  case (Widget cls name as kids)
  have "type_safe G E N (insert (p, cls) Ob) St (N \<union> set (names_of (Widget cls name as kids)))
      (do { store_object name p; apply_attrs E p as; create_widgets E p kids })" for p
  proof -
    let ?Ob = "insert (p, cls) Ob" and ?N = "N \<union> set (own_name name)"
    have store: "type_safe G E N ?Ob St ?N (store_object name p)"
      using Widget.prems(2) resp_store [of p cls ?Ob]
      by (cases name) (auto simp: own_name_def store_object_def resp_basic)
    have kids: "type_safe G E ?N ?Ob St (?N \<union> set (names_of_list kids)) (create_widgets E p kids)"
      using Widget.prems by (intro resp_create_widgets Widget.IH) (auto simp: widgets_ok_all classes_of_list_all)
    have attrs: "type_safe G E ?N ?Ob St ?N (apply_attrs E p as)"
      using Widget.prems(1) by (intro resp_attrs [where cls = cls]) simp_all
    from resp_bind [OF store resp_bind [OF attrs kids]] show ?thesis
      by (simp add: Un_assoc)
  qed
  moreover have "call_typed G Ob St (Create cls parent)"
    using Widget.prems(3) by simp
  ultimately show ?case
    unfolding create_widget.simps by (intro resp_create)
qed

lemma resp_tree:
  assumes "w \<in> set screen_trees"
  shows "type_safe G E N Ob St (N \<union> set (names_of w)) (create_widget E 0 w)"
  using assms screen_trees_ok
  by (intro resp_create_widget) (auto simp: list_all_iff field_class_iff classes_of_list_all)


lemma resp_tick_label:
  assumes "field \<in> N" and "field_class field = Some LV_LABEL"
  shows "type_safe G E N Ob St N (tick_label E field v)"
  unfolding tick_label_def using field_objsI [OF assms]
  by (intro resp_get_ui resp_intros) auto

lemma resp_read_lvgl: "type_safe G E N Ob St N (read_lvgl_version L)"
  by (auto simp: type_safe_def read_lvgl_version_def get_var_lvgl_version_def typed_def Let_def)

abbreviation all_fields :: "string set" where
  "all_fields \<equiv> set objects_t_fields"

lemma field_mem: "field_class n = Some cls \<Longrightarrow> (objects u n, cls) \<in> field_objs all_fields u"
  by (auto simp: field_objs_def field_class_dom)

lemma tick_fields: "''boot_screen_version'' \<in> set (names_of boot_screen_tree)"
  "{''system_version'', ''app_version'', ''lvgl_version''} \<subseteq> set (names_of about_screen_tree)"
  by (simp_all add: tree_defs own_name_def)

lemma resp_ticks:
  "''boot_screen_version'' \<in> N \<Longrightarrow> type_safe G E N Ob St N (tick_screen_boot_screen L E)"
  "{''system_version'', ''app_version'', ''lvgl_version''} \<subseteq> N \<Longrightarrow> type_safe G E N Ob St N (tick_screen_about_screen L E)"
  unfolding tick_screen_boot_screen_def tick_screen_about_screen_def
  by (intro resp_intros resp_tick_label resp_read_lvgl field_classes; simp)+

lemma resp_create_screen:
  assumes "w \<in> set screen_trees" and "type_safe G E (N \<union> set (names_of w)) Ob St (N \<union> set (names_of w)) m"
  shows "type_safe G E N Ob St (N \<union> set (names_of w)) (do { create_widget E 0 w; m })"
  using resp_bind [OF resp_tree [OF assms(1)] assms(2)] .

text \<open>One screen after the other.\<close>

lemma resp_next_screen:
  assumes "w \<in> set screen_trees" and "type_safe G E (N \<union> set (names_of w)) Ob St (N \<union> set (names_of w)) m"
    and "type_safe G E (N \<union> set (names_of w)) Ob St N' k"
  shows "type_safe G E N Ob St N' (State_Monad.bind (do { create_widget E 0 w; m }) (\<lambda>_. k))"
  using resp_bind [OF resp_create_screen [OF assms(1,2)] assms(3)] .

lemma resp_last_screen:
  assumes "w \<in> set screen_trees" and "N' \<subseteq> N \<union> set (names_of w)"
  shows "type_safe G E N Ob St N' (do { create_widget E 0 w; skip })"
  using resp_create_screen [OF assms(1) resp_basic(1)] assms(2) unfolding type_safe_def
  by (blast intro: typed_weaken)

lemma resp_create_screens: "type_safe G E {} {} {} all_fields (create_screens L E)"
proof -
  have fields: "all_fields = (\<Union>w \<in> set screen_trees. set (names_of w))"
    using mset_eq_setD [OF names_of_screens] by (simp add: names_of_list_concat)
  have trees: "type_safe G E {} {} {} all_fields (do {
     create_screen_boot_screen L E;
     create_screen_no_network_screen L E;
     create_screen_home_screen L E;
     create_screen_menu_screen L E;
     create_screen_menu_advanced_screen L E;
     create_screen_menu_network_screen L E;
     create_screen_about_screen L E;
     create_screen_status_screen L E;
     create_screen_reset_config_screen L E;
     create_screen_reboot_screen L E;
     create_screen_rebooting_screen L E;
     create_screen_switch_dhcp_client_screen L E })"
    unfolding create_screen_defs fields tick_screen_no_network_screen_def tick_screen_home_screen_def
      tick_screen_menu_screen_def tick_screen_menu_advanced_screen_def tick_screen_menu_network_screen_def
      tick_screen_status_screen_def tick_screen_reset_config_screen_def tick_screen_reboot_screen_def
      tick_screen_rebooting_screen_def tick_screen_switch_dhcp_client_screen_def
    by (intro resp_next_screen resp_last_screen resp_ticks resp_basic)
      (use tick_fields in \<open>auto simp: screen_trees_def\<close>)
  show ?thesis
    unfolding create_screens_def by (intro resp_intros trees) simp_all
qed

section \<open>The running user interface\<close>

lemma resp_tick_screen: "type_safe G E all_fields Ob St all_fields (tick_screen L E i)"
proof -
  have fields: "''boot_screen_version'' \<in> all_fields" "{''system_version'', ''app_version'', ''lvgl_version''} \<subseteq> all_fields"
    by (auto simp: field_class_dom field_classes)
  note ticks = resp_ticks(1) [OF fields(1)] resp_ticks(2) [OF fields(2)]
  have "\<forall>f \<in> set tick_screen_funcs. type_safe G E all_fields Ob St all_fields (f L E)"
    by (simp add: tick_screen_funcs_def ticks tick_screen_no_network_screen_def tick_screen_home_screen_def
      tick_screen_menu_screen_def tick_screen_menu_advanced_screen_def tick_screen_menu_network_screen_def
      tick_screen_status_screen_def tick_screen_reset_config_screen_def tick_screen_reboot_screen_def
      tick_screen_rebooting_screen_def tick_screen_switch_dhcp_client_screen_def resp_basic)
  then show ?thesis
    unfolding tick_screen_def by (intro resp_intros) simp_all
qed

lemma resp_loadScreen:
  assumes "1 \<le> i" and "i \<le> 12"
  shows "type_safe G E all_fields Ob St all_fields (loadScreen E i)"
proof -
  have name: "screen_names ! nat (i - 1) \<in> set screen_names"
    using assms by (intro nth_mem) simp
  then have "screen_names ! nat (i - 1) \<in> all_fields"
    by (simp add: objects_t_fields_def)
  note obj = field_objsI [OF this screens_are_objects [OF name]]
  show ?thesis
    unfolding type_safe_def
  proof (intro allI impI)
    fix s :: ui_world and r s'
    let ?u = "(ui s)\<lparr>currentScreen := i - 1\<rparr>"
    let ?c = "Scr_load (objects (ui s) (screen_names ! nat (i - 1)))"
    assume run: "run_state (loadScreen E i) s = (r, s')" and s: "typed G E all_fields Ob St s"
    then have "typed G E all_fields (Ob \<union> field_objs all_fields ?u) St (s\<lparr>ui := ?u\<rparr>)"
      by (fastforce simp: typed_def field_objs_def)
    from typed_call [OF this, of ?c] obj [of ?u] run show "typed G E all_fields Ob St s'"
      by (auto simp: run_loadScreen [OF assms] run_lv_do elim!: typed_weaken)
  qed
qed


lemma resp_hold:
  assumes "(label_obj config, LV_LABEL) \<in> Ob" and "button_obj config = 0 \<or> (button_obj config, LV_OBJ) \<in> Ob"
    and "spinner_obj config = 0 \<or> (spinner_obj config, LV_OBJ) \<in> Ob"
  shows "type_safe G E N Ob St N (handle_hold_action E code config)"
  unfolding handle_hold_action_def hold_pressing_def hold_released_def set_hold_def Let_def
    ui_call_rpc_handler_def jetkvm_call_rpc_handler_def
  by (intro resp_get_ui resp_intros; use assms in force)

lemma resp_action: "type_safe G E all_fields Ob St all_fields (run_action a E code)"
proof -
  have holds: "type_safe G E all_fields Ob St all_fields (action_reset_config E code)"
    "type_safe G E all_fields Ob St all_fields (action_dhcpc E code)"
    "type_safe G E all_fields Ob St all_fields (action_reboot E code)"
    unfolding action_reset_config_def action_dhcpc_def action_reboot_def
    by (intro resp_get_ui resp_hold; simp add: reset_config_hold_def dhcpc_hold_def reboot_hold_def field_mem field_classes)+
  show ?thesis
    by (cases a; simp only: run_action.simps action_defs holds [unfolded action_reset_config_def action_dhcpc_def action_reboot_def])
      (intro resp_get_ui resp_intros resp_loadScreen; simp add: screen_id_defs)+
qed


lemma resp_rotation: "type_safe G E N Ob St N (lvgl_set_rotation E d rotation)"
  unfolding lvgl_set_rotation_def apply_touch_calibration_def refresh_pads_def set_pads_def ui_get_style_screen Let_def
  by (intro resp_get_style resp_get_ui resp_intros; simp)

lemma resp_device: "type_safe G E N Ob St N (evdev_discovery_cb E indev typ)"
  unfolding evdev_discovery_cb_def apply_touch_calibration_def
  by (intro resp_get_ui resp_intros; simp)

lemma resp_init: "type_safe G E {} {} {} all_fields (jetkvm_ui_init L E rotation)"
proof -
  have "type_safe G E {} {} {} all_fields (ui_init L E)"
    unfolding ui_init_def by (rule resp_bind [OF resp_create_screens resp_loadScreen]) (simp_all add: screen_id_defs)
  moreover have "type_safe G E all_fields {} {} all_fields (do { ui_set_rpc_handler; State_Monad.return ok })" for ok
    unfolding ui_set_rpc_handler_def by (intro resp_intros; simp)
  ultimately have "type_safe G E {} {} {} all_fields (do { ok \<leftarrow> ui_init L E; ui_set_rpc_handler; State_Monad.return ok })"
    by (rule resp_bind)
  note start = this
  show ?thesis
    unfolding jetkvm_ui_init_def lvgl_init_def by (intro start resp_intros resp_rotation; simp)
qed

text \<open>What Go and the display do with the initialised user interface.\<close>

datatype ui_op =
    Refresh
  | Press action lv_event_code
  | Device int lv_evdev_type
  | Rotate u16
  | Load_screen string
  | Set_text string string
  | Set_image string string
  | Add_state string string
  | Clear_state string string
  | Add_flag string string
  | Clear_flag string string
  | Fade_in string u32
  | Fade_out string u32
  | Set_opacity string u8
  | Set_var string string

fun ui_step :: "lvgl_ver \<Rightarrow> ui_env \<Rightarrow> ui_op \<Rightarrow> unit ui_m" where
  "ui_step L E Refresh = do { _ \<leftarrow> jetkvm_ui_tick L E; skip }"
| "ui_step L E (Press a code) = run_action a E code"
| "ui_step L E (Device indev typ) = evdev_discovery_cb E indev typ"
| "ui_step L E (Rotate rotation) = jetkvm_ui_set_rotation E rotation"
| "ui_step L E (Load_screen n) = jetkvm_ui_load_screen E n"
| "ui_step L E (Set_text n txt) = do { _ \<leftarrow> jetkvm_ui_set_text E n txt; skip }"
| "ui_step L E (Set_image n img) = jetkvm_ui_set_image E n img"
| "ui_step L E (Add_state n st) = jetkvm_ui_add_state E n st"
| "ui_step L E (Clear_state n st) = jetkvm_ui_clear_state E n st"
| "ui_step L E (Add_flag n fl) = do { _ \<leftarrow> jetkvm_ui_add_flag E n fl; skip }"
| "ui_step L E (Clear_flag n fl) = do { _ \<leftarrow> jetkvm_ui_clear_flag E n fl; skip }"
| "ui_step L E (Fade_in n d) = jetkvm_ui_fade_in E n d"
| "ui_step L E (Fade_out n d) = jetkvm_ui_fade_out E n d"
| "ui_step L E (Set_opacity n v) = jetkvm_ui_set_opacity E n v"
| "ui_step L E (Set_var n v) = jetkvm_ui_set_var n v"

text \<open>
  Go must set texts on labels, images on images, and load screens; nothing in \<open>ctrl.c\<close> checks it. An
  unknown name is harmless.
\<close>

fun well_named :: "ui_op \<Rightarrow> bool" where
  "well_named (Load_screen n) = (field_class n = None \<or> n \<in> set screen_names)"
| "well_named (Set_text n txt) = (field_class n = None \<or> field_class n = Some LV_LABEL)"
| "well_named (Set_image n img) = (field_class n = None \<or> field_class n = Some LV_IMAGE)"
| "well_named _ = True"

text \<open>The names of images an operation hands over.\<close>

fun image_names :: "ui_op \<Rightarrow> string set" where
  "image_names (Set_image n img) = {img}"
| "image_names op = {}"

lemma unknown_object: "field_class n = None \<Longrightarrow> ui_get_obj u n = 0"
  by (auto simp: ui_get_obj_eq field_class_dom)

lemma known_object: "field_class n = Some cls \<Longrightarrow> (ui_get_obj u n, cls) \<in> Ob \<union> field_objs all_fields u"
  using field_mem by (auto simp: ui_get_obj_eq field_class_dom)

lemma named_object: "ui_get_obj u n \<noteq> 0 \<Longrightarrow> \<exists>cls. field_class n = Some cls \<and> (ui_get_obj u n, cls) \<in> Ob \<union> field_objs all_fields u"
  using unknown_object known_object by (metis option.exhaust)

lemma resp_set_var: "type_safe G E N Ob St N (jetkvm_ui_set_var n v)"
proof (cases rule: var_cases [of n])
  case 5
  then show ?thesis by (simp add: set_var_unknown resp_basic)
qed (auto simp: set_var_eqs var_defs intro!: resp_set_ui)

lemma resp_by_name:
  assumes "\<And>Ob. type_safe G E all_fields Ob St all_fields z"
    and "\<And>obj cls Ob. field_class n = Some cls \<Longrightarrow> (obj, cls) \<in> Ob \<Longrightarrow> type_safe G E all_fields Ob St all_fields (m obj)"
  shows "type_safe G E all_fields Ob St all_fields
    (do { obj \<leftarrow> get_ui (\<lambda>u. ui_get_obj u n); if obj = 0 then z else m obj })"
proof (rule resp_get_ui)
  fix u
  show "type_safe G E all_fields (Ob \<union> field_objs all_fields u) St all_fields
    (if ui_get_obj u n = 0 then z else m (ui_get_obj u n))"
    using named_object [of u n Ob] assms by auto
qed

lemma resp_named:
  assumes "well_named op" and "image_names op \<subseteq> G"
  shows "type_safe G E all_fields Ob St all_fields (ui_step L E op)"
proof -
  have flags: "type_safe G E all_fields Ob' St all_fields (case f of None \<Rightarrow> State_Monad.return x | Some v \<Rightarrow> m v)"
    if "\<And>v. type_safe G E all_fields Ob' St all_fields (m v)" for Ob' f and x :: int and m :: "lv_flag \<Rightarrow> int ui_m"
    using that by (cases f) (simp_all add: resp_basic)
  show ?thesis
  proof (cases op)
    case Refresh
    then show ?thesis
      by (simp only: ui_step.simps jetkvm_ui_tick_def lvgl_tick_def ui_tick_def)
        (intro resp_get_ui resp_intros resp_tick_screen; simp)
  next
    case (Press a code)
    then show ?thesis by (simp add: resp_action)
  next
    case (Device indev kind)
    then show ?thesis by (simp add: resp_device)
  next
    case (Rotate rotation)
    then show ?thesis by (simp add: jetkvm_ui_set_rotation_def resp_rotation)
  next
    case (Set_var n v)
    then show ?thesis by (simp add: resp_set_var)
  next
    case (Load_screen n)
    then show ?thesis
      using assms screens_are_objects by (simp only: ui_step.simps jetkvm_ui_load_screen_def)
        (intro resp_by_name resp_intros; auto)
  next
    case (Set_text n str)
    then show ?thesis
      using assms by (simp only: ui_step.simps jetkvm_ui_set_text_def)
        (rule resp_seq, intro resp_by_name resp_intros; auto simp: resp_basic)
  next
    case (Set_image n img)
    then show ?thesis
      using assms by (simp only: ui_step.simps jetkvm_ui_set_image_def)
        (intro resp_by_name resp_intros; auto)
  qed ((simp only: ui_step.simps jetkvm_ui_add_state_def jetkvm_ui_clear_state_def jetkvm_ui_add_flag_def
      jetkvm_ui_clear_flag_def jetkvm_ui_fade_in_def jetkvm_ui_fade_out_def jetkvm_ui_set_opacity_def),
      (intro resp_seq resp_basic resp_by_name resp_if flags resp_call; auto))+
qed


lemma session_typed:
  "\<forall>op \<in> set ops. well_named op \<and> image_names op \<subseteq> G \<Longrightarrow> typed G E all_fields {} {} s \<Longrightarrow> typed G E all_fields {} {} (run_ops (ui_step L E) ops s)"
proof (induction ops arbitrary: s)
  case (Cons op ops)
  obtain r t where t: "run_state (ui_step L E op) s = (r, t)"
    by (cases "run_state (ui_step L E op) s")
  have "typed G E all_fields {} {} t"
    using type_safeD [OF resp_named t] Cons.prems by simp
  with Cons t show ?case by simp
qed simp

text \<open>
  C6. The calls into LVGL are well typed: after the initialisation of the display and any session of
  refreshes, touches, rotations, discovered devices and calls of Go that load screens, set texts on labels and images on images
  (an unknown name is allowed everywhere, \<open>well_named\<close>),
  every call in the trace is made on objects created before with the class the call needs, with
  property values of their kind, declared fonts and initialised styles; the images the screens set are declared descriptors, and
  the only other image sources are the names Go passed to \<open>jetkvm_ui_set_image\<close> in this session, which are handed on as they
  are; and when LVGL creates every object, no call is made on NULL.
\<close>

theorem ui_calls_well_typed:
  assumes "trace s0 = []" and "\<forall>st. style_ptr (ui s0) st = 0"
    and "run_state (jetkvm_ui_init L E rotation) s0 = (r, s)" and "\<forall>op \<in> set ops. well_named op"
    and "s' = run_ops (ui_step L E) ops s"
  shows "well_typed {img. \<exists>n. Set_image n img \<in> set ops} E (trace s') \<and>
    ((\<forall>h cls p. l_ptr (E h (Create cls p)) \<noteq> 0) \<longrightarrow> (\<forall>(call, a) \<in> set (trace s'). \<forall>p c. call = On p c \<longrightarrow> p \<noteq> 0))"
proof -
  let ?G = "{img. \<exists>n. Set_image n img \<in> set ops}"
  have "typed ?G E {} {} {} s0"
    using assms(1,2) by (simp add: typed_def well_typed_def)
  note start = type_safeD [OF resp_init assms(3) this]
  have "image_names op \<subseteq> ?G" if "op \<in> set ops" for op
    by (cases op) (use that in auto)
  then have "\<forall>op \<in> set ops. well_named op \<and> image_names op \<subseteq> ?G"
    using assms(4) by blast
  from session_typed [OF this start] have wt: "well_typed ?G E (trace s')"
    by (simp add: assms(5) typed_def)
  have "p \<noteq> 0" if "creation_succeeds E" "(On p c, a) \<in> set (trace s')" for p c a
  proof -
    from that(2) obtain i where "i < length (trace s')" "trace s' ! i = (On p c, a)"
      by (auto simp: in_set_conv_nth)
    with wt obtain cls where "(p, cls) \<in> created (take i (trace s'))"
      by (force simp: well_typed_def)
    moreover have "created (take i (trace s')) \<subseteq> created (trace s')"
      by (auto simp: created_def dest: in_set_takeD)
    ultimately show ?thesis
      using well_typed_not_null [OF wt that(1)] by blast
  qed
  with wt show ?thesis
    by (auto simp: creation_succeeds_def)
qed

theorem ui_calls_well_typed_witness:
  "well_typed {''moon.png''} sample_lv (trace (run_ops (ui_step sample_ver sample_lv)
     [Press Switch_to_reset_config LV_EVENT_CLICKED, Press Reset_config LV_EVENT_PRESSING, Refresh,
      Set_text ''home_info_ipv4_addr'' ''10.0.0.1'', Set_text ''nowhere'' ''text'', Set_image ''cloud_status_icon'' ''moon.png'']
     (snd (run_state (jetkvm_ui_init sample_ver sample_lv 270) sample_ui))))"
proof -
  let ?ops = "[Press Switch_to_reset_config LV_EVENT_CLICKED, Press Reset_config LV_EVENT_PRESSING, Refresh,
      Set_text ''home_info_ipv4_addr'' ''10.0.0.1'', Set_text ''nowhere'' ''text'', Set_image ''cloud_status_icon'' ''moon.png'']"
  obtain r s where init: "run_state (jetkvm_ui_init sample_ver sample_lv 270) sample_ui = (r, s)"
    by (cases "run_state (jetkvm_ui_init sample_ver sample_lv 270) sample_ui")
  have "field_class ''home_info_ipv4_addr'' = Some LV_LABEL"
    unfolding field_class_iff by (simp add: tree_defs own_name_def)
  moreover have "''nowhere'' \<notin> set objects_t_fields"
    by (simp add: objects_t_fields_def screen_names_def)
  then have "field_class ''nowhere'' = None"
    by (simp add: field_class_dom)
  moreover have "field_class ''cloud_status_icon'' = Some LV_IMAGE"
    unfolding field_class_iff by (simp add: tree_defs own_name_def)
  ultimately have "\<forall>op \<in> set ?ops. well_named op"
    by simp
  moreover have "trace sample_ui = []" "\<forall>st. style_ptr (ui sample_ui) st = 0"
    by (simp_all add: sample_ui_def init_ui_def)
  ultimately have "well_typed {''moon.png''} sample_lv (trace (run_ops (ui_step sample_ver sample_lv) ?ops s))"
    using ui_calls_well_typed [OF _ _ init _ refl, of ?ops] by simp
  then show ?thesis
    by (simp only: init snd_conv)
qed

end
