(* ===== verification/Ui_Session.thy ===== *)
theory Ui_Session
  imports Typing
begin

text \<open>
  What the initialisation of the display establishes and every session keeps: the fields of \<open>objects_t\<close> point to different
  objects, and the version of LVGL has been read, by the refresh that ends the creation of the about screen.
\<close>

section \<open>Different fields, different objects\<close>

text \<open>LVGL creates every object at a fresh address: the program never deletes one.\<close>

definition fresh_objects :: "ui_env \<Rightarrow> bool" where
  "fresh_objects E \<longleftrightarrow> (\<forall>h cls p. l_ptr (E h (Create cls p)) \<notin> fst ` created h)"

definition placed :: "string set \<Rightarrow> ui_world \<Rightarrow> bool" where
  "placed N s \<longleftrightarrow> inj_on (objects (ui s)) N \<and> objects (ui s) ` N \<subseteq> fst ` created (trace s)"

definition places :: "string set \<Rightarrow> string set \<Rightarrow> 'a ui_m \<Rightarrow> bool" where
  "places N N' m \<longleftrightarrow> (\<forall>s r s'. run_state m s = (r, s') \<longrightarrow> placed N s \<longrightarrow> placed N' s')"

named_theorems places_intros "compositional rules for places"

lemma placesD: "places N N' m \<Longrightarrow> run_state m s = (r, s') \<Longrightarrow> placed N s \<Longrightarrow> placed N' s'"
  by (simp add: places_def)

lemma places_bind: "places N N1 m \<Longrightarrow> (\<And>x. places N1 N' (f x)) \<Longrightarrow> places N N' (State_Monad.bind m f)"
  unfolding places_def by (blast elim: bindE)

lemmas places_seq [places_intros] = places_bind [where ?N1.0 = N and N = N for N]

lemma places_basic [places_intros]:
  "places N N skip" "places N N (State_Monad.return x)" "places N N (get_ui f)"
  "(\<And>u. objects (g u) = objects u) \<Longrightarrow> places N N (set_ui g)"
  by (simp_all add: places_def placed_def run_simps)

lemma places_if [places_intros]:
  "(b \<Longrightarrow> places N N' m) \<Longrightarrow> (\<not> b \<Longrightarrow> places N N' m') \<Longrightarrow> places N N' (if b then m else m')"
  by simp

lemma places_call [places_intros]: "places N N (lv E c)" "places N N (lv_do E c)"
  by (auto simp: places_def placed_def run_simps)

lemma places_style [places_intros]: "places N N (get_style st E)" "places N N (add_style_to st E obj)"
proof -
  have "places N N (init_style st E p)" for p
    by (cases st; simp only: init_style.simps style_fill_defs) (intro places_intros)+
  then show get: "places N N (get_style st E)"
    unfolding get_style_eq lazy_style_def by (intro places_intros; simp)
  show "places N N (add_style_to st E obj)"
    unfolding add_style_eq by (intro places_intros get)
qed

lemma places_attrs: "places N N (apply_attrs E obj as)"
proof (induction "as")
  case (Cons a "as")
  have "places N N (apply_attr E obj a)"
    by (cases a) (simp_all add: places_intros)
  with Cons show ?case
    by (simp add: places_seq)
qed (simp add: places_basic)

text \<open>A new object is stored in a field that is not used yet.\<close>

lemma new_object:
  assumes "inj_on f N" and "f ` N \<subseteq> C" and "a \<notin> N" and "p \<notin> C"
  shows "inj_on (f(a := p)) (insert a N)" and "(f(a := p)) ` insert a N \<subseteq> insert p C"
proof -
  have same: "(f(a := p)) ` N = f ` N" "inj_on (f(a := p)) N"
    using assms(1,3) by (auto simp: inj_on_def)
  with assms(2,4) show "inj_on (f(a := p)) (insert a N)" "(f(a := p)) ` insert a N \<subseteq> insert p C"
    using assms(3) by auto
qed

lemma places_create:
  assumes "fresh_objects E" and "set (own_name name) \<inter> N = {}"
    and "\<And>p. places (N \<union> set (own_name name)) N' (m p)"
  shows "places N N' (do { r \<leftarrow> lv E (Create cls parent); store_object name (l_ptr r); m (l_ptr r) })"
  unfolding places_def
proof (intro allI impI)
  fix s :: ui_world and x s'
  let ?r = "E (trace s) (Create cls parent)"
  let ?t = "s\<lparr>trace := trace s @ [(Create cls parent, ?r)]\<rparr>"
  assume run: "run_state (do { r \<leftarrow> lv E (Create cls parent); store_object name (l_ptr r); m (l_ptr r) }) s = (x, s')"
    and s: "placed N s"
  obtain u where u: "run_state (store_object name (l_ptr ?r)) ?t = ((), u)"
    by (cases "run_state (store_object name (l_ptr ?r)) ?t") simp
  have fresh: "l_ptr ?r \<notin> fst ` created (trace s)"
    using assms(1) by (simp add: fresh_objects_def)
  have "placed (N \<union> set (own_name name)) u"
  proof (cases name)
    case None
    with u have "u = ?t"
      by (simp add: store_object_def run_simps)
    with s None show ?thesis
      by (simp add: placed_def own_name_def subset_insertI2)
  next
    case (Some n)
    with u have "objects (ui u) = (objects (ui s))(n := l_ptr ?r)"
      and "fst ` created (trace u) = insert (l_ptr ?r) (fst ` created (trace s))"
      by (auto simp: store_object_def run_simps)
    moreover have "N \<union> set (own_name name) = insert n N" "n \<notin> N"
      using Some assms(2) by (auto simp: own_name_def)
    ultimately show ?thesis
      using s new_object [of "objects (ui s)" N _ n, OF _ _ _ fresh] unfolding placed_def by metis
  qed
  from placesD [OF assms(3) [of "l_ptr ?r"] _ this] run u show "placed N' s'"
    by (simp add: run_lv)
qed

lemma places_widgets:
  assumes "\<And>w N. w \<in> set ws \<Longrightarrow> distinct (names_of w) \<Longrightarrow> set (names_of w) \<inter> N = {} \<Longrightarrow>
      places N (N \<union> set (names_of w)) (create_widget E parent w)"
    and "distinct (names_of_list ws)" and "set (names_of_list ws) \<inter> N = {}"
  shows "places N (N \<union> set (names_of_list ws)) (create_widgets E parent ws)"
  using assms
proof (induction ws arbitrary: N)
  case (Cons w ws)
  have "places (N \<union> set (names_of w)) (N \<union> set (names_of w) \<union> set (names_of_list ws)) (create_widgets E parent ws)"
    using Cons.prems by (intro Cons.IH) auto
  moreover have "places N (N \<union> set (names_of w)) (create_widget E parent w)"
    using Cons.prems by (intro Cons.prems(1)) auto
  ultimately show ?case
    by (auto simp: Un_assoc intro: places_bind)
qed (simp add: places_basic)

lemma places_widget:
  assumes "fresh_objects E"
  shows "distinct (names_of w) \<Longrightarrow> set (names_of w) \<inter> N = {} \<Longrightarrow> places N (N \<union> set (names_of w)) (create_widget E parent w)"
proof (induction w arbitrary: parent N)
  case (Widget cls name as kids)
  let ?N = "N \<union> set (own_name name)"
  have "places ?N (?N \<union> set (names_of_list kids)) (create_widgets E p kids)" for p
    using Widget by (intro places_widgets) auto
  then have "places ?N (N \<union> set (names_of (Widget cls name as kids))) (do { apply_attrs E p as; create_widgets E p kids })" for p
    by (auto simp: Un_assoc intro!: places_bind [OF places_attrs])
  then have "places N (N \<union> set (names_of (Widget cls name as kids)))
      (do { r \<leftarrow> lv E (Create cls parent); store_object name (l_ptr r); apply_attrs E (l_ptr r) as; create_widgets E (l_ptr r) kids })"
    using Widget.prems(2) by (intro places_create [OF assms]) auto
  then show ?case by simp
qed

lemma places_ticks [places_intros]: "places N N (tick_label E field v)" "places N N (read_lvgl_version L)"
proof -
  show "places N N (tick_label E field v)"
    unfolding tick_label_def Let_def by (intro places_intros; simp)
  show "places N N (read_lvgl_version L)"
    by (auto simp: places_def placed_def read_lvgl_version_def get_var_lvgl_version_def Let_def)
qed

text \<open>A computation that creates these trees, one screen after the other.\<close>

definition placing :: "ui_env \<Rightarrow> widget list \<Rightarrow> 'a ui_m \<Rightarrow> bool" where
  "placing E ws m \<longleftrightarrow> fresh_objects E \<longrightarrow> distinct (names_of_list ws) \<longrightarrow>
     (\<forall>N. set (names_of_list ws) \<inter> N = {} \<longrightarrow> places N (N \<union> set (names_of_list ws)) m)"

lemma placing_last: "(\<And>N. places N N m) \<Longrightarrow> placing E [w] (do { create_widget E 0 w; m })"
  unfolding placing_def by (auto intro: places_bind [OF places_widget])

lemma placing_next:
  assumes "\<And>N. places N N m" and "placing E ws k"
  shows "placing E (w # ws) (State_Monad.bind (do { create_widget E 0 w; m }) (\<lambda>_. k))"
  unfolding placing_def
proof (intro impI allI)
  fix N
  assume fresh: "fresh_objects E" and d: "distinct (names_of_list (w # ws))" and N: "set (names_of_list (w # ws)) \<inter> N = {}"
  have widget: "places N (N \<union> set (names_of w)) (create_widget E 0 w)"
    using d N by (intro places_widget [OF fresh]) auto
  have "places (N \<union> set (names_of w)) (N \<union> set (names_of w) \<union> set (names_of_list ws)) k"
    using assms(2) [unfolded placing_def, rule_format, OF fresh, of "N \<union> set (names_of w)"] d N by auto
  from places_bind [OF places_bind [OF widget assms(1)] this]
  show "places N (N \<union> set (names_of_list (w # ws))) (State_Monad.bind (do { create_widget E 0 w; m }) (\<lambda>_. k))"
    by (simp add: Un_assoc)
qed

section \<open>The version of LVGL\<close>

lemma decimal_is_cstring: "decimal n \<noteq> [] \<and> is_cstring (decimal n)"
proof (induction n rule: decimal.induct)
  case (1 n)
  have digit: "NUL \<noteq> char_of (48 + d)" if "d < 10" for d :: nat
  proof -
    have "d \<in> {0, 1, 2, 3, 4, 5, 6, 7, 8, 9}"
      using that by auto
    then show ?thesis by (auto simp: NUL_def char_of_def)
  qed
  from 1 digit show ?case
    by (subst (1 2) decimal.simps) (auto simp: is_cstring_def digit)
qed

lemma version_is_cstring: "version_text L \<noteq> [] \<and> is_cstring (version_text L)"
  using decimal_is_cstring by (auto simp: version_text_def is_cstring_def NUL_def)

text \<open>Before the version has been read, and after.\<close>

definition unread :: "ui_state \<Rightarrow> bool" where
  "unread u \<longleftrightarrow> arrays_ok u \<and> lvgl_version u ! 0 = NUL"

definition known :: "lvgl_ver \<Rightarrow> ui_state \<Rightarrow> bool" where
  "known L u \<longleftrightarrow> arrays_ok u \<and> lvgl_version u ! 0 \<noteq> NUL \<and> cstr (lvgl_version u) = take 32 (version_text L)"

lemma read_makes_known:
  "unread u \<or> known L u \<Longrightarrow> known L (snd (get_var_lvgl_version L u))"
proof -
  assume u: "unread u \<or> known L u"
  then have ok: "arrays_ok (snd (get_var_lvgl_version L u))"
    by (auto simp: unread_def known_def arrays_ok_ops)
  show ?thesis
  proof (cases "lvgl_version u ! 0 = NUL")
    case False
    with u show ?thesis
      by (auto simp: get_var_lvgl_version_def unread_def known_def)
  next
    case True
    obtain c cs where version: "version_text L = c # cs" and "c \<noteq> NUL"
      using version_is_cstring [of L] by (cases "version_text L") (auto simp: is_cstring_def)
    have "length (lvgl_version u) = 32"
      using u by (auto simp: unread_def known_def arrays_ok_def)
    then have "strncpy (lvgl_version u) (version_text L) 32 = take 32 (version_text L) @ replicate (32 - length (version_text L)) NUL"
      by (simp add: strncpy_def)
    moreover have "cstr (take 32 (version_text L) @ replicate n NUL) = take 32 (version_text L)" for n
    proof (cases n)
      case 0
      then show ?thesis
        using is_cstring_take [of "version_text L" 32] version_is_cstring [of L]
        by (simp add: cstr_def is_cstring_def takeWhile_eq_all_conv) metis
    next
      case (Suc m)
      then show ?thesis
        using is_cstring_take [of "version_text L" 32] version_is_cstring [of L] by simp
    qed
    ultimately show ?thesis
      using ok True version \<open>c \<noteq> NUL\<close> by (simp add: known_def get_var_lvgl_version_def)
  qed
qed

section \<open>The initialisation\<close>

text \<open>What most computations leave alone: the objects and the variables.\<close>

definition vars_view :: "ui_world \<Rightarrow> char list \<times> char list \<times> char list \<times> char list" where
  "vars_view s = (app_version (ui s), system_version (ui s), lvgl_version (ui s), main_screen (ui s))"

lemma vars_view_known:
  assumes "vars_view t = vars_view s"
  shows "unread (ui t) = unread (ui s)" and "known L (ui t) = known L (ui s)"
  using assms by (simp_all add: vars_view_def unread_def known_def arrays_ok_def)

lemma keeps_vars_basic [keeps_intros]:
  "keeps vars_view (lv E c)" "keeps vars_view (lv_do E c)" "keeps vars_view (get_ui f)"
  "(\<And>u. app_version (g u) = app_version u) \<Longrightarrow> (\<And>u. system_version (g u) = system_version u) \<Longrightarrow>
   (\<And>u. lvgl_version (g u) = lvgl_version u) \<Longrightarrow> (\<And>u. main_screen (g u) = main_screen u) \<Longrightarrow> keeps vars_view (set_ui g)"
  by (simp_all add: keeps_def vars_view_def run_simps)

lemma keeps_vars_style: "keeps vars_view (get_style st E)" "keeps vars_view (add_style_to st E obj)"
proof -
  show get: "keeps vars_view (get_style st E)"
    unfolding get_style_eq lazy_style_def by (intro keeps_intros keeps_init_style) simp_all
  show "keeps vars_view (add_style_to st E obj)"
    unfolding add_style_eq by (intro keeps_intros get)
qed

lemma keeps_vars_widget: "keeps vars_view (create_widget E p w)"
  by (intro keeps_create_widget keeps_vars_style keeps_intros; simp)

lemma keeps_vars_label: "keeps vars_view (tick_label E field v)"
  unfolding tick_label_def Let_def by (intro keeps_intros; simp)

text \<open>A run from states with \<open>P\<close> to states with \<open>Q\<close>.\<close>

definition leads :: "(ui_state \<Rightarrow> bool) \<Rightarrow> (ui_state \<Rightarrow> bool) \<Rightarrow> 'a ui_m \<Rightarrow> bool" where
  "leads P Q m \<longleftrightarrow> (\<forall>s r s'. run_state m s = (r, s') \<longrightarrow> P (ui s) \<longrightarrow> Q (ui s'))"

lemma leads_bind: "leads P Q m \<Longrightarrow> (\<And>x. leads Q R (f x)) \<Longrightarrow> leads P R (State_Monad.bind m f)"
  unfolding leads_def by (blast elim: bindE)

lemma leads_keeps:
  "keeps vars_view m \<Longrightarrow> leads unread unread m" "keeps vars_view m \<Longrightarrow> leads (known L) (known L) m"
  unfolding leads_def keeps_def using vars_view_known by blast+

lemma read_leads: "leads unread (known L) (read_lvgl_version L)" "leads (known L) (known L) (read_lvgl_version L)"
  using read_makes_known by (auto simp: leads_def read_lvgl_version_def split: prod.splits) (metis snd_conv)+

lemma about_leads:
  "leads unread (known L) (tick_screen_about_screen L E)" "leads (known L) (known L) (tick_screen_about_screen L E)"
  unfolding tick_screen_about_screen_def
  by (rule leads_bind leads_keeps keeps_vars_basic keeps_vars_label read_leads; assumption?)+

lemma keeps_vars_screens:
  "keeps vars_view (create_screen_boot_screen L E)" "keeps vars_view (create_screen_no_network_screen L E)"
  "keeps vars_view (create_screen_home_screen L E)" "keeps vars_view (create_screen_menu_screen L E)"
  "keeps vars_view (create_screen_menu_advanced_screen L E)" "keeps vars_view (create_screen_menu_network_screen L E)"
  "keeps vars_view (create_screen_status_screen L E)" "keeps vars_view (create_screen_reset_config_screen L E)"
  "keeps vars_view (create_screen_reboot_screen L E)" "keeps vars_view (create_screen_rebooting_screen L E)"
  "keeps vars_view (create_screen_switch_dhcp_client_screen L E)"
  unfolding create_screen_defs tick_defs by (intro keeps_intros keeps_vars_widget keeps_vars_label)+

lemma screens_lead: "leads unread (known L) (create_screens L E)"
proof -
  have about: "leads unread (known L) (create_screen_about_screen L E)"
    unfolding create_screen_about_screen_def by (rule leads_bind [OF leads_keeps(1) [OF keeps_vars_widget] about_leads(1)])
  have rest: "leads (known L) (known L) (do {
      create_screen_status_screen L E;
      create_screen_reset_config_screen L E;
      create_screen_reboot_screen L E;
      create_screen_rebooting_screen L E;
      create_screen_switch_dhcp_client_screen L E })"
    by (intro leads_keeps(2) keeps_intros keeps_vars_screens)
  show ?thesis
    unfolding create_screens_def
    by (rule leads_bind [OF about rest] leads_bind [OF leads_keeps(1)] keeps_vars_basic keeps_vars_screens)+
qed

lemma keeps_vars_load: "keeps vars_view (loadScreen E i)"
  unfolding loadScreen_def by (intro keeps_intros; simp split: option.split add: keeps_intros)

lemma keeps_vars_rotation: "keeps vars_view (lvgl_set_rotation E d rotation)"
  unfolding lvgl_set_rotation_def apply_touch_calibration_def refresh_pads_def set_pads_def ui_get_style_screen Let_def
  by (intro keeps_intros keeps_vars_style; simp)

lemma init_leads: "leads unread (known L) (jetkvm_ui_init L E rotation)"
proof -
  have "leads unread (known L) (ui_init L E)"
    unfolding ui_init_def by (rule leads_bind [OF screens_lead leads_keeps(2) [OF keeps_vars_load]])
  moreover have "leads (known L) (known L) (do { ui_set_rpc_handler; State_Monad.return ok })" for ok
    unfolding ui_set_rpc_handler_def by (intro leads_keeps(2) keeps_intros; simp)
  ultimately have start: "leads unread (known L) (do { ok \<leftarrow> ui_init L E; ui_set_rpc_handler; State_Monad.return ok })"
    by (rule leads_bind)
  show ?thesis
    unfolding jetkvm_ui_init_def lvgl_init_def
    by (rule start leads_bind [OF leads_keeps(1)] keeps_vars_basic(1-3) keeps_vars_rotation | (rule keeps_vars_basic(4); simp))+
qed

text \<open>The objects of all screens are different.\<close>

lemma places_ticks_all: "f \<in> set tick_screen_funcs \<Longrightarrow> places N N (f L E)"
  by (auto simp: tick_screen_funcs_def tick_defs intro!: places_intros)

lemma placing_screens: "placing E screen_trees (do {
     create_screen_boot_screen L E;
     create_screen_no_network_screen L E;
     create_screen_home_screen L E;
     create_screen_menu_screen L E;
     create_screen_menu_advanced_screen L E;
     create_screen_menu_network_screen L E;
     create_screen_about_screen L E;
     create_screen_status_screen L E;
     create_screen_reset_config_screen L E;
     create_screen_reboot_screen L E;
     create_screen_rebooting_screen L E;
     create_screen_switch_dhcp_client_screen L E })"
  unfolding create_screen_defs screen_trees_def
  by (intro placing_next placing_last places_ticks_all) (simp_all add: tick_screen_funcs_def)

lemma places_init:
  assumes "fresh_objects E"
  shows "places {} all_fields (jetkvm_ui_init L E rotation)"
proof -
  have fields: "all_fields = {} \<union> set (names_of_list screen_trees)"
    using mset_eq_setD [OF names_of_screens] by simp
  note trees = placing_screens [of E L, unfolded placing_def, rule_format, OF assms distinct_names, of "{}"]
  have screens: "places {} all_fields (create_screens L E)"
    unfolding create_screens_def
    unfolding fields by (rule places_seq, rule places_call)+ (rule trees, simp)
  have load: "places N N (loadScreen E i)" for N i
    unfolding loadScreen_def by (intro places_intros; simp split: option.split add: places_intros)
  have start: "places {} all_fields (do { ok \<leftarrow> ui_init L E; ui_set_rpc_handler; State_Monad.return ok })"
    unfolding ui_init_def ui_set_rpc_handler_def
    by (intro places_bind [OF places_bind [OF screens load]] places_intros; simp)
  show ?thesis
    unfolding jetkvm_ui_init_def lvgl_init_def lvgl_set_rotation_def apply_touch_calibration_def refresh_pads_def
      set_pads_def ui_get_style_screen Let_def
    by (intro start places_intros; simp)
qed

section \<open>The session\<close>

text \<open>The operations that set no variable and refresh nothing leave the objects and the variables alone.\<close>

definition session_view :: "ui_world \<Rightarrow> (string \<Rightarrow> int) \<times> char list \<times> char list \<times> char list \<times> char list" where
  "session_view s = (objects (ui s), vars_view s)"

lemma session_view_eq:
  "session_view t = session_view s \<Longrightarrow> objects (ui t) = objects (ui s) \<and> known L (ui t) = known L (ui s)"
  using vars_view_known(2) [of t s L] by (simp add: session_view_def)

lemma keeps_session_basic [keeps_intros]:
  "keeps session_view (lv E c)" "keeps session_view (lv_do E c)" "keeps session_view (get_ui f)"
  "(\<And>u. app_version (g u) = app_version u) \<Longrightarrow> (\<And>u. system_version (g u) = system_version u) \<Longrightarrow>
   (\<And>u. lvgl_version (g u) = lvgl_version u) \<Longrightarrow> (\<And>u. main_screen (g u) = main_screen u) \<Longrightarrow>
   (\<And>u. objects (g u) = objects u) \<Longrightarrow> keeps session_view (set_ui g)"
  by (simp_all add: keeps_def session_view_def vars_view_def run_simps)

lemma keeps_session_style: "keeps session_view (get_style st E)"
  unfolding get_style_eq lazy_style_def by (intro keeps_intros keeps_init_style) simp_all

lemma keeps_session_load: "keeps session_view (loadScreen E i)"
  unfolding loadScreen_def by (intro keeps_intros; simp split: option.split add: keeps_intros)

lemma keeps_session_hold: "keeps session_view (handle_hold_action E code config)"
  unfolding handle_hold_action_def hold_pressing_def hold_released_def set_hold_def Let_def
    ui_call_rpc_handler_def jetkvm_call_rpc_handler_def
  by (intro keeps_intros; simp)

lemma keeps_session_parts:
  "keeps session_view (run_action a E code)" "keeps session_view (lvgl_set_rotation E d rotation)"
  "keeps session_view (evdev_discovery_cb E indev kind)"
proof -
  show "keeps session_view (run_action a E code)"
    by (cases a; simp only: run_action.simps action_defs) (intro keeps_intros keeps_session_hold keeps_session_load; simp)+
  show "keeps session_view (lvgl_set_rotation E d rotation)"
    unfolding lvgl_set_rotation_def apply_touch_calibration_def refresh_pads_def set_pads_def ui_get_style_screen Let_def
    by (intro keeps_intros keeps_session_style; simp)
  show "keeps session_view (evdev_discovery_cb E indev kind)"
    unfolding evdev_discovery_cb_def apply_touch_calibration_def by (intro keeps_intros; simp)
qed

lemma tick_keeps_objects: "keeps (\<lambda>s. objects (ui s)) (jetkvm_ui_tick L E)"
proof -
  have basic: "keeps (\<lambda>s. objects (ui s)) (lv E c)" "keeps (\<lambda>s. objects (ui s)) (lv_do E c)" "keeps (\<lambda>s. objects (ui s)) (get_ui f)"
    "keeps (\<lambda>s. objects (ui s)) (set_ui (\<lambda>u. u\<lparr>tick_value_change_obj := p\<rparr>))" "keeps (\<lambda>s. objects (ui s)) (read_lvgl_version L)" for c f p
    by (auto simp: keeps_def run_simps read_lvgl_version_def get_var_lvgl_version_def Let_def)
  show ?thesis
    unfolding jetkvm_ui_tick_def lvgl_tick_def ui_tick_def
    by (intro keeps_intros keeps_tick_screens(2) basic)
qed

lemma tick_leads: "leads (known L) (known L) (jetkvm_ui_tick L E)"
proof -
  have funcs: "leads (known L) (known L) (f L E)" if "f \<in> set tick_screen_funcs" for f
  proof (cases "f = tick_screen_about_screen")
    case False
    with that have "keeps vars_view (f L E)"
      by (auto simp: tick_screen_funcs_def tick_defs intro!: keeps_intros keeps_vars_label)
    then show ?thesis by (rule leads_keeps)
  qed (simp add: about_leads)
  have "leads (known L) (known L) (tick_screen L E i)" for i
  proof (cases "0 \<le> i \<and> nat i < length tick_screen_funcs")
    case True
    then have "tick_screen_funcs ! nat i \<in> set tick_screen_funcs" by simp
    from leads_bind [OF funcs [OF this] leads_keeps(2) [OF keeps_return]] True show ?thesis
      by (simp add: tick_screen_def)
  next
    case False
    then have "tick_screen L E i = State_Monad.return False"
      unfolding tick_screen_def by (rule if_not_P)
    then show ?thesis
      by (simp add: leads_keeps(2) keeps_return)
  qed
  then show ?thesis
    unfolding jetkvm_ui_tick_def lvgl_tick_def ui_tick_def
    by (intro leads_bind [OF leads_keeps(2)] keeps_vars_basic)
qed

lemma set_var_leads: "leads (known L) (known L) (jetkvm_ui_set_var n v)" "keeps (\<lambda>s. objects (ui s)) (jetkvm_ui_set_var n v)"
proof -
  have "\<forall>u. known L u \<longrightarrow> known L (set_var_app_version v u) \<and> known L (set_var_system_version v u) \<and>
      known L (set_var_lvgl_version v u) \<and> known L (set_var_main_screen v u)"
    by (auto simp: known_def arrays_ok_ops) (simp_all add: var_defs)
  then show "leads (known L) (known L) (jetkvm_ui_set_var n v)"
    by (cases rule: var_cases [of n]) (auto simp: leads_def set_var_eqs set_var_unknown run_simps)
  show "keeps (\<lambda>s. objects (ui s)) (jetkvm_ui_set_var n v)"
    by (cases rule: var_cases [of n]) (auto simp: keeps_def set_var_eqs set_var_unknown run_simps var_defs)
qed

lemma step_keeps:
  assumes "run_state (ui_step L E op) s = (r, s')" and "known L (ui s)"
  shows "known L (ui s') \<and> objects (ui s') = objects (ui s)"
proof -
  have other: "known L (ui s') \<and> objects (ui s') = objects (ui s)" if "keeps session_view (ui_step L E op)"
    using session_view_eq [OF keepsD [OF that assms(1)]] assms(2) by simp
  have flags: "keeps session_view (case f of None \<Rightarrow> State_Monad.return x | Some v \<Rightarrow> m v)"
    if "\<And>v. keeps session_view (m v)" for f and x :: int and m :: "lv_flag \<Rightarrow> int ui_m"
    using that by (cases f) (simp_all add: keeps_return)
  show ?thesis
  proof (cases op)
    case Refresh
    with assms(1) obtain x where "run_state (jetkvm_ui_tick L E) s = (x, s')"
      by (auto simp: run_simps split: prod.splits)
    with tick_leads keepsD [OF tick_keeps_objects] assms(2) show ?thesis
      unfolding leads_def by blast
  next
    case (Set_var n v)
    with assms(1) have "run_state (jetkvm_ui_set_var n v) s = (r, s')"
      by simp
    with set_var_leads(1) keepsD [OF set_var_leads(2)] assms(2) show ?thesis
      unfolding leads_def by blast
  qed (rule other, simp only: ui_step.simps jetkvm_ui_set_rotation_def jetkvm_ui_load_screen_def jetkvm_ui_set_text_def
      jetkvm_ui_set_image_def jetkvm_ui_add_state_def jetkvm_ui_clear_state_def jetkvm_ui_add_flag_def
      jetkvm_ui_clear_flag_def jetkvm_ui_fade_in_def jetkvm_ui_fade_out_def jetkvm_ui_set_opacity_def,
      (intro keeps_intros flags keeps_session_parts)?)+
qed

lemma session_known:
  "known L (ui s) \<Longrightarrow> known L (ui (run_ops (ui_step L E) ops s)) \<and> objects (ui (run_ops (ui_step L E) ops s)) = objects (ui s)"
proof (induction ops arbitrary: s)
  case (Cons op ops)
  obtain r t where t: "run_state (ui_step L E op) s = (r, t)"
    by (cases "run_state (ui_step L E op) s")
  from step_keeps [OF this Cons.prems] Cons.IH [of t] t show ?case
    by simp
qed simp

text \<open>The state of every session.\<close>

lemma session_state:
  assumes "fresh_objects E" and "unread (ui s0)" and "run_state (jetkvm_ui_init L E rotation) s0 = (r, s1)"
    and "s = run_ops (ui_step L E) ops s1"
  shows "known L (ui s)" and "inj_on (objects (ui s)) all_fields"
proof -
  have "known L (ui s1)"
    using init_leads assms(2,3) unfolding leads_def by blast
  with session_known assms(4) have s: "known L (ui s) \<and> objects (ui s) = objects (ui s1)"
    by metis
  then show "known L (ui s)" by simp
  have "placed {} s0"
    by (simp add: placed_def)
  with placesD [OF places_init [OF assms(1)] assms(3)] s show "inj_on (objects (ui s)) all_fields"
    by (simp add: placed_def)
qed

end
