(* ===== verification/Labels.thy ===== *)
theory Labels
  imports Ui_Session
begin

text \<open>
  From a variable that Go sets to the text on the display: the texts of the labels as the trace of calls leaves
  them, and the refresh of the screens that show variables.
\<close>

section \<open>The texts of the labels\<close>











section \<open>The screens that show variables\<close>




















end
