(* ===== verification/Assets.thy ===== *)
theory Assets
  imports Typing
begin

text \<open>
  The fonts and images of the user interface (\<open>fonts/*.c\<close>, \<open>images/*.c\<close>, \<open>images.c\<close>): the tables that LVGL
  indexes without checks when it draws a text, and the descriptors of the images. The pixels of the glyphs and
  images and the kerning distances are represented by the lengths of their arrays.
\<close>

section \<open>The tables of a font\<close>

text \<open>The fields are \<open>bitmap_index\<close>, \<open>adv_w\<close>, \<open>box_w\<close>, \<open>box_h\<close>, \<open>ofs_x\<close> and \<open>ofs_y\<close>.\<close>

datatype lv_font_fmt_txt_glyph_dsc_t =
  Glyph (bitmap_index: nat) (adv_w: nat) (box_w: nat) (box_h: nat) (ofs_x: int) (ofs_y: int)

record lv_font_fmt_txt_cmap_t =
  range_start :: nat
  range_length :: nat
  glyph_id_start :: nat

record lv_font_fmt_txt_kern_classes_t =
  class_pair_count :: nat
  left_class_mapping :: "nat list"
  right_class_mapping :: "nat list"
  left_class_cnt :: nat
  right_class_cnt :: nat

text \<open>
  A font with its \<open>lv_font_fmt_txt_dsc_t\<close>. Left out are the two functions of LVGL, the fields that are zero or
  \<open>NULL\<close> (\<open>bitmap_format\<close>, \<open>subpx\<close>, \<open>fallback\<close>, \<open>user_data\<close>) and \<open>kern_classes\<close>, which is one: kerning by classes.
\<close>

record lv_font_t =
  glyph_bitmap_size :: nat
  glyph_dsc :: "lv_font_fmt_txt_glyph_dsc_t list"
  cmaps :: "lv_font_fmt_txt_cmap_t list"
  kern_scale :: nat
  cmap_num :: nat
  bpp :: nat
  kern_dsc :: lv_font_fmt_txt_kern_classes_t
  line_height :: nat
  base_line :: nat
  underline_position :: int
  underline_thickness :: nat

text \<open>An image; the format of all is \<open>ARGB8888\<close>, four bytes a pixel.\<close>

record lv_image_dsc_t =
  image_w :: nat
  image_h :: nat
  stride :: nat
  data_size :: nat

section \<open>The fonts\<close>

text \<open>\<open>ui_font_font_bold30.c\<close>\<close>

definition bold30_glyph_dsc :: "lv_font_fmt_txt_glyph_dsc_t list" where
  "bold30_glyph_dsc = [
   Glyph 0 0 0 0 0 0, Glyph 0 119 0 0 0 0, Glyph 0 160 6 21 2 0, Glyph 63 193 11 9 1 11,
   Glyph 113 356 21 19 1 0, Glyph 313 286 16 26 1 (- 3), Glyph 521 410 24 20 1 0, Glyph 761 344 20 21 2 0,
   Glyph 971 104 5 9 1 11, Glyph 994 158 9 31 1 (- 6), Glyph 1134 158 9 31 0 (- 6), Glyph 1274 218 13 12 0 9,
   Glyph 1352 283 16 15 1 1, Glyph 1472 150 7 10 1 (- 5), Glyph 1507 182 10 4 1 7, Glyph 1527 149 7 6 1 0,
   Glyph 1548 228 15 21 0 0, Glyph 1706 300 17 20 1 0, Glyph 1876 190 10 20 0 0, Glyph 1976 261 16 20 0 0,
   Glyph 2136 264 16 20 0 0, Glyph 2296 287 18 19 0 0, Glyph 2467 266 16 20 0 0, Glyph 2627 279 16 20 1 0,
   Glyph 2787 241 15 19 0 0, Glyph 2930 273 15 20 1 0, Glyph 3080 280 16 20 1 0, Glyph 3240 150 7 15 1 0,
   Glyph 3293 151 6 20 2 (- 5), Glyph 3353 239 13 17 1 0, Glyph 3464 289 16 9 1 4, Glyph 3536 239 14 17 0 0,
   Glyph 3655 254 15 21 0 0, Glyph 3813 397 23 23 1 (- 2), Glyph 4078 347 22 21 0 0, Glyph 4309 293 16 21 2 0,
   Glyph 4477 367 21 21 1 0, Glyph 4698 348 19 21 2 0, Glyph 4898 279 14 21 2 0, Glyph 5045 270 14 21 2 0,
   Glyph 5192 375 21 21 1 0, Glyph 5413 359 19 21 2 0, Glyph 5613 145 5 21 2 0, Glyph 5666 267 15 21 0 0,
   Glyph 5824 335 19 21 2 0, Glyph 6024 269 15 21 2 0, Glyph 6182 457 25 21 2 0, Glyph 6445 368 19 21 2 0,
   Glyph 6645 387 23 21 1 0, Glyph 6887 291 16 21 2 0, Glyph 7055 387 23 23 1 (- 2), Glyph 7320 300 16 21 2 0,
   Glyph 7488 290 18 21 0 0, Glyph 7677 297 19 21 0 0, Glyph 7877 333 17 21 2 0, Glyph 8056 330 21 21 0 0,
   Glyph 8277 493 31 21 0 0, Glyph 8603 321 20 21 0 0, Glyph 8813 314 20 21 0 0, Glyph 9023 307 17 21 1 0,
   Glyph 9202 152 8 29 2 (- 5), Glyph 9318 228 15 21 0 0, Glyph 9476 152 8 29 0 (- 5),
   Glyph 9592 254 16 11 0 10, Glyph 9680 251 16 4 0 (- 3), Glyph 9712 142 9 5 0 16, Glyph 9735 259 14 15 1 0,
   Glyph 9840 294 16 21 2 0, Glyph 10008 264 15 15 1 0, Glyph 10121 294 16 21 1 0, Glyph 10289 265 15 15 1 0,
   Glyph 10402 171 11 21 0 0, Glyph 10518 287 15 21 1 (- 6), Glyph 10676 280 14 21 2 0,
   Glyph 10823 132 6 21 1 0, Glyph 10886 132 8 27 (- 1) (- 6), Glyph 10994 268 15 21 2 0,
   Glyph 11152 132 5 21 2 0, Glyph 11205 425 23 15 2 0, Glyph 11378 280 14 15 2 0, Glyph 11483 280 16 15 1 0,
   Glyph 11603 294 16 21 2 (- 6), Glyph 11771 292 16 21 1 (- 6), Glyph 11939 188 10 16 2 0,
   Glyph 12019 221 13 15 0 0, Glyph 12117 179 11 19 0 0, Glyph 12222 281 15 15 1 0, Glyph 12335 262 17 15 0 0,
   Glyph 12463 399 25 15 0 0, Glyph 12651 255 16 15 0 0, Glyph 12771 269 17 21 0 (- 6),
   Glyph 12950 231 13 15 1 0, Glyph 13048 180 11 29 1 (- 5), Glyph 13208 131 4 29 2 (- 5),
   Glyph 13266 180 10 29 0 (- 5), Glyph 13411 280 17 6 0 6]"

definition bold30_cmaps :: "lv_font_fmt_txt_cmap_t list" where
  "bold30_cmaps = [\<lparr>range_start = 32, range_length = 95, glyph_id_start = 1\<rparr>]"

definition bold30_kern_left_class_mapping :: "nat list" where
  "bold30_kern_left_class_mapping = [
   0, 1, 2, 3, 4, 5, 6, 7, 3, 8, 0, 9, 10, 11, 12, 13, 14, 15, 16, 17, 18, 19, 20, 21, 22, 23, 15, 24, 25, 26,
   27, 28, 29, 30, 31, 32, 33, 34, 35, 36, 37, 38, 38, 39, 40, 41, 38, 38, 34, 42, 43, 44, 45, 46, 39, 47, 48,
   49, 50, 51, 52, 53, 0, 54, 55, 0, 56, 57, 58, 59, 60, 61, 62, 63, 64, 65, 66, 59, 63, 63, 57, 57, 64, 67,
   68, 69, 70, 71, 72, 73, 74, 75, 76, 77, 78, 79]"

definition bold30_kern_right_class_mapping :: "nat list" where
  "bold30_kern_right_class_mapping = [
   0, 1, 2, 3, 4, 0, 5, 6, 3, 7, 8, 9, 10, 11, 12, 11, 13, 14, 15, 16, 17, 18, 19, 20, 21, 22, 23, 24, 24, 25,
   26, 27, 28, 29, 30, 31, 32, 31, 31, 31, 32, 31, 31, 33, 31, 31, 31, 31, 32, 31, 32, 31, 34, 35, 36, 37, 38,
   39, 40, 41, 42, 43, 44, 45, 46, 0, 47, 48, 49, 49, 49, 50, 51, 48, 52, 53, 48, 48, 54, 54, 49, 54, 49, 54,
   55, 56, 57, 58, 59, 60, 61, 62, 63, 64, 44, 65]"

definition ui_font_font_bold30 :: lv_font_t where
  "ui_font_font_bold30 = \<lparr>
     glyph_bitmap_size = 13462, glyph_dsc = bold30_glyph_dsc, cmaps = bold30_cmaps, kern_scale = 16, cmap_num = 1, bpp = 4,
     kern_dsc = \<lparr>class_pair_count = 5135, left_class_mapping = bold30_kern_left_class_mapping,
       right_class_mapping = bold30_kern_right_class_mapping, left_class_cnt = 79, right_class_cnt = 65\<rparr>,
     line_height = 31, base_line = 6, underline_position = -5, underline_thickness = 2\<rparr>"

text \<open>\<open>ui_font_font_book16.c\<close>\<close>

definition book16_glyph_dsc :: "lv_font_fmt_txt_glyph_dsc_t list" where
  "book16_glyph_dsc = [
   Glyph 0 0 0 0 0 0, Glyph 0 64 0 0 0 0, Glyph 0 80 3 11 1 0, Glyph 17 96 6 5 0 6, Glyph 32 189 12 11 0 0,
   Glyph 98 152 9 15 0 (- 2), Glyph 166 209 13 12 0 0, Glyph 244 178 11 11 1 0, Glyph 305 51 3 5 0 6,
   Glyph 313 77 5 16 0 (- 3), Glyph 353 77 4 16 0 (- 3), Glyph 385 113 7 6 0 5, Glyph 406 145 9 8 0 1,
   Glyph 442 75 3 6 1 (- 3), Glyph 451 92 6 3 0 3, Glyph 460 71 3 3 1 0, Glyph 465 111 7 11 0 0,
   Glyph 504 157 10 12 0 0, Glyph 564 90 5 11 0 0, Glyph 592 135 8 12 0 0, Glyph 640 142 9 12 0 0,
   Glyph 694 147 9 11 0 0, Glyph 744 140 9 12 0 0, Glyph 798 148 9 12 0 0, Glyph 852 124 8 11 0 0,
   Glyph 896 143 9 12 0 0, Glyph 950 149 9 12 0 0, Glyph 1004 74 3 8 1 0, Glyph 1016 76 3 11 1 (- 3),
   Glyph 1033 123 8 9 0 0, Glyph 1069 152 8 6 1 2, Glyph 1093 123 8 9 0 0, Glyph 1129 131 8 11 0 0,
   Glyph 1173 211 13 13 0 (- 2), Glyph 1258 178 11 11 0 0, Glyph 1319 154 8 11 1 0, Glyph 1363 192 12 11 0 0,
   Glyph 1429 184 10 11 1 0, Glyph 1484 149 8 11 1 0, Glyph 1528 141 8 11 1 0, Glyph 1572 196 12 11 0 0,
   Glyph 1638 189 10 11 1 0, Glyph 1693 72 3 11 1 0, Glyph 1710 137 8 11 0 0, Glyph 1754 171 10 11 1 0,
   Glyph 1809 140 8 11 1 0, Glyph 1853 242 13 11 1 0, Glyph 1925 195 10 11 1 0, Glyph 1980 205 13 11 0 0,
   Glyph 2052 153 9 11 1 0, Glyph 2102 205 13 12 0 (- 1), Glyph 2180 158 9 11 1 0, Glyph 2230 152 9 11 0 0,
   Glyph 2280 152 10 11 0 0, Glyph 2335 172 9 11 1 0, Glyph 2385 168 11 11 0 0, Glyph 2446 257 16 11 0 0,
   Glyph 2534 158 10 11 0 0, Glyph 2589 158 10 11 0 0, Glyph 2644 162 10 11 0 0, Glyph 2699 74 4 17 1 (- 3),
   Glyph 2733 111 7 11 0 0, Glyph 2772 74 4 17 0 (- 3), Glyph 2806 133 8 6 0 6, Glyph 2830 139 9 3 0 (- 2),
   Glyph 2844 70 4 3 0 9, Glyph 2850 134 8 8 0 0, Glyph 2882 152 8 12 1 0, Glyph 2930 136 8 8 0 0,
   Glyph 2962 151 9 12 0 0, Glyph 3016 139 9 8 0 0, Glyph 3052 88 6 11 0 0, Glyph 3085 148 9 11 0 (- 3),
   Glyph 3135 144 7 12 1 0, Glyph 3177 65 4 12 0 0, Glyph 3201 65 5 15 (- 1) (- 3), Glyph 3239 134 8 12 1 0,
   Glyph 3287 65 2 12 1 0, Glyph 3299 219 12 8 1 0, Glyph 3347 144 7 8 1 0, Glyph 3375 146 9 8 0 0,
   Glyph 3411 152 8 11 1 (- 3), Glyph 3455 149 9 11 0 (- 3), Glyph 3505 94 5 8 1 0, Glyph 3525 116 7 8 0 0,
   Glyph 3553 91 5 11 0 0, Glyph 3581 145 7 8 1 0, Glyph 3609 129 8 8 0 0, Glyph 3641 203 13 8 0 0,
   Glyph 3693 126 8 8 0 0, Glyph 3725 134 9 11 0 (- 3), Glyph 3775 119 7 8 0 0, Glyph 3803 90 6 16 0 (- 3),
   Glyph 3851 67 2 15 1 (- 2), Glyph 3866 90 5 16 0 (- 3), Glyph 3906 146 9 4 0 3]"

definition book16_cmaps :: "lv_font_fmt_txt_cmap_t list" where
  "book16_cmaps = [\<lparr>range_start = 32, range_length = 95, glyph_id_start = 1\<rparr>]"

definition book16_kern_left_class_mapping :: "nat list" where
  "book16_kern_left_class_mapping = [
   0, 1, 0, 2, 3, 4, 5, 6, 2, 7, 0, 8, 9, 10, 11, 10, 12, 13, 14, 15, 16, 17, 18, 19, 20, 21, 13, 22, 22, 23,
   24, 25, 26, 27, 28, 29, 30, 31, 32, 33, 34, 35, 35, 36, 37, 38, 35, 35, 31, 39, 40, 41, 42, 43, 36, 44, 45,
   46, 47, 48, 49, 50, 0, 51, 52, 0, 53, 54, 55, 56, 57, 58, 59, 60, 61, 62, 63, 56, 60, 60, 54, 54, 61, 64,
   65, 66, 67, 68, 69, 70, 71, 72, 73, 74, 75, 76]"

definition book16_kern_right_class_mapping :: "nat list" where
  "book16_kern_right_class_mapping = [
   0, 1, 2, 3, 4, 0, 5, 6, 3, 7, 8, 9, 10, 11, 12, 11, 13, 14, 15, 16, 17, 18, 19, 14, 20, 21, 22, 23, 23, 24,
   25, 26, 27, 28, 29, 30, 31, 30, 30, 30, 31, 30, 30, 32, 30, 30, 30, 30, 31, 30, 31, 30, 33, 34, 35, 36, 37,
   38, 39, 40, 41, 42, 43, 44, 45, 0, 46, 47, 48, 48, 48, 49, 50, 47, 51, 52, 47, 47, 53, 53, 48, 53, 48, 53,
   54, 55, 56, 57, 58, 59, 60, 61, 62, 63, 43, 64]"

definition ui_font_font_book16 :: lv_font_t where
  "ui_font_font_book16 = \<lparr>
     glyph_bitmap_size = 3924, glyph_dsc = book16_glyph_dsc, cmaps = book16_cmaps, kern_scale = 16, cmap_num = 1, bpp = 4,
     kern_dsc = \<lparr>class_pair_count = 4864, left_class_mapping = book16_kern_left_class_mapping,
       right_class_mapping = book16_kern_right_class_mapping, left_class_cnt = 76, right_class_cnt = 64\<rparr>,
     line_height = 17, base_line = 3, underline_position = -2, underline_thickness = 1\<rparr>"

text \<open>\<open>ui_font_font_book18.c\<close>\<close>

definition book18_glyph_dsc :: "lv_font_fmt_txt_glyph_dsc_t list" where
  "book18_glyph_dsc = [
   Glyph 0 0 0 0 0 0, Glyph 0 72 0 0 0 0, Glyph 0 90 3 13 1 0, Glyph 20 108 7 5 0 7, Glyph 38 213 13 12 0 0,
   Glyph 116 171 10 17 0 (- 2), Glyph 201 235 14 13 0 0, Glyph 292 201 12 13 1 0, Glyph 370 58 3 5 0 7,
   Glyph 378 87 6 18 0 (- 3), Glyph 432 87 5 18 0 (- 3), Glyph 477 127 8 7 0 6, Glyph 505 163 10 9 0 1,
   Glyph 550 85 4 6 1 (- 3), Glyph 562 104 6 3 0 4, Glyph 571 80 3 3 1 0, Glyph 576 125 8 13 0 0,
   Glyph 628 177 11 13 0 0, Glyph 700 102 5 12 0 0, Glyph 730 152 9 12 0 0, Glyph 784 159 10 12 0 0,
   Glyph 844 165 11 12 0 0, Glyph 910 158 10 12 0 0, Glyph 970 167 10 12 0 0, Glyph 1030 139 9 12 0 0,
   Glyph 1084 161 10 13 0 0, Glyph 1149 167 10 13 0 0, Glyph 1214 84 3 9 1 0, Glyph 1228 86 3 12 1 (- 3),
   Glyph 1246 139 9 10 0 0, Glyph 1291 171 9 7 1 2, Glyph 1323 139 9 10 0 0, Glyph 1368 147 9 13 0 0,
   Glyph 1427 238 15 15 0 (- 2), Glyph 1540 201 13 13 0 0, Glyph 1625 173 10 13 1 0, Glyph 1690 216 13 13 0 0,
   Glyph 1775 207 12 13 1 0, Glyph 1853 167 9 13 1 0, Glyph 1912 159 9 13 1 0, Glyph 1971 220 13 13 0 0,
   Glyph 2056 213 11 13 1 0, Glyph 2128 81 3 13 1 0, Glyph 2148 154 9 13 0 0, Glyph 2207 192 11 13 1 0,
   Glyph 2279 158 9 13 1 0, Glyph 2338 272 15 13 1 0, Glyph 2436 220 12 13 1 0, Glyph 2514 231 14 13 0 0,
   Glyph 2605 172 10 13 1 0, Glyph 2670 231 14 14 0 (- 1), Glyph 2768 178 10 13 1 0, Glyph 2833 171 10 13 0 0,
   Glyph 2898 170 11 13 0 0, Glyph 2970 193 10 13 1 0, Glyph 3035 189 12 13 0 0, Glyph 3113 289 18 13 0 0,
   Glyph 3230 178 11 13 0 0, Glyph 3302 178 11 13 0 0, Glyph 3374 182 11 13 0 0, Glyph 3446 83 5 19 1 (- 3),
   Glyph 3494 125 8 13 0 0, Glyph 3546 83 4 19 0 (- 3), Glyph 3584 150 9 7 0 6, Glyph 3616 156 10 3 0 (- 2),
   Glyph 3631 78 5 3 0 10, Glyph 3639 151 9 9 0 0, Glyph 3680 171 9 13 1 0, Glyph 3739 153 9 9 0 0,
   Glyph 3780 169 10 13 0 0, Glyph 3845 156 10 9 0 0, Glyph 3890 99 6 13 0 0, Glyph 3929 166 10 12 0 (- 3),
   Glyph 3989 162 8 13 1 0, Glyph 4041 73 3 13 1 0, Glyph 4061 73 5 16 (- 1) (- 3), Glyph 4101 151 9 13 1 0,
   Glyph 4160 73 3 13 1 0, Glyph 4180 247 14 9 1 0, Glyph 4243 162 8 9 1 0, Glyph 4279 165 10 9 0 0,
   Glyph 4324 171 9 12 1 (- 3), Glyph 4378 167 10 12 0 (- 3), Glyph 4438 106 6 9 1 0, Glyph 4465 130 8 9 0 0,
   Glyph 4501 102 6 12 0 0, Glyph 4537 163 8 9 1 0, Glyph 4573 145 9 9 0 0, Glyph 4614 228 14 9 0 0,
   Glyph 4677 141 9 9 0 0, Glyph 4718 151 10 12 0 (- 3), Glyph 4778 134 8 9 0 0, Glyph 4814 102 7 19 0 (- 3),
   Glyph 4881 75 3 17 1 (- 3), Glyph 4907 102 6 19 0 (- 3), Glyph 4964 164 10 3 0 4]"

definition book18_cmaps :: "lv_font_fmt_txt_cmap_t list" where
  "book18_cmaps = [\<lparr>range_start = 32, range_length = 95, glyph_id_start = 1\<rparr>]"

definition book18_kern_left_class_mapping :: "nat list" where
  "book18_kern_left_class_mapping = [
   0, 1, 0, 2, 3, 4, 5, 6, 2, 7, 0, 8, 9, 10, 11, 10, 12, 13, 14, 15, 16, 17, 18, 19, 20, 21, 13, 22, 22, 23,
   24, 25, 26, 27, 28, 29, 30, 31, 32, 33, 34, 35, 35, 36, 37, 38, 35, 35, 31, 39, 40, 41, 42, 43, 36, 44, 45,
   46, 47, 48, 49, 50, 0, 51, 52, 0, 53, 54, 55, 56, 57, 58, 59, 60, 61, 62, 63, 56, 60, 60, 54, 54, 61, 64,
   65, 66, 67, 68, 69, 70, 71, 72, 73, 74, 75, 76]"

definition book18_kern_right_class_mapping :: "nat list" where
  "book18_kern_right_class_mapping = [
   0, 1, 2, 3, 4, 0, 5, 6, 3, 7, 8, 9, 10, 11, 12, 11, 13, 14, 15, 16, 17, 18, 19, 14, 20, 21, 22, 23, 23, 24,
   25, 26, 27, 28, 29, 30, 31, 30, 30, 30, 31, 30, 30, 32, 30, 30, 30, 30, 31, 30, 31, 30, 33, 34, 35, 36, 37,
   38, 39, 40, 41, 42, 43, 44, 45, 0, 46, 47, 48, 48, 48, 49, 50, 47, 51, 52, 47, 47, 53, 53, 48, 53, 48, 53,
   54, 55, 56, 57, 58, 59, 60, 61, 62, 63, 43, 64]"

definition ui_font_font_book18 :: lv_font_t where
  "ui_font_font_book18 = \<lparr>
     glyph_bitmap_size = 4979, glyph_dsc = book18_glyph_dsc, cmaps = book18_cmaps, kern_scale = 16, cmap_num = 1, bpp = 4,
     kern_dsc = \<lparr>class_pair_count = 4864, left_class_mapping = book18_kern_left_class_mapping,
       right_class_mapping = book18_kern_right_class_mapping, left_class_cnt = 76, right_class_cnt = 64\<rparr>,
     line_height = 19, base_line = 3, underline_position = -3, underline_thickness = 1\<rparr>"

text \<open>\<open>ui_font_font_book20.c\<close>\<close>

definition book20_glyph_dsc :: "lv_font_fmt_txt_glyph_dsc_t list" where
  "book20_glyph_dsc = [
   Glyph 0 0 0 0 0 0, Glyph 0 80 0 0 0 0, Glyph 0 100 4 14 1 0, Glyph 28 120 7 6 0 8, Glyph 49 236 13 13 1 0,
   Glyph 134 190 10 18 1 (- 2), Glyph 224 261 15 14 1 0, Glyph 329 223 13 14 1 0, Glyph 420 64 4 6 0 8,
   Glyph 432 97 6 20 1 (- 4), Glyph 492 97 5 20 0 (- 4), Glyph 542 141 9 8 0 6, Glyph 578 181 10 10 1 1,
   Glyph 628 94 4 7 1 (- 4), Glyph 642 116 7 2 0 5, Glyph 649 89 4 3 1 0, Glyph 655 139 9 14 0 0,
   Glyph 718 196 11 14 1 0, Glyph 795 113 6 14 0 0, Glyph 837 169 10 13 0 0, Glyph 902 177 11 13 0 0,
   Glyph 974 184 12 13 0 0, Glyph 1052 175 11 13 0 0, Glyph 1124 186 10 14 1 0, Glyph 1194 155 10 13 0 0,
   Glyph 1259 179 11 14 0 0, Glyph 1336 186 11 14 0 0, Glyph 1413 93 4 10 1 0, Glyph 1433 95 4 13 1 (- 3),
   Glyph 1459 154 9 11 0 0, Glyph 1509 190 10 6 1 3, Glyph 1539 154 9 11 0 0, Glyph 1589 163 10 14 0 0,
   Glyph 1659 264 16 16 0 (- 2), Glyph 1787 223 14 14 0 0, Glyph 1885 193 11 14 1 0, Glyph 1962 240 15 14 0 0,
   Glyph 2067 230 13 14 1 0, Glyph 2158 186 10 14 1 0, Glyph 2228 176 10 14 1 0, Glyph 2298 245 15 14 0 0,
   Glyph 2403 236 12 14 1 0, Glyph 2487 90 3 14 1 0, Glyph 2508 171 10 14 0 0, Glyph 2578 214 13 14 1 0,
   Glyph 2669 175 10 14 1 0, Glyph 2739 303 17 14 1 0, Glyph 2858 244 13 14 1 0, Glyph 2949 257 16 14 0 0,
   Glyph 3061 191 11 14 1 0, Glyph 3138 257 16 15 0 (- 1), Glyph 3258 198 11 14 1 0, Glyph 3335 190 11 14 0 0,
   Glyph 3412 189 12 14 0 0, Glyph 3496 214 11 14 1 0, Glyph 3573 210 13 14 0 0, Glyph 3664 321 20 14 0 0,
   Glyph 3804 197 13 14 0 0, Glyph 3895 198 13 14 0 0, Glyph 3986 202 12 14 0 0, Glyph 4070 92 5 19 1 (- 3),
   Glyph 4118 139 9 14 0 0, Glyph 4181 92 4 19 0 (- 3), Glyph 4219 167 10 7 0 7, Glyph 4254 173 11 2 0 (- 2),
   Glyph 4265 87 5 3 0 11, Glyph 4273 167 9 10 1 0, Glyph 4318 190 11 15 1 0, Glyph 4401 170 10 10 0 0,
   Glyph 4451 188 11 15 0 0, Glyph 4534 173 11 10 0 0, Glyph 4589 110 7 14 0 0, Glyph 4638 185 11 14 0 (- 4),
   Glyph 4715 180 9 15 1 0, Glyph 4783 81 3 15 1 0, Glyph 4806 81 5 19 (- 1) (- 4), Glyph 4854 168 10 15 1 0,
   Glyph 4929 81 3 15 1 0, Glyph 4952 274 15 10 1 0, Glyph 5027 180 9 10 1 0, Glyph 5072 183 11 10 0 0,
   Glyph 5127 190 11 14 1 (- 4), Glyph 5204 186 11 14 0 (- 4), Glyph 5281 117 6 10 1 0,
   Glyph 5311 145 9 10 0 0, Glyph 5356 114 7 13 0 0, Glyph 5402 181 9 10 1 0, Glyph 5447 161 10 10 0 0,
   Glyph 5497 254 16 10 0 0, Glyph 5577 157 10 10 0 0, Glyph 5627 167 11 14 0 (- 4), Glyph 5704 149 9 10 0 0,
   Glyph 5749 113 7 19 0 (- 3), Glyph 5816 84 3 19 1 (- 3), Glyph 5845 113 7 19 0 (- 3), Glyph 5912 182 11 3 0 4]"

definition book20_cmaps :: "lv_font_fmt_txt_cmap_t list" where
  "book20_cmaps = [\<lparr>range_start = 32, range_length = 95, glyph_id_start = 1\<rparr>]"

definition book20_kern_left_class_mapping :: "nat list" where
  "book20_kern_left_class_mapping = [
   0, 1, 0, 2, 3, 4, 5, 6, 2, 7, 0, 8, 9, 10, 11, 10, 12, 13, 14, 15, 16, 17, 18, 19, 20, 21, 13, 22, 22, 23,
   24, 25, 26, 27, 28, 29, 30, 31, 32, 33, 34, 35, 35, 36, 37, 38, 35, 35, 31, 39, 40, 41, 42, 43, 36, 44, 45,
   46, 47, 48, 49, 50, 0, 51, 52, 0, 53, 54, 55, 56, 57, 58, 59, 60, 61, 62, 63, 56, 60, 60, 54, 54, 61, 64,
   65, 66, 67, 68, 69, 70, 71, 72, 73, 74, 75, 76]"

definition book20_kern_right_class_mapping :: "nat list" where
  "book20_kern_right_class_mapping = [
   0, 1, 2, 3, 4, 0, 5, 6, 3, 7, 8, 9, 10, 11, 12, 11, 13, 14, 15, 16, 17, 18, 19, 14, 20, 21, 22, 23, 23, 24,
   25, 26, 27, 28, 29, 30, 31, 30, 30, 30, 31, 30, 30, 32, 30, 30, 30, 30, 31, 30, 31, 30, 33, 34, 35, 36, 37,
   38, 39, 40, 41, 42, 43, 44, 45, 0, 46, 47, 48, 48, 48, 49, 50, 47, 51, 52, 47, 47, 53, 53, 48, 53, 48, 53,
   54, 55, 56, 57, 58, 59, 60, 61, 62, 63, 43, 64]"

definition ui_font_font_book20 :: lv_font_t where
  "ui_font_font_book20 = \<lparr>
     glyph_bitmap_size = 5929, glyph_dsc = book20_glyph_dsc, cmaps = book20_cmaps, kern_scale = 16, cmap_num = 1, bpp = 4,
     kern_dsc = \<lparr>class_pair_count = 4864, left_class_mapping = book20_kern_left_class_mapping,
       right_class_mapping = book20_kern_right_class_mapping, left_class_cnt = 76, right_class_cnt = 64\<rparr>,
     line_height = 20, base_line = 4, underline_position = -3, underline_thickness = 2\<rparr>"

text \<open>\<open>ui_font_font_book24.c\<close>\<close>

definition book24_glyph_dsc :: "lv_font_fmt_txt_glyph_dsc_t list" where
  "book24_glyph_dsc = [
   Glyph 0 0 0 0 0 0, Glyph 0 96 0 0 0 0, Glyph 0 119 4 17 2 0, Glyph 34 144 9 7 0 10, Glyph 66 283 16 16 1 0,
   Glyph 194 228 12 22 1 (- 3), Glyph 326 314 18 16 1 0, Glyph 470 268 16 17 1 0, Glyph 606 77 4 7 0 10,
   Glyph 620 116 7 24 1 (- 4), Glyph 704 116 6 24 0 (- 4), Glyph 776 169 10 9 0 8, Glyph 821 218 12 12 1 1,
   Glyph 893 113 5 8 1 (- 4), Glyph 913 139 7 2 1 6, Glyph 920 107 5 4 1 0, Glyph 930 167 11 17 0 0,
   Glyph 1024 236 13 17 1 0, Glyph 1135 136 7 16 0 0, Glyph 1191 203 12 16 0 0, Glyph 1287 212 13 16 0 0,
   Glyph 1391 220 14 16 0 0, Glyph 1503 210 13 16 0 0, Glyph 1607 223 13 17 1 0, Glyph 1718 185 12 16 0 0,
   Glyph 1814 215 12 16 1 0, Glyph 1910 223 13 17 0 0, Glyph 2021 111 5 12 1 0, Glyph 2051 114 5 16 1 (- 4),
   Glyph 2091 185 11 13 0 0, Glyph 2163 228 12 7 1 4, Glyph 2205 185 11 13 0 0, Glyph 2277 196 12 17 0 0,
   Glyph 2379 317 18 19 1 (- 2), Glyph 2550 268 17 17 0 0, Glyph 2695 231 12 17 2 0, Glyph 2797 288 17 17 1 0,
   Glyph 2942 276 15 17 2 0, Glyph 3070 223 11 17 2 0, Glyph 3164 212 11 17 2 0, Glyph 3258 294 17 17 1 0,
   Glyph 3403 283 14 17 2 0, Glyph 3522 108 3 17 2 0, Glyph 3548 205 11 17 0 0, Glyph 3642 257 14 17 2 0,
   Glyph 3761 210 11 17 2 0, Glyph 3855 363 19 17 2 0, Glyph 4017 293 15 17 2 0, Glyph 4145 308 18 17 1 0,
   Glyph 4298 229 12 17 2 0, Glyph 4400 308 18 19 1 (- 2), Glyph 4571 238 12 17 2 0, Glyph 4673 228 14 17 0 0,
   Glyph 4792 227 14 17 0 0, Glyph 4911 257 14 17 1 0, Glyph 5030 252 16 17 0 0, Glyph 5166 386 24 17 0 0,
   Glyph 5370 237 15 17 0 0, Glyph 5498 237 15 17 0 0, Glyph 5626 243 14 17 1 0, Glyph 5745 111 5 23 2 (- 4),
   Glyph 5803 167 11 17 0 0, Glyph 5897 111 5 23 0 (- 4), Glyph 5955 200 12 9 0 9, Glyph 6009 208 13 2 0 (- 2),
   Glyph 6022 104 6 4 0 13, Glyph 6034 201 11 12 1 0, Glyph 6100 228 13 18 1 0, Glyph 6217 204 12 12 0 0,
   Glyph 6289 226 13 18 0 0, Glyph 6406 208 13 12 0 0, Glyph 6484 132 8 17 0 0, Glyph 6552 222 12 17 1 (- 5),
   Glyph 6654 216 11 18 1 0, Glyph 6753 97 4 18 1 0, Glyph 6789 98 6 23 (- 1) (- 5), Glyph 6858 202 12 18 1 0,
   Glyph 6966 98 4 18 1 0, Glyph 7002 329 18 12 1 0, Glyph 7110 216 11 12 1 0, Glyph 7176 220 13 12 0 0,
   Glyph 7254 228 13 17 1 (- 5), Glyph 7365 223 13 17 0 (- 5), Glyph 7476 141 8 12 1 0,
   Glyph 7524 174 10 12 0 0, Glyph 7584 136 8 16 0 0, Glyph 7648 217 11 12 1 0, Glyph 7714 193 12 12 0 0,
   Glyph 7786 305 19 12 0 0, Glyph 7900 189 12 12 0 0, Glyph 7972 201 13 17 0 (- 5), Glyph 8083 179 11 12 0 0,
   Glyph 8149 136 8 23 1 (- 4), Glyph 8241 101 3 23 2 (- 4), Glyph 8276 136 8 23 0 (- 4),
   Glyph 8368 219 13 4 0 5]"

definition book24_cmaps :: "lv_font_fmt_txt_cmap_t list" where
  "book24_cmaps = [\<lparr>range_start = 32, range_length = 95, glyph_id_start = 1\<rparr>]"

definition book24_kern_left_class_mapping :: "nat list" where
  "book24_kern_left_class_mapping = [
   0, 1, 0, 2, 3, 4, 5, 6, 2, 7, 0, 8, 9, 10, 11, 10, 12, 13, 14, 15, 16, 17, 18, 19, 20, 21, 13, 22, 22, 23,
   24, 25, 26, 27, 28, 29, 30, 31, 32, 33, 34, 35, 35, 36, 37, 38, 35, 35, 31, 39, 40, 41, 42, 43, 36, 44, 45,
   46, 47, 48, 49, 50, 0, 51, 52, 0, 53, 54, 55, 56, 57, 58, 59, 60, 61, 62, 63, 56, 60, 60, 54, 54, 61, 64,
   65, 66, 67, 68, 69, 70, 71, 72, 73, 74, 75, 76]"

definition book24_kern_right_class_mapping :: "nat list" where
  "book24_kern_right_class_mapping = [
   0, 1, 2, 3, 4, 0, 5, 6, 3, 7, 8, 9, 10, 11, 12, 11, 13, 14, 15, 16, 17, 18, 19, 14, 20, 21, 22, 23, 23, 24,
   25, 26, 27, 28, 29, 30, 31, 30, 30, 30, 31, 30, 30, 32, 30, 30, 30, 30, 31, 30, 31, 30, 33, 34, 35, 36, 37,
   38, 39, 40, 41, 42, 43, 44, 45, 0, 46, 47, 48, 48, 48, 49, 50, 47, 51, 52, 47, 47, 53, 53, 48, 53, 48, 53,
   54, 55, 56, 57, 58, 59, 60, 61, 62, 63, 43, 64]"

definition ui_font_font_book24 :: lv_font_t where
  "ui_font_font_book24 = \<lparr>
     glyph_bitmap_size = 8394, glyph_dsc = book24_glyph_dsc, cmaps = book24_cmaps, kern_scale = 16, cmap_num = 1, bpp = 4,
     kern_dsc = \<lparr>class_pair_count = 4864, left_class_mapping = book24_kern_left_class_mapping,
       right_class_mapping = book24_kern_right_class_mapping, left_class_cnt = 76, right_class_cnt = 64\<rparr>,
     line_height = 25, base_line = 5, underline_position = -4, underline_thickness = 2\<rparr>"

section \<open>The images\<close>

definition img_logo :: lv_image_dsc_t where
  "img_logo = \<lparr>image_w = 116, image_h = 32, stride = 464, data_size = 14848\<rparr>"

definition img_boot_logo_2 :: lv_image_dsc_t where
  "img_boot_logo_2 = \<lparr>image_w = 153, image_h = 42, stride = 612, data_size = 25704\<rparr>"

definition img_arrow_icon :: lv_image_dsc_t where
  "img_arrow_icon = \<lparr>image_w = 21, image_h = 21, stride = 84, data_size = 1764\<rparr>"

definition img_back_caret :: lv_image_dsc_t where
  "img_back_caret = \<lparr>image_w = 8, image_h = 12, stride = 32, data_size = 384\<rparr>"

definition img_back_icon :: lv_image_dsc_t where
  "img_back_icon = \<lparr>image_w = 17, image_h = 17, stride = 68, data_size = 1156\<rparr>"

definition img_check_icon :: lv_image_dsc_t where
  "img_check_icon = \<lparr>image_w = 19, image_h = 14, stride = 76, data_size = 1064\<rparr>"

definition img_cloud_disconnected :: lv_image_dsc_t where
  "img_cloud_disconnected = \<lparr>image_w = 22, image_h = 22, stride = 88, data_size = 1936\<rparr>"

definition img_cloud :: lv_image_dsc_t where
  "img_cloud = \<lparr>image_w = 23, image_h = 22, stride = 92, data_size = 2024\<rparr>"

definition img_d2 :: lv_image_dsc_t where
  "img_d2 = \<lparr>image_w = 174, image_h = 49, stride = 696, data_size = 34104\<rparr>"

definition img_ethernet :: lv_image_dsc_t where
  "img_ethernet = \<lparr>image_w = 32, image_h = 32, stride = 128, data_size = 4096\<rparr>"

definition img_hdmi :: lv_image_dsc_t where
  "img_hdmi = \<lparr>image_w = 20, image_h = 20, stride = 80, data_size = 1600\<rparr>"

definition img_jetkvm :: lv_image_dsc_t where
  "img_jetkvm = \<lparr>image_w = 116, image_h = 32, stride = 464, data_size = 14848\<rparr>"

definition img_usb :: lv_image_dsc_t where
  "img_usb = \<lparr>image_w = 20, image_h = 20, stride = 80, data_size = 1600\<rparr>"

definition img_x_icon :: lv_image_dsc_t where
  "img_x_icon = \<lparr>image_w = 25, image_h = 24, stride = 100, data_size = 2400\<rparr>"

definition images :: "(string \<times> lv_image_dsc_t) list" where
  "images = [
   (''logo'', img_logo), (''boot-logo-2'', img_boot_logo_2), (''arrow-icon'', img_arrow_icon),
   (''back-caret'', img_back_caret), (''back-icon'', img_back_icon), (''check-icon'', img_check_icon),
   (''cloud_disconnected'', img_cloud_disconnected), (''cloud'', img_cloud), (''d2'', img_d2),
   (''ethernet'', img_ethernet), (''hdmi'', img_hdmi), (''jetkvm'', img_jetkvm), (''usb'', img_usb),
   (''x-icon'', img_x_icon)]"

text \<open>The fonts of \<open>fonts.h\<close> by their names.\<close>

definition font_table :: "(string \<times> lv_font_t) list" where
  "font_table = [(''ui_font_font_bold30'', ui_font_font_bold30), (''ui_font_font_book16'', ui_font_font_book16),
     (''ui_font_font_book18'', ui_font_font_book18), (''ui_font_font_book20'', ui_font_font_book20),
     (''ui_font_font_book24'', ui_font_font_book24)]"

lemma font_names: "map fst font_table = ui_fonts"
  by (simp add: font_table_def ui_fonts_def)

section \<open>Reading the tables\<close>

text \<open>
  The documented meaning of the tables: in a character range of the format \<open>FORMAT0_TINY\<close> the glyphs are numbered
  consecutively from \<open>glyph_id_start\<close>; a glyph has \<open>bpp\<close> bits for each pixel of its box, from \<open>bitmap_index\<close> on;
  the kerning classes of two glyphs, counted from one, select an entry of the matrix of distances.
\<close>

definition in_range :: "nat \<Rightarrow> lv_font_fmt_txt_cmap_t \<Rightarrow> bool" where
  "in_range c cm \<longleftrightarrow> range_start cm \<le> c \<and> c < range_start cm + range_length cm"

definition glyph_id :: "lv_font_t \<Rightarrow> char \<Rightarrow> nat option" where
  "glyph_id f c = map_option (\<lambda>cm. glyph_id_start cm + (of_char c - range_start cm))
     (find (in_range (of_char c)) (take (cmap_num f) (cmaps f)))"

definition glyph_bytes :: "nat \<Rightarrow> lv_font_fmt_txt_glyph_dsc_t \<Rightarrow> nat" where
  "glyph_bytes bits g = (box_w g * box_h g * bits + 7) div 8"

definition glyph_stored :: "lv_font_t \<Rightarrow> lv_font_fmt_txt_glyph_dsc_t \<Rightarrow> bool" where
  "glyph_stored f g \<longleftrightarrow> bitmap_index g + glyph_bytes (bpp f) g \<le> glyph_bitmap_size f \<and>
     bitmap_index g < 2 ^ 20 \<and> adv_w g < 2 ^ 12 \<and> box_w g < 2 ^ 8 \<and> box_h g < 2 ^ 8 \<and>
     ofs_x g \<in> {- 128..127} \<and> ofs_y g \<in> {- 128..127}"

text \<open>The box of a glyph, placed on the base line, stays inside the line.\<close>

definition inside_line :: "lv_font_t \<Rightarrow> lv_font_fmt_txt_glyph_dsc_t \<Rightarrow> bool" where
  "inside_line f g \<longleftrightarrow> - int (base_line f) \<le> ofs_y g \<and>
     ofs_y g + int (box_h g) \<le> int (line_height f) - int (base_line f)"

definition kern_class_ok :: "nat \<Rightarrow> nat \<Rightarrow> bool" where
  "kern_class_ok n k \<longleftrightarrow> k \<le> n \<and> n < 2 ^ 8"

definition pair_stored :: "lv_font_t \<Rightarrow> nat \<Rightarrow> nat \<Rightarrow> bool" where
  "pair_stored f i j \<longleftrightarrow> (let k = kern_dsc f; l = left_class_mapping k ! i; r = right_class_mapping k ! j in
     i < length (left_class_mapping k) \<and> j < length (right_class_mapping k) \<and>
     (l > 0 \<longrightarrow> r > 0 \<longrightarrow> (l - 1) * right_class_cnt k + (r - 1) < class_pair_count k))"

text \<open>What evaluation checks of a font.\<close>

definition font_ok :: "lv_font_t \<Rightarrow> bool" where
  "font_ok f \<longleftrightarrow>
     list_all (glyph_stored f) (glyph_dsc f) \<and> list_all (inside_line f) (glyph_dsc f) \<and>
     list_all (kern_class_ok (left_class_cnt (kern_dsc f))) (left_class_mapping (kern_dsc f)) \<and>
     list_all (kern_class_ok (right_class_cnt (kern_dsc f))) (right_class_mapping (kern_dsc f)) \<and>
     class_pair_count (kern_dsc f) = left_class_cnt (kern_dsc f) * right_class_cnt (kern_dsc f) \<and>
     length (left_class_mapping (kern_dsc f)) = length (glyph_dsc f) \<and>
     length (right_class_mapping (kern_dsc f)) = length (glyph_dsc f) \<and>
     cmap_num f = 1 \<and> cmaps f = [\<lparr>range_start = 32, range_length = 95, glyph_id_start = 1\<rparr>] \<and> length (glyph_dsc f) = 96"

lemmas font_eval = font_ok_def glyph_stored_def inside_line_def glyph_bytes_def kern_class_ok_def

lemma bold30_ok: "font_ok ui_font_font_bold30"
  by (simp add: font_eval ui_font_font_bold30_def bold30_glyph_dsc_def bold30_cmaps_def
      bold30_kern_left_class_mapping_def bold30_kern_right_class_mapping_def)

lemma book16_ok: "font_ok ui_font_font_book16"
  by (simp add: font_eval ui_font_font_book16_def book16_glyph_dsc_def book16_cmaps_def
      book16_kern_left_class_mapping_def book16_kern_right_class_mapping_def)

lemma book18_ok: "font_ok ui_font_font_book18"
  by (simp add: font_eval ui_font_font_book18_def book18_glyph_dsc_def book18_cmaps_def
      book18_kern_left_class_mapping_def book18_kern_right_class_mapping_def)

lemma book20_ok: "font_ok ui_font_font_book20"
  by (simp add: font_eval ui_font_font_book20_def book20_glyph_dsc_def book20_cmaps_def
      book20_kern_left_class_mapping_def book20_kern_right_class_mapping_def)

lemma book24_ok: "font_ok ui_font_font_book24"
  by (simp add: font_eval ui_font_font_book24_def book24_glyph_dsc_def book24_cmaps_def
      book24_kern_left_class_mapping_def book24_kern_right_class_mapping_def)

lemma fonts_ok: "(name, f) \<in> set font_table \<Longrightarrow> font_ok f"
  by (auto simp: font_table_def bold30_ok book16_ok book18_ok book20_ok book24_ok)

section \<open>Characters and their glyphs\<close>

definition printable :: "char \<Rightarrow> bool" where
  "printable c \<longleftrightarrow> 32 \<le> (of_char c :: nat) \<and> (of_char c :: nat) < 127"

lemma glyph_id_ok:
  assumes "font_ok f"
  shows "glyph_id f c = (if printable c then Some (of_char c - 31) else None)"
  using assms by (auto simp: glyph_id_def font_ok_def in_range_def printable_def)

lemma pair_ok:
  assumes "font_ok f" and "i < 96" and "j < 96"
  shows "pair_stored f i j"
proof -
  let ?k = "kern_dsc f"
  have "left_class_mapping ?k ! i \<le> left_class_cnt ?k" "right_class_mapping ?k ! j \<le> right_class_cnt ?k"
    using assms by (auto simp: font_ok_def kern_class_ok_def list_all_length)
  moreover have "(l - 1) * n + (r - 1) < m * n" if "0 < l" "0 < r" "l \<le> m" "r \<le> n" for l r m n :: nat
  proof -
    have "(l - 1) * n + (r - 1) < (l - 1) * n + n"
      using that by simp
    also have "\<dots> = l * n"
      using that by (cases l) simp_all
    also have "\<dots> \<le> m * n"
      using that by simp
    finally show ?thesis .
  qed
  ultimately show ?thesis
    using assms by (simp add: pair_stored_def font_ok_def Let_def)
qed

text \<open>The texts of the screens and of the code.\<close>

fun text_of :: "attr \<Rightarrow> string list" where
  "text_of (Call (Label_set_text txt)) = [txt]"
| "text_of _ = []"

fun texts :: "widget \<Rightarrow> string list" and texts_list :: "widget list \<Rightarrow> string list" where
  "texts (Widget cls name as kids) = concat (map text_of as) @ texts_list kids"
| "texts_list [] = []"
| "texts_list (w # ws) = texts w @ texts_list ws"

definition shown :: "char \<Rightarrow> bool" where
  "shown c \<longleftrightarrow> printable c \<or> c = CHR 0x0A"

lemma screen_texts_shown: "list_all (list_all shown) (texts_list screen_trees)"
  by (simp add: tree_defs shown_def printable_def)

lemma digit_shown: "k < 10 \<Longrightarrow> shown (char_of (48 + k :: nat))"
  by (simp add: shown_def printable_def)

lemma decimal_shown: "list_all shown (decimal n)"
  by (induction n rule: decimal.induct) (subst decimal.simps, simp add: digit_shown)

lemma code_texts_shown: "list_all shown (hold_text n)" "list_all shown (version_text L)"
  by (simp_all add: hold_text_def version_text_def decimal_shown) (simp_all add: shown_def printable_def)

section \<open>The images\<close>

definition image_ok :: "lv_image_dsc_t \<Rightarrow> bool" where
  "image_ok img \<longleftrightarrow> stride img = 4 * image_w img \<and> data_size img = stride img * image_h img"

lemma images_ok: "list_all (\<lambda>e. image_ok (snd e)) images"
  by (simp add: images_def image_ok_def img_logo_def img_boot_logo_2_def img_arrow_icon_def img_back_caret_def
      img_back_icon_def img_check_icon_def img_cloud_disconnected_def img_cloud_def img_d2_def img_ethernet_def
      img_hdmi_def img_jetkvm_def img_usb_def img_x_icon_def)

text \<open>
  C40. What the user interface draws is stored: in every font each character but the line break of the texts of the
  screens, the hold screens and the version label has a glyph, whose pixels lie in the bitmap, whose metrics fit LVGL's
  bit fields and whose box stays inside the line; the kerning of any two glyphs lies in the table; and
  each image has the pixels its size announces.
\<close>

theorem assets_in_bounds:
  assumes "txt \<in> set (texts_list screen_trees) \<or> (\<exists>n. txt = hold_text n) \<or> (\<exists>L. txt = version_text L)"
    and "c \<in> set txt" and "c \<noteq> CHR 0x0A" and "(name, f) \<in> set font_table" and "(iname, img) \<in> set images"
  shows "(\<exists>i. glyph_id f c = Some i \<and> i < length (glyph_dsc f) \<and>
      glyph_stored f (glyph_dsc f ! i) \<and> inside_line f (glyph_dsc f ! i) \<and>
      (\<forall>d j. glyph_id f d = Some j \<longrightarrow> pair_stored f i j \<and> pair_stored f j i)) \<and>
    data_size img = 4 * image_w img * image_h img"
proof -
  have f: "font_ok f"
    using assms(4) by (rule fonts_ok)
  have "list_all shown txt"
    using assms(1) screen_texts_shown code_texts_shown by (auto simp: list_all_iff)
  with assms(2,3) have c: "printable c"
    by (auto simp: list_all_iff shown_def)
  let ?i = "of_char c - 31 :: nat"
  have i: "?i < 96"
    using c unfolding printable_def by linarith
  then have "glyph_stored f (glyph_dsc f ! ?i) \<and> inside_line f (glyph_dsc f ! ?i) \<and> ?i < length (glyph_dsc f)"
    using f by (simp add: font_ok_def list_all_length)
  moreover have "pair_stored f ?i j \<and> pair_stored f j ?i" if "glyph_id f d = Some j" for d j
  proof -
    have "j < 96"
      using that by (auto simp: glyph_id_ok [OF f] printable_def split: if_splits)
    then show ?thesis
      using pair_ok [OF f] i by blast
  qed
  moreover have "data_size img = 4 * image_w img * image_h img"
    using images_ok assms(5) by (auto simp: list_all_iff image_ok_def)
  ultimately show ?thesis
    by (auto simp: glyph_id_ok [OF f] c)
qed

theorem assets_in_bounds_witness:
  "glyph_id ui_font_font_bold30 CHR ''H'' = Some 41 \<and>
   glyph_stored ui_font_font_bold30 (glyph_dsc ui_font_font_bold30 ! 41) \<and> data_size img_usb = 1600"
proof -
  have "CHR ''H'' \<in> set ''Hold to reboot''" "''Hold to reboot'' \<in> set (texts_list screen_trees)"
    "(''ui_font_font_bold30'', ui_font_font_bold30) \<in> set font_table" "(''usb'', img_usb) \<in> set images"
    by (simp_all add: tree_defs font_table_def images_def)
  from assets_in_bounds [OF _ this(1) _ this(3) this(4)] this(2)
  show ?thesis
    by (simp add: glyph_id_ok [OF bold30_ok] printable_def img_usb_def)
qed

end
