(* ===== verification/Log.thy ===== *)
theory Log
  imports Native_Prelude
begin

text \<open>
  Logging (\<open>log.h\<close>, \<open>log_handler.c\<close>): the macros format a message into a buffer of 1024 bytes and pass
  it to the handler registered by Go, when the level is enabled. The other theories leave logging
  out; this one says what a log statement does.
\<close>

section \<open>Levels and macros\<close>

definition LEVEL_PANIC :: int where "LEVEL_PANIC = 5"
definition LEVEL_FATAL :: int where "LEVEL_FATAL = 4"
definition LEVEL_ERROR :: int where "LEVEL_ERROR = 3"
definition LEVEL_WARN :: int where "LEVEL_WARN = 2"
definition LEVEL_INFO :: int where "LEVEL_INFO = 1"
definition LEVEL_DEBUG :: int where "LEVEL_DEBUG = 0"
definition LEVEL_TRACE :: int where "LEVEL_TRACE = -1"

definition LOG_LEVEL :: int where "LOG_LEVEL = LEVEL_INFO"

datatype log_call = Call_log int string string nat string

record log_world = "(log_call, unit) world" +
  log_handler :: bool

type_synonym log_env = "(log_call, unit) env"
type_synonym 'a log_m = "(log_world, 'a) state"

text \<open>The part of a path after its last slash.\<close>

definition FILENAME :: "string \<Rightarrow> string" where
  "FILENAME path = rev (takeWhile (\<lambda>c. c \<noteq> CHR ''/'') (rev path))"

definition log_set_handler :: "bool \<Rightarrow> unit log_m" where
  "log_set_handler handler = modify (\<lambda>s. s\<lparr>log_handler := handler\<rparr>)"

definition jetkvm_set_log_handler :: "bool \<Rightarrow> unit log_m" where
  "jetkvm_set_log_handler handler = log_set_handler handler"

definition log_message :: "log_env \<Rightarrow> int \<Rightarrow> string \<Rightarrow> string \<Rightarrow> nat \<Rightarrow> string \<Rightarrow> unit log_m" where
  "log_message E level filename funcname line message = do {
     h \<leftarrow> reads log_handler;
     if h then do { _ \<leftarrow> perform E (Call_log level filename funcname line message); skip } else skip
   }"

text \<open>A message that does not fit the buffer with its NUL is undefined behaviour (\<open>False\<close>).\<close>

definition emit_log :: "log_env \<Rightarrow> int \<Rightarrow> string \<Rightarrow> string \<Rightarrow> nat \<Rightarrow> string \<Rightarrow> bool log_m" where
  "emit_log E level file func line msg =
     (if 1024 \<le> length msg then State_Monad.return False
      else do { log_message E level file func line msg; State_Monad.return True })"

definition log_macro :: "int \<Rightarrow> log_env \<Rightarrow> string \<Rightarrow> string \<Rightarrow> nat \<Rightarrow> string \<Rightarrow> bool log_m" where
  "log_macro level E file func line msg =
     (if LOG_LEVEL \<le> level then emit_log E level (FILENAME file) func line msg else State_Monad.return True)"

definition log_trace :: "log_env \<Rightarrow> string \<Rightarrow> string \<Rightarrow> nat \<Rightarrow> string \<Rightarrow> bool log_m" where
  "log_trace = log_macro LEVEL_TRACE"
definition log_debug :: "log_env \<Rightarrow> string \<Rightarrow> string \<Rightarrow> nat \<Rightarrow> string \<Rightarrow> bool log_m" where
  "log_debug = log_macro LEVEL_DEBUG"
definition log_info :: "log_env \<Rightarrow> string \<Rightarrow> string \<Rightarrow> nat \<Rightarrow> string \<Rightarrow> bool log_m" where
  "log_info = log_macro LEVEL_INFO"
definition log_notice :: "log_env \<Rightarrow> string \<Rightarrow> string \<Rightarrow> nat \<Rightarrow> string \<Rightarrow> bool log_m" where
  "log_notice = log_macro LEVEL_INFO"
definition log_warn :: "log_env \<Rightarrow> string \<Rightarrow> string \<Rightarrow> nat \<Rightarrow> string \<Rightarrow> bool log_m" where
  "log_warn = log_macro LEVEL_WARN"
definition log_error :: "log_env \<Rightarrow> string \<Rightarrow> string \<Rightarrow> nat \<Rightarrow> string \<Rightarrow> bool log_m" where
  "log_error = log_macro LEVEL_ERROR"
definition log_panic :: "log_env \<Rightarrow> string \<Rightarrow> string \<Rightarrow> nat \<Rightarrow> string \<Rightarrow> bool log_m" where
  "log_panic = log_macro LEVEL_PANIC"

section \<open>What a log statement does\<close>

lemmas log_defs = log_macro_def emit_log_def log_message_def LOG_LEVEL_def LEVEL_PANIC_def LEVEL_ERROR_def
  LEVEL_WARN_def LEVEL_INFO_def LEVEL_DEBUG_def LEVEL_TRACE_def log_trace_def log_debug_def log_info_def
  log_notice_def log_warn_def log_error_def log_panic_def

lemma log_filtered:
  "run_state (log_trace E file func line msg) s = (True, s)"
  "run_state (log_debug E file func line msg) s = (True, s)"
  by (simp_all add: log_defs)

lemma log_delivered:
  assumes "log_handler s" and "length msg < 1024" and "LEVEL_INFO \<le> level"
  shows "run_state (log_macro level E file func line msg) s =
    (True, s\<lparr>trace := trace s @ [(Call_log level (FILENAME file) func line msg, ())]\<rparr>)"
  using assms by (simp add: log_defs run_simps)

lemma FILENAME_no_slash: "CHR ''/'' \<notin> set (FILENAME path)"
  by (auto simp: FILENAME_def dest: set_takeWhileD)

lemma FILENAME_suffix: "CHR ''/'' \<notin> set name \<Longrightarrow> FILENAME (dir @ CHR ''/'' # name) = name"
proof -
  assume "CHR ''/'' \<notin> set name"
  then have "takeWhile (\<lambda>c. c \<noteq> CHR ''/'') (rev name @ CHR ''/'' # rev dir) = rev name"
    by (subst takeWhile_append2) auto
  then show ?thesis by (simp add: FILENAME_def)
qed

end
