(* ===== verification/Callbacks.thy ===== *)
theory Callbacks
  imports Video_Report Vars
begin

text \<open>
  The callbacks of the stand-alone program \<open>main.c\<close>: what they print on the standard error stream. The
  frame handler's body is commented out. A call of \<open>fprintf\<close> that C leaves undefined is \<open>None\<close>: a
  conversion without an argument or with one of another type, and \<open>%s\<close> with a NULL pointer.
\<close>

section \<open>Formatted output\<close>

datatype format_arg = Str_arg "string option" | Int_arg int | Double_arg rat

definition decimal_int :: "int \<Rightarrow> string" where
  "decimal_int i = (if i < 0 then CHR ''-'' # decimal (nat (- i)) else decimal (nat i))"

text \<open>\<open>%f\<close> rounds to six decimals.\<close>

definition decimal_double :: "rat \<Rightarrow> string" where
  "decimal_double x =
     (let n = nat (round_half_even (\<bar>x\<bar> * 10 ^ 6)); frac = decimal (n mod 10 ^ 6) in
      (if x < 0 then ''-'' else []) @ decimal (n div 10 ^ 6) @ ''.'' @ replicate (6 - length frac) CHR ''0'' @ frac)"

fun convert :: "char \<Rightarrow> format_arg \<Rightarrow> string option" where
  "convert c (Str_arg s) = (if c = CHR ''s'' then s else None)"
| "convert c (Int_arg i) = (if c = CHR ''d'' then Some (decimal_int i) else None)"
| "convert c (Double_arg x) = (if c = CHR ''f'' then Some (decimal_double x) else None)"

fun fprintf :: "string \<Rightarrow> format_arg list \<Rightarrow> string option" where
  "fprintf [] args = Some []"
| "fprintf (c # cs) args =
     (if c \<noteq> CHR ''%'' then map_option ((#) c) (fprintf cs args)
      else (case (cs, args) of
          (d # ds, a # rest) \<Rightarrow>
            (case (convert d a, fprintf ds rest) of
               (Some t, Some u) \<Rightarrow> Some (t @ u)
             | _ \<Rightarrow> None)
        | _ \<Rightarrow> None))"

section \<open>The handlers\<close>

definition newline :: string where "newline = [CHR 0x0A]"

definition quote :: string where "quote = [CHR 0x22]"

text \<open>The level is not passed on; the format has five conversions.\<close>

definition jetkvm_c_log_handler :: "int \<Rightarrow> string option \<Rightarrow> string option \<Rightarrow> int \<Rightarrow> string option \<Rightarrow> string option" where
  "jetkvm_c_log_handler level filename funcname line message =
     fprintf (''[%s] %s:%d %s: %s'' @ newline)
       [Str_arg (if filename \<noteq> None then filename else Some ''unknown''),
        Str_arg (if funcname \<noteq> None then funcname else Some ''unknown''),
        Int_arg line,
        Str_arg (if message \<noteq> None then message else Some [])]"

definition jetkvm_video_handler :: "int \<Rightarrow> int \<Rightarrow> string option" where
  "jetkvm_video_handler frame len = Some []"

definition jetkvm_video_state_handler :: "video_report \<Rightarrow> string option" where
  "jetkvm_video_state_handler st =
     fprintf (''Video state: {'' @ newline @
         quote @ ''ready'' @ quote @ '': %d,'' @ newline @
         quote @ ''error'' @ quote @ '': '' @ quote @ ''%s'' @ quote @ '','' @ newline @
         quote @ ''width'' @ quote @ '': %d,'' @ newline @
         quote @ ''height'' @ quote @ '': %d,'' @ newline @
         quote @ ''frame_per_second'' @ quote @ '': %f'' @ newline @ ''}'' @ newline)
       [Int_arg (of_bool (vs_ready st)), Str_arg (vs_error st), Int_arg (uint (vs_width st)),
        Int_arg (uint (vs_height st)), Double_arg (vs_fps st)]"

definition jetkvm_indev_handler_main :: "int \<Rightarrow> string option" where
  "jetkvm_indev_handler_main code = fprintf (''Video indev: %d'' @ newline) [Int_arg code]"

definition jetkvm_rpc_handler :: "string option \<Rightarrow> string option \<Rightarrow> string option" where
  "jetkvm_rpc_handler method params = fprintf (''Video rpc: %s %s'' @ newline) [Str_arg method, Str_arg params]"

section \<open>When they are defined\<close>

lemmas handler_defs = jetkvm_c_log_handler_def jetkvm_video_state_handler_def jetkvm_indev_handler_main_def
  jetkvm_rpc_handler_def newline_def quote_def

lemma log_handler_undefined: "jetkvm_c_log_handler level filename funcname line message = None"
  by (auto simp: handler_defs split: option.split)

lemma state_handler_defined_iff: "jetkvm_video_state_handler st = None \<longleftrightarrow> vs_error st = None"
  by (auto simp: handler_defs split: option.split)

lemma rpc_handler_defined_iff: "jetkvm_rpc_handler method params = None \<longleftrightarrow> method = None \<or> params = None"
  by (auto simp: handler_defs split: option.split)

end
