(* ===== verification/Server.thy ===== *)
theory Server
  imports Ctrl_Video Ctrl_Ui Log Callbacks Detect_Format
begin

text \<open>
  The stand-alone program \<open>main.c\<close>: it registers its callbacks, starts streaming and serves one client at
  a time on a Unix socket. Its state is that of the video code, of the user interface and of the log, and an
  operation of one part runs on that part. The callbacks themselves are in \<open>Callbacks\<close>; the progress
  messages are left out. \<open>client_fd\<close> is used by this thread only.
\<close>

unbundle bit_operations_syntax

section \<open>The program\<close>

definition O_NONBLOCK :: u32 where "O_NONBLOCK = 2048"

definition SOCKET_PATH :: string where "SOCKET_PATH = ''/tmp/video.sock''"

definition serve_failed :: "rk_consts \<Rightarrow> video_env \<Rightarrow> int \<Rightarrow> int option video_m" where
  "serve_failed K E server_fd = do {
     _ \<leftarrow> vsys E (V_close server_fd);
     jetkvm_video_stop E;
     jetkvm_video_shutdown K E;
     State_Monad.return (Some 1)
   }"

text \<open>A new connection replaces the previous client.\<close>

definition accept_client :: "video_env \<Rightarrow> int \<Rightarrow> int \<Rightarrow> int list \<Rightarrow> int video_m" where
  "accept_client E server_fd client_fd read_fds =
     (if server_fd \<in> set read_fds then do {
        accepted \<leftarrow> vsys E (V_accept server_fd);
        if v_ret accepted \<ge> 0 then do {
          (if client_fd \<ge> 0 then do { _ \<leftarrow> vsys E (V_close client_fd); skip } else skip);
          State_Monad.return (v_ret accepted)
        }
        else State_Monad.return client_fd
      }
      else State_Monad.return client_fd)"

definition check_client :: "video_env \<Rightarrow> int \<Rightarrow> int list \<Rightarrow> int video_m" where
  "check_client E client_fd read_fds =
     (if client_fd \<ge> 0 \<and> client_fd \<in> set read_fds then do {
        r \<leftarrow> vsys E (V_read client_fd);
        if v_ret r \<le> 0 then do {
          _ \<leftarrow> vsys E (V_close client_fd);
          State_Monad.return (-1)
        }
        else State_Monad.return client_fd
      }
      else State_Monad.return client_fd)"

text \<open>The loop ends only when \<open>select\<close> fails; \<open>None\<close> is running out of fuel.\<close>

fun serve_loop :: "nat \<Rightarrow> video_env \<Rightarrow> int \<Rightarrow> int \<Rightarrow> int option video_m" where
  "serve_loop 0 E server_fd client_fd = State_Monad.return None"
| "serve_loop (Suc fuel) E server_fd client_fd = do {
     result \<leftarrow> vsys E (V_select_set (server_fd # (if client_fd \<ge> 0 then [client_fd] else []))
       ((if client_fd > server_fd then client_fd else server_fd) + 1));
     if v_ret result < 0 then
       (if v_errno result = EINTR then serve_loop fuel E server_fd client_fd
        else State_Monad.return (Some client_fd))
     else do {
       client_fd \<leftarrow> accept_client E server_fd client_fd (v_ready result);
       client_fd \<leftarrow> check_client E client_fd (v_ready result);
       serve_loop fuel E server_fd client_fd
     }
   }"

definition serve_clients :: "nat \<Rightarrow> rk_consts \<Rightarrow> video_env \<Rightarrow> string \<Rightarrow> int \<Rightarrow> int option video_m" where
  "serve_clients fuel K E socket_path server_fd = do {
     stopped \<leftarrow> serve_loop fuel E server_fd (-1);
     case stopped of
       None \<Rightarrow> State_Monad.return None
     | Some client_fd \<Rightarrow> do {
         jetkvm_video_stop E;
         jetkvm_video_shutdown K E;
         (if client_fd \<ge> 0 then do { _ \<leftarrow> vsys E (V_close client_fd); skip } else skip);
         _ \<leftarrow> vsys E (V_close server_fd);
         _ \<leftarrow> vsys E (V_unlink socket_path);
         State_Monad.return (Some 0)
       }
   }"

text \<open>The address holds 108 bytes and is filled with zeros before the path is copied.\<close>

definition bind_and_listen :: "nat \<Rightarrow> rk_consts \<Rightarrow> video_env \<Rightarrow> string \<Rightarrow> int \<Rightarrow> int option video_m" where
  "bind_and_listen fuel K E socket_path server_fd = do {
     b \<leftarrow> vsys E (V_bind server_fd (take 107 socket_path));
     if v_ret b < 0 then serve_failed K E server_fd
     else do {
       l \<leftarrow> vsys E (V_listen server_fd);
       if v_ret l < 0 then serve_failed K E server_fd
       else serve_clients fuel K E socket_path server_fd
     }
   }"

definition set_non_blocking :: "video_env \<Rightarrow> int \<Rightarrow> bool video_m" where
  "set_non_blocking E server_fd = do {
     flags \<leftarrow> vsys E (V_F_GETFL server_fd);
     if v_ret flags < 0 then State_Monad.return False
     else do {
       r \<leftarrow> vsys E (V_F_SETFL server_fd (of_int (v_ret flags) OR O_NONBLOCK));
       State_Monad.return (\<not> v_ret r < 0)
     }
   }"

definition open_socket :: "nat \<Rightarrow> rk_consts \<Rightarrow> video_env \<Rightarrow> string \<Rightarrow> int option video_m" where
  "open_socket fuel K E socket_path = do {
     server \<leftarrow> vsys E V_socket;
     let server_fd = v_ret server;
     if server_fd < 0 then do {
       jetkvm_video_stop E;
       jetkvm_video_shutdown K E;
       State_Monad.return (Some 1)
     }
     else do {
       ok \<leftarrow> set_non_blocking E server_fd;
       if \<not> ok then serve_failed K E server_fd
       else bind_and_listen fuel K E socket_path server_fd
     }
   }"

text \<open>The whole state, and an operation on a part of it.\<close>

record server_world =
  video_part :: video_world
  ui_part :: ui_world
  log_part :: log_world

type_synonym 'a server_m = "(server_world, 'a) state"

definition on_video :: "'a video_m \<Rightarrow> 'a server_m" where
  "on_video m = State (\<lambda>s. case run_state m (video_part s) of (r, v) \<Rightarrow> (r, s\<lparr>video_part := v\<rparr>))"

definition on_ui :: "'a ui_m \<Rightarrow> 'a server_m" where
  "on_ui m = State (\<lambda>s. case run_state m (ui_part s) of (r, u) \<Rightarrow> (r, s\<lparr>ui_part := u\<rparr>))"

definition on_log :: "'a log_m \<Rightarrow> 'a server_m" where
  "on_log m = State (\<lambda>s. case run_state m (log_part s) of (r, l) \<Rightarrow> (r, s\<lparr>log_part := l\<rparr>))"

definition socket_path_of :: "string list \<Rightarrow> string" where
  "socket_path_of argv = (if length argv > 1 then argv ! 1 else SOCKET_PATH)"

definition main :: "nat \<Rightarrow> rk_consts \<Rightarrow> video_env \<Rightarrow> string list \<Rightarrow> int option server_m" where
  "main fuel K E argv = do {
     let socket_path = socket_path_of argv;
     _ \<leftarrow> on_video (vsys E (V_unlink socket_path));
     on_log (jetkvm_set_log_handler True);
     on_video (jetkvm_set_video_handler True);
     on_video (jetkvm_set_video_state_handler True);
     on_ui (jetkvm_set_indev_handler True);
     on_ui (jetkvm_set_rpc_handler True);
     r \<leftarrow> on_video (jetkvm_video_init K E 1);
     if r \<noteq> 0 then State_Monad.return (Some 1)
     else do {
       on_video (jetkvm_video_start E);
       on_video (open_socket fuel K E socket_path)
     }
   }"

section \<open>Descriptors\<close>

lemma keeps_fds_wait: "keeps fds (wait_attempts E n)"
  by (induction n) (simp_all add: keeps_intros)

lemma keeps_fds_stop [keeps_intros]: "keeps fds (video_stop_streaming E)" "keeps fds (jetkvm_video_stop E)"
  unfolding jetkvm_video_stop_def video_stop_streaming_def wait_for_streaming_stopped_def
  by (intro keeps_intros keeps_fds_wait; simp)+

lemma keeps_fds_shutdown [keeps_intros]: "keeps fds (jetkvm_video_shutdown K E)"
  unfolding jetkvm_video_shutdown_def video_shutdown_def
  by (intro keeps_intros; simp)+

text \<open>The client's descriptor, if there is one.\<close>

definition held :: "int \<Rightarrow> int multiset" where
  "held fd = (if fd \<ge> 0 then {#fd#} else {#})"

lemmas fd_acct = fds_def capture_threads_def account_simps book_def run_simps held_def

lemma accept_client_fds:
  assumes "run_state (accept_client E server client ready) s = (c, s')" and "fds s = B + held client"
  shows "fds s' = B + held c"
  using assms by (auto simp: accept_client_def fd_acct not_le split: if_splits)

lemma check_client_fds:
  assumes "run_state (check_client E client ready) s = (c, s')" and "fds s = B + held client"
  shows "fds s' = B + held c"
  using assms by (auto simp: check_client_def fd_acct split: if_splits)

lemma serve_loop_fds:
  "run_state (serve_loop fuel E server client) s = (Some c, s') \<Longrightarrow> fds s = B + held client \<Longrightarrow> fds s' = B + held c"
proof (induction fuel arbitrary: client s)
  case (Suc fuel)
  from Suc.prems(1) obtain q t where t: "run_state (vsys E (V_select_set (server # (if client \<ge> 0 then [client] else []))
       ((if client > server then client else server) + 1))) s = (q, t)"
    and rest: "run_state (if v_ret q < 0 then
       (if v_errno q = EINTR then serve_loop fuel E server client else State_Monad.return (Some client))
     else do {
       client \<leftarrow> accept_client E server client (v_ready q);
       client \<leftarrow> check_client E client (v_ready q);
       serve_loop fuel E server client }) t = (Some c, s')"
    unfolding serve_loop.simps by (rule bindE)
  have fd: "fds t = B + held client"
    using keepsD [OF keeps_fds_vsys t] Suc.prems(2) by simp
  show ?case
  proof (cases "v_ret q < 0")
    case True
    with rest fd Suc.IH show ?thesis by (auto split: if_splits)
  next
    case False
    with rest obtain c1 t1 c2 t2 where "run_state (accept_client E server client (v_ready q)) t = (c1, t1)"
      and "run_state (check_client E c1 (v_ready q)) t1 = (c2, t2)"
      and "run_state (serve_loop fuel E server c2) t2 = (Some c, s')"
      by (simp del: run_state_bind) (elim bindE, simp)
    with accept_client_fds fd check_client_fds Suc.IH show ?thesis by metis
  qed
qed simp

text \<open>There is a capture thread exactly when the handle is set, if no other thread changes the handle.\<close>

definition joinable :: "video_env \<Rightarrow> video_world \<Rightarrow> bool" where
  "joinable E s \<longleftrightarrow> (thread_stable E \<longrightarrow> capture_threads s = (if streaming_thread (glob s) = 0 then {#} else {#()#}))"

lemma joinable_keeps:
  assumes "thread_stable E \<Longrightarrow> keeps (\<lambda>s. (streaming_thread (glob s), capture_threads s)) m" and "run_state m s = (r, s')" and "joinable E s"
  shows "joinable E s'"
  using assms by (auto simp: joinable_def keeps_def)

lemma keeps_capture: "keeps thread_view m \<Longrightarrow> keeps (\<lambda>s. (streaming_thread (glob s), capture_threads s)) m"
  by (simp add: keeps_def thread_view_def)

lemma joinable_view: "keeps thread_view m \<Longrightarrow> run_state m s = (r, s') \<Longrightarrow> joinable E s \<Longrightarrow> joinable E s'"
  by (rule joinable_keeps [OF keeps_capture])

text \<open>What every way out does: descriptors down to \<open>B\<close>, every capture thread joined.\<close>

definition left_with :: "video_env \<Rightarrow> int multiset \<Rightarrow> video_world \<Rightarrow> bool" where
  "left_with E B s \<longleftrightarrow> fds s = B \<and> (thread_stable E \<longrightarrow> streaming_thread (glob s) = 0 \<and> capture_threads s = {#})"

lemma shutdown_keeps_handle:
  assumes "thread_stable E" and "run_state (jetkvm_video_shutdown K E) s = (r, s')" and "streaming_thread (glob s) = 0"
  shows "thread_view s' = thread_view s"
proof -
  from assms(2) obtain ex t where ex: "run_state (rd E should_exit) s = (ex, t)"
    and rest: "run_state (if ex then skip else do {
       video_stop_streaming E;
       wr (\<lambda>gl. gl\<lparr>should_exit := True\<rparr>);
       fd \<leftarrow> rd E sub_dev_fd;
       (if fd > 0 then do { _ \<leftarrow> vsys E (V_shutdown fd); skip } else skip);
       pool \<leftarrow> rd E memPool;
       (if pool \<noteq> MB_INVALID_POOLID K then do { _ \<leftarrow> vsys E (RK_MB_DestroyPool pool); skip } else skip);
       _ \<leftarrow> vsys E V_mutex_destroy;
       skip }) t = (r, s')"
    unfolding jetkvm_video_shutdown_def video_shutdown_def by (rule bindE)
  have t: "thread_view t = thread_view s"
    using keepsD [OF keeps_thread_rd [OF assms(1)] ex] .
  show ?thesis
  proof (cases ex)
    case False
    with rest obtain x u where u: "run_state (video_stop_streaming E) t = (x, u)"
      and tail: "run_state (do {
         wr (\<lambda>gl. gl\<lparr>should_exit := True\<rparr>);
         fd \<leftarrow> rd E sub_dev_fd;
         (if fd > 0 then do { _ \<leftarrow> vsys E (V_shutdown fd); skip } else skip);
         pool \<leftarrow> rd E memPool;
         (if pool \<noteq> MB_INVALID_POOLID K then do { _ \<leftarrow> vsys E (RK_MB_DestroyPool pool); skip } else skip);
         _ \<leftarrow> vsys E V_mutex_destroy;
         skip }) u = (r, s')"
      by (simp del: run_state_bind) (erule bindE, simp)
    have "thread_view s' = thread_view u"
      by (rule keepsD [OF _ tail]) (intro keeps_thread_basic assms(1); simp)
    with stop_effect [OF assms(1) u] t assms(3) show ?thesis
      by (auto simp: thread_view_def split: if_splits)
  qed (use rest t in \<open>simp add: run_skip\<close>)
qed

lemma stop_and_shutdown:
  assumes "run_state (do { jetkvm_video_stop E; jetkvm_video_shutdown K E }) s = (r, s')" and "joinable E s"
  shows "left_with E (fds s) s'"
proof -
  from assms(1) obtain x t where t: "run_state (jetkvm_video_stop E) s = (x, t)"
    and s': "run_state (jetkvm_video_shutdown K E) t = (r, s')"
    by (rule bindE)
  have "fds s' = fds s"
    using keepsD [OF keeps_fds_stop(2) t] keepsD [OF keeps_fds_shutdown s'] by simp
  moreover have "streaming_thread (glob s') = 0 \<and> capture_threads s' = {#}" if "thread_stable E"
    using shutdown_keeps_handle [OF that s'] stop_effect [OF that, of s x t] t assms(2) that
    by (auto simp: jetkvm_video_stop_def thread_view_def joinable_def split: if_splits)
  ultimately show ?thesis
    by (simp add: left_with_def)
qed

lemma keeps_thread_serve:
  "keeps thread_view (accept_client E server client ready)" "keeps thread_view (check_client E client ready)"
  "keeps thread_view (serve_loop fuel E server client)" "keeps thread_view (set_non_blocking E fd)"
proof -
  show 1: "keeps thread_view (accept_client E server client ready)" "keeps thread_view (check_client E client ready)" for client ready
    unfolding accept_client_def check_client_def by (intro keeps_thread_basic; simp)+
  show "keeps thread_view (serve_loop fuel E server client)"
    by (induction fuel arbitrary: client) (unfold serve_loop.simps Let_def, (intro keeps_thread_basic 1; simp)+)
  show "keeps thread_view (set_non_blocking E fd)"
    unfolding set_non_blocking_def by (intro keeps_thread_basic; simp)
qed

lemma serve_failed_left:
  assumes "run_state (serve_failed K E server) s = (r, s')" and "fds s = add_mset server B" and "joinable E s"
  shows "r = Some 1 \<and> left_with E B s'"
proof -
  from assms(1) obtain a t where t: "run_state (vsys E (V_close server)) s = (a, t)"
    and rest: "run_state (do { jetkvm_video_stop E; jetkvm_video_shutdown K E }) t = ((), s')" and "r = Some 1"
    unfolding serve_failed_def by (auto split: prod.splits)
  have "fds t = B"
    using t assms(2) by (auto simp: run_vsys fds_def account_simps book_def)
  with stop_and_shutdown [OF rest joinable_view [OF keeps_thread_vsys t assms(3)]] \<open>r = Some 1\<close> show ?thesis
    by simp
qed

lemma serve_clients_left:
  assumes "run_state (serve_clients fuel K E path server) s = (Some ret, s')" and "fds s = add_mset server B" and "joinable E s"
  shows "ret = 0 \<and> left_with E B s' \<and> fst (last (trace s')) = V_unlink path"
proof -
  from assms(1) obtain c t u where t: "run_state (serve_loop fuel E server (-1)) s = (Some c, t)"
    and u: "run_state (do { jetkvm_video_stop E; jetkvm_video_shutdown K E }) t = ((), u)"
    and rest: "run_state (do {
         (if c \<ge> 0 then do { _ \<leftarrow> vsys E (V_close c); skip } else skip);
         _ \<leftarrow> vsys E (V_close server);
         _ \<leftarrow> vsys E (V_unlink path);
         State_Monad.return (Some 0) }) u = (Some ret, s')"
    unfolding serve_clients_def by (auto split: prod.splits option.splits)
  have "fds t = add_mset server B + held c"
    by (rule serve_loop_fds [OF t]) (simp add: assms(2) held_def)
  then have "left_with E (add_mset server B + held c) u"
    using stop_and_shutdown [OF u joinable_view [OF keeps_thread_serve(3) t assms(3)]] by simp
  with rest show ?thesis
    by (auto simp: left_with_def fd_acct split: if_splits)
qed

lemma bind_and_listen_left:
  assumes "run_state (bind_and_listen fuel K E path server) s = (Some ret, s')" and "fds s = add_mset server B" and "joinable E s"
  shows "left_with E B s' \<and> (ret = 1 \<or> ret = 0 \<and> fst (last (trace s')) = V_unlink path)"
proof -
  from assms(1) obtain b t where t: "run_state (vsys E (V_bind server (take 107 path))) s = (b, t)"
    and rest: "run_state (if v_ret b < 0 then serve_failed K E server else do {
       l \<leftarrow> vsys E (V_listen server);
       if v_ret l < 0 then serve_failed K E server else serve_clients fuel K E path server }) t = (Some ret, s')"
    unfolding bind_and_listen_def by (rule bindE)
  have fd: "fds t = add_mset server B"
    using keepsD [OF keeps_fds_vsys t] assms(2) by simp
  have jt: "joinable E t"
    by (rule joinable_view [OF keeps_thread_vsys t assms(3)]) simp
  show ?thesis
  proof (cases "v_ret b < 0")
    case True
    with rest serve_failed_left fd jt show ?thesis by fastforce
  next
    case False
    with rest obtain l u where u: "run_state (vsys E (V_listen server)) t = (l, u)"
      and last: "run_state (if v_ret l < 0 then serve_failed K E server else serve_clients fuel K E path server) u = (Some ret, s')"
      by (simp del: run_state_bind) (erule bindE, simp)
    have "fds u = add_mset server B"
      using keepsD [OF keeps_fds_vsys u] fd by simp
    moreover have "joinable E u"
      by (rule joinable_view [OF keeps_thread_vsys u jt]) simp
    ultimately show ?thesis
      using last serve_failed_left serve_clients_left by (fastforce split: if_splits)
  qed
qed

lemma open_socket_releases:
  assumes "run_state (open_socket fuel K E path) s = (Some ret, s')" and stable: "thread_stable E" and joinable: "joinable E s"
  shows "fds s' = fds s \<and> streaming_thread (glob s') = 0 \<and> capture_threads s' = {#} \<and>
    (ret = 1 \<or> ret = 0 \<and> fst (last (trace s')) = V_unlink path)"
proof -
  from assms(1) obtain sv t where sv: "run_state (vsys E V_socket) s = (sv, t)"
    and rest: "run_state (if v_ret sv < 0 then do { jetkvm_video_stop E; jetkvm_video_shutdown K E; State_Monad.return (Some 1) }
       else do {
         ok \<leftarrow> set_non_blocking E (v_ret sv);
         if \<not> ok then serve_failed K E (v_ret sv) else bind_and_listen fuel K E path (v_ret sv) }) t = (Some ret, s')"
    unfolding open_socket_def Let_def by (rule bindE)
  have fd: "fds t = (if v_ret sv < 0 then fds s else add_mset (v_ret sv) (fds s))"
    using sv by (auto simp: run_vsys fds_def account_simps book_def)
  have jt: "joinable E t"
    by (rule joinable_view [OF keeps_thread_vsys sv joinable]) simp
  show ?thesis
  proof (cases "v_ret sv < 0")
    case True
    with rest have "run_state (do { jetkvm_video_stop E; jetkvm_video_shutdown K E }) t = ((), s')" "ret = 1"
      by (auto split: prod.splits)
    with stop_and_shutdown fd True stable jt show ?thesis
      by (auto simp: left_with_def)
  next
    case False
    with rest obtain ok u where u: "run_state (set_non_blocking E (v_ret sv)) t = (ok, u)"
      and last: "run_state (if \<not> ok then serve_failed K E (v_ret sv) else bind_and_listen fuel K E path (v_ret sv)) u = (Some ret, s')"
      by (simp del: run_state_bind) (erule bindE, simp)
    have "keeps fds (set_non_blocking E (v_ret sv))"
      unfolding set_non_blocking_def by (intro keeps_intros) simp_all
    then have "fds u = add_mset (v_ret sv) (fds s)"
      using keepsD u fd False by metis
    moreover have "joinable E u"
      by (rule joinable_view [OF keeps_thread_serve(4) u jt])
    ultimately show ?thesis using last stable serve_failed_left bind_and_listen_left
      by (fastforce simp: left_with_def split: if_splits)
  qed
qed

section \<open>Initialisation and start\<close>

lemma keeps_fds_init_tail: "keeps fds (init_tail K E)"
  unfolding init_tail_def buf_init_def Let_def by (intro keeps_intros; simp)

lemma calls_server:
  "calls any_call (init_tail K E)" "calls any_call (video_start_streaming E)"
  "calls any_call (video_stop_streaming E)" "calls any_call (video_shutdown K E)"
proof -
  note report = calls_report [THEN calls_mono, OF any_call]
  have wait: "calls any_call (wait_attempts E n)" for n
    by (induction n) (unfold wait_attempts.simps, (intro calls_intros report; simp)+)
  show "calls any_call (init_tail K E)" "calls any_call (video_start_streaming E)"
  "calls any_call (video_stop_streaming E)" "calls any_call (video_shutdown K E)"
    unfolding init_tail_def buf_init_def Let_def video_start_streaming_def video_stop_streaming_def
      video_shutdown_def wait_for_streaming_stopped_def
    by (intro calls_intros report wait; simp)+
qed

lemma calls_open_socket: "calls any_call (open_socket fuel K E path)"
proof -
  have loop: "calls any_call (serve_loop n E server client)" for n server client
    by (induction n arbitrary: client)
      (unfold serve_loop.simps accept_client_def check_client_def, (intro calls_intros; simp)+)
  have stopped: "calls any_call (case x of None \<Rightarrow> State_Monad.return None | Some c \<Rightarrow> f c)"
    if "\<And>c. calls any_call (f c)" for x :: "int option" and f :: "int \<Rightarrow> int option video_m"
    using that by (cases x) (simp_all add: calls_intros)
  show ?thesis
    unfolding open_socket_def set_non_blocking_def bind_and_listen_def serve_clients_def serve_failed_def
      jetkvm_video_stop_def jetkvm_video_shutdown_def Let_def
    by (intro calls_intros calls_server loop stopped any_call)
qed

text \<open>The descriptor of the control device, if a run opened it.\<close>

definition control_device :: "video_world \<Rightarrow> int multiset \<Rightarrow> bool" where
  "control_device s D \<longleftrightarrow> D = {#} \<or> (\<exists>a. (V_open SUB_DEV, a) \<in> set (trace s) \<and> D = {#v_ret a#})"

lemma control_device_later: "calls any_call m \<Longrightarrow> run_state m s = (r, s') \<Longrightarrow> control_device s D \<Longrightarrow> control_device s' D"
  by (auto simp: control_device_def elim!: callsE)

lemma init_device_fds:
  assumes "run_state (init_device K E) s = (r, s')"
  shows "\<exists>D. control_device s' D \<and> fds s' = fds s + D"
proof -
  let ?open = "\<lambda>fd. if fd < 0 then do {
         r \<leftarrow> vsys E (V_open SUB_DEV);
         wr (\<lambda>gl. gl\<lparr>sub_dev_fd := v_ret r\<rparr>);
         fd \<leftarrow> rd E sub_dev_fd;
         State_Monad.return (if fd < 0 then Inl (v_errno r) else Inr ())
       } else State_Monad.return (Inr ())"
  from assms obtain fd t opened u where t: "run_state (rd E sub_dev_fd) s = (fd, t)"
    and u: "run_state (?open fd) t = (opened, u)"
    and rest: "run_state (case opened of Inl e \<Rightarrow> State_Monad.return e | Inr _ \<Rightarrow> init_tail K E) u = (r, s')"
    unfolding init_device_def by (elim bindE)
  have "\<exists>D. control_device u D \<and> fds u = fds t + D"
    using u by (auto simp: run_simps Let_def fds_def account_simps book_def control_device_def split: if_splits)
  moreover have "fds t = fds s"
    using keepsD [OF keeps_fds_rd t] .
  moreover have "(control_device u D \<longrightarrow> control_device s' D) \<and> fds s' = fds u" for D
    using rest keepsD [OF keeps_fds_init_tail] control_device_later [OF calls_server(1)]
    by (cases opened) auto
  ultimately show ?thesis by metis
qed

lemma video_init_fds:
  assumes "run_state (video_init K E factor) s = (r, s')"
  shows "\<exists>D. control_device s' D \<and> fds s' = fds s + D"
proof -
  from assms obtain x t a u where t: "run_state (detect_sleep_mode E) s = (x, t)"
    and u: "run_state (do { wr (\<lambda>gl. gl\<lparr>quality_factor := if factor \<le> 0 then 1 else factor\<rparr>); vsys E RK_SYS_Init }) t = (a, u)"
    and rest: "run_state (if v_ret a \<noteq> RK_SUCCESS then State_Monad.return RK_FAILURE else init_device K E) u = (r, s')"
    unfolding video_init_def Let_def by (auto simp: run_simps split: prod.splits)
  have "keeps fds (do { wr (\<lambda>gl. gl\<lparr>quality_factor := if factor \<le> 0 then 1 else factor\<rparr>); vsys E RK_SYS_Init })"
    by (intro keeps_intros) simp
  from keepsD [OF this u] keepsD [OF keeps_fds_detect_sleep t] have "fds u = fds s"
    by simp
  with rest show ?thesis
    using init_device_fds by (fastforce simp: control_device_def split: if_splits)
qed

lemma keeps_fds_start: "keeps fds (video_start_streaming E)"
  unfolding video_start_streaming_def Let_def by (intro keeps_intros; simp)

lemma keeps_capture_init:
  assumes "thread_stable E"
  shows "keeps (\<lambda>s. (streaming_thread (glob s), capture_threads s)) (video_init K E factor)"
proof -
  let ?A = "\<lambda>s. (streaming_thread (glob s), capture_threads s)"
  have create: "keeps ?A (vsys E V_malloc_thread)" "keeps ?A (vsys E (V_pthread_create T_run_detect_format))"
    by (simp_all add: keeps_def run_simps capture_threads_def account_simps book_def)
  note keep = keeps_capture [OF keeps_thread_vsys] keeps_capture [OF keeps_thread_rd [OF assms]] keeps_capture [OF keeps_thread_wr] create
  have sum: "keeps ?A (case x of Inl e \<Rightarrow> State_Monad.return e | Inr y \<Rightarrow> m)" if "keeps ?A m"
    for x :: "int + unit" and m :: "int video_m"
    using that by (cases x) (simp_all add: keeps_return)
  show ?thesis
    unfolding video_init_def detect_sleep_mode_def ensure_sleep_mode_disabled_def init_device_def init_tail_def
      buf_init_def Let_def
    by (intro keeps_bind keeps_return keeps_skip keeps_if sum keep; simp)
qed

lemma joinable_start:
  assumes "run_state (video_start_streaming E) s = (r, s')" and "joinable E s"
  shows "joinable E s'"
proof (cases "thread_stable E")
  case True
  from start_effect [OF True assms(1)] assms(2) show ?thesis
    by (auto simp: joinable_def thread_view_def)
qed (simp add: joinable_def)

section \<open>The whole program\<close>

lemma run_on_video [run_simps]:
  "run_state (on_video m) s = (case run_state m (video_part s) of (r, v) \<Rightarrow> (r, s\<lparr>video_part := v\<rparr>))"
  by (simp add: on_video_def)

lemma run_on_ui [run_simps]:
  "run_state (on_ui m) s = (case run_state m (ui_part s) of (r, u) \<Rightarrow> (r, s\<lparr>ui_part := u\<rparr>))"
  by (simp add: on_ui_def)

lemma run_on_log [run_simps]:
  "run_state (on_log m) s = (case run_state m (log_part s) of (r, l) \<Rightarrow> (r, s\<lparr>log_part := l\<rparr>))"
  by (simp add: on_log_def)

text \<open>The video part of the program after the handlers are registered.\<close>

definition after_registration :: "video_env \<Rightarrow> string \<Rightarrow> video_world \<Rightarrow> video_world" where
  "after_registration E path v = snd (run_state (do {
     _ \<leftarrow> vsys E (V_unlink path);
     jetkvm_set_video_handler True;
     jetkvm_set_video_state_handler True }) v)"

lemma after_registration_same:
  "fds (after_registration E path v) = fds v"
  "streaming_thread (glob (after_registration E path v)) = streaming_thread (glob v)"
  "capture_threads (after_registration E path v) = capture_threads v"
  by (simp_all add: after_registration_def jetkvm_set_video_handler_def jetkvm_set_video_state_handler_def
      run_simps fds_def capture_threads_def account_simps book_def)

lemma mainE:
  assumes "run_state (main fuel K E argv) s = (ret, s')"
  obtains r v where
    "run_state (video_init K E 1) (after_registration E (socket_path_of argv) (video_part s)) = (r, v)"
    and "if r \<noteq> 0 then ret = Some 1 \<and> video_part s' = v
      else \<exists>w. run_state (video_start_streaming E) v = ((), w) \<and>
        run_state (open_socket fuel K E (socket_path_of argv)) w = (ret, video_part s')"
    and "log_handler (log_part s')"
    and "ui (ui_part s') = (ui (ui_part s))\<lparr>ui_state.jetkvm_indev_handler := True, indev_handler := True, rpc_handler := True\<rparr>"
proof -
  let ?v = "after_registration E (socket_path_of argv) (video_part s)"
  obtain r v where init: "run_state (video_init K E 1) ?v = (r, v)"
    by (cases "run_state (video_init K E 1) ?v")
  note defs = main_def Let_def jetkvm_video_init_def jetkvm_video_start_def jetkvm_set_log_handler_def
    log_set_handler_def jetkvm_set_indev_handler_def lvgl_set_indev_handler_def jetkvm_set_rpc_handler_def run_simps
  have "if r \<noteq> 0 then ret = Some 1 \<and> video_part s' = v
      else \<exists>w. run_state (video_start_streaming E) v = ((), w) \<and>
        run_state (open_socket fuel K E (socket_path_of argv)) w = (ret, video_part s')"
    and "log_handler (log_part s')"
    and "ui (ui_part s') = (ui (ui_part s))\<lparr>ui_state.jetkvm_indev_handler := True, indev_handler := True, rpc_handler := True\<rparr>"
    using assms init
    by (auto simp: defs after_registration_def jetkvm_set_video_handler_def jetkvm_set_video_state_handler_def
        split: prod.splits if_splits)
  from that [OF init this] show thesis .
qed

text \<open>
  C25. The server registers its callbacks and gives back what it takes: whenever it returns (because the
  initialisation fails, on every failure of the socket and after \<open>select\<close> has failed) every socket
  and client descriptor it opened is closed, at most the control device stays open, and every capture
  thread it created has been joined, with the handle cleared; a return of 0 ends with the removal of the socket file.
  This holds as long as no other thread changes the handle of the capture thread, that is, as long as the
  format thread does not restart the stream while the server runs: what a restart does to a stop at the same
  time is the subject of C7.
\<close>

theorem server_releases_everything:
  assumes "run_state (main fuel K E argv) s = (Some ret, s')"
    and "\<forall>h gl. streaming_thread (v_globals (E h (V_yield gl))) = streaming_thread gl"
    and "streaming_thread (glob (video_part s)) = 0" and "capture_threads (video_part s) = {#}"
  shows "(\<exists>D. control_device (video_part s') D \<and> fds (video_part s') = fds (video_part s) + D) \<and>
    streaming_thread (glob (video_part s')) = 0 \<and> capture_threads (video_part s') = {#} \<and>
    (ret = 1 \<or> ret = 0 \<and> fst (last (trace (video_part s'))) = V_unlink (socket_path_of argv)) \<and>
    log_handler (log_part s') \<and> rpc_handler (ui (ui_part s'))"
proof -
  let ?v = "after_registration E (socket_path_of argv) (video_part s)"
  have stable: "thread_stable E"
    using assms(2) by (simp add: thread_stable_def)
  from assms(1) obtain r v where init: "run_state (video_init K E 1) ?v = (r, v)"
    and rest: "if r \<noteq> 0 then Some ret = Some 1 \<and> video_part s' = v
      else \<exists>w. run_state (video_start_streaming E) v = ((), w) \<and>
        run_state (open_socket fuel K E (socket_path_of argv)) w = (Some ret, video_part s')"
    and handlers: "log_handler (log_part s')" "rpc_handler (ui (ui_part s'))"
    by (rule mainE) simp
  from video_init_fds [OF init] obtain D where D: "control_device v D" "fds v = fds (video_part s) + D"
    by (auto simp: after_registration_same)
  have v: "streaming_thread (glob v) = 0" "capture_threads v = {#}"
    using keepsD [OF keeps_capture_init [OF stable] init] assms(3,4) by (simp_all add: after_registration_same)
  then have "joinable E v"
    by (simp add: joinable_def)
  with rest D handlers v show ?thesis
    using keepsD [OF keeps_fds_start] open_socket_releases [OF _ stable joinable_start]
      control_device_later [OF calls_server(2)] control_device_later [OF calls_open_socket]
    by (fastforce split: if_splits)
qed

text \<open>A socket that opens and a \<open>select\<close> that fails at once.\<close>

definition closing :: video_env where
  "closing h c = sample_answer\<lparr>
     v_ret := (case c of V_socket \<Rightarrow> 5 | V_select_set fs n \<Rightarrow> -1 | _ \<Rightarrow> 0),
     v_errno := 5,
     v_globals := (case c of V_yield gl \<Rightarrow> gl | _ \<Rightarrow> v_globals sample_answer)\<rparr>"

definition sample_server :: server_world where
  "sample_server = \<lparr>video_part = sample_world, ui_part = \<lparr>trace = [], ui = init_ui\<rparr>,
     log_part = \<lparr>trace = [], log_handler = False\<rparr>\<rparr>"

lemma closing_socket: "fst (run_state (open_socket 1 K closing path) w) = Some 0"
  by (simp add: open_socket_def set_non_blocking_def bind_and_listen_def serve_clients_def closing_def
      EINTR_def run_simps split_beta Let_def)

theorem server_releases_everything_witness:
  "\<exists>ret s'. run_state (main 1 sample_consts closing [''server'']) sample_server = (Some ret, s') \<and>
    capture_threads (video_part s') = {#} \<and> log_handler (log_part s')"
proof -
  obtain x s' where run: "run_state (main 1 sample_consts closing [''server'']) sample_server = (x, s')"
    by (cases "run_state (main 1 sample_consts closing [''server'']) sample_server")
  then obtain ret where "x = Some ret"
    by (rule mainE) (metis closing_socket fst_conv)
  with run have run: "run_state (main 1 sample_consts closing [''server'']) sample_server = (Some ret, s')"
    by simp
  have "\<forall>h gl. streaming_thread (v_globals (closing h (V_yield gl))) = streaming_thread gl"
    by (simp add: closing_def)
  from server_releases_everything [OF run this] run show ?thesis
    by (simp add: sample_server_def sample_world_def init_globals_def capture_threads_def account_simps)
qed

section \<open>The callbacks\<close>

text \<open>
  C39. The stand-alone program cannot print what it is given: the log handler's format needs an argument
  more than it passes, so every enabled log message is undefined; the state handler passes the
  error of the report to \<open>%s\<close>, which is NULL in the first report and whenever a signal is detected, and
  defined when it is lost; the rpc handler does the same with the parameters, which
  the hold actions leave out.
\<close>

theorem server_callbacks:
  assumes "no_interference E"
  shows "jetkvm_c_log_handler level filename funcname line message = None \<and>
    jetkvm_video_state_handler zero_report = None \<and>
    (\<forall>x s'. run_state (format_found E t) s = (x, s') \<and> x \<noteq> Undefined \<longrightarrow>
       jetkvm_video_state_handler (vstate (glob s')) = None) \<and>
    (\<forall>x s'. run_state (format_missing E err) s = (x, s') \<and> status_error err \<noteq> None \<longrightarrow>
       jetkvm_video_state_handler (vstate (glob s')) \<noteq> None) \<and>
    jetkvm_rpc_handler (Some method) None = None"
proof -
  have "jetkvm_video_state_handler (vstate (glob s')) = None"
    if "run_state (format_found E t) s = (x, s')" "x \<noteq> Undefined" for x s'
    using format_found_report [OF assms that] by (auto simp: format_view_def state_handler_defined_iff)
  moreover have "jetkvm_video_state_handler (vstate (glob s')) \<noteq> None"
    if "run_state (format_missing E err) s = (x, s')" "status_error err \<noteq> None" for x s'
    using format_missing_report [OF assms that(1)] that(2) by (auto simp: format_view_def state_handler_defined_iff)
  ultimately show ?thesis
    by (simp add: log_handler_undefined state_handler_defined_iff rpc_handler_defined_iff zero_report_def)
qed

theorem server_callbacks_witness:
  "jetkvm_video_state_handler (vstate (glob (snd (run_state (format_missing all_succeed ENOLCK) sample_world)))) \<noteq> None"
proof -
  obtain x s' where run: "run_state (format_missing all_succeed ENOLCK) sample_world = (x, s')"
    by (cases "run_state (format_missing all_succeed ENOLCK) sample_world")
  have "no_interference all_succeed"
    by (simp add: no_interference_def all_succeed_def)
  from server_callbacks [OF this, of _ _ _ _ _ timings_120 sample_world ENOLCK] run show ?thesis
    by (auto simp: status_error_def ENOLCK_def ENOLINK_def)
qed

end
