(* ===== verification/Spec2Isabelle.thy ===== *)
theory Spec2Isabelle
  imports Hex Edid Venc_Config Video_Control Pipeline Detect_Format Player Threads Format_Change Screens Ui Actions Screen
    Ctrl_Ui Ctrl_Video Typing Ui_Session Labels Assets Log Callbacks Server
begin

text \<open>
  Verification of the native part of the JetKVM firmware: the C code under
  \<open>src/internal/native/cgo\<close> and \<open>src/internal/native/eez/src/ui\<close> that the Go application loads. It captures
  HDMI video from a V4L2 device, encodes it with the Rockchip media library and hands the frames
  to Go, reads and writes the EDID of the HDMI receiver, and draws the user interface of the touch display with
  LVGL.

  \<^bold>\<open>Method.\<close> The code is translated function by function into a state monad. Whatever leaves the
  sources (system calls, the Rockchip library, LVGL, callbacks into Go, other threads) is a call recorded in
  the trace of the state; an environment answers it from the whole history. Theorems quantify over the
  environment, so they hold for every kernel, driver, library and scheduler, up to the hypotheses they name.
  Errors are result values, loops that may run forever take fuel, machine integers are words of their
  width, \<open>float\<close> and \<open>double\<close> are rationals rounded to the nearest representable value. Log statements are left
  out (assumed not to change \<open>errno\<close>); \<open>Log\<close> says what one does.

  \<^bold>\<open>Theories.\<close>
  \<^item> \<open>Native_Prelude\<close>: word types, C strings, the tracing monad, observations a run keeps, accounts of held resources, the
    contracts \<open>leak_free\<close> (operations give back what they take) and \<open>invariant_ops\<close> (operations keep an
    invariant) with their theorems on sessions, table searches.
  \<^item> \<open>Hex\<close> (\<open>ctrl.c\<close>: \<open>hex_to_bytes\<close>, \<open>bytes_to_hex\<close>): round trip and equivalence with a
    reference decoder, over the part of \<open>strtol\<close> it uses.
  \<^item> \<open>Edid\<close> (\<open>edid.c\<close>): \<open>get_edid\<close>, \<open>set_edid\<close>, \<open>fix_edid_checksum\<close>, \<open>videoc_log_status\<close>: checksums,
    what the driver is handed, bounds, error paths, no leaked descriptor (interpretation of \<open>leak_free\<close>).
  \<^item> \<open>Float_Model\<close>, \<open>Venc_Config\<close> (\<open>video.c\<close> up to \<open>populate_venc_attr\<close>): bitrate bounds and monotonicity, encoder
    attributes, colour settings.
  \<^item> \<open>Video_Platform\<close>: the global variables of \<open>video.c\<close> as the record \<open>globals\<close>, the calls and answers; reading a
    global lets other threads run first (\<open>V_yield\<close>). \<open>Video_Report\<close>: the flags under their mutexes and the
    reports to Go.
  \<^item> \<open>Venc\<close>: encoder channel and reader thread. \<open>Video_Stream\<close>: the capture thread \<open>run_video_stream\<close> with every early
    return, its resources and its termination. \<open>Pipeline\<close>: a monitor of capture device and encoder channel, with Hoare triples
    over its state: frames only go to a channel of their size. \<open>Video_Control\<close>: \<open>video_init\<close>, start, stop, restart, settings, shutdown;
    at most one capture thread (interpretation of \<open>invariant_ops\<close>). \<open>Player\<close>: an abstract player that sessions of
    these operations refine (locale \<open>refined_ops\<close>). \<open>Threads\<close>: rely and guarantee; the capture thread and the
    encoder reader leave the variables of the control interface alone, so that sessions refine the player while they run, and
    what goes wrong when two threads stop streaming at once. \<open>Detect_Format\<close>: the thread that watches the input format.
    \<open>Format_Change\<close>: a change of format from its detection over the restart to the set-up of device and encoder, with the calls the
    next pass must make.
  \<^item> \<open>Lvgl\<close>: the calls of LVGL and the global variables of the user interface as the record \<open>ui_state\<close>.
    \<open>Vars\<close> (\<open>vars.c\<close>), \<open>Styles\<close> (\<open>styles.c\<close>: for each style its initialiser, getter, adder and remover),
    \<open>Widgets\<close> (the pattern of the generated creation code),
    \<open>Screens_Home\<close>, \<open>Screens_Menu\<close>, \<open>Screens_Info\<close>, \<open>Screens_Action\<close> (the twelve screens of \<open>screens.c\<close> as
    trees), \<open>Screens\<close> (creation, refresh, the object table), \<open>Ui\<close> (\<open>ui.c\<close>), \<open>Actions\<close> (\<open>actions.c\<close>: hold actions, and
    navigation as the step relation \<open>ui_step\<close>), \<open>Screen\<close> (\<open>screen.c\<close>: rotation, calibration, lookups;
    a second interpretation of \<open>invariant_ops\<close>).
  \<^item> \<open>Ctrl_Ui\<close>, \<open>Ctrl_Video\<close> (\<open>ctrl.c\<close>): the interface Go calls; variables, screens and EDID come back as they
    were set. \<open>Typing\<close>: a type discipline for the untyped calls into LVGL, which every session of the display
    respects. \<open>Ui_Session\<close>: what the initialisation establishes and every session keeps (different fields of \<open>objects_t\<close> point to different
    objects, the version of LVGL has been read). \<open>Labels\<close>: in every session, from a variable that Go sets to the text of a label.
    \<open>Assets\<close> (\<open>fonts/*.c\<close>, \<open>images.c\<close>): the glyph tables of the five fonts and the images; every character
    of the native texts has a glyph inside its tables.
  \<^item> \<open>Log\<close> (\<open>log.h\<close>, \<open>log_handler.c\<close>). \<open>Callbacks\<close>, \<open>Server\<close> (\<open>main.c\<close>): the callbacks of the stand-alone program with the
    text they print, and its \<open>main\<close> over the joint state of video, user interface and log: its descriptors and its capture thread.

  \<^bold>\<open>Fuel.\<close> The three threads loop until another thread clears a flag, the server until \<open>select\<close> fails. Their models take
  the number of passes; the termination theorems of the threads show that any fuel above the length of the history at which the flag stays cleared
  gives a result, whatever the environment answers.

  \<^bold>\<open>Not modelled.\<close> The pixels of glyphs and images and the kerning distances (arrays represented by their lengths);
  the progress messages of \<open>main.c\<close> and the unused \<open>write_buffer_to_file\<close> of \<open>video.c\<close>; the two functions of \<open>ctrl.c\<close> that
  return a constant string of LVGL and \<open>jetkvm_crash\<close>; mutexes (an accessor that locks one is a single access between
  yields); the layout and drawing done by LVGL itself; the Go application and the web interface, which use the interface modelled here.
\<close>

end
